(* ===== verification/Prelude.thy ===== *)
theory Prelude
  imports Main "HOL-Library.Word"
begin

text \<open>
  Shared vocabulary of the development: machine integers, the result type of fallible
  Rust code, the few string operations the sources use (\<open>split\<close>, \<open>split_once\<close>,
  \<open>starts_with\<close>, \<open>contains\<close>, \<open>join\<close>, decimal printing), and generic facts on lists
  and words that the component theories rely on.  Everything here models the Rust
  language and its standard library, nothing here models a file of the repository.
\<close>

section \<open>Machine integers and results\<close>

type_synonym u8 = "8 word"
type_synonym u16 = "16 word"
type_synonym u32 = "32 word"
type_synonym u64 = "64 word"

text \<open>A \<open>Result<T, E>\<close>: \<open>Inl\<close> is \<open>Err\<close>, \<open>Inr\<close> is \<open>Ok\<close>.\<close>

type_synonym ('e, 'a) res = "'e + 'a"

definition res_bind :: "('e, 'a) res \<Rightarrow> ('a \<Rightarrow> ('e, 'b) res) \<Rightarrow> ('e, 'b) res" where
  "res_bind r k = (case r of Inl e \<Rightarrow> Inl e | Inr a \<Rightarrow> k a)"

definition ok_or :: "'e \<Rightarrow> 'a option \<Rightarrow> ('e, 'a) res" where
  "ok_or e x = (case x of None \<Rightarrow> Inl e | Some a \<Rightarrow> Inr a)"

definition map_err :: "('e \<Rightarrow> 'f) \<Rightarrow> ('e, 'a) res \<Rightarrow> ('f, 'a) res" where
  "map_err f r = (case r of Inl e \<Rightarrow> Inl (f e) | Inr a \<Rightarrow> Inr a)"

definition ensure :: "bool \<Rightarrow> 'e \<Rightarrow> ('e, unit) res" where
  "ensure b e = (if b then Inr () else Inl e)"

definition unwrap_or :: "'a \<Rightarrow> 'a option \<Rightarrow> 'a" where
  "unwrap_or d x = (case x of None \<Rightarrow> d | Some a \<Rightarrow> a)"

text \<open>\<open>for x in xs { body? }\<close> with an accumulator: the first error stops the loop.\<close>

primrec res_fold :: "('a \<Rightarrow> 'b \<Rightarrow> ('e, 'b) res) \<Rightarrow> 'a list \<Rightarrow> 'b \<Rightarrow> ('e, 'b) res" where
  "res_fold f [] acc = Inr acc"
| "res_fold f (x # xs) acc = res_bind (f x acc) (res_fold f xs)"

section \<open>Strings\<close>

definition BACKSLASH :: string where "BACKSLASH = [CHR 0x5C]"

text \<open>\<open>str::split(c)\<close> for a character: never empty, separators dropped.\<close>

fun split_char :: "char \<Rightarrow> string \<Rightarrow> string list" where
  "split_char c [] = [[]]"
| "split_char c (x # xs) =
     (if x = c then [] # split_char c xs
      else (case split_char c xs of [] \<Rightarrow> [[x]] | w # ws \<Rightarrow> (x # w) # ws))"

text \<open>\<open>str::split_once(c)\<close>: the parts before and after the first \<open>c\<close>.\<close>

fun split_once :: "char \<Rightarrow> string \<Rightarrow> (string \<times> string) option" where
  "split_once c [] = None"
| "split_once c (x # xs) =
     (if x = c then Some ([], xs)
      else map_option (\<lambda>(a, b). (x # a, b)) (split_once c xs))"

fun starts_with :: "string \<Rightarrow> string \<Rightarrow> bool" where
  "starts_with [] s = True"
| "starts_with (p # ps) [] = False"
| "starts_with (p # ps) (x # xs) = (p = x \<and> starts_with ps xs)"

text \<open>\<open>strip_prefix\<close>.\<close>

definition strip_prefix :: "string \<Rightarrow> string \<Rightarrow> string option" where
  "strip_prefix p s = (if starts_with p s then Some (drop (length p) s) else None)"

text \<open>\<open>haystack.contains(needle)\<close> on strings; the needle comes first.\<close>

fun str_contains :: "string \<Rightarrow> string \<Rightarrow> bool" where
  "str_contains p [] = (p = [])"
| "str_contains p (x # xs) = (starts_with p (x # xs) \<or> str_contains p xs)"

text \<open>\<open>str::split(pat)\<close> for a non-empty string pattern, scanning from the left.\<close>

function split_str :: "string \<Rightarrow> string \<Rightarrow> string list" where
  "split_str p s =
     (case s of [] \<Rightarrow> [[]]
      | x # xs \<Rightarrow>
          (if p \<noteq> [] \<and> starts_with p s then [] # split_str p (drop (length p) s)
           else (case split_str p xs of [] \<Rightarrow> [[x]] | w # ws \<Rightarrow> (x # w) # ws)))"
  by pat_completeness auto
termination
  by (relation "measure (\<lambda>(p, s). length s)") (auto split: list.splits)

declare split_str.simps [simp del]

text \<open>\<open>str::lines\<close>: split at line feeds, without a last empty line, each without a final carriage return.\<close>

definition strip_cr :: "string \<Rightarrow> string" where
  "strip_cr l = (if l \<noteq> [] \<and> last l = CHR 0x0D then butlast l else l)"

definition str_lines :: "string \<Rightarrow> string list" where
  "str_lines s =
     (let ls = split_char (CHR 0x0A) s
      in map strip_cr (if last ls = [] then butlast ls else ls))"

fun str_join :: "string \<Rightarrow> string list \<Rightarrow> string" where
  "str_join sep [] = []"
| "str_join sep [w] = w"
| "str_join sep (w # v # ws) = w @ sep @ str_join sep (v # ws)"

definition str_replace_char :: "char \<Rightarrow> string \<Rightarrow> string \<Rightarrow> string" where
  "str_replace_char c r s = concat (map (\<lambda>x. if x = c then r else [x]) s)"

text \<open>Characters that a literal cannot hold.\<close>

definition EOL :: string where "EOL = [CHR 0x0A]"
definition DQUOTE :: string where "DQUOTE = [CHR 0x22]"
definition QUOTE :: string where "QUOTE = [CHR 0x27]"

text \<open>Decimal printing of an unsigned integer (\<open>to_string\<close>).\<close>

definition digit_char :: "nat \<Rightarrow> char" where
  "digit_char d = char_of (48 + d)"

fun nat_to_string :: "nat \<Rightarrow> string" where
  "nat_to_string n =
     (if n < 10 then [digit_char n] else nat_to_string (n div 10) @ [digit_char (n mod 10)])"

declare nat_to_string.simps [simp del]

text \<open>
  The \<open>Debug\<close> text of a string of ASCII characters, with the escapes of \<open>str::escape_debug\<close>,
  and of a list of strings.
\<close>

definition hex_char :: "nat \<Rightarrow> char" where
  "hex_char d = (if d < 10 then char_of (48 + d) else char_of (87 + d))"

definition debug_char :: "char \<Rightarrow> string" where
  "debug_char c =
     (let n = of_char c :: nat in
      if n = 34 \<or> n = 92 then BACKSLASH @ [c]
      else if n = 9 then BACKSLASH @ ''t'' else if n = 10 then BACKSLASH @ ''n'' else if n = 13 then BACKSLASH @ ''r''
      else if n = 0 then BACKSLASH @ ''0''
      else if n < 16 then BACKSLASH @ ''u{'' @ [hex_char n] @ ''}''
      else if n < 32 \<or> n = 127 then BACKSLASH @ ''u{'' @ [hex_char (n div 16), hex_char (n mod 16)] @ ''}''
      else [c])"

definition debug_string :: "string \<Rightarrow> string" where
  "debug_string s = DQUOTE @ concat (map debug_char s) @ DQUOTE"

definition debug_strings :: "string list \<Rightarrow> string" where
  "debug_strings ss = ''['' @ str_join '', '' (map debug_string ss) @ '']''"

text \<open>
  \<open>str::parse::<uN>()\<close>: an optional plus sign, at least one decimal digit and nothing else;
  the value has to fit, \<open>bound\<close> being the number of values of the type.
\<close>

definition char_digit :: "char \<Rightarrow> nat option" where
  "char_digit c = (let n = of_char c in if 48 \<le> n \<and> n < 58 then Some (n - 48) else None)"

fun digits_value :: "nat \<Rightarrow> string \<Rightarrow> nat option" where
  "digits_value acc [] = Some acc"
| "digits_value acc (c # cs) =
     (case char_digit c of None \<Rightarrow> None | Some d \<Rightarrow> digits_value (acc * 10 + d) cs)"

definition strip_plus :: "string \<Rightarrow> string" where
  "strip_plus s = (case s of [] \<Rightarrow> [] | c # cs \<Rightarrow> if c = CHR ''+'' then cs else s)"

definition parse_uint :: "nat \<Rightarrow> string \<Rightarrow> nat option" where
  "parse_uint bound s =
     (if strip_plus s = [] then None
      else Option.bind (digits_value 0 (strip_plus s)) (\<lambda>n. if n < bound then Some n else None))"

definition parse_u32 :: "string \<Rightarrow> u32 option" where
  "parse_u32 s = map_option word_of_nat (parse_uint (2 ^ 32) s)"

text \<open>\<open>str::parse::<i64>()\<close> succeeds.\<close>

definition is_i64 :: "string \<Rightarrow> bool" where
  "is_i64 s =
     (case s of
        [] \<Rightarrow> False
      | c # cs \<Rightarrow>
          if c = CHR ''-'' then cs \<noteq> [] \<and> (case digits_value 0 cs of Some n \<Rightarrow> n \<le> 2 ^ 63 | None \<Rightarrow> False)
          else parse_uint (2 ^ 63) s \<noteq> None)"

text \<open>
  Byte strings are character lists, one character per byte.  \<open>str::from_utf8\<close> accepts
  well-formed UTF-8 and nothing else (RFC 3629).
\<close>

definition utf8_cont :: "nat \<Rightarrow> bool" where
  "utf8_cont b \<longleftrightarrow> 128 \<le> b \<and> b < 192"

fun utf8_valid :: "nat list \<Rightarrow> bool" where
  "utf8_valid [] = True"
| "utf8_valid (b # bs) =
     (if b < 128 then utf8_valid bs
      else if 194 \<le> b \<and> b < 224 then
        (case bs of c # r \<Rightarrow> utf8_cont c \<and> utf8_valid r | _ \<Rightarrow> False)
      else if 224 \<le> b \<and> b < 240 then
        (case bs of c # d # r \<Rightarrow> utf8_cont c \<and> utf8_cont d \<and> (b = 224 \<longrightarrow> 160 \<le> c) \<and> (b = 237 \<longrightarrow> c < 160) \<and>
           utf8_valid r
         | _ \<Rightarrow> False)
      else if 240 \<le> b \<and> b < 245 then
        (case bs of c # d # e # r \<Rightarrow> utf8_cont c \<and> utf8_cont d \<and> utf8_cont e \<and>
           (b = 240 \<longrightarrow> 144 \<le> c) \<and> (b = 244 \<longrightarrow> c < 144) \<and> utf8_valid r
         | _ \<Rightarrow> False)
      else False)"

definition from_utf8 :: "string \<Rightarrow> (string, string) res" where
  "from_utf8 s = (if utf8_valid (map of_char s) then Inr s else Inl ''invalid utf-8 sequence'')"

text \<open>\<open>str::trim\<close>, for ASCII white space.\<close>

definition is_space :: "char \<Rightarrow> bool" where
  "is_space c \<longleftrightarrow> (let n = of_char c :: nat in n = 32 \<or> (9 \<le> n \<and> n \<le> 13))"

definition str_trim :: "string \<Rightarrow> string" where
  "str_trim s = rev (dropWhile is_space (rev (dropWhile is_space s)))"

section \<open>Lemma collections\<close>

named_theorems res_simps "unfolding of the result combinators"
named_theorems splits_str "facts on the string splitting functions"

lemma res_bind_simps [simp, res_simps]:
  "res_bind (Inl e) k = Inl e"
  "res_bind (Inr a) k = k a"
  by (simp_all add: res_bind_def)

lemma res_bind_eq_Inr:
  "res_bind r k = Inr b \<longleftrightarrow> (\<exists>a. r = Inr a \<and> k a = Inr b)"
  by (cases r) auto

lemma ok_or_simps [simp, res_simps]:
  "ok_or e None = Inl e"
  "ok_or e (Some a) = Inr a"
  by (simp_all add: ok_or_def)

lemma ok_or_eq_Inr: "ok_or e x = Inr a \<longleftrightarrow> x = Some a"
  by (cases x) auto

lemma map_err_simps [simp, res_simps]:
  "map_err f (Inl e) = Inl (f e)"
  "map_err f (Inr a) = Inr a"
  by (simp_all add: map_err_def)

lemma map_err_eq_Inr: "map_err f r = Inr a \<longleftrightarrow> r = Inr a"
  by (cases r) auto

lemma ensure_simps [simp, res_simps]:
  "ensure True e = Inr ()"
  "ensure False e = Inl e"
  by (simp_all add: ensure_def)

lemma ensure_eq_Inr: "ensure b e = Inr u \<longleftrightarrow> b"
  by (cases b) auto

lemma unwrap_or_simps [simp, res_simps]:
  "unwrap_or d None = d"
  "unwrap_or d (Some a) = a"
  by (simp_all add: unwrap_or_def)

lemma res_fold_append:
  "res_fold f (xs @ ys) acc = res_bind (res_fold f xs acc) (res_fold f ys)"
proof (induction xs arbitrary: acc)
  case (Cons x xs)
  then show ?case by (cases "f x acc") auto
qed simp

lemma split_char_nonempty [simp]: "split_char c s \<noteq> []"
  by (induction s) (auto split: list.splits)

lemma split_char_no_sep [splits_str]: "c \<notin> set s \<Longrightarrow> split_char c s = [s]"
  by (induction s) auto

lemma split_char_append_sep [splits_str]:
  "c \<notin> set a \<Longrightarrow> split_char c (a @ c # b) = a # split_char c b"
  by (induction a) auto

lemma split_char_join [splits_str]:
  "ws \<noteq> [] \<Longrightarrow> \<forall>w \<in> set ws. c \<notin> set w \<Longrightarrow> split_char c (str_join [c] ws) = ws"
  by (induction "[c]" ws rule: str_join.induct) (simp_all add: splits_str)

lemma split_char_pair_iff:
  "split_char c s = [a, b] \<longleftrightarrow> s = a @ c # b \<and> c \<notin> set a \<and> c \<notin> set b"
proof
  have single: "split_char c t = [d] \<Longrightarrow> t = d \<and> c \<notin> set d" for t d
    by (induction t arbitrary: d) (auto split: list.splits if_splits)
  show "split_char c s = [a, b] \<Longrightarrow> s = a @ c # b \<and> c \<notin> set a \<and> c \<notin> set b"
    by (induction s arbitrary: a) (auto split: list.splits if_splits dest: single)
qed (simp add: splits_str)

lemma starts_with_iff: "starts_with p s \<longleftrightarrow> (\<exists>t. s = p @ t)"
  by (induction p s rule: starts_with.induct) auto

lemma str_contains_iff: "str_contains p s \<longleftrightarrow> (\<exists>a b. s = a @ p @ b)"
proof (induction s)
  case (Cons x xs)
  have "str_contains p (x # xs) \<longleftrightarrow> (\<exists>t. x # xs = p @ t) \<or> (\<exists>a b. xs = a @ p @ b)"
    by (simp add: Cons.IH starts_with_iff)
  also have "\<dots> \<longleftrightarrow> (\<exists>a b. x # xs = a @ p @ b)"
    by (metis append_Cons append_Nil neq_Nil_conv list.inject)
  finally show ?case .
qed auto

lemma split_str_nonempty [simp]: "split_str p s \<noteq> []"
  by (subst split_str.simps) (auto split: list.splits)

lemma nat_to_string_digit: "n < 10 \<Longrightarrow> nat_to_string n = [digit_char n]"
  by (subst nat_to_string.simps) simp

lemma digit_char_inj: "a < 10 \<Longrightarrow> b < 10 \<Longrightarrow> digit_char a = digit_char b \<Longrightarrow> a = b"
proof -
  assume "a < 10" "b < 10" "digit_char a = digit_char b"
  then have "of_char (char_of (48 + a) :: char) = (of_char (char_of (48 + b)) :: nat)"
    by (simp add: digit_char_def)
  with \<open>a < 10\<close> \<open>b < 10\<close> show "a = b"
    by (simp add: of_char_of take_bit_nat_def)
qed

lemma nat_to_string_snoc:
  "\<not> n < 10 \<Longrightarrow> nat_to_string n = nat_to_string (n div 10) @ [digit_char (n mod 10)]"
  by (subst nat_to_string.simps) simp

lemma nat_to_string_nonempty [simp]: "nat_to_string n \<noteq> []" "[] \<noteq> nat_to_string n"
  by (cases "n < 10", simp_all add: nat_to_string_digit nat_to_string_snoc)+

lemma nat_to_string_inj: "nat_to_string m = nat_to_string n \<Longrightarrow> m = n"
proof (induction m arbitrary: n rule: less_induct)
  case (less m)
  show ?case
  proof (cases "m < 10 \<or> n < 10")
    case True
    with less.prems show ?thesis
      by (cases "m < 10"; cases "n < 10")
        (auto simp: nat_to_string_digit nat_to_string_snoc intro: digit_char_inj)
  next
    case False
    with less.prems
    have "nat_to_string (m div 10) = nat_to_string (n div 10)"
      and "digit_char (m mod 10) = digit_char (n mod 10)"
      by (simp_all add: nat_to_string_snoc)
    with less.IH [of "m div 10" "n div 10"] False
    have "m div 10 = n div 10" and "m mod 10 = n mod 10"
      by (auto intro: digit_char_inj)
    then show ?thesis by (metis div_mult_mod_eq)
  qed
qed

lemma of_char_digit_char: "d < 10 \<Longrightarrow> of_char (digit_char d) = (48 + d :: nat)"
  by (simp add: digit_char_def of_char_of take_bit_nat_def)

lemma char_digit_digit_char [simp]: "d < 10 \<Longrightarrow> char_digit (digit_char d) = Some d"
  by (simp add: char_digit_def of_char_digit_char)

lemma digits_value_append:
  "digits_value acc (s @ t) = Option.bind (digits_value acc s) (\<lambda>n. digits_value n t)"
  by (induction s arbitrary: acc) (auto split: option.splits)

lemma digits_value_nat_to_string [simp]: "digits_value 0 (nat_to_string n) = Some n"
proof (induction n rule: less_induct)
  case (less n)
  show ?case
    by (cases "n < 10")
      (simp_all add: nat_to_string_digit nat_to_string_snoc digits_value_append less.IH)
qed

lemma digits_value_chars: "digits_value acc s = Some n \<Longrightarrow> c \<in> set s \<Longrightarrow> char_digit c \<noteq> None"
  by (induction s arbitrary: acc) (auto split: option.splits)

lemma nat_to_string_chars: "c \<in> set (nat_to_string n) \<Longrightarrow> char_digit c \<noteq> None"
  by (rule digits_value_chars [OF digits_value_nat_to_string])

lemma strip_plus_nat_to_string [simp]: "strip_plus (nat_to_string n) = nat_to_string n"
  using nat_to_string_chars [of "CHR ''+''" n]
  by (auto simp: strip_plus_def char_digit_def split: list.splits)

text \<open>Reading back a printed number.\<close>

lemma parse_uint_nat_to_string [simp]: "n < bound \<Longrightarrow> parse_uint bound (nat_to_string n) = Some n"
  by (simp add: parse_uint_def)

lemma parse_u32_nat_to_string [simp]: "parse_u32 (nat_to_string (unat w)) = Some w"
proof -
  have "unat w < 2 ^ 32" using unsigned_less [where w = w and 'a = nat] by simp
  then show ?thesis by (simp add: parse_u32_def)
qed

section \<open>Words\<close>

lemma unat_plus_one_mod: "unat (w + 1 :: 'a::len word) = (unat w + 1) mod 2 ^ LENGTH('a)"
  by (simp add: unat_word_ariths)

lemma unat_plus_of_nat:
  "unat w + n < 2 ^ LENGTH('a) \<Longrightarrow> unat (w + of_nat n :: 'a::len word) = unat w + n"
  by (simp add: unat_word_ariths unsigned_of_nat take_bit_eq_mod)

lemma funpow_plus_one: "((\<lambda>x::'a::len word. x + 1) ^^ n) w = w + of_nat n"
  by (induction n) (simp_all add: algebra_simps)

end
