(* ===== verification/PluginObjects.thy ===== *)
theory PluginObjects
  imports Prelude
begin

text \<open>
  The Kubernetes objects that the plugin creates for an upgrade
  (\<open>k8s/upgrade/src/plugin/objects.rs\<close>), the names and constants they are made of
  (\<open>plugin/constants.rs\<close>, \<open>constants/src/lib.rs\<close>) and the errors of the plugin with their exit
  codes (\<open>plugin/error.rs\<close>).  The version of the binary (\<open>version_info!\<close>) and the constants of the
  \<open>utils\<close> crate are fields of \<open>plugin_consts\<close>.
\<close>

section \<open>Errors\<close>

text \<open>An error of a library is the message it prints; \<open>PanicUnwrap\<close> is an \<open>unwrap\<close> that fails.\<close>

datatype plugin_error =
    UpgradeEventNotPresent
  | NoDeploymentPresent
  | MessageInEventNotPresent
  | NodesInCordonedState
  | SingleReplicaVolumeErr
  | VolumeRebuildInProgress
  | K8sClient string
  | EventSerdeDeserialization string string
  | ServiceAccountCreate string string
  | ServiceAccountDelete string string
  | ClusterRoleCreate string string
  | ClusterRoleDelete string string
  | ClusterRoleBindingDelete string string
  | ClusterRoleBindingCreate string string
  | UpgradeConfigMapCreate string string
  | UpgradeJobCreate string string
  | UpgradeJobDelete string string
  | UpgradeConfigMapDelete string string
  | ReferenceDeploymentInvalidImage
  | ReferenceDeploymentNoImage
  | ReferenceDeploymentNoSpec
  | ReferenceDeploymentNoPodTemplateSpec
  | ReferenceDeploymentNoContainers
  | NodeSpecNotPresent string
  | PodNameNotPresent
  | UpgradeJobStatusNotPresent string
  | UpgradeJobNotPresent string string
  | ListPodsWithLabel string string string
  | ListDeploymantsWithLabel string string string
  | ListEventsWithFieldSelector string string
  | DeleteEventsWithFieldSelector string string
  | ListPVC string
  | ListVolumes string
  | GetUpgradeJob string string
  | GetUpgradeConfigMap string string
  | GetServiceAccount string string
  | GetClusterRole string string
  | GetClusterRoleBinding string string
  | K8sClientGeneration string
  | RestClientConfiguration string
  | ListStorageNodes string
  | OpenapiClientConfiguration string
  | OpeningFile string string
  | YamlParseFromFile string string
  | ReadFromFile string string
  | YamlParseBufferForUnsupportedVersion string
  | SemverParse string string
  | SourceTargetVersionSame
  | NotAValidSourceForUpgrade
  | InvalidUpgradePath
  | InvalidSetFileArguments string
  | SpecifiedKeyNotPresent
  | PanicUnwrap

text \<open>The text of an error, and the exit code of the plugin for it; a panic has no text of its own.\<close>

primrec plugin_error_display :: "plugin_error \<Rightarrow> string" where
  "plugin_error_display UpgradeEventNotPresent = ''No upgrade event present.''"
| "plugin_error_display NoDeploymentPresent = ''No deployment present.''"
| "plugin_error_display MessageInEventNotPresent = ''No Message present in event.''"
| "plugin_error_display NodesInCordonedState = ''Nodes are in cordoned state.''"
| "plugin_error_display SingleReplicaVolumeErr = ''Single replica volume present in cluster.''"
| "plugin_error_display VolumeRebuildInProgress = ''Cluster is rebuilding replica of some volumes.''"
| "plugin_error_display (K8sClient src) = ''K8Client Error: '' @ src"
| "plugin_error_display (EventSerdeDeserialization event src) =
     ''Error in deserializing upgrade event '' @ event @ '' Error '' @ src"
| "plugin_error_display (ServiceAccountCreate nm src) = ''Service account: '' @ nm @ '' creation failed Error: '' @ src"
| "plugin_error_display (ServiceAccountDelete nm src) = ''Service account: '' @ nm @ '' deletion failed Error: '' @ src"
| "plugin_error_display (ClusterRoleCreate nm src) = ''Cluster role: '' @ nm @ '' creation failed Error: '' @ src"
| "plugin_error_display (ClusterRoleDelete nm src) = ''Cluster role: '' @ nm @ '' deletion Error: '' @ src"
| "plugin_error_display (ClusterRoleBindingDelete nm src) =
     ''Cluster role binding: '' @ nm @ '' deletion failed Error: '' @ src"
| "plugin_error_display (ClusterRoleBindingCreate nm src) =
     ''Cluster role binding: '' @ nm @ '' creation failed Error: '' @ src"
| "plugin_error_display (UpgradeConfigMapCreate nm src) = ''Config Map: '' @ nm @ '' creation failed Error: '' @ src"
| "plugin_error_display (UpgradeJobCreate nm src) = ''Upgrade Job: '' @ nm @ '' creation failed Error: '' @ src"
| "plugin_error_display (UpgradeJobDelete nm src) = ''Upgrade Job: '' @ nm @ '' deletion failed Error: '' @ src"
| "plugin_error_display (UpgradeConfigMapDelete nm src) =
     ''Upgrade Config Map: '' @ nm @ '' deletion failed Error: '' @ src"
| "plugin_error_display ReferenceDeploymentInvalidImage = ''Failed to find a valid image in Deployment.''"
| "plugin_error_display ReferenceDeploymentNoImage = ''Failed to find an image in Deployment.''"
| "plugin_error_display ReferenceDeploymentNoSpec = ''No .spec found for the reference Deployment''"
| "plugin_error_display ReferenceDeploymentNoPodTemplateSpec =
     ''No .spec.template.spec found for the reference Deployment''"
| "plugin_error_display ReferenceDeploymentNoContainers = ''Failed to find the first container of the Deployment.''"
| "plugin_error_display (NodeSpecNotPresent node) = ''Node spec not present, node: '' @ node"
| "plugin_error_display PodNameNotPresent = ''Pod name not present.''"
| "plugin_error_display (UpgradeJobStatusNotPresent nm) = ''Upgrade Job: '' @ nm @ '' status not present.''"
| "plugin_error_display (UpgradeJobNotPresent nm ns) =
     ''Upgrade Job: '' @ nm @ '' in namespace '' @ ns @ '' does not exist.''"
| "plugin_error_display (ListPodsWithLabel src label ns) =
     ''Failed to list Pods with label '' @ label @ '' in namespace '' @ ns @ '': '' @ src"
| "plugin_error_display (ListDeploymantsWithLabel src label ns) =
     ''Failed to list Deployments with label '' @ label @ '' in namespace '' @ ns @ '': '' @ src"
| "plugin_error_display (ListEventsWithFieldSelector src field) =
     ''Failed to list Events with field selector '' @ field @ '': '' @ src"
| "plugin_error_display (DeleteEventsWithFieldSelector src field) =
     ''Failed to delete Events with field selector '' @ field @ '': '' @ src"
| "plugin_error_display (ListPVC src) = ''Failed to list pvc : '' @ src"
| "plugin_error_display (ListVolumes src) = ''Failed to list volumes : '' @ src"
| "plugin_error_display (GetUpgradeJob src nm) = ''Failed to get Upgrade Job '' @ nm @ '': '' @ src"
| "plugin_error_display (GetUpgradeConfigMap src nm) = ''Failed to get Upgrade Config Map '' @ nm @ '': '' @ src"
| "plugin_error_display (GetServiceAccount src nm) = ''Failed to get service account '' @ nm @ '': '' @ src"
| "plugin_error_display (GetClusterRole src nm) = ''Failed to get cluster role '' @ nm @ '': '' @ src"
| "plugin_error_display (GetClusterRoleBinding src nm) = ''Failed to get cluster role binding '' @ nm @ '': '' @ src"
| "plugin_error_display (K8sClientGeneration src) = ''Failed to generate kubernetes client: '' @ src"
| "plugin_error_display (RestClientConfiguration src) = ''Failed to configure REST API client : '' @ src"
| "plugin_error_display (ListStorageNodes src) = ''Failed to list Nodes: '' @ src"
| "plugin_error_display (OpenapiClientConfiguration src) = ''openapi configuration Error: '' @ src"
| "plugin_error_display (OpeningFile src filepath) = ''Failed to open file '' @ filepath @ '': '' @ src"
| "plugin_error_display (YamlParseFromFile src filepath) = ''Failed to parse YAML at '' @ filepath @ '': '' @ src"
| "plugin_error_display (ReadFromFile src filepath) = ''Failed to read file at '' @ filepath @ '': '' @ src"
| "plugin_error_display (YamlParseBufferForUnsupportedVersion src) =
     ''Failed to parse unsupported versions yaml: '' @ src"
| "plugin_error_display (SemverParse src version_string) =
     ''Failed to parse '' @ version_string @ '' as a valid semver: '' @ src"
| "plugin_error_display SourceTargetVersionSame = ''Source and target version are same for upgrade.''"
| "plugin_error_display NotAValidSourceForUpgrade = ''Not a valid source version for upgrade.''"
| "plugin_error_display InvalidUpgradePath = ''The upgrade path is invalid''"
| "plugin_error_display (InvalidSetFileArguments arguments) = ''Error parsing set-file argument: '' @ arguments @ '' ''"
| "plugin_error_display SpecifiedKeyNotPresent = ''Specified key not present.''"
| "plugin_error_display PanicUnwrap = ''''"

fun exit_code :: "plugin_error \<Rightarrow> int" where
  "exit_code UpgradeEventNotPresent = 402"
| "exit_code NoDeploymentPresent = 403"
| "exit_code MessageInEventNotPresent = 404"
| "exit_code NodesInCordonedState = 405"
| "exit_code SingleReplicaVolumeErr = 406"
| "exit_code VolumeRebuildInProgress = 407"
| "exit_code (K8sClient _) = 408"
| "exit_code (EventSerdeDeserialization _ _) = 409"
| "exit_code (ServiceAccountCreate _ _) = 410"
| "exit_code (ServiceAccountDelete _ _) = 411"
| "exit_code (ClusterRoleCreate _ _) = 412"
| "exit_code (ClusterRoleDelete _ _) = 413"
| "exit_code (ClusterRoleBindingDelete _ _) = 414"
| "exit_code (ClusterRoleBindingCreate _ _) = 415"
| "exit_code (UpgradeConfigMapCreate _ _) = 449"
| "exit_code (UpgradeJobCreate _ _) = 416"
| "exit_code (UpgradeJobDelete _ _) = 417"
| "exit_code (UpgradeConfigMapDelete _ _) = 450"
| "exit_code ReferenceDeploymentInvalidImage = 418"
| "exit_code ReferenceDeploymentNoImage = 419"
| "exit_code ReferenceDeploymentNoSpec = 420"
| "exit_code ReferenceDeploymentNoPodTemplateSpec = 421"
| "exit_code ReferenceDeploymentNoContainers = 422"
| "exit_code (NodeSpecNotPresent _) = 423"
| "exit_code PodNameNotPresent = 424"
| "exit_code (UpgradeJobStatusNotPresent _) = 425"
| "exit_code (UpgradeJobNotPresent _ _) = 426"
| "exit_code (ListPodsWithLabel _ _ _) = 427"
| "exit_code (ListDeploymantsWithLabel _ _ _) = 428"
| "exit_code (ListEventsWithFieldSelector _ _) = 429"
| "exit_code (DeleteEventsWithFieldSelector _ _) = 446"
| "exit_code (ListPVC _) = 430"
| "exit_code (ListVolumes _) = 431"
| "exit_code (GetUpgradeJob _ _) = 432"
| "exit_code (GetUpgradeConfigMap _ _) = 448"
| "exit_code (GetServiceAccount _ _) = 433"
| "exit_code (GetClusterRole _ _) = 434"
| "exit_code (GetClusterRoleBinding _ _) = 435"
| "exit_code (K8sClientGeneration _) = 436"
| "exit_code (RestClientConfiguration _) = 437"
| "exit_code (ListStorageNodes _) = 438"
| "exit_code (OpenapiClientConfiguration _) = 439"
| "exit_code (OpeningFile _ _) = 440"
| "exit_code (YamlParseFromFile _ _) = 441"
| "exit_code (ReadFromFile _ _) = 447"
| "exit_code (YamlParseBufferForUnsupportedVersion _) = 401"
| "exit_code (SemverParse _ _) = 442"
| "exit_code SourceTargetVersionSame = 443"
| "exit_code NotAValidSourceForUpgrade = 444"
| "exit_code InvalidUpgradePath = 445"
| "exit_code (InvalidSetFileArguments _) = 451"
| "exit_code SpecifiedKeyNotPresent = 452"
| "exit_code PanicUnwrap = 101"

section \<open>Constants and names\<close>

record plugin_consts =
  pc_product_name :: string
  pc_product_domain :: string
  pc_to_train_case :: "string \<Rightarrow> string"
  pc_version_tag :: "string option"

definition helm_release_name_key :: "plugin_consts \<Rightarrow> string" where
  "helm_release_name_key c = pc_product_domain c @ ''/release''"

definition helm_release_version_key :: "plugin_consts \<Rightarrow> string" where
  "helm_release_version_key c = pc_product_domain c @ ''/version''"

definition loki_logging_key :: "plugin_consts \<Rightarrow> string" where
  "loki_logging_key c = pc_product_domain c @ ''/logging''"

definition upgrade_job_img :: "plugin_consts \<Rightarrow> string" where
  "upgrade_job_img c = pc_product_name c @ ''-upgrade-job''"

definition upgrade_job_container_name :: "plugin_consts \<Rightarrow> string" where
  "upgrade_job_container_name c = pc_product_name c @ ''-upgrade-job''"

definition plugin_event_reason :: "plugin_consts \<Rightarrow> string" where
  "plugin_event_reason c = pc_to_train_case c (pc_product_name c) @ ''Upgrade''"

definition DEFAULT_RELEASE_NAME :: "plugin_consts \<Rightarrow> string" where "DEFAULT_RELEASE_NAME c = pc_product_name c"

definition UPGRADE_JOB_IMAGE_REPO :: string where "UPGRADE_JOB_IMAGE_REPO = ''openebs''"
definition DEFAULT_IMAGE_REGISTRY :: string where "DEFAULT_IMAGE_REGISTRY = ''docker.io''"
definition UPGRADE_JOB_IMAGE_TAG :: string where "UPGRADE_JOB_IMAGE_TAG = ''develop''"
definition UPGRADE_JOB_NAME_SUFFIX :: string where "UPGRADE_JOB_NAME_SUFFIX = ''upgrade''"
definition UPGRADE_CONFIG_MAP :: string where "UPGRADE_CONFIG_MAP = ''upgrade-config-map''"
definition UPGRADE_CONFIG_MAP_MOUNT_PATH :: string where "UPGRADE_CONFIG_MAP_MOUNT_PATH = ''/upgrade-config-map''"
definition UPGRADE_JOB_SERVICEACCOUNT_NAME_SUFFIX :: string where
  "UPGRADE_JOB_SERVICEACCOUNT_NAME_SUFFIX = ''upgrade-service-account''"
definition UPGRADE_JOB_CLUSTERROLE_NAME_SUFFIX :: string where "UPGRADE_JOB_CLUSTERROLE_NAME_SUFFIX = ''upgrade-role''"
definition UPGRADE_JOB_CLUSTERROLEBINDING_NAME_SUFFIX :: string where
  "UPGRADE_JOB_CLUSTERROLEBINDING_NAME_SUFFIX = ''upgrade-role-binding''"
definition UPGRADE_CONFIG_MAP_NAME_SUFFIX :: string where "UPGRADE_CONFIG_MAP_NAME_SUFFIX = ''upgrade-config-map''"
definition UPGRADE_BINARY_NAME :: string where "UPGRADE_BINARY_NAME = ''upgrade-job''"
definition API_REST_LABEL_SELECTOR :: string where "API_REST_LABEL_SELECTOR = ''app=api-rest''"
definition SINGLE_REPLICA_VOLUME :: u8 where "SINGLE_REPLICA_VOLUME = 1"
definition IO_ENGINE_POD_LABEL :: string where "IO_ENGINE_POD_LABEL = ''app=io-engine''"
definition AGENT_CORE_POD_LABEL :: string where "AGENT_CORE_POD_LABEL = ''app=agent-core''"
definition API_REST_POD_LABEL :: string where "API_REST_POD_LABEL = ''app=api-rest''"
definition UPGRADE_TO_DEVELOP_BRANCH :: string where "UPGRADE_TO_DEVELOP_BRANCH = ''develop''"
definition MAX_RETRY_ATTEMPTS :: nat where "MAX_RETRY_ATTEMPTS = 6"

definition get_image_version_tag :: "plugin_consts \<Rightarrow> string" where
  "get_image_version_tag c = unwrap_or UPGRADE_JOB_IMAGE_TAG (pc_version_tag c)"

definition upgrade_obj_suffix :: "plugin_consts \<Rightarrow> string" where
  "upgrade_obj_suffix c =
     str_replace_char (CHR ''.'') ''-'' (unwrap_or UPGRADE_JOB_IMAGE_TAG (pc_version_tag c))"

definition upgrade_name_concat :: "plugin_consts \<Rightarrow> string \<Rightarrow> string \<Rightarrow> string" where
  "upgrade_name_concat c release_name component_name =
     release_name @ ''-'' @ component_name @ ''-'' @ upgrade_obj_suffix c"

definition upgrade_image_concat :: "string \<Rightarrow> string \<Rightarrow> string \<Rightarrow> string \<Rightarrow> string" where
  "upgrade_image_concat image_registry image_repo image_name image_tag =
     image_registry @ ''/'' @ image_repo @ ''/'' @ image_name @ '':'' @ image_tag"

definition upgrade_event_selector :: "plugin_consts \<Rightarrow> string \<Rightarrow> string \<Rightarrow> string" where
  "upgrade_event_selector c release_name component_name =
     ''involvedObject.kind=Job,involvedObject.name='' @ release_name @ ''-'' @ component_name @ ''-'' @ upgrade_obj_suffix c"

definition upgrade_labels :: "plugin_consts \<Rightarrow> string \<rightharpoonup> string" where
  "upgrade_labels c = [''app'' \<mapsto> UPGRADE_JOB_NAME_SUFFIX, loki_logging_key c \<mapsto> ''true'']"

section \<open>Objects\<close>

text \<open>Fields that the sources leave at their default are not represented.\<close>

record object_meta =
  om_name :: "string option"
  om_namespace :: "string option"
  om_labels :: "(string \<rightharpoonup> string) option"

record policy_rule =
  api_groups :: "string list"
  resources :: "string list"
  verbs :: "string list"

record role_ref =
  rref_api_group :: string
  rref_kind :: string
  rref_name :: string

record rbac_subject =
  subj_kind :: string
  subj_name :: string
  subj_namespace :: "string option"

datatype env_value = EnvText string | EnvFieldRef string

record job_container =
  jc_args :: "string list"
  jc_image :: string
  jc_image_pull_policy :: "string option"
  jc_name :: string
  jc_env :: "(string \<times> env_value) list"
  jc_liveness_command :: "string list"
  jc_initial_delay_seconds :: int
  jc_period_seconds :: int
  jc_mount :: "bool \<times> string \<times> string"

record job_spec =
  js_backoff_limit :: int
  js_pod_labels :: "string \<rightharpoonup> string"
  js_image_pull_secrets :: "string list option"
  js_restart_policy :: string
  js_containers :: "job_container list"
  js_service_account_name :: string
  js_config_map_volume :: "string \<times> string"

text \<open>
  A configuration map also says whether it is immutable.  A job also has a status, here its number
  of succeeded pods.
\<close>

datatype upgrade_object =
    ServiceAccountObj object_meta
  | ClusterRoleObj object_meta "policy_rule list"
  | ClusterRoleBindingObj object_meta role_ref "rbac_subject list"
  | ConfigMapObj object_meta "string \<rightharpoonup> string" "bool option"
  | JobObj object_meta job_spec "int option option"

definition upgrade_job_service_account :: "plugin_consts \<Rightarrow> string option \<Rightarrow> string \<Rightarrow> upgrade_object" where
  "upgrade_job_service_account c ns service_account_name =
     ServiceAccountObj \<lparr>om_name = Some service_account_name, om_namespace = ns, om_labels = Some (upgrade_labels c)\<rparr>"

definition upgrade_role_rules :: "policy_rule list" where
  "upgrade_role_rules =
     [\<lparr>api_groups = [''apiextensions.k8s.io''], resources = [''customresourcedefinitions''],
       verbs = [''create'', ''list'', ''delete'', ''get'', ''patch'']\<rparr>,
      \<lparr>api_groups = [''openebs.io''], resources = [''upgradeactions''],
       verbs = [''get'', ''create'', ''list'', ''watch'', ''update'', ''replace'', ''patch'']\<rparr>,
      \<lparr>api_groups = [''openebs.io''], resources = [''upgradeactions/status''],
       verbs = [''update'', ''patch'']\<rparr>,
      \<lparr>api_groups = [''apps''], resources = [''daemonsets'', ''replicasets'', ''statefulsets'', ''deployments''],
       verbs = [''create'', ''delete'', ''get'', ''list'', ''patch'']\<rparr>,
      \<lparr>api_groups = [''''], resources = [''serviceaccounts''],
       verbs = [''create'', ''get'', ''list'', ''delete'', ''patch'']\<rparr>,
      \<lparr>api_groups = [''''], resources = [''pods''],
       verbs = [''create'', ''get'', ''list'', ''delete'', ''patch'', ''deletecollection'']\<rparr>,
      \<lparr>api_groups = [''''], resources = [''nodes''],
       verbs = [''get'', ''list'']\<rparr>,
      \<lparr>api_groups = [''''], resources = [''namespaces''],
       verbs = [''get'']\<rparr>,
      \<lparr>api_groups = [''events.k8s.io''], resources = [''events''],
       verbs = [''create'']\<rparr>,
      \<lparr>api_groups = [''''], resources = [''secrets'', ''persistentvolumes'', ''persistentvolumeclaims'', ''services'', ''configmaps''],
       verbs = [''get'', ''list'', ''watch'', ''create'', ''delete'', ''deletecollection'', ''patch'', ''update'']\<rparr>,
      \<lparr>api_groups = [''rbac.authorization.k8s.io''], resources = [''roles''],
       verbs = [''create'', ''list'', ''delete'', ''get'', ''patch'', ''escalate'', ''bind'']\<rparr>,
      \<lparr>api_groups = [''monitoring.coreos.com''], resources = [''prometheusrules'', ''podmonitors''],
       verbs = [''create'', ''list'', ''delete'', ''get'', ''patch'']\<rparr>,
      \<lparr>api_groups = [''networking.k8s.io''], resources = [''networkpolicies''],
       verbs = [''create'', ''list'', ''delete'', ''get'', ''patch'']\<rparr>,
      \<lparr>api_groups = [''batch''], resources = [''cronjobs''],
       verbs = [''create'', ''list'', ''delete'', ''get'', ''patch'']\<rparr>,
      \<lparr>api_groups = [''jaegertracing.io''], resources = [''jaegers''],
       verbs = [''create'', ''list'', ''delete'', ''get'', ''patch'']\<rparr>,
      \<lparr>api_groups = [''rbac.authorization.k8s.io''], resources = [''rolebindings''],
       verbs = [''create'', ''list'', ''delete'', ''get'', ''patch'']\<rparr>,
      \<lparr>api_groups = [''rbac.authorization.k8s.io''], resources = [''clusterroles''],
       verbs = [''create'', ''list'', ''delete'', ''get'', ''patch'', ''escalate'', ''bind'']\<rparr>,
      \<lparr>api_groups = [''rbac.authorization.k8s.io''], resources = [''clusterrolebindings''],
       verbs = [''create'', ''list'', ''delete'', ''get'', ''patch'']\<rparr>,
      \<lparr>api_groups = [''storage.k8s.io''], resources = [''storageclasses''],
       verbs = [''create'', ''list'', ''delete'', ''get'', ''patch'']\<rparr>,
      \<lparr>api_groups = [''scheduling.k8s.io''], resources = [''priorityclasses''],
       verbs = [''create'', ''list'', ''delete'', ''get'', ''patch'']\<rparr>,
      \<lparr>api_groups = [''policy''], resources = [''poddisruptionbudgets''],
       verbs = [''create'', ''list'', ''delete'', ''get'', ''patch'']\<rparr>]"

definition upgrade_job_cluster_role :: "plugin_consts \<Rightarrow> string option \<Rightarrow> string \<Rightarrow> upgrade_object" where
  "upgrade_job_cluster_role c ns cluster_role_name =
     ClusterRoleObj \<lparr>om_name = Some cluster_role_name, om_namespace = ns, om_labels = Some (upgrade_labels c)\<rparr>
       upgrade_role_rules"

definition upgrade_job_cluster_role_binding :: "plugin_consts \<Rightarrow> string option \<Rightarrow> string \<Rightarrow> upgrade_object" where
  "upgrade_job_cluster_role_binding c ns release_name =
     ClusterRoleBindingObj
       \<lparr>om_name = Some (upgrade_name_concat c release_name UPGRADE_JOB_CLUSTERROLEBINDING_NAME_SUFFIX),
        om_namespace = ns, om_labels = Some (upgrade_labels c)\<rparr>
       \<lparr>rref_api_group = ''rbac.authorization.k8s.io'', rref_kind = ''ClusterRole'',
        rref_name = upgrade_name_concat c release_name UPGRADE_JOB_CLUSTERROLE_NAME_SUFFIX\<rparr>
       [\<lparr>subj_kind = ''ServiceAccount'',
         subj_name = upgrade_name_concat c release_name UPGRADE_JOB_SERVICEACCOUNT_NAME_SUFFIX, subj_namespace = ns\<rparr>]"

definition upgrade_configmap :: "plugin_consts \<Rightarrow> (string \<rightharpoonup> string) \<Rightarrow> string \<Rightarrow> string \<Rightarrow> upgrade_object" where
  "upgrade_configmap c data ns release_name =
     ConfigMapObj \<lparr>om_name = Some (upgrade_name_concat c release_name UPGRADE_CONFIG_MAP_NAME_SUFFIX),
       om_namespace = Some ns, om_labels = Some (upgrade_labels c)\<rparr> data (Some True)"

record upgrade_args =
  ua_registry :: "string option"
  ua_allow_unstable :: bool
  ua_dry_run :: bool
  ua_skip_data_plane_restart :: bool
  ua_skip_single_replica_volume_validation :: bool
  ua_skip_replica_rebuild :: bool
  ua_skip_cordoned_node_validation :: bool
  ua_skip_upgrade_path_validation :: bool
  ua_set :: "string list"
  ua_set_file :: "string list"

definition upgrade_args_new :: upgrade_args where
  "upgrade_args_new = \<lparr>ua_registry = None, ua_allow_unstable = False, ua_dry_run = False, ua_skip_data_plane_restart = False,
     ua_skip_single_replica_volume_validation = False, ua_skip_replica_rebuild = False,
     ua_skip_cordoned_node_validation = False, ua_skip_upgrade_path_validation = False, ua_set = [], ua_set_file = []\<rparr>"

definition upgrade_job_args :: "string \<Rightarrow> string \<Rightarrow> upgrade_args \<Rightarrow> string \<Rightarrow> string list" where
  "upgrade_job_args ns release_name args set_file =
     [''--rest-endpoint=http://'' @ release_name @ ''-api-rest:8081'',
      ''--namespace='' @ ns,
      ''--release-name='' @ release_name,
      ''--helm-args-set='' @ str_join '','' (ua_set args),
      ''--helm-args-set-file='' @ set_file] @
     (if ua_skip_data_plane_restart args then [''--skip-data-plane-restart''] else []) @
     (if ua_skip_upgrade_path_validation args then [''--skip-upgrade-path-validation''] else [])"

definition upgrade_job ::
  "plugin_consts \<Rightarrow> string \<Rightarrow> string \<Rightarrow> string \<Rightarrow> upgrade_args \<Rightarrow> string \<Rightarrow> string list option \<Rightarrow> string option \<Rightarrow> upgrade_object" where
  "upgrade_job c ns upgrade_image release_name args set_file image_pull_secrets image_pull_policy =
     JobObj
       \<lparr>om_name = Some (upgrade_name_concat c release_name UPGRADE_JOB_NAME_SUFFIX), om_namespace = Some ns,
        om_labels = Some (upgrade_labels c)\<rparr>
       \<lparr>js_backoff_limit = 6, js_pod_labels = upgrade_labels c, js_image_pull_secrets = image_pull_secrets,
        js_restart_policy = ''OnFailure'',
        js_containers =
          [\<lparr>jc_args = upgrade_job_args ns release_name args set_file, jc_image = upgrade_image,
            jc_image_pull_policy = image_pull_policy, jc_name = upgrade_job_container_name c,
            jc_env = [(''RUST_LOG'', EnvText ''info''), (''POD_NAME'', EnvFieldRef ''metadata.name'')],
            jc_liveness_command = [''pgrep'', UPGRADE_BINARY_NAME], jc_initial_delay_seconds = 10, jc_period_seconds = 60,
            jc_mount = (True, UPGRADE_CONFIG_MAP_MOUNT_PATH, UPGRADE_CONFIG_MAP)\<rparr>],
        js_service_account_name = upgrade_name_concat c release_name UPGRADE_JOB_SERVICEACCOUNT_NAME_SUFFIX,
        js_config_map_volume =
          (UPGRADE_CONFIG_MAP, upgrade_name_concat c release_name UPGRADE_CONFIG_MAP_NAME_SUFFIX)\<rparr>
       None"

section \<open>Prompts\<close>

text \<open>The messages of \<open>plugin/user_prompt.rs\<close>.\<close>

definition LF :: string where "LF = [CHR 0x0A]"

definition QUOTE :: string where "QUOTE = [CHR 0x27]"

definition UPGRADE_WARNING :: string where
  "UPGRADE_WARNING =
     LF @
     ''Volumes which make use of a single volume replica instance will be unavailable for some time during upgrade.'' @ LF @
     ''It is recommended that you do not create new volumes which make use of only one volume replica.''"

definition REBUILD_WARNING :: string where
  "REBUILD_WARNING =
     LF @
     ''The cluster is rebuilding replica of some volumes.'' @ LF @
     ''To skip this validation please run after some time or re-run with '' @ QUOTE @ ''--skip-replica-rebuild` flag.''"

definition SINGLE_REPLICA_VOLUME_WARNING :: string where
  "SINGLE_REPLICA_VOLUME_WARNING =
     LF @
     ''The list below shows the single replica volumes in cluster.'' @ LF @
     ''These single replica volumes may not be accessible during upgrade.'' @ LF @
     ''To skip this validation, please re-run with '' @ QUOTE @ ''--skip-single-replica-volume-validation` flag.''"

definition CORDONED_NODE_WARNING :: string where
  "CORDONED_NODE_WARNING =
     LF @
     ''One or more nodes in this cluster are in a Mayastor cordoned state.'' @ LF @
     ''This implies that the storage space of DiskPools on these nodes cannot be utilized for volume replica rebuilds.'' @ LF @
     ''Please ensure remaining storage nodes have enough available DiskPool space to accommodate volume replica rebuilds,'' @ LF @
     ''that get triggered during the upgrade process.'' @ LF @
     ''To skip this validation, please re-run with '' @ QUOTE @ ''--skip-cordoned-node-validation` flag.'' @ LF @
     ''Below is a list of the Mayastor cordoned nodes:''"

definition CONTROL_PLANE_PODS_LIST :: string where
  "CONTROL_PLANE_PODS_LIST =
     LF @
     ''List of control plane pods which will be restarted during upgrade.''"

definition DATA_PLANE_PODS_LIST :: string where
  "DATA_PLANE_PODS_LIST =
     LF @
     ''List of data plane pods which will be restarted during upgrade.''"

definition DATA_PLANE_PODS_LIST_SKIP_RESTART :: string where
  "DATA_PLANE_PODS_LIST_SKIP_RESTART =
     LF @
     ''List of data plane pods which need to be manually restarted to reflect upgrade as --skip-data-plane-restart flag is passed during upgrade.''"

definition UPGRADE_DRY_RUN_SUMMARY :: string where
  "UPGRADE_DRY_RUN_SUMMARY =
     LF @
     ''Finally the cluster deployment will be upgraded to version''"

definition UPGRADE_JOB_STARTED :: string where
  "UPGRADE_JOB_STARTED =
     LF @
     ''The upgrade has started. You can see the recent upgrade status using '' @ QUOTE @ ''get upgrade-status` command.''"

definition UPGRADE_PATH_NOT_VALID :: string where
  "UPGRADE_PATH_NOT_VALID =
     LF @
     ''The upgrade path is not valid. The source version is in the list of unsupported versions:''"

definition UPGRADE_TO_UNSUPPORTED_VERSION :: string where
  "UPGRADE_TO_UNSUPPORTED_VERSION =
     LF @
     ''Upgrade failed as destination version is unsupported. Please try with `--skip-upgrade-path-validation-for-unsupported-version.`''"

definition DELETE_INCOMPLETE_JOB :: string where
  "DELETE_INCOMPLETE_JOB =
     LF @
     ''Can'' @ QUOTE @ ''t delete an incomplete upgrade job. Please try with `--force` flag to forcefully remove upgrade resources and bypass graceful deletion.''"

definition HELM_UPGRADE_VALIDATION_ERROR :: string where
  "HELM_UPGRADE_VALIDATION_ERROR =
     LF @
     ''The validation for upgrade Failed, hence deleting the upgrade resources. Please re-run upgrade with valid values.''"

definition STABLE_TO_UNSTABLE_UPGRADE :: string where
  "STABLE_TO_UNSTABLE_UPGRADE =
     ''Cannot upgrade from a stable version to an unstable version''"

definition HIGHER_TO_LOWER_SEMVER_UPGRADE :: string where
  "HIGHER_TO_LOWER_SEMVER_UPGRADE =
     ''Cannot upgrade from a higher version to a lower version. If this is intentional, try again with '' @ QUOTE @
     ''--skip-upgrade-path-validation-for-unsupported-version'' @ QUOTE"

definition upgrade_dry_run_summary :: "plugin_consts \<Rightarrow> string \<Rightarrow> string" where
  "upgrade_dry_run_summary c message = message @ '' : '' @ unwrap_or ''develop'' (pc_version_tag c)"

end
