(* ===== verification/Effects.thy ===== *)
theory Effects
  imports Prelude
begin

text \<open>
  The monad in which the asynchronous, fallible and possibly endless code of the
  repository is written down.  A program takes a state and returns an outcome with the
  final state: \<open>Ok\<close> for a returned value, \<open>Err\<close> for an error propagated with
  \<open>?\<close>, and \<open>OutOfFuel\<close> for a run that was cut off inside a \<open>loop\<close>: the state is
  then the one reached so far, so that a safety property proved for every amount of fuel
  also speaks about runs that never end.  The theory holds the control structures
  (\<open>?\<close>, \<open>for\<close>, \<open>loop\<close>/\<open>while\<close>), Hoare rules for them, the rule that gives a
  result for enough fuel, and monotonicity in the fuel.
\<close>

section \<open>Programs\<close>

datatype ('e, 'a) outcome = Ok 'a | Err 'e | OutOfFuel

type_synonym ('s, 'e, 'a) prog = "'s \<Rightarrow> ('e, 'a) outcome \<times> 's"

definition retP :: "'a \<Rightarrow> ('s, 'e, 'a) prog" where
  "retP a s = (Ok a, s)"

definition failP :: "'e \<Rightarrow> ('s, 'e, 'a) prog" where
  "failP e s = (Err e, s)"

definition bindP :: "('s, 'e, 'a) prog \<Rightarrow> ('a \<Rightarrow> ('s, 'e, 'b) prog) \<Rightarrow> ('s, 'e, 'b) prog" where
  "bindP m k s =
     (case m s of (Ok a, t) \<Rightarrow> k a t | (Err e, t) \<Rightarrow> (Err e, t) | (OutOfFuel, t) \<Rightarrow> (OutOfFuel, t))"

text \<open>\<open>match m.await { Ok(a) => .., Err(e) => .. }\<close>: the error becomes a value.\<close>

definition tryP :: "('s, 'e, 'a) prog \<Rightarrow> ('s, 'f, 'e + 'a) prog" where
  "tryP m s =
     (case m s of (Ok a, t) \<Rightarrow> (Ok (Inr a), t) | (Err e, t) \<Rightarrow> (Ok (Inl e), t)
      | (OutOfFuel, t) \<Rightarrow> (OutOfFuel, t))"

text \<open>A \<open>Result\<close> followed by \<open>?\<close>.\<close>

definition liftR :: "('e, 'a) res \<Rightarrow> ('s, 'e, 'a) prog" where
  "liftR r s = (case r of Inl e \<Rightarrow> (Err e, s) | Inr a \<Rightarrow> (Ok a, s))"

text \<open>A call that leaves the program: the answer and the new state come from outside.\<close>

definition callP :: "('s \<Rightarrow> ('e, 'a) res \<times> 's) \<Rightarrow> ('e \<Rightarrow> 'f) \<Rightarrow> ('s, 'f, 'a) prog" where
  "callP f ctx s =
     (case f s of (Inl e, t) \<Rightarrow> (Err (ctx e), t) | (Inr a, t) \<Rightarrow> (Ok a, t))"

definition modifyP :: "('s \<Rightarrow> 's) \<Rightarrow> ('s, 'e, unit) prog" where
  "modifyP f s = (Ok (), f s)"

definition getsP :: "('s \<Rightarrow> 'a) \<Rightarrow> ('s, 'e, 'a) prog" where
  "getsP f s = (Ok (f s), s)"

primrec forP :: "'a list \<Rightarrow> ('a \<Rightarrow> ('s, 'e, unit) prog) \<Rightarrow> ('s, 'e, unit) prog" where
  "forP [] body = retP ()"
| "forP (x # xs) body = bindP (body x) (\<lambda>_. forP xs body)"

text \<open>
  \<open>loop\<close>: the body returns \<open>Inl b\<close> to go round again with the loop variables \<open>b\<close>, and
  \<open>Inr a\<close> to leave the loop with \<open>a\<close> (\<open>break\<close> or \<open>return\<close>).
\<close>

primrec loopP ::
  "nat \<Rightarrow> ('b \<Rightarrow> ('s, 'e, 'b + 'a) prog) \<Rightarrow> 'b \<Rightarrow> ('s, 'e, 'a) prog" where
  "loopP 0 body b = (\<lambda>s. (OutOfFuel, s))"
| "loopP (Suc n) body b =
     bindP (body b) (\<lambda>r. case r of Inl b' \<Rightarrow> loopP n body b' | Inr a \<Rightarrow> retP a)"

lemma loopP_numeral:
  "loopP (numeral k) body b =
     bindP (body b) (\<lambda>r. case r of Inl b' \<Rightarrow> loopP (pred_numeral k) body b' | Inr a \<Rightarrow> retP a)"
  by (simp add: numeral_eq_Suc)

definition finished :: "('e, 'a) outcome \<times> 's \<Rightarrow> bool" where
  "finished r \<longleftrightarrow> fst r \<noteq> OutOfFuel"

section \<open>Evaluation\<close>

named_theorems prog_simps "evaluation of programs"

lemma retP_apply [simp, prog_simps]: "retP a s = (Ok a, s)"
  by (simp add: retP_def)

lemma failP_apply [simp, prog_simps]: "failP e s = (Err e, s)"
  by (simp add: failP_def)

lemma modifyP_apply [simp, prog_simps]: "modifyP f s = (Ok (), f s)"
  by (simp add: modifyP_def)

lemma getsP_apply [simp, prog_simps]: "getsP f s = (Ok (f s), s)"
  by (simp add: getsP_def)

lemma liftR_apply [simp, prog_simps]:
  "liftR (Inl e) s = (Err e, s)"
  "liftR (Inr a) s = (Ok a, s)"
  by (simp_all add: liftR_def)

lemma bindP_apply [prog_simps]:
  "m s = (Ok a, t) \<Longrightarrow> bindP m k s = k a t"
  "m s = (Err e, t) \<Longrightarrow> bindP m k s = (Err e, t)"
  "m s = (OutOfFuel, t) \<Longrightarrow> bindP m k s = (OutOfFuel, t)"
  by (simp_all add: bindP_def)

lemma bindP_retP [simp]: "bindP (retP a) k = k a"
  by (rule ext) (simp add: bindP_def)

lemma bindP_failP [simp]: "bindP (failP e) k = failP e"
  by (rule ext) (simp add: bindP_def)

lemma bindP_liftR_Inr: "bindP (liftR (Inr a)) k = k a"
  by (rule ext) (simp add: bindP_def)

lemma bindP_assoc: "bindP (bindP m k) l = bindP m (\<lambda>a. bindP (k a) l)"
  by (rule ext) (simp add: bindP_def split: prod.splits outcome.splits)

lemma bindP_eq_Ok:
  "bindP m k s = (Ok b, u) \<longleftrightarrow> (\<exists>a t. m s = (Ok a, t) \<and> k a t = (Ok b, u))"
  by (auto simp: bindP_def split: prod.splits outcome.splits)

lemma tryP_apply [prog_simps]:
  "m s = (Ok a, t) \<Longrightarrow> tryP m s = (Ok (Inr a), t)"
  "m s = (Err e, t) \<Longrightarrow> tryP m s = (Ok (Inl e), t)"
  "m s = (OutOfFuel, t) \<Longrightarrow> tryP m s = (OutOfFuel, t)"
  by (simp_all add: tryP_def)

lemma callP_apply [prog_simps]:
  "f s = (Inl e, t) \<Longrightarrow> callP f ctx s = (Err (ctx e), t)"
  "f s = (Inr a, t) \<Longrightarrow> callP f ctx s = (Ok a, t)"
  by (simp_all add: callP_def)

lemma callP_eq_Ok: "callP f ctx s = (Ok a, t) \<longleftrightarrow> f s = (Inr a, t)"
  by (auto simp: callP_def split: prod.splits sum.splits)

lemma liftR_eq_Ok: "liftR r s = (Ok a, t) \<longleftrightarrow> r = Inr a \<and> t = s"
  by (cases r) auto

lemmas prog_Ok_iff = bindP_eq_Ok callP_eq_Ok liftR_eq_Ok res_bind_eq_Inr ok_or_eq_Inr map_err_eq_Inr
  ensure_eq_Inr

section \<open>Hoare rules\<close>

text \<open>
  \<open>hoare P m Q I\<close>: from a state with \<open>P\<close>, a returned value and its state satisfy \<open>Q\<close>, and a
  run that stops with an error or is cut off leaves a state with \<open>I\<close>.
\<close>

definition hoare ::
  "('s \<Rightarrow> bool) \<Rightarrow> ('s, 'e, 'a) prog \<Rightarrow> ('a \<Rightarrow> 's \<Rightarrow> bool) \<Rightarrow> ('s \<Rightarrow> bool) \<Rightarrow> bool" where
  "hoare P m Q I \<longleftrightarrow>
     (\<forall>s. P s \<longrightarrow> (case m s of (Ok a, t) \<Rightarrow> Q a t | (Err e, t) \<Rightarrow> I t | (OutOfFuel, t) \<Rightarrow> I t))"

named_theorems hoare_rules "syntax directed Hoare rules"

lemma hoareI:
  assumes "\<And>s a t. P s \<Longrightarrow> m s = (Ok a, t) \<Longrightarrow> Q a t"
    and "\<And>s e t. P s \<Longrightarrow> m s = (Err e, t) \<Longrightarrow> I t"
    and "\<And>s t. P s \<Longrightarrow> m s = (OutOfFuel, t) \<Longrightarrow> I t"
  shows "hoare P m Q I"
  using assms by (auto simp: hoare_def split: prod.splits outcome.splits)

lemma hoareD:
  assumes "hoare P m Q I" "P s" "m s = (r, t)"
  shows "case r of Ok a \<Rightarrow> Q a t | Err e \<Rightarrow> I t | OutOfFuel \<Rightarrow> I t"
  using assms by (force simp: hoare_def split: prod.splits outcome.splits)

lemma hoare_conseq:
  assumes "hoare P m Q I" "\<And>s. P' s \<Longrightarrow> P s" "\<And>a s. Q a s \<Longrightarrow> Q' a s" "\<And>s. I s \<Longrightarrow> I' s"
  shows "hoare P' m Q' I'"
  unfolding hoare_def
proof (intro allI impI)
  fix s
  assume "P' s"
  with assms(1,2) have "case m s of (Ok a, t) \<Rightarrow> Q a t | (Err e, t) \<Rightarrow> I t | (OutOfFuel, t) \<Rightarrow> I t"
    by (simp add: hoare_def)
  with assms(3,4) show "case m s of (Ok a, t) \<Rightarrow> Q' a t | (Err e, t) \<Rightarrow> I' t | (OutOfFuel, t) \<Rightarrow> I' t"
    by (auto split: prod.splits outcome.splits)
qed

lemma hoare_pre: "hoare P m Q I \<Longrightarrow> (\<And>s. P' s \<Longrightarrow> P s) \<Longrightarrow> hoare P' m Q I"
  by (rule hoare_conseq)

lemma hoare_ret: "(\<And>s. P s \<Longrightarrow> Q a s) \<Longrightarrow> hoare P (retP a) Q I"
  by (simp add: hoare_def)

lemma hoare_fail: "(\<And>s. P s \<Longrightarrow> I s) \<Longrightarrow> hoare P (failP e) Q I"
  by (simp add: hoare_def)

lemma hoare_liftR:
  "(\<And>s a. P s \<Longrightarrow> r = Inr a \<Longrightarrow> Q a s) \<Longrightarrow> (\<And>s. P s \<Longrightarrow> I s) \<Longrightarrow> hoare P (liftR r) Q I"
  by (cases r) (simp_all add: hoare_def)

lemma hoare_modify: "(\<And>s. P s \<Longrightarrow> Q () (f s)) \<Longrightarrow> hoare P (modifyP f) Q I"
  by (simp add: hoare_def)

lemma hoare_gets: "(\<And>s. P s \<Longrightarrow> Q (f s) s) \<Longrightarrow> hoare P (getsP f) Q I"
  by (simp add: hoare_def)

lemma hoare_bind:
  assumes "hoare P m R I" "\<And>a. hoare (R a) (k a) Q I"
  shows "hoare P (bindP m k) Q I"
  unfolding hoare_def
proof (intro allI impI)
  fix s
  assume P: "P s"
  obtain r t where m: "m s = (r, t)" by (cases "m s") auto
  from hoareD [OF assms(1) P m] assms(2)
  show "case bindP m k s of (Ok a, t) \<Rightarrow> Q a t | (Err e, t) \<Rightarrow> I t | (OutOfFuel, t) \<Rightarrow> I t"
    by (cases r) (simp_all add: bindP_def m hoare_def)
qed

lemma hoare_try:
  assumes "hoare P m (\<lambda>a. Q (Inr a)) I" "\<And>e s. I s \<Longrightarrow> Q (Inl e) s"
  shows "hoare P (tryP m) Q I"
  unfolding hoare_def
proof (intro allI impI)
  fix s
  assume P: "P s"
  obtain r t where m: "m s = (r, t)" by (cases "m s") auto
  from hoareD [OF assms(1) P m] assms(2)
  show "case tryP m s of (Ok a, t) \<Rightarrow> Q a t | (Err e, t) \<Rightarrow> I t | (OutOfFuel, t) \<Rightarrow> I t"
    by (cases r) (simp_all add: tryP_def m)
qed

lemma hoare_for:
  assumes "\<And>x. x \<in> set xs \<Longrightarrow> hoare P (body x) (\<lambda>_. P) I"
  shows "hoare P (forP xs body) (\<lambda>_. P) I"
  using assms
proof (induction xs)
  case Nil
  show ?case by (simp add: hoare_def)
next
  case (Cons x xs)
  have "hoare P (body x) (\<lambda>_. P) I" "hoare P (forP xs body) (\<lambda>_. P) I"
    using Cons by simp_all
  then show ?case by (auto intro: hoare_bind)
qed

lemma hoare_loop:
  assumes body: "\<And>b. hoare (P b) (body b) (\<lambda>r s. case r of Inl b' \<Rightarrow> P b' s | Inr a \<Rightarrow> Q a s) I"
    and cut: "\<And>b s. P b s \<Longrightarrow> I s"
  shows "hoare (P b) (loopP n body b) Q I"
proof (induction n arbitrary: b)
  case 0
  show ?case using cut by (simp add: hoare_def)
next
  case (Suc n)
  have "hoare (case r of Inl b' \<Rightarrow> P b' | Inr a \<Rightarrow> Q a)
          (case r of Inl b' \<Rightarrow> loopP n body b' | Inr a \<Rightarrow> retP a) Q I" for r
    using Suc.IH by (cases r) (auto simp: hoare_def)
  moreover have "hoare (P b) (body b) (\<lambda>r. case r of Inl b' \<Rightarrow> P b' | Inr a \<Rightarrow> Q a) I"
    using body [of b] by (rule hoare_conseq) (auto split: sum.splits)
  ultimately show ?case by (auto intro: hoare_bind)
qed

lemmas basic_hoare_rules [hoare_rules] = hoare_ret hoare_fail hoare_bind

section \<open>Enough fuel\<close>

text \<open>
  A loop whose body always finishes and decreases a measure while an invariant holds
  finishes for every fuel above the measure.
\<close>

lemma loop_finishes:
  assumes step: "\<And>b s. P b s \<Longrightarrow>
      finished (body b s) \<and>
      (\<forall>b' t. body b s = (Ok (Inl b'), t) \<longrightarrow> P b' t \<and> \<mu> b' t < (\<mu> b s :: nat))"
    and "P b s" "\<mu> b s < n"
  shows "finished (loopP n body b s)"
  using assms(2,3)
proof (induction n arbitrary: b s)
  case (Suc n)
  obtain r t where bt: "body b s = (r, t)" by (cases "body b s") auto
  show ?case
  proof (cases r)
    case (Ok v)
    show ?thesis
    proof (cases v)
      case (Inl b')
      with step [OF Suc.prems(1)] bt Ok Suc.prems(2)
      have "P b' t" "\<mu> b' t < n" by auto
      with Suc.IH bt Ok Inl show ?thesis by (simp add: bindP_def)
    next
      case (Inr a)
      with bt Ok show ?thesis by (simp add: bindP_def finished_def)
    qed
  next
    case (Err e)
    with bt show ?thesis by (simp add: bindP_def finished_def)
  next
    case OutOfFuel
    with bt step [OF Suc.prems(1)] show ?thesis by (simp add: finished_def)
  qed
qed simp

text \<open>The same for a loop whose body also never fails: it returns a value.\<close>

lemma loop_returns:
  assumes step: "\<And>b s. P b s \<Longrightarrow> \<exists>r t. body b s = (Ok r, t) \<and>
      (case r of Inl b' \<Rightarrow> P b' t \<and> \<mu> b' t < (\<mu> b s :: nat) | Inr a \<Rightarrow> Q a t)"
    and "P b s" "\<mu> b s < n"
  shows "\<exists>a t. loopP n body b s = (Ok a, t) \<and> Q a t"
  using assms(2,3)
proof (induction n arbitrary: b s)
  case (Suc n)
  from step [OF Suc.prems(1)] obtain r t where body: "body b s = (Ok r, t)"
    and r: "case r of Inl b' \<Rightarrow> P b' t \<and> \<mu> b' t < \<mu> b s | Inr a \<Rightarrow> Q a t" by blast
  show ?case
  proof (cases r)
    case (Inl b')
    with Suc.IH [of b' t] r Suc.prems(2) body show ?thesis by (simp add: bindP_def)
  next
    case (Inr a)
    with r body show ?thesis by (simp add: bindP_def)
  qed
qed simp

text \<open>A loop whose body always goes round again never finishes.\<close>

lemma loop_never_finishes:
  assumes step: "\<And>b s. P b s \<Longrightarrow> \<exists>b' t. body b s = (Ok (Inl b'), t) \<and> P b' t"
    and "P b s"
  shows "\<not> finished (loopP n body b s)"
  using assms(2)
proof (induction n arbitrary: b s)
  case 0
  show ?case by (simp add: finished_def)
next
  case (Suc n)
  then obtain b' t where "body b s = (Ok (Inl b'), t)" "P b' t" using step by blast
  with Suc.IH show ?case by (simp add: bindP_def)
qed

section \<open>More fuel never changes a result\<close>

definition fuel_le :: "('s, 'e, 'a) prog \<Rightarrow> ('s, 'e, 'a) prog \<Rightarrow> bool" where
  "fuel_le m m' \<longleftrightarrow> (\<forall>s. finished (m s) \<longrightarrow> m' s = m s)"

named_theorems fuel_mono "programs grow with their fuel"

lemma fuel_le_refl [fuel_mono]: "fuel_le m m"
  by (simp add: fuel_le_def)

lemma fuel_leD: "fuel_le m m' \<Longrightarrow> finished (m s) \<Longrightarrow> m' s = m s"
  by (simp add: fuel_le_def)

lemma fuel_le_bind [fuel_mono]:
  assumes "fuel_le m m'" "\<And>a. fuel_le (k a) (k' a)"
  shows "fuel_le (bindP m k) (bindP m' k')"
  unfolding fuel_le_def
proof (intro allI impI)
  fix s
  assume fin: "finished (bindP m k s)"
  obtain r t where m: "m s = (r, t)" by (cases "m s") auto
  from fin m have "r \<noteq> OutOfFuel" by (auto simp: bindP_def finished_def)
  with assms(1) m have m': "m' s = (r, t)" by (auto simp: fuel_le_def finished_def)
  from fin m m' assms(2) show "bindP m' k' s = bindP m k s"
    by (cases r) (auto simp: bindP_def fuel_le_def)
qed

lemma fuel_le_try [fuel_mono]: "fuel_le m m' \<Longrightarrow> fuel_le (tryP m) (tryP m')"
  by (auto simp: fuel_le_def tryP_def finished_def split: prod.splits outcome.splits)

lemma fuel_le_for [fuel_mono]:
  "(\<And>x. fuel_le (body x) (body' x)) \<Longrightarrow> fuel_le (forP xs body) (forP xs body')"
  by (induction xs) (auto intro: fuel_mono)

lemma fuel_le_loop [fuel_mono]:
  assumes "\<And>b. fuel_le (body b) (body' b)" "n \<le> n'"
  shows "fuel_le (loopP n body b) (loopP n' body' b)"
  using assms(2)
proof (induction n arbitrary: b n')
  case 0
  show ?case by (simp add: fuel_le_def finished_def)
next
  case (Suc n)
  then obtain k where n': "n' = Suc k" "n \<le> k" by (cases n') auto
  have "fuel_le (case r of Inl b' \<Rightarrow> loopP n body b' | Inr a \<Rightarrow> retP a)
          (case r of Inl b' \<Rightarrow> loopP k body' b' | Inr a \<Rightarrow> retP a)" for r
    using Suc.IH n' by (cases r) (auto intro: fuel_le_refl)
  with assms(1) n' show ?case by (auto intro: fuel_le_bind)
qed

section \<open>Programs that always return\<close>

definition always_ok :: "('s, 'e, 'a) prog \<Rightarrow> bool" where
  "always_ok m \<longleftrightarrow> (\<forall>s. \<exists>a t. m s = (Ok a, t))"

named_theorems ok_rules "closure of always_ok under the control structures"

lemma always_okD: "always_ok m \<Longrightarrow> \<exists>a t. m s = (Ok a, t)"
  by (simp add: always_ok_def)

lemma always_ok_ret [ok_rules]: "always_ok (retP a)"
  by (simp add: always_ok_def)

lemma always_ok_liftR [ok_rules]: "always_ok (liftR (Inr a))"
  by (simp add: always_ok_def)

lemma always_ok_bind [ok_rules]: "always_ok m \<Longrightarrow> (\<And>a. always_ok (k a)) \<Longrightarrow> always_ok (bindP m k)"
  unfolding always_ok_def by (metis bindP_apply(1))

lemma always_ok_split [ok_rules]: "(\<And>a b. always_ok (f a b)) \<Longrightarrow> always_ok (case p of (a, b) \<Rightarrow> f a b)"
  by (cases p) simp

lemma always_ok_for [ok_rules]: "(\<And>x. always_ok (body x)) \<Longrightarrow> always_ok (forP xs body)"
  by (induction xs) (auto intro: ok_rules)

lemma always_ok_if [ok_rules]: "always_ok m \<Longrightarrow> always_ok m' \<Longrightarrow> always_ok (if b then m else m')"
  by simp

end
