(* ===== verification/Traced.thy ===== *)
theory Traced
  imports Effects
begin

text \<open>
  Programs that talk to the outside.  The state is the world outside, of an arbitrary type,
  and the list of all interactions so far, oldest first: every call is recorded with its
  arguments and its answer.  \<open>emits m Q I\<close> says what a program adds to that list: \<open>Q a d\<close> for
  the interactions \<open>d\<close> of a run that returns \<open>a\<close>, and \<open>I d\<close> for a run that fails or is
  cut off.  The rules follow the control structures; \<open>only X m\<close> is the special case that
  every interaction is of the kind \<open>X\<close>.
\<close>

record ('w, 'ev) rt =
  rt_world :: 'w
  rt_trace :: "'ev list"

definition logged ::
  "('w \<Rightarrow> ('e, 'a) res \<times> 'w) \<Rightarrow> (('e, 'a) res \<Rightarrow> 'ev) \<Rightarrow> ('e \<Rightarrow> 'f) \<Rightarrow> (('w, 'ev) rt, 'f, 'a) prog" where
  "logged f ev ctx s =
     (case f (rt_world s) of (r, w) \<Rightarrow>
        (case r of Inl e \<Rightarrow> Err (ctx e) | Inr a \<Rightarrow> Ok a,
         \<lparr>rt_world = w, rt_trace = rt_trace s @ [ev r]\<rparr>))"

text \<open>A library of the repository that works on the world alone, as one interaction.\<close>

definition embedded :: "('w, 'e, 'a) prog \<Rightarrow> 'ev \<Rightarrow> ('e \<Rightarrow> 'f) \<Rightarrow> (('w, 'ev) rt, 'f, 'a) prog" where
  "embedded m ev ctx s =
     (case m (rt_world s) of (r, w) \<Rightarrow>
        (case r of Ok a \<Rightarrow> Ok a | Err e \<Rightarrow> Err (ctx e) | OutOfFuel \<Rightarrow> OutOfFuel,
         \<lparr>rt_world = w, rt_trace = rt_trace s @ [ev]\<rparr>))"

text \<open>A step of the environment without an answer, such as the passing of time.\<close>

definition tick :: "('w \<Rightarrow> 'w) \<Rightarrow> 'ev \<Rightarrow> (('w, 'ev) rt, 'f, unit) prog" where
  "tick f ev s = (Ok (), \<lparr>rt_world = f (rt_world s), rt_trace = rt_trace s @ [ev]\<rparr>)"

text \<open>
  A paginated listing: fetch a page with the current token, keep its entries, and go on
  with the next token until the answer has none.
\<close>

definition collect_pages ::
  "nat \<Rightarrow> ('tok \<Rightarrow> ('s, 'e, 'a list \<times> 'tok option) prog) \<Rightarrow> 'tok \<Rightarrow> ('s, 'e, 'a list) prog" where
  "collect_pages fuel fetch start =
     loopP fuel (\<lambda>(acc, tok).
       bindP (fetch tok) (\<lambda>(xs, next).
       case next of Some tok' \<Rightarrow> retP (Inl (acc @ xs, tok')) | None \<Rightarrow> retP (Inr (acc @ xs))))
       ([], start)"

section \<open>What a program adds to the trace\<close>

definition emits ::
  "(('w, 'ev) rt, 'e, 'a) prog \<Rightarrow> ('a \<Rightarrow> 'ev list \<Rightarrow> bool) \<Rightarrow> ('ev list \<Rightarrow> bool) \<Rightarrow> bool" where
  "emits m Q I \<longleftrightarrow>
     (\<forall>s r t. m s = (r, t) \<longrightarrow>
        (\<exists>d. rt_trace t = rt_trace s @ d \<and> (case r of Ok a \<Rightarrow> Q a d | Err e \<Rightarrow> I d | OutOfFuel \<Rightarrow> I d)))"

lemma emitsD:
  assumes "emits m Q I" "m s = (r, t)"
  obtains d where "rt_trace t = rt_trace s @ d" "case r of Ok a \<Rightarrow> Q a d | Err e \<Rightarrow> I d | OutOfFuel \<Rightarrow> I d"
  using assms unfolding emits_def by blast

lemma emits_Ok:
  assumes "emits m Q I" "m s = (Ok a, t)"
  obtains d where "rt_trace t = rt_trace s @ d" "Q a d"
  using emitsD [OF assms] by auto

lemma emits_conseq:
  assumes "emits m Q I" "\<And>a d. Q a d \<Longrightarrow> Q' a d" "\<And>d. I d \<Longrightarrow> I' d"
  shows "emits m Q' I'"
  unfolding emits_def
proof (intro allI impI)
  fix s r t
  assume "m s = (r, t)"
  with assms(1) obtain d where "rt_trace t = rt_trace s @ d"
    "case r of Ok a \<Rightarrow> Q a d | Err e \<Rightarrow> I d | OutOfFuel \<Rightarrow> I d" by (rule emitsD)
  with assms(2,3) show "\<exists>d. rt_trace t = rt_trace s @ d \<and>
      (case r of Ok a \<Rightarrow> Q' a d | Err e \<Rightarrow> I' d | OutOfFuel \<Rightarrow> I' d)"
    by (intro exI [of _ d]) (auto split: outcome.splits)
qed

lemma emits_ret: "Q a [] \<Longrightarrow> emits (retP a) Q I"
  by (simp add: emits_def)

lemma emits_ret_iff: "emits (retP a) Q I \<longleftrightarrow> Q a []"
  by (simp add: emits_def)

lemma emits_ret_exact: "emits (retP a) (\<lambda>b d. b = a \<and> d = []) (\<lambda>_. False)"
  by (rule emits_ret) simp

lemma emits_fail: "I [] \<Longrightarrow> emits (failP e) Q I"
  by (simp add: emits_def)

lemma emits_liftR: "(\<And>a. r = Inr a \<Longrightarrow> Q a []) \<Longrightarrow> I [] \<Longrightarrow> emits (liftR r) Q I"
  by (cases r) (simp_all add: emits_def)

lemma emits_liftR_exact: "emits (liftR r) (\<lambda>a d. r = Inr a \<and> d = []) (\<lambda>d. d = [])"
  by (rule emits_liftR) auto

lemma emits_logged: "(\<And>a. Q a [ev (Inr a)]) \<Longrightarrow> (\<And>e. I [ev (Inl e)]) \<Longrightarrow> emits (logged f ev ctx) Q I"
  by (auto simp: emits_def logged_def split: prod.splits sum.splits)

lemma emits_logged_exact: "emits (logged f ev ctx) (\<lambda>a d. d = [ev (Inr a)]) (\<lambda>d. \<exists>r. d = [ev r])"
  by (rule emits_logged) auto

lemma emits_embedded: "(\<And>a. Q a [ev]) \<Longrightarrow> I [ev] \<Longrightarrow> emits (embedded m ev ctx) Q I"
  by (auto simp: emits_def embedded_def split: prod.splits outcome.splits)

lemma emits_embedded_exact: "emits (embedded m ev ctx) (\<lambda>_ d. d = [ev]) (\<lambda>d. d = [ev])"
  by (rule emits_embedded) auto

lemma emits_tick: "Q () [ev] \<Longrightarrow> emits (tick f ev) Q I"
  by (simp add: emits_def tick_def)

lemma emits_tick_exact: "emits (tick f ev) (\<lambda>_ d. d = [ev]) (\<lambda>_. False)"
  by (rule emits_tick) simp

lemma emits_bind:
  assumes m: "emits m Q I" and k: "\<And>a. emits (k a) (R a) (J a)"
  shows "emits (bindP m k)
           (\<lambda>b d. \<exists>a d1 d2. d = d1 @ d2 \<and> Q a d1 \<and> R a b d2)
           (\<lambda>d. I d \<or> (\<exists>a d1 d2. d = d1 @ d2 \<and> Q a d1 \<and> J a d2))"
  unfolding emits_def
proof (intro allI impI)
  fix s r u
  assume run: "bindP m k s = (r, u)"
  obtain r1 t where m1: "m s = (r1, t)" by (cases "m s") auto
  obtain d1 where d1: "rt_trace t = rt_trace s @ d1"
    "case r1 of Ok a \<Rightarrow> Q a d1 | Err e \<Rightarrow> I d1 | OutOfFuel \<Rightarrow> I d1" using emitsD [OF m m1] .
  show "\<exists>d. rt_trace u = rt_trace s @ d \<and>
     (case r of Ok b \<Rightarrow> \<exists>a d1 d2. d = d1 @ d2 \<and> Q a d1 \<and> R a b d2
      | Err e \<Rightarrow> I d \<or> (\<exists>a d1 d2. d = d1 @ d2 \<and> Q a d1 \<and> J a d2)
      | OutOfFuel \<Rightarrow> I d \<or> (\<exists>a d1 d2. d = d1 @ d2 \<and> Q a d1 \<and> J a d2))"
  proof (cases r1)
    case (Ok a)
    with run m1 have "k a t = (r, u)" by (simp add: bindP_def)
    then obtain d2 where "rt_trace u = rt_trace t @ d2"
      "case r of Ok b \<Rightarrow> R a b d2 | Err e \<Rightarrow> J a d2 | OutOfFuel \<Rightarrow> J a d2" by (rule emitsD [OF k])
    with d1 Ok show ?thesis
      by (intro exI [of _ "d1 @ d2"]) (auto split: outcome.splits)
  next
    case (Err e)
    with run m1 d1 show ?thesis by (auto simp: bindP_def)
  next
    case OutOfFuel
    with run m1 d1 show ?thesis by (auto simp: bindP_def)
  qed
qed

text \<open>The same rule with the conclusion as a goal.\<close>

lemma emits_bindI:
  assumes "emits m Q0 I0" "\<And>a. emits (k a) (R a) (J a)"
    and "\<And>a b d1 d2. Q0 a d1 \<Longrightarrow> R a b d2 \<Longrightarrow> Q b (d1 @ d2)"
    and "\<And>d. I0 d \<Longrightarrow> I d" "\<And>a d1 d2. Q0 a d1 \<Longrightarrow> J a d2 \<Longrightarrow> I (d1 @ d2)"
  shows "emits (bindP m k) Q I"
  by (rule emits_conseq [OF emits_bind [OF assms(1,2)]]) (use assms(3-5) in auto)

text \<open>The rule for reading a program forwards, with what was emitted so far at hand.\<close>

lemma emits_seq:
  assumes m: "emits m Q0 I0"
    and k: "\<And>a d1. Q0 a d1 \<Longrightarrow> emits (k a) (\<lambda>b d2. Q b (d1 @ d2)) (\<lambda>d2. I (d1 @ d2))"
    and I: "\<And>d. I0 d \<Longrightarrow> I d"
  shows "emits (bindP m k) Q I"
  unfolding emits_def
proof (intro allI impI)
  fix s r u
  assume run: "bindP m k s = (r, u)"
  obtain r1 t where m1: "m s = (r1, t)" by (cases "m s") auto
  obtain d1 where d1: "rt_trace t = rt_trace s @ d1"
    "case r1 of Ok a \<Rightarrow> Q0 a d1 | Err e \<Rightarrow> I0 d1 | OutOfFuel \<Rightarrow> I0 d1" using emitsD [OF m m1] .
  show "\<exists>d. rt_trace u = rt_trace s @ d \<and> (case r of Ok b \<Rightarrow> Q b d | Err e \<Rightarrow> I d | OutOfFuel \<Rightarrow> I d)"
  proof (cases "\<exists>a. r1 = Ok a")
    case True
    then obtain a where a: "r1 = Ok a" by blast
    with run m1 have kt: "k a t = (r, u)" by (simp add: bindP_def)
    from a d1 have "Q0 a d1" by simp
    from emitsD [OF k [OF this] kt] obtain d2 where "rt_trace u = rt_trace t @ d2"
      "case r of Ok b \<Rightarrow> Q b (d1 @ d2) | Err e \<Rightarrow> I (d1 @ d2) | OutOfFuel \<Rightarrow> I (d1 @ d2)"
      .
    with d1 show ?thesis by (intro exI [of _ "d1 @ d2"]) simp
  next
    case False
    with run m1 d1 I show ?thesis by (auto simp: bindP_def split: outcome.splits)
  qed
qed

lemma emits_conj:
  assumes "emits m Q I" "emits m Q' I'"
  shows "emits m (\<lambda>a d. Q a d \<and> Q' a d) (\<lambda>d. I d \<and> I' d)"
  unfolding emits_def
proof (intro allI impI)
  fix s r t
  assume run: "m s = (r, t)"
  obtain d where d: "rt_trace t = rt_trace s @ d" "case r of Ok a \<Rightarrow> Q a d | Err e \<Rightarrow> I d | OutOfFuel \<Rightarrow> I d"
    using emitsD [OF assms(1) run] .
  obtain d' where d': "rt_trace t = rt_trace s @ d'" "case r of Ok a \<Rightarrow> Q' a d' | Err e \<Rightarrow> I' d' | OutOfFuel \<Rightarrow> I' d'"
    using emitsD [OF assms(2) run] .
  from d(1) d'(1) have "d' = d" by simp
  with d d' show "\<exists>d. rt_trace t = rt_trace s @ d \<and>
      (case r of Ok a \<Rightarrow> Q a d \<and> Q' a d | Err e \<Rightarrow> I d \<and> I' d | OutOfFuel \<Rightarrow> I d \<and> I' d)"
    by (intro exI [of _ d]) (auto split: outcome.splits)
qed

text \<open>A first step that says nothing about the trace but which value it returned.\<close>

lemma emits_bind_pure:
  assumes "\<And>a. r = Inr a \<Longrightarrow> emits (k a) Q I" "I []"
  shows "emits (bindP (liftR r) k) Q I"
  using assms by (cases r) (simp_all add: emits_def bindP_def)

lemma emits_try:
  assumes "emits m Q I"
  shows "emits (tryP m) (\<lambda>r d. case r of Inr a \<Rightarrow> Q a d | Inl e \<Rightarrow> I d) I"
  unfolding emits_def
proof (intro allI impI)
  fix s r t
  assume run: "tryP m s = (r, t)"
  obtain r1 t1 where m1: "m s = (r1, t1)" by (cases "m s") auto
  obtain d where "rt_trace t1 = rt_trace s @ d"
    "case r1 of Ok a \<Rightarrow> Q a d | Err e \<Rightarrow> I d | OutOfFuel \<Rightarrow> I d" using emitsD [OF assms m1] .
  with run m1 show "\<exists>d. rt_trace t = rt_trace s @ d \<and>
      (case r of Ok a \<Rightarrow> (case a of Inl e \<Rightarrow> I d | Inr a \<Rightarrow> Q a d) | Err e \<Rightarrow> I d | OutOfFuel \<Rightarrow> I d)"
    by (intro exI [of _ d]) (cases r1; auto simp: tryP_def)
qed

text \<open>
  A loop: \<open>P b d\<close> relates the loop variables and everything emitted since the loop began.
\<close>

lemma emits_loop:
  assumes body: "\<And>b. emits (body b)
      (\<lambda>r d. \<forall>acc. P b acc \<longrightarrow> (case r of Inl b' \<Rightarrow> P b' (acc @ d) | Inr a \<Rightarrow> Q a (acc @ d)))
      (\<lambda>d. \<forall>acc. P b acc \<longrightarrow> I (acc @ d))"
    and cut: "\<And>b d. P b d \<Longrightarrow> I d" and init: "P b0 []"
  shows "emits (loopP n body b0) Q I"
proof -
  have "\<forall>acc. P b acc \<longrightarrow> loopP n body b s = (r, t) \<longrightarrow> (\<exists>d. rt_trace t = rt_trace s @ d \<and>
      (case r of Ok a \<Rightarrow> Q a (acc @ d) | Err e \<Rightarrow> I (acc @ d) | OutOfFuel \<Rightarrow> I (acc @ d)))" for b s r t
  proof (induction n arbitrary: b s)
    case 0
    show ?case using cut by auto
  next
    case (Suc n)
    obtain r1 u where b1: "body b s = (r1, u)" by (cases "body b s") auto
    obtain d1 where d1: "rt_trace u = rt_trace s @ d1"
      "case r1 of Ok x \<Rightarrow> \<forall>acc. P b acc \<longrightarrow> (case x of Inl b' \<Rightarrow> P b' (acc @ d1) | Inr a \<Rightarrow> Q a (acc @ d1))
       | _ \<Rightarrow> \<forall>acc. P b acc \<longrightarrow> I (acc @ d1)"
      by (rule emitsD [OF body b1]) (auto split: outcome.splits)
    show ?case
    proof (intro allI impI)
      fix acc
      assume acc: "P b acc" and run: "loopP (Suc n) body b s = (r, t)"
      show "\<exists>d. rt_trace t = rt_trace s @ d \<and>
        (case r of Ok a \<Rightarrow> Q a (acc @ d) | Err e \<Rightarrow> I (acc @ d) | OutOfFuel \<Rightarrow> I (acc @ d))"
      proof (cases "\<exists>b'. r1 = Ok (Inl b')")
        case True
        then obtain b' where b': "r1 = Ok (Inl b')" by blast
        with d1 acc have "P b' (acc @ d1)" by simp
        moreover from run b1 b' have "loopP n body b' u = (r, t)" by (simp add: bindP_def)
        ultimately obtain d2 where "rt_trace t = rt_trace u @ d2"
          "case r of Ok a \<Rightarrow> Q a ((acc @ d1) @ d2) | _ \<Rightarrow> I ((acc @ d1) @ d2)"
          using Suc.IH [of b' u] by blast
        with d1 show ?thesis by (intro exI [of _ "d1 @ d2"]) (auto split: outcome.splits)
      next
        case False
        with run b1 d1 acc show ?thesis
          by (intro exI [of _ d1]) (auto simp: bindP_def split: outcome.splits sum.splits)
      qed
    qed
  qed
  from this [of b0] init show ?thesis unfolding emits_def by (metis append_Nil)
qed

text \<open>A \<open>for\<close> loop whose iterations each add a segment.\<close>

lemma emits_for:
  assumes "\<And>x. x \<in> set xs \<Longrightarrow> emits (body x) (\<lambda>_. Q x) (I x)"
  shows "emits (forP xs body)
     (\<lambda>_ d. \<exists>ds. d = concat ds \<and> list_all2 Q xs ds)
     (\<lambda>d. \<exists>ys x zs ds d'. xs = ys @ x # zs \<and> d = concat ds @ d' \<and> list_all2 Q ys ds \<and> I x d')"
  using assms
proof (induction xs)
  case Nil
  show ?case by (simp add: emits_def)
next
  case (Cons x xs)
  let ?I = "\<lambda>xs d. \<exists>ys x zs ds d'. xs = ys @ x # zs \<and> d = concat ds @ d' \<and> list_all2 Q ys ds \<and> I x d'"
  have hd: "emits (body x) (\<lambda>_. Q x) (I x)" and
    tl: "emits (forP xs body) (\<lambda>_ d. \<exists>ds. d = concat ds \<and> list_all2 Q xs ds) (?I xs)"
    using Cons by simp_all
  show ?case unfolding forP.simps
  proof (rule emits_bindI [OF hd tl])
    show "\<exists>ds. d1 @ d2 = concat ds \<and> list_all2 Q (x # xs) ds"
      if "Q x d1" "\<exists>ds. d2 = concat ds \<and> list_all2 Q xs ds" for d1 d2
    proof -
      from that(2) obtain ds where "d2 = concat ds" "list_all2 Q xs ds" by blast
      with that(1) show ?thesis by (intro exI [of _ "d1 # ds"]) simp
    qed
    show "?I (x # xs) d" if "I x d" for d
      by (rule exI [of _ "[]"], rule exI [of _ x], rule exI [of _ xs], rule exI [of _ "[]"]) (use that in simp)
    show "?I (x # xs) (d1 @ d2)" if Q: "Q x d1" and I: "?I xs d2" for d1 d2
    proof -
      from I obtain ys y zs ds d' where *: "xs = ys @ y # zs" "d2 = concat ds @ d'" "list_all2 Q ys ds" "I y d'"
        by blast
      then show ?thesis
        by (intro exI [of _ "x # ys"] exI [of _ y] exI [of _ zs] exI [of _ "d1 # ds"] exI [of _ d']) (use Q in simp)
    qed
  qed
qed

section \<open>Programs that only do harmless things\<close>

definition only :: "('ev \<Rightarrow> bool) \<Rightarrow> (('w, 'ev) rt, 'e, 'a) prog \<Rightarrow> bool" where
  "only X m \<longleftrightarrow> emits m (\<lambda>_. list_all X) (list_all X)"

named_theorems only_rules "closure of only under the control structures"

lemma only_ret [only_rules]: "only X (retP a)"
  by (simp add: only_def emits_ret)

lemma only_fail [only_rules]: "only X (failP e)"
  by (simp add: only_def emits_fail)

lemma only_liftR [only_rules]: "only X (liftR r)"
  by (simp add: only_def emits_liftR)

lemma only_Pair [only_rules]: "only X (Pair (Ok a))" "only X (Pair (Err e))"
  by (simp_all add: only_def emits_def)

lemma only_bind [only_rules]: "only X m \<Longrightarrow> (\<And>a. only X (k a)) \<Longrightarrow> only X (bindP m k)"
  unfolding only_def
  by (rule emits_bindI [where R = "\<lambda>_ _. list_all X" and J = "\<lambda>_. list_all X"]) simp_all

lemma only_bind_pure: "(\<And>a. r = Inr a \<Longrightarrow> only X (k a)) \<Longrightarrow> only X (bindP (liftR r) k)"
  unfolding only_def by (rule emits_bind_pure) simp_all

lemma only_try [only_rules]: "only X m \<Longrightarrow> only X (tryP m)"
  unfolding only_def by (drule emits_try, erule emits_conseq) (simp_all split: sum.splits)

lemma only_logged [only_rules]: "(\<And>r. X (ev r)) \<Longrightarrow> only X (logged f ev ctx)"
  unfolding only_def by (rule emits_logged) auto

lemma only_embedded [only_rules]: "X ev \<Longrightarrow> only X (embedded m ev ctx)"
  unfolding only_def by (rule emits_embedded) auto

lemma only_tick [only_rules]: "X ev \<Longrightarrow> only X (tick f ev)"
  unfolding only_def by (rule emits_tick) simp

lemma only_loop [only_rules]: "(\<And>b. only X (body b)) \<Longrightarrow> only X (loopP n body b)"
  unfolding only_def
  by (rule emits_loop [where P = "\<lambda>_. list_all X"])
    (auto intro: emits_conseq split: sum.splits)

lemma only_for [only_rules]: "(\<And>x. only X (body x)) \<Longrightarrow> only X (forP xs body)"
  by (induction xs) (auto intro: only_rules)

lemma only_collect_pages [only_rules]:
  "(\<And>tok. only X (fetch tok)) \<Longrightarrow> only X (collect_pages fuel fetch start)"
  unfolding collect_pages_def
  by (auto intro!: only_rules split: prod.splits option.splits)

lemma only_mono: "only X m \<Longrightarrow> (\<And>e. X e \<Longrightarrow> Y e) \<Longrightarrow> only Y m"
  unfolding only_def by (erule emits_conseq) (auto simp: list_all_iff)

lemma only_emits: "only X m \<Longrightarrow> emits m (\<lambda>_. list_all X) (list_all X)"
  by (simp add: only_def)

section \<open>Listings in a trace\<close>

text \<open>
  \<open>paged P tok xs d\<close>: the trace \<open>d\<close> is a complete listing with the entries \<open>xs\<close>, starting
  from the token \<open>tok\<close>, where \<open>P tok xs next d\<close> describes the requests for one page.
\<close>

inductive paged ::
  "('tok \<Rightarrow> 'a list \<Rightarrow> 'tok option \<Rightarrow> 'ev list \<Rightarrow> bool) \<Rightarrow> 'tok \<Rightarrow> 'a list \<Rightarrow> 'ev list \<Rightarrow> bool"
  for P where
  last_page: "P tok xs None d \<Longrightarrow> paged P tok xs d"
| more_pages: "P tok xs (Some tok') d \<Longrightarrow> paged P tok' ys e \<Longrightarrow> paged P tok (xs @ ys) (d @ e)"

lemma emits_collect_pages:
  assumes page: "\<And>tok. emits (page tok) (\<lambda>(xs, next) d. \<exists>ys. xs = h ys \<and> P tok ys next d) (list_all X)"
    and X: "\<And>tok xs next d. P tok xs next d \<Longrightarrow> list_all X d"
    and h: "h [] = []" "\<And>xs ys. h (xs @ ys) = h xs @ h ys"
  shows "emits (collect_pages fuel page start)
     (\<lambda>xs d. list_all X d \<and> (\<exists>ys. xs = h ys \<and> paged P start ys d)) (list_all X)"
  unfolding collect_pages_def
proof (rule emits_loop [where P = "\<lambda>b d. list_all X d \<and> (\<exists>ys. fst b = h ys \<and>
    (\<forall>e zs. paged P (snd b) zs e \<longrightarrow> paged P start (ys @ zs) (d @ e)))"], goal_cases)
  case (1 b)
  obtain acc tok where b: "b = (acc, tok)" by (cases b)
  show ?case unfolding b prod.case fst_conv snd_conv
  proof (rule emits_bindI [OF page, where R = "\<lambda>(xs, next) r d. d = [] \<and>
        r = (case next of Some tok' \<Rightarrow> Inl (acc @ xs, tok') | None \<Rightarrow> Inr (acc @ xs))"
        and J = "\<lambda>_ _. False"], goal_cases)
    case (1 a)
    show ?case by (cases a; cases "snd a") (auto intro: emits_ret)
  next
    case (2 a r d1 d2)
    obtain xs nxt where a: "a = (xs, nxt)" by (cases a)
    from 2 a obtain ys where a_run: "xs = h ys" "P tok ys nxt d1" "d2 = []"
      "r = (case nxt of Some tok' \<Rightarrow> Inl (acc @ xs, tok') | None \<Rightarrow> Inr (acc @ xs))" by auto
    show ?case
    proof (intro allI impI, elim conjE exE)
      fix pre ys0
      assume pre: "list_all X pre" "acc = h ys0"
        "\<forall>e zs. paged P tok zs e \<longrightarrow> paged P start (ys0 @ zs) (pre @ e)"
      show "case r of
            Inl b' \<Rightarrow> list_all X (pre @ d1 @ d2) \<and> (\<exists>ys. fst b' = h ys \<and>
              (\<forall>e zs. paged P (snd b') zs e \<longrightarrow> paged P start (ys @ zs) ((pre @ d1 @ d2) @ e)))
          | Inr xs \<Rightarrow> list_all X (pre @ d1 @ d2) \<and> (\<exists>ys. xs = h ys \<and> paged P start ys (pre @ d1 @ d2))"
      proof (cases nxt)
        case None
        with pre a_run X show ?thesis
          by (auto simp: h intro!: exI [of _ "ys0 @ ys"] intro: last_page)
      next
        case (Some tok')
        have "paged P start (ys0 @ ys @ zs) (pre @ d1 @ e)" if "paged P tok' zs e" for zs e
          using pre(3) more_pages [of P tok ys tok' d1 zs e] a_run(2) Some that by blast
        with Some pre a_run X show ?thesis
          by (auto simp: h intro!: exI [of _ "ys0 @ ys"])
      qed
    qed
  qed auto
qed (auto intro: exI [of _ "[]"] simp: h)

section \<open>Listings that follow a snapshot\<close>

text \<open>
  A server that answers every token with the next \<open>limit\<close> entries of one fixed list
  \<open>items\<close>, and with no token once the end is reached.
\<close>

definition serves ::
  "('tok \<Rightarrow> ('s, 'e, 'a list \<times> 'tok option) prog) \<Rightarrow> ('s \<Rightarrow> bool) \<Rightarrow> ('tok \<Rightarrow> nat \<Rightarrow> bool) \<Rightarrow> nat
     \<Rightarrow> 'a list \<Rightarrow> bool" where
  "serves page up at limit items \<longleftrightarrow> 0 < limit \<and>
     (\<forall>tok k s. up s \<longrightarrow> at tok k \<longrightarrow> k \<le> length items \<longrightarrow>
       (\<exists>next t. page tok s = (Ok (take limit (drop k items), next), t) \<and> up t \<and>
         (case next of None \<Rightarrow> length items \<le> k + limit
          | Some tok' \<Rightarrow> at tok' (k + limit) \<and> k + limit < length items)))"

lemma collect_pages_filter_from:
  assumes srv: "serves page up at limit items"
  shows "up s \<Longrightarrow> at tok k \<Longrightarrow> k \<le> length items \<Longrightarrow> length items - k < fuel \<Longrightarrow>
    \<exists>t. up t \<and> loopP fuel (\<lambda>(acc, tok).
       bindP (bindP (page tok) (\<lambda>(xs, next). retP (filter P xs, next))) (\<lambda>(xs, next).
       case next of Some tok' \<Rightarrow> retP (Inl (acc @ xs, tok')) | None \<Rightarrow> retP (Inr (acc @ xs))))
       (filter P (take k items), tok) s = (Ok (filter P items), t)"
proof (induction fuel arbitrary: tok k s)
  case (Suc fuel)
  from srv Suc.prems obtain nxt t where
    pg: "page tok s = (Ok (take limit (drop k items), nxt), t)" and "up t" and
    nxt: "case nxt of None \<Rightarrow> length items \<le> k + limit
          | Some tok' \<Rightarrow> at tok' (k + limit) \<and> k + limit < length items" and "0 < limit"
    unfolding serves_def by blast
  have grow: "filter P (take k items) @ filter P (take limit (drop k items)) = filter P (take (k + limit) items)"
    by (simp add: take_add)
  show ?case
  proof (cases nxt)
    case None
    with pg nxt grow \<open>up t\<close> show ?thesis by (simp add: bindP_def)
  next
    case (Some tok')
    with nxt Suc.prems \<open>0 < limit\<close>
    have "at tok' (k + limit)" "k + limit \<le> length items" "length items - (k + limit) < fuel" by auto
    from Suc.IH [OF \<open>up t\<close> this] pg Some grow show ?thesis by (simp add: bindP_def)
  qed
qed simp

lemma collect_pages_filter:
  assumes "serves page up at limit items" "at start 0" "up s" "length items < fuel"
  shows "\<exists>t. up t \<and> collect_pages fuel (\<lambda>tok. bindP (page tok) (\<lambda>(xs, next). retP (filter P xs, next))) start s =
    (Ok (filter P items), t)"
  using collect_pages_filter_from [OF assms(1,3,2), of fuel P] assms(4)
  by (simp add: collect_pages_def)

lemma bindP_pair_id: "bindP m (\<lambda>(xs, next). retP (filter (\<lambda>_. True) xs, next)) = m"
  by (rule ext) (simp add: bindP_def split: prod.splits outcome.splits)

lemma collect_pages_all:
  assumes "serves page up at limit items" "at start 0" "up s" "length items < fuel"
  shows "\<exists>t. up t \<and> collect_pages fuel page start s = (Ok items, t)"
  using collect_pages_filter [OF assms, of "\<lambda>_. True"] unfolding bindP_pair_id by simp

lemma fuel_le_collect_pages [fuel_mono]:
  "n \<le> n' \<Longrightarrow> fuel_le (collect_pages n page start) (collect_pages n' page start)"
  unfolding collect_pages_def by (rule fuel_le_loop [OF fuel_le_refl])

text \<open>A function that pages through a listing returns everything in it.\<close>

locale paged_listing =
  fixes list_fn :: "nat \<Rightarrow> ('s, 'e, 'a list) prog"
    and page :: "'tok \<Rightarrow> ('s, 'e, 'a list \<times> 'tok option) prog"
    and start :: 'tok
  assumes list_fn_pages: "list_fn fuel = collect_pages fuel page start"
begin

lemma lists_everything:
  assumes "serves page up at limit items" "at start 0" "up s" "length items < fuel"
  shows "\<exists>t. up t \<and> list_fn fuel s = (Ok items, t)"
  unfolding list_fn_pages by (rule collect_pages_all [OF assms])

lemma list_fn_fuel_mono: "n \<le> n' \<Longrightarrow> fuel_le (list_fn n) (list_fn n')"
  unfolding list_fn_pages by (rule fuel_mono)

end

end
