(* ===== verification/Proxy.thy ===== *)
theory Proxy
  imports Traced
begin

text \<open>
  The connections to services inside the cluster (\<open>k8s/proxy\<close>): the kubeconfig file that is used
  (\<open>lib.rs\<close>) and the builder of connections to the REST API, to etcd and to Loki
  (\<open>proxy.rs\<close>).  The forwarding itself, the Kubernetes client and the parsers of addresses are
  libraries: the record \<open>proxy_api\<close>.
\<close>

section \<open>Data\<close>

type_synonym duration = nat

text \<open>Durations are counted in nanoseconds.\<close>

definition from_secs :: "nat \<Rightarrow> duration" where "from_secs n = n * 1000000000"

text \<open>A target of the forwarding library, as the calls that make it.\<close>

datatype target_selector = ServiceLabel string | PodLabel string

datatype target = TargetNew target_selector u16 string | WithNamespace target string

datatype scheme = HTTP | HTTPS "string option"

datatype forwarding_proxy = ForwardHTTP | ForwardTCP

record config_builder =
  cb_kube_config :: "string option"
  cb_target :: target
  cb_timeout :: "duration option"
  cb_jwt :: "string option"
  cb_method :: forwarding_proxy
  cb_scheme :: scheme

text \<open>
  A configuration of the REST client: its settings, its address, and the Kubernetes client
  through which it connects, if it goes through the proxy of the API server.
\<close>

record rest_configuration =
  rc_timeout :: "duration option"
  rc_bearer_token :: "string option"
  rc_tracing :: bool
  rc_certificate :: "string option"
  rc_address :: string
  rc_proxy :: "string option"

text \<open>
  A service for HTTP requests to Loki: through the proxy of the API server, or through a local
  port with a connect timeout, a keep-alive timeout and interval; each with a timeout layer.
\<close>

datatype loki_service =
    LokiProxied string "duration option"
  | LokiDirect "duration option" duration duration "duration option"

text \<open>A build fails with a text, or panics.\<close>

datatype proxy_error = Anyhow string | Unimplemented

record 'w proxy_api =
  px_API_REST_LABEL :: string
  px_API_REST_HTTP_PORT :: u16
  px_ETCD_LABEL :: string
  px_ETCD_PORT :: u16
  px_LOKI_LABEL :: string
  px_LOKI_PORT :: u16
  px_DEFAULT_NAMESPACE :: string
  px_env_var :: "string \<Rightarrow> 'w \<Rightarrow> (string, string) res \<times> 'w"
  px_path_exists :: "string \<Rightarrow> 'w \<Rightarrow> bool \<times> 'w"
  px_read_kubeconfig :: "string \<Rightarrow> 'w \<Rightarrow> (string, string) res \<times> 'w"
  px_custom_config :: "string \<Rightarrow> 'w \<Rightarrow> (string, string) res \<times> 'w"
  px_kube_client :: "string \<Rightarrow> 'w \<Rightarrow> (string, string) res \<times> 'w"
  px_http_forward :: "target \<Rightarrow> string option \<Rightarrow> 'w \<Rightarrow> (string, string) res \<times> 'w"
  px_http_forward_uri :: "string \<Rightarrow> 'w \<Rightarrow> (string, string) res \<times> 'w"
  px_port_forward_new :: "target \<Rightarrow> 'w \<Rightarrow> (string, string) res \<times> 'w"
  px_port_forward :: "string \<Rightarrow> 'w \<Rightarrow> (string, u16) res \<times> 'w"
  px_url_parse :: "string \<Rightarrow> (string, string) res"
  px_uri_try_from :: "string \<Rightarrow> (string, string) res"
  px_build_configuration :: "rest_configuration \<Rightarrow> (string, unit) res"

type_synonym ('w, 'a) proxied = "('w, proxy_error, 'a) prog"

section \<open>The kubeconfig file (lib.rs)\<close>

definition path_exists :: "'w proxy_api \<Rightarrow> string \<Rightarrow> ('w, bool) proxied" where
  "path_exists api path w = (case px_path_exists api path w of (b, w') \<Rightarrow> (Ok b, w'))"

text \<open>The path given, else the one in the environment, else the default one if it exists (Linux).\<close>

definition kubeconfig_path :: "'w proxy_api \<Rightarrow> string option \<Rightarrow> ('w, string) proxied" where
  "kubeconfig_path api kube_config_path =
     (case kube_config_path of
        Some config_path \<Rightarrow> retP config_path
      | None \<Rightarrow>
          bindP (bindP (tryP (callP (px_env_var api ''KUBECONFIG'') id)) (\<lambda>r. case r of
              Inr value \<Rightarrow> retP (Some value)
            | Inl _ \<Rightarrow>
                bindP (callP (px_env_var api ''HOME'') Anyhow) (\<lambda>home.
                let default_path = home @ ''/.kube/config'' in
                bindP (path_exists api default_path) (\<lambda>there.
                retP (if there then Some default_path else None))))) (\<lambda>file_path.
          case file_path of
            None \<Rightarrow> failP (Anyhow ''kubeconfig file not found in default location'')
          | Some path \<Rightarrow> retP path))"

definition config_from_kubeconfig :: "'w proxy_api \<Rightarrow> string option \<Rightarrow> ('w, string) proxied" where
  "config_from_kubeconfig api kube_config_path =
     bindP (kubeconfig_path api kube_config_path) (\<lambda>path.
     bindP (callP (px_read_kubeconfig api path) Anyhow) (\<lambda>kube_config.
     callP (px_custom_config api kube_config) Anyhow))"

section \<open>Building a connection (proxy.rs)\<close>

definition scheme_parts :: "scheme \<Rightarrow> string \<times> string option" where
  "scheme_parts sch = (case sch of HTTP \<Rightarrow> (''http'', None) | HTTPS certificate \<Rightarrow> (''https'', certificate))"

text \<open>The scheme of an address in the HTTP library has no certificate.\<close>

definition hyper_scheme :: "scheme \<Rightarrow> string" where
  "hyper_scheme sch = (case sch of HTTP \<Rightarrow> ''http'' | HTTPS _ \<Rightarrow> ''https'')"

definition default_api_rest :: "'w proxy_api \<Rightarrow> config_builder" where
  "default_api_rest api =
     \<lparr>cb_kube_config = None,
      cb_target = TargetNew (ServiceLabel (px_API_REST_LABEL api)) (px_API_REST_HTTP_PORT api) (px_DEFAULT_NAMESPACE api),
      cb_timeout = Some (from_secs 5), cb_jwt = None, cb_method = ForwardHTTP, cb_scheme = HTTP\<rparr>"

definition default_etcd :: "'w proxy_api \<Rightarrow> config_builder" where
  "default_etcd api =
     \<lparr>cb_kube_config = None,
      cb_target = TargetNew (PodLabel (px_ETCD_LABEL api)) (px_ETCD_PORT api) (px_DEFAULT_NAMESPACE api),
      cb_timeout = Some (from_secs 5), cb_jwt = None, cb_method = ForwardTCP, cb_scheme = HTTP\<rparr>"

definition default_loki :: "'w proxy_api \<Rightarrow> config_builder" where
  "default_loki api =
     \<lparr>cb_kube_config = None,
      cb_target = TargetNew (ServiceLabel (px_LOKI_LABEL api)) (px_LOKI_PORT api) (px_DEFAULT_NAMESPACE api),
      cb_timeout = Some (from_secs 5), cb_jwt = None, cb_method = ForwardHTTP, cb_scheme = HTTP\<rparr>"

definition with_kube_config :: "string option \<Rightarrow> config_builder \<Rightarrow> config_builder" where
  "with_kube_config kube_config_path b = b\<lparr>cb_kube_config := kube_config_path\<rparr>"

definition with_target :: "target \<Rightarrow> config_builder \<Rightarrow> config_builder" where
  "with_target tgt b = b\<lparr>cb_target := tgt\<rparr>"

definition with_target_mod :: "(target \<Rightarrow> target) \<Rightarrow> config_builder \<Rightarrow> config_builder" where
  "with_target_mod modify b = b\<lparr>cb_target := modify (cb_target b)\<rparr>"

definition with_timeout :: "duration option \<Rightarrow> config_builder \<Rightarrow> config_builder" where
  "with_timeout timeout b = b\<lparr>cb_timeout := timeout\<rparr>"

definition with_forwarding :: "forwarding_proxy \<Rightarrow> config_builder \<Rightarrow> config_builder" where
  "with_forwarding meth b = b\<lparr>cb_method := meth\<rparr>"

definition with_scheme :: "scheme \<Rightarrow> config_builder \<Rightarrow> config_builder" where
  "with_scheme sch b = b\<lparr>cb_scheme := sch\<rparr>"

lemmas builder_defs = default_api_rest_def default_etcd_def default_loki_def with_kube_config_def with_target_def
  with_target_mod_def with_timeout_def with_forwarding_def with_scheme_def

text \<open>The address of the forwarded service and the client of the API server's proxy.\<close>

definition http_forward :: "'w proxy_api \<Rightarrow> config_builder \<Rightarrow> ('w, string \<times> string) proxied" where
  "http_forward api b =
     bindP (callP (px_http_forward api (cb_target b) (Some (hyper_scheme (cb_scheme b)))) Anyhow) (\<lambda>forward.
     bindP (callP (px_http_forward_uri api forward) Anyhow) (\<lambda>uri.
     bindP (config_from_kubeconfig api (cb_kube_config b)) (\<lambda>config.
     bindP (callP (px_kube_client api config) Anyhow) (\<lambda>client.
     retP (uri, client)))))"

text \<open>The text of the local address of a forwarded port.\<close>

definition tcp_forward :: "'w proxy_api \<Rightarrow> config_builder \<Rightarrow> ('w, string) proxied" where
  "tcp_forward api b =
     bindP (callP (px_port_forward_new api (cb_target b)) Anyhow) (\<lambda>pf.
     bindP (callP (px_port_forward api pf) Anyhow) (\<lambda>port.
     retP (fst (scheme_parts (cb_scheme b)) @ ''://localhost:'' @ nat_to_string (unat port))))"

definition build_configuration :: "'w proxy_api \<Rightarrow> rest_configuration \<Rightarrow> ('w, rest_configuration) proxied" where
  "build_configuration api config =
     (case px_build_configuration api config of
        Inl e \<Rightarrow> failP (Anyhow (''Failed to Create OpenApi config: '' @ e))
      | Inr _ \<Rightarrow> retP config)"

definition api_rest_build_http :: "'w proxy_api \<Rightarrow> config_builder \<Rightarrow> ('w, rest_configuration) proxied" where
  "api_rest_build_http api b =
     bindP (http_forward api b) (\<lambda>(uri, client).
     build_configuration api
       \<lparr>rc_timeout = cb_timeout b, rc_bearer_token = cb_jwt b, rc_tracing = True, rc_certificate = None,
        rc_address = uri, rc_proxy = Some client\<rparr>)"

definition api_rest_build_tcp :: "'w proxy_api \<Rightarrow> config_builder \<Rightarrow> ('w, rest_configuration) proxied" where
  "api_rest_build_tcp api b =
     bindP (tcp_forward api b) (\<lambda>addr.
     bindP (liftR (map_err Anyhow (px_url_parse api addr))) (\<lambda>url.
     build_configuration api
       \<lparr>rc_timeout = Some (case cb_timeout b of Some t \<Rightarrow> t | None \<Rightarrow> from_secs 5), rc_bearer_token = cb_jwt b,
        rc_tracing = True, rc_certificate = snd (scheme_parts (cb_scheme b)), rc_address = url, rc_proxy = None\<rparr>))"

definition api_rest_build :: "'w proxy_api \<Rightarrow> config_builder \<Rightarrow> ('w, rest_configuration) proxied" where
  "api_rest_build api b =
     (case cb_method b of ForwardHTTP \<Rightarrow> api_rest_build_http api b | ForwardTCP \<Rightarrow> api_rest_build_tcp api b)"

definition etcd_build :: "'w proxy_api \<Rightarrow> config_builder \<Rightarrow> ('w, string) proxied" where
  "etcd_build api b =
     bindP (tcp_forward api b) (\<lambda>addr. liftR (map_err Anyhow (px_uri_try_from api addr)))"

definition loki_build_http :: "'w proxy_api \<Rightarrow> config_builder \<Rightarrow> ('w, string \<times> loki_service) proxied" where
  "loki_build_http api b =
     bindP (http_forward api b) (\<lambda>(uri, client). retP (uri, LokiProxied client (cb_timeout b)))"

definition loki_build_tcp :: "'w proxy_api \<Rightarrow> config_builder \<Rightarrow> ('w, string \<times> loki_service) proxied" where
  "loki_build_tcp api b =
     bindP (tcp_forward api b) (\<lambda>addr.
     let keep_alive_timeout = (case cb_timeout b of Some t \<Rightarrow> t | None \<Rightarrow> from_secs 5) in
     bindP (liftR (map_err Anyhow (px_uri_try_from api addr))) (\<lambda>uri.
     case cb_scheme b of
       HTTP \<Rightarrow> retP (uri, LokiDirect (cb_timeout b) keep_alive_timeout (keep_alive_timeout div 2) (cb_timeout b))
     | HTTPS _ \<Rightarrow> failP Unimplemented))"

definition loki_build :: "'w proxy_api \<Rightarrow> config_builder \<Rightarrow> ('w, string \<times> loki_service) proxied" where
  "loki_build api b =
     (case cb_method b of ForwardHTTP \<Rightarrow> loki_build_http api b | ForwardTCP \<Rightarrow> loki_build_tcp api b)"


section \<open>What the kubeconfig file is used for\<close>

lemma tcp_forward_kube_config: "tcp_forward px (with_kube_config k b) = tcp_forward px b"
  by (simp add: tcp_forward_def with_kube_config_def)

lemma http_forward_uri:
  assumes "http_forward px b w = (Ok (uri, client), w')"
  shows "\<exists>f w1 w2. px_http_forward px (cb_target b) (Some (hyper_scheme (cb_scheme b))) w = (Inr f, w1) \<and>
    px_http_forward_uri px f w1 = (Inr uri, w2)"
  using assms unfolding http_forward_def by (auto simp: prog_Ok_iff)

text \<open>
  Property C36.  The kubeconfig file that the user names decides neither to which cluster a port is
  forwarded, nor at which address a service is reached through the API server: connections through a
  forwarded port, in particular the one to etcd, do not depend on it at all, and of the others only the
  client does, while the address is looked up without it.
\<close>

theorem forwarding_ignores_kube_config:
  "etcd_build px (with_kube_config k b) = etcd_build px b \<and>
   api_rest_build px (with_forwarding ForwardTCP (with_kube_config k b)) = api_rest_build px (with_forwarding ForwardTCP b) \<and>
   loki_build px (with_forwarding ForwardTCP (with_kube_config k b)) = loki_build px (with_forwarding ForwardTCP b) \<and>
   (http_forward px (with_kube_config k b) w = (Ok (uri, client), w1) \<longrightarrow>
    http_forward px (with_kube_config k' b) w = (Ok (uri', client'), w2) \<longrightarrow> uri = uri')"
proof (intro conjI impI)
  show "etcd_build px (with_kube_config k b) = etcd_build px b"
    by (simp add: etcd_build_def tcp_forward_kube_config)
  show "api_rest_build px (with_forwarding ForwardTCP (with_kube_config k b)) = api_rest_build px (with_forwarding ForwardTCP b)"
    by (simp add: api_rest_build_def api_rest_build_tcp_def tcp_forward_def with_forwarding_def with_kube_config_def)
  show "loki_build px (with_forwarding ForwardTCP (with_kube_config k b)) = loki_build px (with_forwarding ForwardTCP b)"
    by (simp add: loki_build_def loki_build_tcp_def tcp_forward_def with_forwarding_def with_kube_config_def cong: scheme.case_cong)
  show "uri = uri'" if "http_forward px (with_kube_config k b) w = (Ok (uri, client), w1)"
    "http_forward px (with_kube_config k' b) w = (Ok (uri', client'), w2)"
    using that by (auto dest!: http_forward_uri simp: with_kube_config_def)
qed

end
