(* ===== verification/PluginUpgrade.thy ===== *)
theory PluginUpgrade
  imports PluginObjects Proxy "HOL-Library.Product_Lexorder"
begin

text \<open>
  The upgrade commands of the kubectl plugin: \<open>k8s/upgrade/src/plugin/upgrade.rs\<close> (creating and
  deleting the resources of an upgrade, waiting for its first event, showing its status, the dry
  run) and \<open>plugin/preflight_validations.rs\<close> (the checks before an upgrade).

  Kubernetes, the storage REST API, the file system and the console are the record \<open>plugin_api\<close>
  over an arbitrary world; semantic versions and the decoding of YAML and JSON are the record
  \<open>plugin_lib\<close>.  Every interaction, also what is printed, is recorded in the trace.
\<close>

section \<open>Surroundings\<close>

datatype res_kind = KServiceAccount | KClusterRole | KClusterRoleBinding | KConfigMap | KJob

record deployment_container =
  dc_image :: "string option"
  dc_image_pull_policy :: "string option"

record pod_template_spec =
  pt_containers :: "deployment_container list"
  pt_image_pull_secrets :: "string list option"

text \<open>A deployment: its labels, and its spec with the spec of the pod template.\<close>

record deployment =
  dep_labels :: "(string \<rightharpoonup> string) option"
  dep_spec :: "pod_template_spec option option"

record plugin_event =
  pe_reason :: "string option"
  pe_event_time :: "int option"
  pe_action :: "string option"
  pe_message :: "string option"

record upgrade_event =
  ue_from_version :: string
  ue_to_version :: string
  ue_message :: string

datatype plugin_cordon = PCordoned | PDraining | PDrained

record plugin_node =
  pn_id :: string
  pn_spec :: "plugin_cordon option option"

record plugin_volume =
  pv_uuid :: string
  pv_num_replicas :: u8
  pv_target_children :: "nat option list option"

record 'w plugin_api =
  pl_client :: "'w \<Rightarrow> (string, unit) res \<times> 'w"
  pl_pods_list :: "string \<Rightarrow> string \<Rightarrow> 'w \<Rightarrow> (string, string option list) res \<times> 'w"
  pl_deployments_list :: "string \<Rightarrow> string \<Rightarrow> 'w \<Rightarrow> (string, deployment list) res \<times> 'w"
  pl_events_list :: "string \<Rightarrow> string \<Rightarrow> 'w \<Rightarrow> (string, plugin_event list) res \<times> 'w"
  pl_events_delete :: "string \<Rightarrow> string \<Rightarrow> 'w \<Rightarrow> (string, unit) res \<times> 'w"
  pl_get_opt :: "res_kind \<Rightarrow> string \<Rightarrow> string \<Rightarrow> 'w \<Rightarrow> (string, upgrade_object option) res \<times> 'w"
  pl_create :: "res_kind \<Rightarrow> string \<Rightarrow> upgrade_object \<Rightarrow> 'w \<Rightarrow> (string, upgrade_object) res \<times> 'w"
  pl_delete :: "res_kind \<Rightarrow> string \<Rightarrow> string \<Rightarrow> 'w \<Rightarrow> (string, unit) res \<times> 'w"
  pl_pvc_list :: "'w \<Rightarrow> (string, (string option \<times> string option) list) res \<times> 'w"
  pl_proxy :: "'w proxy_api"
  pl_get_nodes :: "'w \<Rightarrow> (string, plugin_node list) res \<times> 'w"
  pl_get_volumes :: "nat \<Rightarrow> int option \<Rightarrow> 'w \<Rightarrow> (string, plugin_volume list \<times> int option) res \<times> 'w"
  pl_read_to_string :: "string \<Rightarrow> 'w \<Rightarrow> (string, string) res \<times> 'w"
  pl_sleep :: "nat \<Rightarrow> 'w \<Rightarrow> 'w"

record 'v plugin_lib =
  pb_version_parse :: "string \<Rightarrow> (string, 'v) res"
  pb_version_pre_is_empty :: "'v \<Rightarrow> bool"
  pb_version_to_string :: "'v \<Rightarrow> string"
  pb_unsupported_versions :: "string \<Rightarrow> (string, 'v list) res"
  pb_upgrade_event_from_str :: "string \<Rightarrow> (string, upgrade_event) res"

datatype plugin_trace =
    PgClient "(string, unit) res"
  | PgPods string string "(string, string option list) res"
  | PgDeployments string string "(string, deployment list) res"
  | PgEvents string string "(string, plugin_event list) res"
  | PgEventsDelete string string "(string, unit) res"
  | PgGet res_kind string string "(string, upgrade_object option) res"
  | PgCreate res_kind string upgrade_object "(string, upgrade_object) res"
  | PgDelete res_kind string string "(string, unit) res"
  | PgPvc "(string, (string option \<times> string option) list) res"
  | PgRest string
  | PgNodes "(string, plugin_node list) res"
  | PgVolumes nat "int option" "(string, plugin_volume list \<times> int option) res"
  | PgReadFile string "(string, string) res"
  | PgPrint string
  | PgInfo string string
  | PgError string string
  | PgSleep nat

type_synonym ('w, 'a) plug = "(('w, plugin_trace) rt, plugin_error, 'a) prog"

definition pl_print :: "string \<Rightarrow> ('w, unit) plug" where "pl_print text = tick id (PgPrint text)"
definition pl_info :: "string \<Rightarrow> string \<Rightarrow> ('w, unit) plug" where "pl_info message data = tick id (PgInfo message data)"
definition pl_error :: "string \<Rightarrow> string \<Rightarrow> ('w, unit) plug" where "pl_error message data = tick id (PgError message data)"

section \<open>The deployment of the REST API\<close>

definition get_deployment_for_rest :: "'w plugin_api \<Rightarrow> string \<Rightarrow> ('w, deployment) plug" where
  "get_deployment_for_rest api ns =
     bindP (logged (pl_client api) PgClient K8sClient) (\<lambda>_.
     bindP (logged (pl_deployments_list api ns API_REST_LABEL_SELECTOR) (PgDeployments ns API_REST_LABEL_SELECTOR)
              (\<lambda>e. ListDeploymantsWithLabel e API_REST_LABEL_SELECTOR ns)) (\<lambda>deployment_list.
     liftR (ok_or NoDeploymentPresent (case deployment_list of [] \<Rightarrow> None | d # _ \<Rightarrow> Some d))))"

definition get_release_name :: "plugin_consts \<Rightarrow> 'w plugin_api \<Rightarrow> string \<Rightarrow> ('w, string) plug" where
  "get_release_name c api ns =
     bindP (get_deployment_for_rest api ns) (\<lambda>d.
     retP (case dep_labels d of
             Some label \<Rightarrow> unwrap_or (DEFAULT_RELEASE_NAME c) (label (helm_release_name_key c))
           | None \<Rightarrow> DEFAULT_RELEASE_NAME c))"

definition get_source_version :: "plugin_consts \<Rightarrow> 'w plugin_api \<Rightarrow> string \<Rightarrow> ('w, string) plug" where
  "get_source_version c api ns =
     bindP (get_deployment_for_rest api ns) (\<lambda>d.
     bindP (liftR (ok_or NoDeploymentPresent (dep_labels d))) (\<lambda>labels.
     liftR (ok_or NoDeploymentPresent (labels (helm_release_version_key c)))))"

record image_properties =
  ip_pull_secrets :: "string list option"
  ip_registry :: string
  ip_pull_policy :: "string option"

definition image_properties_try_from :: "deployment \<Rightarrow> (plugin_error, image_properties) res" where
  "image_properties_try_from d =
     res_bind (ok_or ReferenceDeploymentNoSpec (dep_spec d)) (\<lambda>spec.
     res_bind (ok_or ReferenceDeploymentNoPodTemplateSpec spec) (\<lambda>pod_spec.
     res_bind (ok_or ReferenceDeploymentNoContainers (case pt_containers pod_spec of [] \<Rightarrow> None | x # _ \<Rightarrow> Some x)) (\<lambda>container.
     res_bind (ok_or ReferenceDeploymentNoImage (dc_image container)) (\<lambda>image.
     let image_sections = split_char (CHR ''/'') image in
     if image_sections = [] \<or> length image_sections = 1 then Inl ReferenceDeploymentInvalidImage
     else Inr \<lparr>ip_pull_secrets = pt_image_pull_secrets pod_spec,
               ip_registry = (if length image_sections = 3 then hd image_sections else DEFAULT_IMAGE_REGISTRY),
               ip_pull_policy = dc_image_pull_policy container\<rparr>))))"

section \<open>Files for the configuration map\<close>

text \<open>
  \<open>create_config_map_data\<close>: the contents by number, and the number by file path.  The numbers
  count up from one; a path that is named twice keeps the last number.
\<close>

fun config_map_entries ::
  "'w plugin_api \<Rightarrow> nat \<Rightarrow> string list \<Rightarrow> (string \<rightharpoonup> string) \<Rightarrow> (string \<rightharpoonup> string)
     \<Rightarrow> ('w, (string \<rightharpoonup> string) \<times> (string \<rightharpoonup> string)) plug" where
  "config_map_entries api index [] data_map upgrade_map = retP (data_map, upgrade_map)"
| "config_map_entries api index (arg # args) data_map upgrade_map =
     (case split_char (CHR ''='') arg of
        [_, filepath] \<Rightarrow>
          bindP (logged (pl_read_to_string api filepath) (PgReadFile filepath) (\<lambda>e. ReadFromFile e filepath)) (\<lambda>cm_values.
          config_map_entries api (index + 1) args (data_map(nat_to_string index \<mapsto> cm_values))
            (upgrade_map(filepath \<mapsto> nat_to_string index)))
      | _ \<Rightarrow> failP (InvalidSetFileArguments arg))"

definition create_config_map_data ::
  "'w plugin_api \<Rightarrow> upgrade_args \<Rightarrow> ('w, (string \<rightharpoonup> string) \<times> (string \<rightharpoonup> string)) plug" where
  "create_config_map_data api args = config_map_entries api 1 (ua_set_file args) Map.empty Map.empty"

fun helm_set_file_args :: "(string \<rightharpoonup> string) option \<Rightarrow> string list \<Rightarrow> (plugin_error, string list) res" where
  "helm_set_file_args set_file_map [] = Inr []"
| "helm_set_file_args set_file_map (arg # args) =
     (case split_char (CHR ''='') arg of
        [key, filepath] \<Rightarrow>
          res_bind (ok_or SpecifiedKeyNotPresent (Option.bind set_file_map (\<lambda>m. m filepath))) (\<lambda>mapped_file.
          res_bind (helm_set_file_args set_file_map args) (\<lambda>rest.
          Inr ((key @ ''='' @ UPGRADE_CONFIG_MAP_MOUNT_PATH @ ''/'' @ mapped_file) # rest)))
      | _ \<Rightarrow> Inl (InvalidSetFileArguments arg))"

definition create_helm_set_file_args ::
  "upgrade_args \<Rightarrow> (string \<rightharpoonup> string) option \<Rightarrow> (plugin_error, string option) res" where
  "create_helm_set_file_args args set_file_map =
     (if ua_set_file args \<noteq> []
      then res_bind (helm_set_file_args set_file_map (ua_set_file args)) (\<lambda>helm_args.
           Inr (Some (str_join '','' helm_args)))
      else Inr None)"

section \<open>Upgrade resources\<close>

datatype plugin_action = ACreate | ADelete

fun object_meta_of :: "upgrade_object \<Rightarrow> object_meta" where
  "object_meta_of (ServiceAccountObj m) = m"
| "object_meta_of (ClusterRoleObj m _) = m"
| "object_meta_of (ClusterRoleBindingObj m _ _) = m"
| "object_meta_of (ConfigMapObj m _ _) = m"
| "object_meta_of (JobObj m _ _) = m"

definition unwrap_name :: "upgrade_object \<Rightarrow> (plugin_error, string) res" where
  "unwrap_name obj = ok_or PanicUnwrap (om_name (object_meta_of obj))"

definition unwrap_namespace :: "upgrade_object \<Rightarrow> (plugin_error, string) res" where
  "unwrap_namespace obj = ok_or PanicUnwrap (om_namespace (object_meta_of obj))"

text \<open>Cluster roles and their bindings have no namespace.\<close>

fun scope :: "res_kind \<Rightarrow> string \<Rightarrow> string" where
  "scope KClusterRole ns = ''''"
| "scope KClusterRoleBinding ns = ''''"
| "scope _ ns = ns"

definition get_opt :: "'w plugin_api \<Rightarrow> res_kind \<Rightarrow> string \<Rightarrow> string \<Rightarrow> (string \<Rightarrow> plugin_error) \<Rightarrow> ('w, upgrade_object option) plug" where
  "get_opt api k ns name ctx = logged (pl_get_opt api k (scope k ns) name) (PgGet k (scope k ns) name) ctx"

definition create_obj :: "'w plugin_api \<Rightarrow> res_kind \<Rightarrow> string \<Rightarrow> upgrade_object \<Rightarrow> (string \<Rightarrow> plugin_error) \<Rightarrow> ('w, upgrade_object) plug" where
  "create_obj api k ns obj ctx = logged (pl_create api k (scope k ns) obj) (PgCreate k (scope k ns) obj) ctx"

definition delete_obj :: "'w plugin_api \<Rightarrow> res_kind \<Rightarrow> string \<Rightarrow> string \<Rightarrow> (string \<Rightarrow> plugin_error) \<Rightarrow> ('w, unit) plug" where
  "delete_obj api k ns name ctx = logged (pl_delete api k (scope k ns) name) (PgDelete k (scope k ns) name) ctx"

text \<open>\<open>UpgradeResources::new\<close>: a client and the release name.\<close>

definition upgrade_resources_new :: "plugin_consts \<Rightarrow> 'w plugin_api \<Rightarrow> string \<Rightarrow> ('w, string) plug" where
  "upgrade_resources_new c api ns =
     bindP (logged (pl_client api) PgClient K8sClientGeneration) (\<lambda>_. get_release_name c api ns)"

definition service_account_actions :: "plugin_consts \<Rightarrow> 'w plugin_api \<Rightarrow> string \<Rightarrow> string \<Rightarrow> plugin_action \<Rightarrow> ('w, unit) plug" where
  "service_account_actions c api release_name ns action =
     (let name = upgrade_name_concat c release_name UPGRADE_JOB_SERVICEACCOUNT_NAME_SUFFIX in
      bindP (get_opt api KServiceAccount ns name (\<lambda>e. GetServiceAccount e name)) (\<lambda>found.
      case (found, action) of
        (Some sa, ACreate) \<Rightarrow>
          bindP (liftR (unwrap_name sa)) (\<lambda>n.
          bindP (liftR (unwrap_namespace sa)) (\<lambda>sns.
          pl_print (''ServiceAccount: '' @ n @ '' in namespace: '' @ sns @ '' already exist.'')))
      | (Some _, ADelete) \<Rightarrow>
          bindP (delete_obj api KServiceAccount ns name (ServiceAccountDelete name)) (\<lambda>_.
          pl_print (''ServiceAccount '' @ name @ '' in namespace '' @ ns @ '' deleted''))
      | (None, ACreate) \<Rightarrow>
          bindP (create_obj api KServiceAccount ns (upgrade_job_service_account c (Some ns) name) (ServiceAccountCreate name)) (\<lambda>sa.
          bindP (liftR (unwrap_name sa)) (\<lambda>n.
          bindP (liftR (unwrap_namespace sa)) (\<lambda>sns.
          pl_print (''ServiceAccount: '' @ n @ '' created in namespace: '' @ sns))))
      | (None, ADelete) \<Rightarrow>
          pl_print (''ServiceAccount '' @ name @ '' in namespace '' @ ns @ '' does not exist'')))"

definition cluster_role_actions :: "plugin_consts \<Rightarrow> 'w plugin_api \<Rightarrow> string \<Rightarrow> string \<Rightarrow> plugin_action \<Rightarrow> ('w, unit) plug" where
  "cluster_role_actions c api release_name ns action =
     (let name = upgrade_name_concat c release_name UPGRADE_JOB_CLUSTERROLE_NAME_SUFFIX in
      bindP (get_opt api KClusterRole ns name (\<lambda>e. GetClusterRole e name)) (\<lambda>found.
      case (found, action) of
        (Some cr, ACreate) \<Rightarrow>
          bindP (liftR (unwrap_name cr)) (\<lambda>n.
          pl_print (''ClusterRole: '' @ n @ ''  in namespace '' @ ns @ '' already exist''))
      | (Some _, ADelete) \<Rightarrow>
          bindP (delete_obj api KClusterRole ns name (ClusterRoleDelete name)) (\<lambda>_.
          pl_print (''ClusterRole '' @ name @ '' in namespace '' @ ns @ '' deleted''))
      | (None, ACreate) \<Rightarrow>
          bindP (create_obj api KClusterRole ns (upgrade_job_cluster_role c (Some ns) name) (ClusterRoleCreate name)) (\<lambda>cr.
          bindP (liftR (unwrap_name cr)) (\<lambda>n.
          pl_print (''Cluster Role: '' @ n @ '' in namespace '' @ ns @ '' created'')))
      | (None, ADelete) \<Rightarrow>
          pl_print (''cluster role '' @ name @ '' in namespace '' @ ns @ '' does not exist'')))"

definition cluster_role_binding_actions :: "plugin_consts \<Rightarrow> 'w plugin_api \<Rightarrow> string \<Rightarrow> string \<Rightarrow> plugin_action \<Rightarrow> ('w, unit) plug" where
  "cluster_role_binding_actions c api release_name ns action =
     (let name = upgrade_name_concat c release_name UPGRADE_JOB_CLUSTERROLEBINDING_NAME_SUFFIX in
      bindP (get_opt api KClusterRoleBinding ns name (\<lambda>e. GetClusterRoleBinding e name)) (\<lambda>found.
      case (found, action) of
        (Some crb, ACreate) \<Rightarrow>
          bindP (liftR (unwrap_name crb)) (\<lambda>n.
          pl_print (''ClusterRoleBinding: '' @ n @ '' in namespace '' @ ns @ '' already exist''))
      | (Some _, ADelete) \<Rightarrow>
          bindP (delete_obj api KClusterRoleBinding ns name (ClusterRoleBindingDelete name)) (\<lambda>_.
          pl_print (''ClusterRoleBinding '' @ name @ '' in namespace '' @ ns @ '' deleted''))
      | (None, ACreate) \<Rightarrow>
          bindP (create_obj api KClusterRoleBinding ns (upgrade_job_cluster_role_binding c (Some ns) release_name)
                   (ClusterRoleBindingCreate name)) (\<lambda>crb.
          bindP (liftR (unwrap_name crb)) (\<lambda>n.
          pl_print (''ClusterRoleBinding: '' @ n @ '' in namespace '' @ ns @ '' created'')))
      | (None, ADelete) \<Rightarrow>
          pl_print (''ClusterRoleBinding '' @ name @ '' in namespace '' @ ns @ '' does not exist'')))"

definition config_map_actions ::
  "plugin_consts \<Rightarrow> 'w plugin_api \<Rightarrow> string \<Rightarrow> string \<Rightarrow> plugin_action \<Rightarrow> upgrade_args \<Rightarrow> ('w, string \<rightharpoonup> string) plug" where
  "config_map_actions c api release_name ns action args =
     (let name = upgrade_name_concat c release_name UPGRADE_CONFIG_MAP_NAME_SUFFIX in
      bindP (create_config_map_data api args) (\<lambda>data.
      bindP (get_opt api KConfigMap ns name (\<lambda>e. GetUpgradeConfigMap e name)) (\<lambda>found.
      bindP (case (found, action) of
        (Some _, ACreate) \<Rightarrow>
          bindP (delete_obj api KConfigMap ns name (UpgradeConfigMapDelete name)) (\<lambda>_.
          bindP (create_obj api KConfigMap ns (upgrade_configmap c (fst data) ns release_name) (UpgradeConfigMapCreate name)) (\<lambda>_.
          pl_print (''ConfigMap: '' @ name @ '' in namespace '' @ ns @ '' created'')))
      | (Some _, ADelete) \<Rightarrow>
          bindP (delete_obj api KConfigMap ns name (UpgradeConfigMapDelete name)) (\<lambda>_.
          pl_print (''ConfigMap '' @ name @ '' in namespace '' @ ns @ '' deleted''))
      | (None, ACreate) \<Rightarrow>
          bindP (create_config_map_data api args) (\<lambda>data.
          bindP (create_obj api KConfigMap ns (upgrade_configmap c (fst data) ns release_name) (UpgradeConfigMapCreate name)) (\<lambda>_.
          pl_print (''ConfigMap: '' @ name @ '' in namespace '' @ ns @ '' created'')))
      | (None, ADelete) \<Rightarrow>
          pl_print (''ConfigMap '' @ name @ '' in namespace '' @ ns @ '' does not exist'')) (\<lambda>_.
      retP (snd data)))))"

definition job_actions ::
  "plugin_consts \<Rightarrow> 'w plugin_api \<Rightarrow> string \<Rightarrow> string \<Rightarrow> plugin_action \<Rightarrow> upgrade_args \<Rightarrow> (string \<rightharpoonup> string) option \<Rightarrow> ('w, unit) plug" where
  "job_actions c api release_name ns action args set_file_map =
     (let name = upgrade_name_concat c release_name UPGRADE_JOB_NAME_SUFFIX in
      bindP (get_opt api KJob ns name (\<lambda>e. GetUpgradeJob e name)) (\<lambda>found.
      case (found, action) of
        (Some job, ACreate) \<Rightarrow>
          bindP (liftR (unwrap_name job)) (\<lambda>n.
          bindP (liftR (unwrap_namespace job)) (\<lambda>jns.
          pl_print (''Job: '' @ n @ '' in namespace: '' @ jns @ '' already exist'')))
      | (Some _, ADelete) \<Rightarrow>
          bindP (delete_obj api KJob ns name (UpgradeJobDelete name)) (\<lambda>_.
          pl_print (''Job '' @ name @ '' in namespace '' @ ns @ '' deleted''))
      | (None, ACreate) \<Rightarrow>
          bindP (get_deployment_for_rest api ns) (\<lambda>rest_deployment.
          bindP (liftR (image_properties_try_from rest_deployment)) (\<lambda>img.
          bindP (liftR (create_helm_set_file_args args set_file_map)) (\<lambda>set_file.
          let registry = unwrap_or (ip_registry img) (ua_registry args);
              image = upgrade_image_concat registry UPGRADE_JOB_IMAGE_REPO (upgrade_job_img c) (get_image_version_tag c)
          in
          bindP (create_obj api KJob ns
                   (upgrade_job c ns image release_name args (unwrap_or '''' set_file) (ip_pull_secrets img) (ip_pull_policy img))
                   (UpgradeJobCreate name)) (\<lambda>dep.
          bindP (liftR (unwrap_name dep)) (\<lambda>n.
          bindP (liftR (unwrap_namespace dep)) (\<lambda>jns.
          pl_print (''Job: '' @ n @ '' created in namespace: '' @ jns)))))))
      | (None, ADelete) \<Rightarrow>
          pl_print (''Job '' @ name @ '' in namespace '' @ ns @ '' does not exist'')))"

definition create_upgrade_resources :: "plugin_consts \<Rightarrow> 'w plugin_api \<Rightarrow> string \<Rightarrow> upgrade_args \<Rightarrow> ('w, unit) plug" where
  "create_upgrade_resources c api ns args =
     bindP (upgrade_resources_new c api ns) (\<lambda>release_name.
     bindP (service_account_actions c api release_name ns ACreate) (\<lambda>_.
     bindP (cluster_role_actions c api release_name ns ACreate) (\<lambda>_.
     bindP (cluster_role_binding_actions c api release_name ns ACreate) (\<lambda>_.
     bindP (config_map_actions c api release_name ns ACreate args) (\<lambda>set_file_map.
     job_actions c api release_name ns ACreate args (Some set_file_map))))))"

definition delete_upgrade_resources :: "plugin_consts \<Rightarrow> 'w plugin_api \<Rightarrow> string \<Rightarrow> ('w, unit) plug" where
  "delete_upgrade_resources c api ns =
     bindP (upgrade_resources_new c api ns) (\<lambda>release_name.
     bindP (job_actions c api release_name ns ADelete upgrade_args_new None) (\<lambda>_.
     bindP (config_map_actions c api release_name ns ADelete upgrade_args_new) (\<lambda>_.
     bindP (cluster_role_binding_actions c api release_name ns ADelete) (\<lambda>_.
     bindP (cluster_role_actions c api release_name ns ADelete) (\<lambda>_.
     service_account_actions c api release_name ns ADelete)))))"

section \<open>Events of the upgrade\<close>

definition upgrade_event_client_new :: "'w plugin_api \<Rightarrow> ('w, unit) plug" where
  "upgrade_event_client_new api = logged (pl_client api) PgClient K8sClientGeneration"

definition delete_upgrade_events :: "plugin_consts \<Rightarrow> 'w plugin_api \<Rightarrow> string \<Rightarrow> string \<Rightarrow> ('w, unit) plug" where
  "delete_upgrade_events c api ns release_name =
     (let selector = upgrade_event_selector c release_name UPGRADE_JOB_NAME_SUFFIX in
      logged (pl_events_delete api ns selector) (PgEventsDelete ns selector) (\<lambda>e. DeleteEventsWithFieldSelector e selector))"

text \<open>
  The stable sort by descending time; an event without a time comes last.
\<close>

definition event_time_key :: "plugin_event \<Rightarrow> int \<times> int" where
  "event_time_key e = (case pe_event_time e of None \<Rightarrow> (0, 0) | Some t \<Rightarrow> (- 1, - t))"

definition latest_upgrade_event :: "plugin_consts \<Rightarrow> plugin_event list \<Rightarrow> (plugin_error, plugin_event) res" where
  "latest_upgrade_event c events =
     (let event_list = sort_key event_time_key (filter (\<lambda>e. pe_reason e = Some (plugin_event_reason c)) events)
      in ok_or UpgradeEventNotPresent (case event_list of [] \<Rightarrow> None | e # _ \<Rightarrow> Some e))"

definition get_latest_upgrade_event :: "plugin_consts \<Rightarrow> 'w plugin_api \<Rightarrow> string \<Rightarrow> string \<Rightarrow> ('w, plugin_event) plug" where
  "get_latest_upgrade_event c api ns release_name =
     (let selector = upgrade_event_selector c release_name UPGRADE_JOB_NAME_SUFFIX in
      bindP (logged (pl_events_list api ns selector) (PgEvents ns selector) (\<lambda>e. ListEventsWithFieldSelector e selector)) (\<lambda>events.
      liftR (latest_upgrade_event c events)))"

text \<open>The result of the inner match is discarded: a missing message is not an error here.\<close>

definition log_upgrade_result :: "'v plugin_lib \<Rightarrow> plugin_event \<Rightarrow> ('w, unit) plug" where
  "log_upgrade_result lib event =
     (case pe_message event of
        Some data \<Rightarrow>
          bindP (liftR (map_err (EventSerdeDeserialization data) (pb_upgrade_event_from_str lib data))) (\<lambda>e.
          bindP (pl_print (''Upgrade From: '' @ ue_from_version e)) (\<lambda>_.
          bindP (pl_print (''Upgrade To: '' @ ue_to_version e)) (\<lambda>_.
          pl_print (''Upgrade Status: '' @ ue_message e))))
      | None \<Rightarrow> retP ())"

definition create_get_upgrade_resource :: "'v plugin_lib \<Rightarrow> plugin_consts \<Rightarrow> 'w plugin_api \<Rightarrow> string \<Rightarrow> ('w, unit) plug" where
  "create_get_upgrade_resource lib c api ns =
     bindP (get_release_name c api ns) (\<lambda>release_name.
     bindP (upgrade_event_client_new api) (\<lambda>_.
     bindP (get_latest_upgrade_event c api ns release_name) (\<lambda>latest_event.
     log_upgrade_result lib latest_event)))"

definition handle_upgrade_event :: "'v plugin_lib \<Rightarrow> plugin_consts \<Rightarrow> 'w plugin_api \<Rightarrow> plugin_event \<Rightarrow> string \<Rightarrow> ('w, unit) plug" where
  "handle_upgrade_event lib c api latest_event ns =
     (case pe_action latest_event of
        None \<Rightarrow> retP ()
      | Some action \<Rightarrow>
          if action = ''Validation Failed''
          then (case pe_message latest_event of
                  Some data \<Rightarrow>
                    bindP (liftR (map_err (EventSerdeDeserialization data) (pb_upgrade_event_from_str lib data))) (\<lambda>ev.
                    bindP (pl_error HELM_UPGRADE_VALIDATION_ERROR (ue_message ev)) (\<lambda>_.
                    delete_upgrade_resources c api ns))
                | None \<Rightarrow> failP MessageInEventNotPresent)
          else pl_info UPGRADE_JOB_STARTED '''')"

section \<open>The commands\<close>

primrec await_upgrade_event :: "nat \<Rightarrow> 'v plugin_lib \<Rightarrow> plugin_consts \<Rightarrow> 'w plugin_api \<Rightarrow> string \<Rightarrow> string \<Rightarrow> ('w, unit) plug" where
  "await_upgrade_event 0 lib c api ns release_name = retP ()"
| "await_upgrade_event (Suc n) lib c api ns release_name =
     bindP (tick (pl_sleep api 10) (PgSleep 10)) (\<lambda>_.
     bindP (tryP (get_latest_upgrade_event c api ns release_name)) (\<lambda>r.
     case r of
       Inr latest_event \<Rightarrow> handle_upgrade_event lib c api latest_event ns
     | Inl _ \<Rightarrow> await_upgrade_event n lib c api ns release_name))"

definition upgrade_apply :: "'v plugin_lib \<Rightarrow> plugin_consts \<Rightarrow> 'w plugin_api \<Rightarrow> upgrade_args \<Rightarrow> string \<Rightarrow> ('w, unit) plug" where
  "upgrade_apply lib c api args ns =
     bindP (upgrade_event_client_new api) (\<lambda>_.
     bindP (get_release_name c api ns) (\<lambda>release_name.
     bindP (delete_upgrade_events c api ns release_name) (\<lambda>_.
     bindP (create_upgrade_resources c api ns args) (\<lambda>_.
     await_upgrade_event MAX_RETRY_ATTEMPTS lib c api ns release_name))))"

definition plugin_list_pods :: "'w plugin_api \<Rightarrow> string \<Rightarrow> string \<Rightarrow> string list \<Rightarrow> ('w, string list) plug" where
  "plugin_list_pods api label ns pods_names =
     bindP (logged (pl_client api) PgClient K8sClient) (\<lambda>_.
     bindP (logged (pl_pods_list api ns label) (PgPods ns label) (\<lambda>e. ListPodsWithLabel e label ns)) (\<lambda>pod_list.
     liftR (res_fold (\<lambda>pod acc. res_bind (ok_or PodNameNotPresent pod) (\<lambda>n. Inr (acc @ [n]))) pod_list pods_names)))"

definition dummy_apply :: "plugin_consts \<Rightarrow> 'w plugin_api \<Rightarrow> upgrade_args \<Rightarrow> string \<Rightarrow> ('w, unit) plug" where
  "dummy_apply c api args ns =
     bindP (plugin_list_pods api AGENT_CORE_POD_LABEL ns []) (\<lambda>pods_names.
     bindP (plugin_list_pods api API_REST_POD_LABEL ns pods_names) (\<lambda>pods_names.
     bindP (pl_info CONTROL_PLANE_PODS_LIST (str_join LF pods_names)) (\<lambda>_.
     bindP (plugin_list_pods api IO_ENGINE_POD_LABEL ns []) (\<lambda>io_engine_pods_names.
     bindP (pl_info (if ua_skip_data_plane_restart args then DATA_PLANE_PODS_LIST_SKIP_RESTART else DATA_PLANE_PODS_LIST)
              (str_join LF io_engine_pods_names)) (\<lambda>_.
     pl_info (upgrade_dry_run_summary c UPGRADE_DRY_RUN_SUMMARY) '''')))))"

definition upgrade_execute :: "'v plugin_lib \<Rightarrow> plugin_consts \<Rightarrow> 'w plugin_api \<Rightarrow> upgrade_args \<Rightarrow> string \<Rightarrow> ('w, unit) plug" where
  "upgrade_execute lib c api args ns =
     (if ua_dry_run args then dummy_apply c api args ns else upgrade_apply lib c api args ns)"

definition is_upgrade_job_completed :: "plugin_consts \<Rightarrow> 'w plugin_api \<Rightarrow> string \<Rightarrow> ('w, bool) plug" where
  "is_upgrade_job_completed c api ns =
     bindP (upgrade_resources_new c api ns) (\<lambda>release_name.
     let job_name = upgrade_name_concat c release_name UPGRADE_JOB_NAME_SUFFIX in
     bindP (get_opt api KJob ns job_name (\<lambda>e. GetUpgradeJob e job_name)) (\<lambda>option_job.
     liftR (case option_job of
              Some (JobObj _ _ status) \<Rightarrow>
                res_bind (ok_or (UpgradeJobStatusNotPresent job_name) status) (\<lambda>succeeded.
                Inr (case succeeded of None \<Rightarrow> False | Some count \<Rightarrow> count = 1))
            | Some _ \<Rightarrow> Inl (UpgradeJobStatusNotPresent job_name)
            | None \<Rightarrow> Inl (UpgradeJobNotPresent job_name ns))))"

definition delete_upgrade :: "plugin_consts \<Rightarrow> 'w plugin_api \<Rightarrow> bool \<Rightarrow> string \<Rightarrow> ('w, unit) plug" where
  "delete_upgrade c api force ns =
     bindP (is_upgrade_job_completed c api ns) (\<lambda>job_completed.
     bindP (if \<not> job_completed \<and> \<not> force then pl_error '''' DELETE_INCOMPLETE_JOB else retP ()) (\<lambda>_.
     if job_completed \<or> force then delete_upgrade_resources c api ns else retP ()))"

section \<open>Checks before an upgrade\<close>

text \<open>The bytes of \<open>config/unsupported_versions.yaml\<close>, included at compile time.\<close>

definition unsupported_version_buf :: string where
  "unsupported_version_buf = ''unsupported_versions:'' @ LF @
     ''  # add the list of unsupported versions as shown below'' @ LF @ ''  - 0.0.0'' @ LF"

definition strip_v_prefix :: "string \<Rightarrow> string" where
  "strip_v_prefix version = unwrap_or version (strip_prefix ''v'' version)"

definition self_version :: "'v plugin_lib \<Rightarrow> plugin_consts \<Rightarrow> 'v option" where
  "self_version lib c =
     (case pc_version_tag c of
        Some tag \<Rightarrow>
          if tag \<noteq> []
          then (case pb_version_parse lib (strip_v_prefix tag) of Inr sv \<Rightarrow> Some sv | Inl _ \<Rightarrow> None)
          else None
      | None \<Rightarrow> None)"

definition upgrade_path_validation :: "('v::linorder) plugin_lib \<Rightarrow> plugin_consts \<Rightarrow> 'w plugin_api \<Rightarrow> string \<Rightarrow> bool \<Rightarrow> ('w, unit) plug" where
  "upgrade_path_validation lib c api ns allow_unstable =
     bindP (liftR (map_err YamlParseBufferForUnsupportedVersion (pb_unsupported_versions lib unsupported_version_buf))) (\<lambda>unsupported.
     bindP (get_source_version c api ns) (\<lambda>source_version.
     bindP (liftR (map_err (\<lambda>e. SemverParse e source_version) (pb_version_parse lib source_version))) (\<lambda>source.
     if source \<in> set unsupported
     then bindP (pl_error UPGRADE_PATH_NOT_VALID (concat (map (\<lambda>v. pb_version_to_string lib v @ LF) unsupported))) (\<lambda>_.
          failP NotAValidSourceForUpgrade)
     else if str_contains UPGRADE_TO_DEVELOP_BRANCH (get_image_version_tag c)
     then bindP (pl_error '''' UPGRADE_TO_UNSUPPORTED_VERSION) (\<lambda>_. failP InvalidUpgradePath)
     else
       let self = self_version lib c;
           self_is_stable = (case self of Some v \<Rightarrow> pb_version_pre_is_empty lib v | None \<Rightarrow> False)
       in
       if \<not> allow_unstable \<and> pb_version_pre_is_empty lib source \<and> \<not> self_is_stable
       then bindP (pl_error '''' STABLE_TO_UNSTABLE_UPGRADE) (\<lambda>_. failP InvalidUpgradePath)
       else
         (case self of
            Some v \<Rightarrow>
              if v < source
              then bindP (pl_error '''' HIGHER_TO_LOWER_SEMVER_UPGRADE) (\<lambda>_. failP InvalidUpgradePath)
              else retP ()
          | None \<Rightarrow> retP ()))))"

fun cordoned_nodes :: "plugin_node list \<Rightarrow> (plugin_error, string list) res" where
  "cordoned_nodes [] = Inr []"
| "cordoned_nodes (node # nodes) =
     res_bind (ok_or (NodeSpecNotPresent (pn_id node)) (pn_spec node)) (\<lambda>spec.
     res_bind (cordoned_nodes nodes) (\<lambda>ids.
     Inr (if spec = Some PCordoned then pn_id node # ids else ids)))"

definition already_cordoned_nodes_validation :: "'w plugin_api \<Rightarrow> ('w, unit) plug" where
  "already_cordoned_nodes_validation api =
     bindP (logged (pl_get_nodes api) PgNodes ListStorageNodes) (\<lambda>nodelist.
     bindP (liftR (cordoned_nodes nodelist)) (\<lambda>ids.
     if ids \<noteq> []
     then bindP (pl_error CORDONED_NODE_WARNING (str_join LF ids)) (\<lambda>_. failP NodesInCordonedState)
     else retP ()))"

definition MAX_ENTRIES :: nat where "MAX_ENTRIES = 200"

definition volumes_request :: "'w plugin_api \<Rightarrow> int option \<Rightarrow> ('w, plugin_volume list \<times> int option) plug" where
  "volumes_request api token = logged (pl_get_volumes api MAX_ENTRIES token) (PgVolumes MAX_ENTRIES token) ListVolumes"

definition single_replica_volumes :: "nat \<Rightarrow> 'w plugin_api \<Rightarrow> ('w, string list) plug" where
  "single_replica_volumes fuel api =
     loopP fuel (\<lambda>(volumes, starting_token).
       if starting_token \<noteq> None
       then bindP (volumes_request api starting_token) (\<lambda>(entries, next_token).
            retP (Inl (volumes @ map pv_uuid (filter (\<lambda>v. pv_num_replicas v = SINGLE_REPLICA_VOLUME) entries), next_token)))
       else retP (Inr volumes)) ([], Some 0)"

definition get_pvc_from_uuid :: "'w plugin_api \<Rightarrow> string set \<Rightarrow> ('w, string list) plug" where
  "get_pvc_from_uuid api uuid_list =
     bindP (logged (pl_client api) PgClient K8sClient) (\<lambda>_.
     bindP (logged (pl_pvc_list api) PgPvc ListPVC) (\<lambda>pvc_list.
     retP (List.map_filter (\<lambda>(uid, name). case uid of Some u \<Rightarrow> if u \<in> uuid_list then name else None | None \<Rightarrow> None) pvc_list)))"

definition single_volume_replica_validation :: "nat \<Rightarrow> 'w plugin_api \<Rightarrow> ('w, unit) plug" where
  "single_volume_replica_validation fuel api =
     bindP (single_replica_volumes fuel api) (\<lambda>volumes.
     if volumes \<noteq> []
     then bindP (get_pvc_from_uuid api (set volumes)) (\<lambda>pvcs.
          bindP (pl_error SINGLE_REPLICA_VOLUME_WARNING (str_join LF pvcs)) (\<lambda>_.
          failP SingleReplicaVolumeErr))
     else retP ())"

definition volume_rebuilding :: "plugin_volume \<Rightarrow> bool" where
  "volume_rebuilding volume =
     (case pv_target_children volume of Some children \<Rightarrow> list_ex (\<lambda>p. p \<noteq> None) children | None \<Rightarrow> False)"

definition is_rebuild_in_progress :: "nat \<Rightarrow> 'w plugin_api \<Rightarrow> ('w, bool) plug" where
  "is_rebuild_in_progress fuel api =
     loopP fuel (\<lambda>starting_token.
       if starting_token \<noteq> None
       then bindP (volumes_request api starting_token) (\<lambda>(entries, next_token).
            retP (if list_ex volume_rebuilding entries then Inr True else Inl next_token))
       else retP (Inr False)) (Some 0)"

definition rebuild_in_progress_validation :: "nat \<Rightarrow> 'w plugin_api \<Rightarrow> ('w, unit) plug" where
  "rebuild_in_progress_validation fuel api =
     bindP (is_rebuild_in_progress fuel api) (\<lambda>rebuilding.
     if rebuilding then bindP (pl_error REBUILD_WARNING '''') (\<lambda>_. failP VolumeRebuildInProgress) else retP ())"

definition preflight_check :: "nat \<Rightarrow> ('v::linorder) plugin_lib \<Rightarrow> plugin_consts \<Rightarrow> 'w plugin_api \<Rightarrow> string \<Rightarrow> string option \<Rightarrow> duration \<Rightarrow> upgrade_args \<Rightarrow> ('w, unit) plug" where
  "preflight_check fuel lib c api ns kube_config_path timeout args =
     bindP (pl_info UPGRADE_WARNING '''') (\<lambda>_.
     bindP (embedded (api_rest_build (pl_proxy api)
       (with_target_mod (\<lambda>t. WithNamespace t ns)
         (with_timeout (Some timeout) (with_kube_config kube_config_path (default_api_rest (pl_proxy api))))))
       (PgRest ns) (\<lambda>e. case e of Anyhow text \<Rightarrow> OpenapiClientConfiguration text | Unimplemented \<Rightarrow> PanicUnwrap)) (\<lambda>_.
     bindP (if \<not> ua_skip_upgrade_path_validation args then upgrade_path_validation lib c api ns (ua_allow_unstable args) else retP ()) (\<lambda>_.
     bindP (if \<not> ua_skip_replica_rebuild args then rebuild_in_progress_validation fuel api else retP ()) (\<lambda>_.
     bindP (if \<not> ua_skip_cordoned_node_validation args then already_cordoned_nodes_validation api else retP ()) (\<lambda>_.
     if \<not> ua_skip_single_replica_volume_validation args then single_volume_replica_validation fuel api else retP ())))))"

end
