(* ===== verification/PluginSafety.thy ===== *)
theory PluginSafety
  imports PluginUpgrade
begin

text \<open>
  What the upgrade commands of the plugin guarantee: the files of \<open>--set-file\<close> reach the job, the
  newest event is the one shown, the checks before an upgrade, and when a command may change
  the cluster.
\<close>

section \<open>Operations\<close>

text \<open>The branches of \<open>Operations::execute\<close> (\<open>k8s/plugin/src/resources/mod.rs\<close>) about upgrades.\<close>

datatype upgrade_operation = GetUpgradeStatus | OpUpgrade upgrade_args | DeleteUpgrade bool

fun execute_operation ::
  "nat \<Rightarrow> ('v::linorder) plugin_lib \<Rightarrow> plugin_consts \<Rightarrow> 'w plugin_api \<Rightarrow> string \<Rightarrow> string option \<Rightarrow> duration \<Rightarrow> upgrade_operation \<Rightarrow> ('w, unit) plug" where
  "execute_operation fuel lib c api ns kube_config timeout GetUpgradeStatus = create_get_upgrade_resource lib c api ns"
| "execute_operation fuel lib c api ns kube_config timeout (OpUpgrade args) =
     bindP (preflight_check fuel lib c api ns kube_config timeout args) (\<lambda>_. upgrade_execute lib c api args ns)"
| "execute_operation fuel lib c api ns kube_config timeout (DeleteUpgrade force) = delete_upgrade c api force ns"

section \<open>The newest event\<close>

lemma event_time_key_le:
  "event_time_key e \<le> event_time_key e' \<longleftrightarrow>
     (\<forall>t'. pe_event_time e' = Some t' \<longrightarrow> (\<exists>t. pe_event_time e = Some t \<and> t' \<le> t))"
  by (auto simp: event_time_key_def less_eq_prod_def split: option.splits)

lemma sort_key_hd_first:
  assumes "sort_key f xs = x # ys"
  shows "\<exists>us vs. xs = us @ x # vs \<and> (\<forall>u \<in> set us. f x < f u) \<and> (\<forall>v \<in> set vs. f x \<le> f v)"
  using assms
proof (induction xs arbitrary: x ys)
  case (Cons a xs)
  show ?case
  proof (cases "sort_key f xs")
    case Nil
    then have "xs = []" by (metis length_0_conv length_sort)
    with Cons.prems show ?thesis by (intro exI [of _ "[]"] exI [of _ "[]"]) simp
  next
    case (Cons b bs)
    have "sorted (map f (sort_key f xs))" by (rule sorted_sort_key)
    with Cons have min: "f b \<le> f v" if "v \<in> set xs" for v
      using that by (metis set_sort set_ConsD sorted_simps(2) image_eqI list.set_map list.simps(9) order_refl)
    show ?thesis
    proof (cases "f a \<le> f b")
      case True
      with Cons.prems Cons have "x = a" by simp
      with True min show ?thesis by (intro exI [of _ "[]"] exI [of _ xs]) force
    next
      case False
      with Cons.prems Cons have x: "x = b" by simp
      from Cons.IH [OF Cons] obtain us vs where "xs = us @ b # vs" "\<forall>u \<in> set us. f b < f u" "\<forall>v \<in> set vs. f b \<le> f v"
        by blast
      with False x show ?thesis by (intro exI [of _ "a # us"] exI [of _ vs]) auto
    qed
  qed
qed simp

lemma sort_key_hd_iff:
  "(\<exists>ys. sort_key f xs = x # ys) \<longleftrightarrow>
     (\<exists>us vs. xs = us @ x # vs \<and> (\<forall>u \<in> set us. f x < f u) \<and> (\<forall>v \<in> set vs. f x \<le> f v))"
proof
  assume "\<exists>us vs. xs = us @ x # vs \<and> (\<forall>u \<in> set us. f x < f u) \<and> (\<forall>v \<in> set vs. f x \<le> f v)"
  then obtain us vs where xs: "xs = us @ x # vs" "\<forall>u \<in> set us. f x < f u" "\<forall>v \<in> set vs. f x \<le> f v" by blast
  then have "sort_key f xs \<noteq> []" by (metis append_is_Nil_conv length_0_conv length_sort list.discI)
  then obtain y ys where y: "sort_key f xs = y # ys" by (cases "sort_key f xs") auto
  from sort_key_hd_first [OF y] obtain us' vs' where
    xs': "xs = us' @ y # vs'" "\<forall>u \<in> set us'. f y < f u" "\<forall>v \<in> set vs'. f y \<le> f v" by blast
  have "x = y"
  proof (rule ccontr)
    assume "x \<noteq> y"
    with xs(1) xs'(1) have "y \<in> set us \<and> x \<in> set vs' \<or> x \<in> set us' \<and> y \<in> set vs"
      by (auto simp: append_eq_append_conv2 Cons_eq_append_conv append_eq_Cons_conv)
    with xs(2,3) xs'(2,3) show False by force
  qed
  with y show "\<exists>ys. sort_key f xs = x # ys" by blast
next
  assume "\<exists>ys. sort_key f xs = x # ys"
  then obtain ys where "sort_key f xs = x # ys" ..
  then show "\<exists>us vs. xs = us @ x # vs \<and> (\<forall>u \<in> set us. f x < f u) \<and> (\<forall>v \<in> set vs. f x \<le> f v)"
    by (rule sort_key_hd_first)
qed

lemma filter_split: "filter P xs = us @ vs \<Longrightarrow> \<exists>as bs. xs = as @ bs \<and> filter P as = us \<and> filter P bs = vs"
proof (induction xs arbitrary: us)
  case (Cons x xs)
  show ?case
  proof (cases "P x \<and> us \<noteq> []")
    case True
    with Cons.prems obtain us' where us: "us = x # us'" "filter P xs = us' @ vs" by (cases us) auto
    from Cons.IH [OF us(2)] obtain as bs where "xs = as @ bs" "filter P as = us'" "filter P bs = vs" by blast
    with True us show ?thesis by (intro exI [of _ "x # as"] exI [of _ bs]) simp
  next
    case False
    show ?thesis
    proof (cases "P x")
      case True
      with False Cons.prems show ?thesis by (intro exI [of _ "[]"] exI [of _ "x # xs"]) simp
    next
      case nP: False
      with Cons.prems Cons.IH [of us] obtain as bs where "xs = as @ bs" "filter P as = us" "filter P bs = vs" by auto
      with nP show ?thesis by (intro exI [of _ "x # as"] exI [of _ bs]) simp
    qed
  qed
qed simp

lemma filter_eq_append_Cons:
  "filter P xs = us @ x # vs \<longleftrightarrow>
     (\<exists>us' vs'. xs = us' @ x # vs' \<and> P x \<and> filter P us' = us \<and> filter P vs' = vs)"
proof
  assume l: "filter P xs = us @ x # vs"
  then obtain as bs where xs: "xs = as @ bs" "filter P as = us" "filter P bs = x # vs"
    using filter_split [OF l] by blast
  then obtain cs ds where "bs = cs @ x # ds" "\<forall>u \<in> set cs. \<not> P u" "P x" "vs = filter P ds"
    by (auto simp: filter_eq_Cons_iff)
  with xs show "\<exists>us' vs'. xs = us' @ x # vs' \<and> P x \<and> filter P us' = us \<and> filter P vs' = vs"
    by (intro exI [of _ "as @ cs"] exI [of _ ds]) simp
qed auto

text \<open>
  The event that stands for the status of an upgrade: it is chosen exactly if it
  was published with the reason of an upgrade, every event of that reason listed before it is
  strictly older and every one listed after it is not newer, where an event without a time is
  older than any other.  There is no such event only if no event has that reason.
\<close>

lemma latest_upgrade_event_newest:
  "(latest_upgrade_event c events = Inr e \<longleftrightarrow>
     (\<exists>us vs. events = us @ e # vs \<and> pe_reason e = Some (plugin_event_reason c) \<and>
       list_all (\<lambda>u. pe_reason u = pe_reason e \<longrightarrow> event_time_key e < event_time_key u) us \<and>
       list_all (\<lambda>v. pe_reason v = pe_reason e \<longrightarrow>
         (\<forall>t'. pe_event_time v = Some t' \<longrightarrow> (\<exists>t. pe_event_time e = Some t \<and> t' \<le> t))) vs)) \<and>
   (latest_upgrade_event c events = Inl UpgradeEventNotPresent \<longleftrightarrow>
     (\<forall>x \<in> set events. pe_reason x \<noteq> Some (plugin_event_reason c)))"
proof -
  let ?P = "\<lambda>e. pe_reason e = Some (plugin_event_reason c)"
  let ?f = "filter ?P events"
  have "latest_upgrade_event c events = Inr e \<longleftrightarrow> (\<exists>ys. sort_key event_time_key ?f = e # ys)"
    by (auto simp: latest_upgrade_event_def ok_or_def split: list.splits)
  also have "\<dots> \<longleftrightarrow> (\<exists>us vs. events = us @ e # vs \<and> ?P e \<and>
      (\<forall>u \<in> set us. ?P u \<longrightarrow> event_time_key e < event_time_key u) \<and>
      (\<forall>v \<in> set vs. ?P v \<longrightarrow> event_time_key e \<le> event_time_key v))" (is "_ \<longleftrightarrow> ?R")
  proof
    assume "\<exists>ys. sort_key event_time_key ?f = e # ys"
    then obtain us vs where "?f = us @ e # vs" "\<forall>u \<in> set us. event_time_key e < event_time_key u"
      "\<forall>v \<in> set vs. event_time_key e \<le> event_time_key v" unfolding sort_key_hd_iff by blast
    then obtain us' vs' where "events = us' @ e # vs'" "?P e" "filter ?P us' = us" "filter ?P vs' = vs"
      "\<forall>u \<in> set us. event_time_key e < event_time_key u" "\<forall>v \<in> set vs. event_time_key e \<le> event_time_key v"
      unfolding filter_eq_append_Cons by blast
    then show ?R by (intro exI [of _ us'] exI [of _ vs']) auto
  next
    assume ?R
    then obtain us vs where "events = us @ e # vs" "?P e"
      "\<forall>u \<in> set us. ?P u \<longrightarrow> event_time_key e < event_time_key u"
      "\<forall>v \<in> set vs. ?P v \<longrightarrow> event_time_key e \<le> event_time_key v" by blast
    then show "\<exists>ys. sort_key event_time_key ?f = e # ys"
      unfolding sort_key_hd_iff by (intro exI [of _ "filter ?P us"] exI [of _ "filter ?P vs"]) auto
  qed
  finally have 1: "latest_upgrade_event c events = Inr e \<longleftrightarrow> (\<exists>us vs. events = us @ e # vs \<and> ?P e \<and>
      (\<forall>u \<in> set us. ?P u \<longrightarrow> event_time_key e < event_time_key u) \<and>
      (\<forall>v \<in> set vs. ?P v \<longrightarrow> event_time_key e \<le> event_time_key v))" .
  have "sort_key event_time_key ?f = [] \<longleftrightarrow> ?f = []" by (metis length_0_conv length_sort)
  then have 2: "latest_upgrade_event c events = Inl UpgradeEventNotPresent \<longleftrightarrow> (\<forall>x \<in> set events. \<not> ?P x)"
    by (auto simp: latest_upgrade_event_def ok_or_def filter_empty_conv split: list.splits)
  have eq: "?P e \<and> (\<forall>u \<in> set us. ?P u \<longrightarrow> A u) \<and> (\<forall>v \<in> set vs. ?P v \<longrightarrow> B v) \<longleftrightarrow>
      ?P e \<and> (\<forall>u \<in> set us. pe_reason u = pe_reason e \<longrightarrow> A u) \<and> (\<forall>v \<in> set vs. pe_reason v = pe_reason e \<longrightarrow> B v)" for A B us vs
    by auto
  show ?thesis unfolding 1 2 list_all_iff eq event_time_key_le by (rule conjI; rule refl)
qed

section \<open>Files for the job\<close>

fun is_job_create :: "plugin_trace \<Rightarrow> bool" where
  "is_job_create (PgCreate KJob _ _ _) = True"
| "is_job_create _ = False"

text \<open>The numbers that the files of the arguments get.\<close>

fun numbers :: "nat \<Rightarrow> string list \<Rightarrow> (string \<rightharpoonup> string) \<Rightarrow> (string \<rightharpoonup> string)" where
  "numbers i [] um = um"
| "numbers i (arg # args) um = numbers (i + 1) args (um(last (split_char (CHR ''='') arg) \<mapsto> nat_to_string i))"

definition file_stored :: "(string \<rightharpoonup> string) \<Rightarrow> (string \<rightharpoonup> string) \<Rightarrow> plugin_trace list \<Rightarrow> string \<Rightarrow> bool" where
  "file_stored um dm d arg \<longleftrightarrow>
     (\<exists>key path n content. split_char (CHR ''='') arg = [key, path] \<and> um path = Some n \<and>
        dm n = Some content \<and> PgReadFile path (Inr content) \<in> set d)"

lemma file_stored_mono: "file_stored um dm d arg \<Longrightarrow> set d \<subseteq> set e \<Longrightarrow> file_stored um dm e arg"
  unfolding file_stored_def by blast

lemma numbers_keep:
  "p \<notin> (\<lambda>arg. last (split_char (CHR ''='') arg)) ` set args \<Longrightarrow> numbers i args um p = um p"
  by (induction args arbitrary: i um) auto

text \<open>
  Entries already made are kept, and each argument finds the contents of its file, also where a
  file is named more than once and gets a new number.
\<close>

lemma emits_config_map_entries:
  "emits (config_map_entries api i args dm um)
     (\<lambda>(dm', um') d. um' = numbers i args um \<and> (\<forall>j < i. dm' (nat_to_string j) = dm (nat_to_string j)) \<and>
        (\<forall>arg \<in> set args. file_stored um' dm' d arg) \<and> list_all (\<lambda>e. \<not> is_job_create e) d)
     (list_all (\<lambda>e. \<not> is_job_create e))"
proof (induction args arbitrary: i dm um)
  case (Cons arg args)
  show ?case
  proof (cases "\<exists>key path. split_char (CHR ''='') arg = [key, path]")
    case True
    then obtain key path where arg: "split_char (CHR ''='') arg = [key, path]" by blast
    show ?thesis
      unfolding config_map_entries.simps arg list.case
    proof (rule emits_seq [OF emits_logged_exact], goal_cases)
      case (1 content d1)
      let ?dm = "dm(nat_to_string i \<mapsto> content)" and ?um = "um(path \<mapsto> nat_to_string i)"
      show ?case
      proof (rule emits_conseq [OF Cons.IH [of "i + 1" ?dm ?um]], goal_cases)
        case (1 r d2)
        obtain dm' um' where r: "r = (dm', um')" by (cases r)
        with 1 have um': "um' = numbers (i + 1) args ?um" and keep: "\<forall>j < i + 1. dm' (nat_to_string j) = ?dm (nat_to_string j)"
          and rest: "\<forall>a \<in> set args. file_stored um' dm' d2 a" and nojob: "list_all (\<lambda>e. \<not> is_job_create e) d2"
          by (auto simp del: fun_upd_apply)
        have "file_stored um' dm' (d1 @ d2) arg"
        proof (cases "path \<in> (\<lambda>arg. last (split_char (CHR ''='') arg)) ` set args")
          case True
          then obtain a where a: "a \<in> set args" "path = last (split_char (CHR ''='') a)" by blast
          from rest a(1) have "file_stored um' dm' d2 a" by simp
          with a(2) arg show ?thesis unfolding file_stored_def by auto
        next
          case False
          have "dm' (nat_to_string i) = Some content" using keep by simp
          with numbers_keep [OF False] um' arg \<open>d1 = _\<close> show ?thesis by (auto simp: file_stored_def)
        qed
        moreover have "\<forall>j < i. dm' (nat_to_string j) = dm (nat_to_string j)" using keep by (auto dest: nat_to_string_inj)
        ultimately show ?case unfolding r using rest nojob um' arg \<open>d1 = _\<close>
          by (auto intro: file_stored_mono)
      qed (use \<open>d1 = _\<close> in simp)
    qed auto
  next
    case False
    then show ?thesis by (auto intro!: emits_fail split: list.splits)
  qed
qed (simp add: emits_ret)

definition file_arg :: "(string \<rightharpoonup> string) \<Rightarrow> plugin_trace list \<Rightarrow> string \<Rightarrow> string \<Rightarrow> bool" where
  "file_arg dm d arg out \<longleftrightarrow>
     (\<exists>key path n content. arg = key @ ''='' @ path \<and> out = key @ ''=/upgrade-config-map/'' @ n \<and>
        dm n = Some content \<and> PgReadFile path (Inr content) \<in> set d)"

lemma helm_set_file_args_resolve:
  assumes "helm_set_file_args (Some um) args = Inr outs" "\<forall>arg \<in> set args. file_stored um dm d arg"
  shows "list_all2 (file_arg dm d) args outs"
  using assms
proof (induction args arbitrary: outs)
  case (Cons arg args)
  from Cons.prems(2) obtain key path n content where arg: "split_char (CHR ''='') arg = [key, path]" "um path = Some n"
    "dm n = Some content" "PgReadFile path (Inr content) \<in> set d" by (auto simp: file_stored_def)
  with Cons.prems(1) obtain rest where "helm_set_file_args (Some um) args = Inr rest"
    and outs: "outs = (key @ ''='' @ UPGRADE_CONFIG_MAP_MOUNT_PATH @ ''/'' @ n) # rest"
    by (auto simp: res_bind_eq_Inr ok_or_eq_Inr)
  with Cons have "list_all2 (file_arg dm d) args rest" by simp
  moreover have "file_arg dm d arg (hd outs)"
    using arg outs by (auto simp: file_arg_def split_char_pair_iff UPGRADE_CONFIG_MAP_MOUNT_PATH_def)
  ultimately show ?case using outs by simp
qed simp

text \<open>What a job was created for: its file arguments point to entries of the configuration map.\<close>

definition job_of ::
  "plugin_consts \<Rightarrow> string \<Rightarrow> string \<Rightarrow> upgrade_args \<Rightarrow> (string \<rightharpoonup> string) \<Rightarrow> plugin_trace list \<Rightarrow> upgrade_object \<Rightarrow> bool" where
  "job_of c ns release_name args dm d job \<longleftrightarrow>
     (\<exists>image outs secrets policy. job = upgrade_job c ns image release_name args (str_join '','' outs) secrets policy \<and>
        list_all2 (file_arg dm d) (ua_set_file args) outs)"

definition jobs_resolve :: "plugin_consts \<Rightarrow> string \<Rightarrow> upgrade_args \<Rightarrow> plugin_trace list \<Rightarrow> bool" where
  "jobs_resolve c ns args d \<longleftrightarrow>
     (\<forall>pre sc job r post. d = pre @ PgCreate KJob sc job r # post \<longrightarrow>
        (\<exists>release_name dm cm. PgCreate KConfigMap ns (upgrade_configmap c dm ns release_name) (Inr cm) \<in> set pre \<and>
           job_of c ns release_name args dm pre job))"

lemma jobs_resolve_none: "list_all (\<lambda>e. \<not> is_job_create e) d \<Longrightarrow> jobs_resolve c ns args d"
  unfolding jobs_resolve_def by (auto simp: list_all_iff)

lemma job_of_mono: "job_of c ns release_name args dm d job \<Longrightarrow> set d \<subseteq> set e \<Longrightarrow> job_of c ns release_name args dm e job"
  unfolding job_of_def file_arg_def by (elim ex_forward conj_forward list_all2_mono) (auto elim!: list_all2_mono)

lemma jobs_resolve_append:
  assumes "list_all (\<lambda>e. \<not> is_job_create e) d"
    and "PgCreate KConfigMap ns (upgrade_configmap c dm ns release_name) (Inr cm) \<in> set d"
    and "\<forall>sc job r. PgCreate KJob sc job r \<in> set e \<longrightarrow> job_of c ns release_name args dm d job"
  shows "jobs_resolve c ns args (d @ e)"
  unfolding jobs_resolve_def
proof (intro allI impI)
  fix pre sc job r post
  assume split: "d @ e = pre @ PgCreate KJob sc job r # post"
  have "PgCreate KJob sc job r \<notin> set d" using assms(1) by (auto simp: list_all_iff)
  with split have "set d \<subseteq> set pre \<and> PgCreate KJob sc job r \<in> set e"
    by (auto simp: append_eq_append_conv2 append_eq_Cons_conv)
  with assms(2,3) show "\<exists>release_name dm cm. PgCreate KConfigMap ns (upgrade_configmap c dm ns release_name) (Inr cm) \<in> set pre \<and>
      job_of c ns release_name args dm pre job"
    by (blast intro: job_of_mono)
qed

named_theorems plugin_defs "definitions of the plugin's requests"

lemmas request_defs [plugin_defs] = get_opt_def create_obj_def delete_obj_def pl_print_def pl_info_def pl_error_def

lemma only_no_job [only_rules]:
  "only (\<lambda>e. \<not> is_job_create e) (get_deployment_for_rest api ns)"
  "only (\<lambda>e. \<not> is_job_create e) (upgrade_resources_new c api ns)"
  "only (\<lambda>e. \<not> is_job_create e) (service_account_actions c api release_name ns action)"
  "only (\<lambda>e. \<not> is_job_create e) (cluster_role_actions c api release_name ns action)"
  "only (\<lambda>e. \<not> is_job_create e) (cluster_role_binding_actions c api release_name ns action)"
  by (auto simp: get_deployment_for_rest_def upgrade_resources_new_def get_release_name_def service_account_actions_def
      cluster_role_actions_def cluster_role_binding_actions_def Let_def plugin_defs
      intro!: only_rules split: option.splits plugin_action.splits prod.splits)

lemma emits_create_config_map_data:
  "emits (create_config_map_data api args)
     (\<lambda>(dm, um) d. um = numbers 1 (ua_set_file args) Map.empty \<and>
        (\<forall>arg \<in> set (ua_set_file args). file_stored um dm d arg) \<and> list_all (\<lambda>e. \<not> is_job_create e) d)
     (list_all (\<lambda>e. \<not> is_job_create e))"
  unfolding create_config_map_data_def by (rule emits_conseq [OF emits_config_map_entries]) auto

lemma emits_config_map_create:
  "emits (config_map_actions c api release_name ns ACreate args)
     (\<lambda>um d. list_all (\<lambda>e. \<not> is_job_create e) d \<and>
        (\<exists>dm cm. PgCreate KConfigMap ns (upgrade_configmap c dm ns release_name) (Inr cm) \<in> set d \<and>
           (\<forall>arg \<in> set (ua_set_file args). file_stored um dm d arg)))
     (list_all (\<lambda>e. \<not> is_job_create e))"
  unfolding config_map_actions_def Let_def
proof (rule emits_seq [OF emits_create_config_map_data], goal_cases)
  case (1 data d1)
  obtain dm um where data: "data = (dm, um)" by (cases data)
  with 1 have d1: "um = numbers 1 (ua_set_file args) Map.empty"
    "\<forall>arg \<in> set (ua_set_file args). file_stored um dm d1 arg" "list_all (\<lambda>e. \<not> is_job_create e) d1" by auto
  show ?case unfolding data get_opt_def prod.sel
  proof (rule emits_seq [OF emits_logged_exact], goal_cases)
    case (1 found d2)
    show ?case
    proof (cases found)
      case (Some x)
      show ?thesis unfolding Some plugin_action.case option.case prod.case bindP_assoc plugin_defs
        by (rule emits_seq [OF emits_logged_exact], rule emits_seq [OF emits_logged_exact],
            rule emits_seq [OF emits_tick_exact], rule emits_ret)
          (use d1 1 in \<open>auto intro!: exI [of _ dm] intro: file_stored_mono [where d = d1]\<close>)
    next
      case None
      show ?thesis unfolding None plugin_action.case option.case prod.case bindP_assoc plugin_defs
      proof (rule emits_seq [OF emits_create_config_map_data], goal_cases)
        case (1 data' d3)
        obtain dm' um' where data': "data' = (dm', um')" by (cases data')
        show ?case unfolding data' prod.sel
          by (rule emits_seq [OF emits_logged_exact], rule emits_seq [OF emits_tick_exact], rule emits_ret)
            (use d1 1 data' \<open>d2 = _\<close> in \<open>auto intro!: exI [of _ dm'] intro: file_stored_mono [where d = d3]\<close>)
      qed (use d1 1 in auto)
    qed
  qed (use d1 in auto)
qed auto

lemma emits_job_create:
  "emits (job_actions c api release_name ns ACreate args (Some um))
     (\<lambda>_ d. \<forall>sc job r. PgCreate KJob sc job r \<in> set d \<longrightarrow>
        (\<exists>image set_file secrets policy. job = upgrade_job c ns image release_name args (unwrap_or '''' set_file) secrets policy \<and>
           create_helm_set_file_args args (Some um) = Inr set_file))
     (\<lambda>d. \<forall>sc job r. PgCreate KJob sc job r \<in> set d \<longrightarrow>
        (\<exists>image set_file secrets policy. job = upgrade_job c ns image release_name args (unwrap_or '''' set_file) secrets policy \<and>
           create_helm_set_file_args args (Some um) = Inr set_file))"
proof -
  let ?X = "\<lambda>e. \<forall>sc job r. e = PgCreate KJob sc job r \<longrightarrow>
    (\<exists>image set_file secrets policy. job = upgrade_job c ns image release_name args (unwrap_or '''' set_file) secrets policy \<and>
       create_helm_set_file_args args (Some um) = Inr set_file)"
  have "only ?X (job_actions c api release_name ns ACreate args (Some um))"
    unfolding job_actions_def get_deployment_for_rest_def Let_def plugin_defs
    by (rule only_bind, rule only_logged, simp)
      (auto split: option.splits intro!: only_rules only_bind_pure)
  then show ?thesis by (rule emits_conseq [OF only_emits]) (auto simp: list_all_iff)
qed

lemma set_file_job_of:
  assumes "create_helm_set_file_args args (Some um) = Inr set_file" "\<forall>arg \<in> set (ua_set_file args). file_stored um dm d arg"
  shows "job_of c ns release_name args dm d (upgrade_job c ns img release_name args (unwrap_or '''' set_file) secrets policy)"
proof (cases "ua_set_file args = []")
  case True
  with assms(1) have "unwrap_or '''' set_file = str_join '','' []" by (simp add: create_helm_set_file_args_def)
  with True show ?thesis unfolding job_of_def by (metis list.rel_inject(1))
next
  case False
  with assms(1) obtain outs where outs: "helm_set_file_args (Some um) (ua_set_file args) = Inr outs"
    "unwrap_or '''' set_file = str_join '','' outs" by (auto simp: create_helm_set_file_args_def res_bind_eq_Inr)
  from helm_set_file_args_resolve [OF outs(1) assms(2)] outs(2) show ?thesis unfolding job_of_def by metis
qed

lemma emits_create_upgrade_resources:
  "emits (create_upgrade_resources c api ns args) (\<lambda>_. jobs_resolve c ns args) (jobs_resolve c ns args)"
proof -
  let ?prefix = "bindP (upgrade_resources_new c api ns) (\<lambda>release_name.
     bindP (service_account_actions c api release_name ns ACreate) (\<lambda>_.
     bindP (cluster_role_actions c api release_name ns ACreate) (\<lambda>_.
     bindP (cluster_role_binding_actions c api release_name ns ACreate) (\<lambda>_. retP release_name))))"
  have steps: "create_upgrade_resources c api ns args = bindP ?prefix (\<lambda>release_name.
     bindP (config_map_actions c api release_name ns ACreate args) (\<lambda>set_file_map.
     job_actions c api release_name ns ACreate args (Some set_file_map)))"
    by (simp add: create_upgrade_resources_def bindP_assoc)
  have prefix_ok: "only (\<lambda>e. \<not> is_job_create e) ?prefix" by (intro only_rules)
  show ?thesis unfolding steps
  proof (rule emits_seq [OF only_emits [OF prefix_ok]], goal_cases)
    case (1 release_name d0)
    note d0 = this
    show ?case
    proof (rule emits_seq [OF emits_config_map_create], goal_cases)
      case (1 um d1)
      then obtain dm cm where d1: "list_all (\<lambda>e. \<not> is_job_create e) d1"
        "PgCreate KConfigMap ns (upgrade_configmap c dm ns release_name) (Inr cm) \<in> set d1"
        "\<forall>arg \<in> set (ua_set_file args). file_stored um dm d1 arg" by blast
      have "jobs_resolve c ns args ((d0 @ d1) @ e)"
        if "\<forall>sc job r. PgCreate KJob sc job r \<in> set e \<longrightarrow>
          (\<exists>image set_file secrets policy. job = upgrade_job c ns image release_name args (unwrap_or '''' set_file) secrets policy \<and>
           create_helm_set_file_args args (Some um) = Inr set_file)" for e
      proof (rule jobs_resolve_append [where dm = dm and release_name = release_name and cm = cm], goal_cases)
        case 3
        show ?case using that job_of_mono [OF set_file_job_of [OF _ d1(3)], where e = "d0 @ d1"] by fastforce
      qed (use d0 d1 in simp_all)
      then show ?case by (intro emits_conseq [OF emits_job_create]) simp_all
    qed (use d0 in \<open>simp add: jobs_resolve_none\<close>)
  qed (simp add: jobs_resolve_none)
qed

text \<open>
  Property C28.  The files of \<open>--set-file\<close> reach the upgrade job: whenever the job is created, the
  configuration map was created before it, and the job's file arguments are, one for
  one, the given ones with the path replaced by the mounted entry of that map that holds the
  contents read from that path, also where one path is given for several keys.
\<close>

theorem job_files_resolve:
  assumes "create_upgrade_resources c api ns args s = (r, t)"
    and "rt_trace t = rt_trace s @ pre @ PgCreate KJob sc job answer # post"
  shows "\<exists>release_name dm cm img outs secrets policy.
    PgCreate KConfigMap ns (upgrade_configmap c dm ns release_name) (Inr cm) \<in> set pre \<and>
    job = upgrade_job c ns img release_name args (str_join '','' outs) secrets policy \<and>
    list_all2 (\<lambda>arg out. \<exists>key path n content. arg = key @ ''='' @ path \<and>
      out = key @ ''=/upgrade-config-map/'' @ n \<and> dm n = Some content \<and> PgReadFile path (Inr content) \<in> set pre)
      (ua_set_file args) outs"
proof -
  obtain d where d: "rt_trace t = rt_trace s @ d"
    "case r of Ok a \<Rightarrow> jobs_resolve c ns args d | Err e \<Rightarrow> jobs_resolve c ns args d | OutOfFuel \<Rightarrow> jobs_resolve c ns args d"
    using emitsD [OF emits_create_upgrade_resources assms(1)] .
  then have "jobs_resolve c ns args d" by (cases r) simp_all
  moreover from d(1) assms(2) have "d = pre @ PgCreate KJob sc job answer # post" by simp
  ultimately show ?thesis unfolding jobs_resolve_def job_of_def file_arg_def [abs_def] by blast
qed

section \<open>Checks before an upgrade\<close>

definition volume_page :: "int \<Rightarrow> plugin_volume list \<Rightarrow> int option \<Rightarrow> plugin_trace list \<Rightarrow> bool" where
  "volume_page tok xs next d \<longleftrightarrow> d = [PgVolumes MAX_ENTRIES (Some tok) (Inr (xs, next))]"

text \<open>The listing of volumes so far: \<open>tok\<close> is the token of the next page, if there is one.\<close>

definition listed_upto :: "int option \<Rightarrow> plugin_volume list \<Rightarrow> plugin_trace list \<Rightarrow> bool" where
  "listed_upto tok ys d \<longleftrightarrow>
     (case tok of Some k \<Rightarrow> \<forall>zs e. paged volume_page k zs e \<longrightarrow> paged volume_page 0 (ys @ zs) (d @ e)
      | None \<Rightarrow> paged volume_page 0 ys d)"

lemma listed_upto_start: "listed_upto (Some 0) [] []"
  by (simp add: listed_upto_def)

lemma listed_upto_step:
  assumes "listed_upto (Some k) ys d"
  shows "listed_upto next (ys @ xs) (d @ [PgVolumes MAX_ENTRIES (Some k) (Inr (xs, next))])"
proof (cases "next")
  case None
  then have "paged volume_page k xs [PgVolumes MAX_ENTRIES (Some k) (Inr (xs, next))]"
    by (intro last_page) (simp add: volume_page_def)
  with assms None show ?thesis by (simp add: listed_upto_def)
next
  case (Some k')
  have "paged volume_page k (xs @ zs) ([PgVolumes MAX_ENTRIES (Some k) (Inr (xs, next))] @ e)"
    if "paged volume_page k' zs e" for zs e
    using that Some by (intro more_pages) (simp_all add: volume_page_def)
  with assms Some show ?thesis by (simp add: listed_upto_def)
qed

fun lists_volumes :: "plugin_trace \<Rightarrow> bool" where
  "lists_volumes (PgVolumes _ _ _) = True"
| "lists_volumes _ = False"

lemma emits_single_replica_volumes:
  "emits (single_replica_volumes fuel api)
     (\<lambda>uuids d. \<exists>vols. paged volume_page 0 vols d \<and>
        uuids = map pv_uuid (filter (\<lambda>v. pv_num_replicas v = SINGLE_REPLICA_VOLUME) vols)) (list_all lists_volumes)"
  unfolding single_replica_volumes_def
proof (rule emits_loop [where P = "\<lambda>(uuids, tok) d. list_all lists_volumes d \<and> (\<exists>vols. listed_upto tok vols d \<and>
    uuids = map pv_uuid (filter (\<lambda>v. pv_num_replicas v = SINGLE_REPLICA_VOLUME) vols))"], goal_cases)
  case (1 b)
  obtain uuids tok where b: "b = (uuids, tok)" by (cases b)
  show ?case
  proof (cases tok)
    case (Some k)
    then show ?thesis unfolding b prod.case volumes_request_def
      apply simp
      apply (rule emits_seq [OF emits_logged_exact])
       apply (auto intro!: emits_ret split: prod.splits)
      by (metis filter_append listed_upto_step map_append)
  qed (auto simp: b emits_def listed_upto_def)
qed (auto simp: listed_upto_start intro!: exI [of _ "[]"])

lemma emits_is_rebuild_in_progress:
  "emits (is_rebuild_in_progress fuel api)
     (\<lambda>r d. \<not> r \<longrightarrow> (\<exists>vols. paged volume_page 0 vols d \<and> \<not> list_ex volume_rebuilding vols)) (list_all lists_volumes)"
  unfolding is_rebuild_in_progress_def
proof (rule emits_loop [where P = "\<lambda>tok d. list_all lists_volumes d \<and> (\<exists>vols. listed_upto tok vols d \<and>
    \<not> list_ex volume_rebuilding vols)"], goal_cases)
  case (1 tok)
  show ?case
  proof (cases tok)
    case (Some k)
    then show ?thesis unfolding volumes_request_def
      apply simp
      apply (rule emits_seq [OF emits_logged_exact])
       apply (auto intro!: emits_ret split: prod.splits)
      by (metis list_ex_append listed_upto_step)
  qed (auto simp: emits_def listed_upto_def)
qed (auto simp: listed_upto_start intro!: exI [of _ "[]"])

fun changes :: "plugin_trace \<Rightarrow> bool" where
  "changes (PgCreate _ _ _ _) = True"
| "changes (PgDelete _ _ _ _) = True"
| "changes (PgEventsDelete _ _ _) = True"
| "changes _ = False"

abbreviation looks_only :: "('w, 'a) plug \<Rightarrow> bool" where
  "looks_only \<equiv> only (\<lambda>e. \<not> changes e)"

lemma looks_basic [only_rules]:
  "looks_only (get_opt api k ns name ctx)"
  "looks_only (pl_print txt1)"
  "looks_only (pl_info txt1 txt2)"
  "looks_only (pl_error txt1 txt2)"
  "looks_only (get_deployment_for_rest api ns)"
  "looks_only (volumes_request api tok)"
  by (auto simp: plugin_defs get_deployment_for_rest_def volumes_request_def intro!: only_rules)

lemma looks_release [only_rules]:
  "looks_only (get_release_name c api ns)"
  "looks_only (get_source_version c api ns)"
  "looks_only (get_pvc_from_uuid api uuids)"
  "looks_only (upgrade_event_client_new api)"
  "looks_only (get_latest_upgrade_event c api ns release_name)"
  "looks_only (log_upgrade_result lib event)"
  "looks_only (plugin_list_pods api label ns names)"
  by (auto simp: get_release_name_def get_source_version_def get_pvc_from_uuid_def upgrade_event_client_new_def
      get_latest_upgrade_event_def log_upgrade_result_def plugin_list_pods_def Let_def intro!: only_rules split: option.splits)

lemma looks_commands [only_rules]:
  "looks_only (upgrade_resources_new c api ns)"
  "looks_only (create_get_upgrade_resource lib c api ns)"
  "looks_only (dummy_apply c api args ns)"
  "looks_only (is_upgrade_job_completed c api ns)"
  by (auto simp: upgrade_resources_new_def create_get_upgrade_resource_def dummy_apply_def is_upgrade_job_completed_def Let_def
      intro!: only_rules)

lemma looks_checks [only_rules]:
  "looks_only (upgrade_path_validation lib c api ns allow_unstable)"
  "looks_only (rebuild_in_progress_validation fuel api)"
  "looks_only (already_cordoned_nodes_validation api)"
  "looks_only (single_volume_replica_validation fuel api)"
  by (auto simp: upgrade_path_validation_def rebuild_in_progress_validation_def is_rebuild_in_progress_def
      already_cordoned_nodes_validation_def single_volume_replica_validation_def single_replica_volumes_def Let_def
      intro!: only_rules split: prod.splits option.splits if_splits)

lemma looks_preflight [only_rules]: "looks_only (preflight_check fuel lib c api ns kube_config timeout args)"
  unfolding preflight_check_def by (auto intro!: only_rules)

text \<open>What the trace shows after each of the checks was passed.\<close>

definition path_checked :: "('v::linorder) plugin_lib \<Rightarrow> plugin_consts \<Rightarrow> string \<Rightarrow> bool \<Rightarrow> plugin_trace list \<Rightarrow> bool" where
  "path_checked lib c ns allow_unstable d \<longleftrightarrow>
     (\<exists>dep rest labels version source unsupported.
        PgDeployments ns API_REST_LABEL_SELECTOR (Inr (dep # rest)) \<in> set d \<and> dep_labels dep = Some labels \<and>
        labels (helm_release_version_key c) = Some version \<and> pb_version_parse lib version = Inr source \<and>
        pb_unsupported_versions lib unsupported_version_buf = Inr unsupported \<and> source \<notin> set unsupported \<and>
        \<not> str_contains ''develop'' (get_image_version_tag c) \<and>
        (\<not> allow_unstable \<longrightarrow> pb_version_pre_is_empty lib source \<longrightarrow>
           (\<exists>v. self_version lib c = Some v \<and> pb_version_pre_is_empty lib v)) \<and>
        (\<forall>v. self_version lib c = Some v \<longrightarrow> source \<le> v))"

definition nodes_checked :: "plugin_trace list \<Rightarrow> bool" where
  "nodes_checked d \<longleftrightarrow>
     (\<exists>nodes. PgNodes (Inr nodes) \<in> set d \<and> list_all (\<lambda>n. \<exists>spec. pn_spec n = Some spec \<and> spec \<noteq> Some PCordoned) nodes)"

lemma cordoned_nodes_Nil:
  "cordoned_nodes nodes = Inr [] \<Longrightarrow> list_all (\<lambda>n. \<exists>spec. pn_spec n = Some spec \<and> spec \<noteq> Some PCordoned) nodes"
  by (induction nodes) (auto simp: res_bind_eq_Inr ok_or_eq_Inr split: if_splits)

lemma emits_get_deployment:
  "emits (get_deployment_for_rest api ns)
     (\<lambda>d tr. \<exists>rest. PgDeployments ns API_REST_LABEL_SELECTOR (Inr (d # rest)) \<in> set tr) (\<lambda>_. True)"
  unfolding get_deployment_for_rest_def
  by (rule emits_seq [OF emits_logged_exact], rule emits_seq [OF emits_logged_exact], rule emits_liftR)
    (auto simp: ok_or_eq_Inr split: list.splits)

lemma emits_refusal: "emits (bindP (pl_error txt1 txt2) (\<lambda>_. failP e)) (\<lambda>_ _. False) (\<lambda>_. True)"
  unfolding pl_error_def by (rule emits_seq [OF emits_tick_exact]) (auto intro: emits_fail)

lemma emits_refuse_if:
  assumes "\<not> b \<Longrightarrow> emits m Q (\<lambda>_. True)"
  shows "emits (if b then bindP (pl_error txt1 txt2) (\<lambda>_. failP e) else m) (\<lambda>a d. \<not> b \<and> Q a d) (\<lambda>_. True)"
  using assms by (cases b) (auto intro: emits_conseq [OF emits_refusal])

lemma emits_path_validation:
  "emits (upgrade_path_validation lib c api ns allow_unstable) (\<lambda>_. path_checked lib c ns allow_unstable) (\<lambda>_. True)"
  unfolding upgrade_path_validation_def get_source_version_def bindP_assoc
proof (rule emits_bind_pure, rule emits_seq [OF emits_get_deployment], (rule emits_bind_pure)+, goal_cases)
  case (1 unsupported dep d1 labels version source)
  let ?self = "self_version lib c"
  have "emits (case ?self of Some v \<Rightarrow> if v < source then bindP (pl_error '''' HIGHER_TO_LOWER_SEMVER_UPGRADE) (\<lambda>_. failP InvalidUpgradePath)
        else retP () | None \<Rightarrow> retP ()) (\<lambda>_ d. \<forall>v. ?self = Some v \<longrightarrow> source \<le> v) (\<lambda>_. True)"
    by (cases ?self) (auto intro: emits_ret emits_conseq [OF emits_refusal])
  note last = emits_refuse_if [OF emits_refuse_if [OF emits_refuse_if [OF this]]]
  show ?case unfolding Let_def
    by (rule emits_conseq [OF last]) 
      (use 1 in \<open>auto simp: path_checked_def map_err_eq_Inr ok_or_eq_Inr UPGRADE_TO_DEVELOP_BRANCH_def split: option.splits\<close>)
qed auto

lemma emits_rebuild_validation:
  "emits (rebuild_in_progress_validation fuel api)
     (\<lambda>_ d. \<exists>vols. paged volume_page 0 vols d \<and> \<not> list_ex volume_rebuilding vols) (\<lambda>_. True)"
  unfolding rebuild_in_progress_validation_def
  by (rule emits_seq [OF emits_is_rebuild_in_progress]) (auto simp: emits_ret_iff intro: emits_conseq [OF emits_refusal])

lemma emits_cordoned_validation:
  "emits (already_cordoned_nodes_validation api) (\<lambda>_. nodes_checked) (\<lambda>_. True)"
  unfolding already_cordoned_nodes_validation_def
  by (rule emits_seq [OF emits_logged_exact], rule emits_bind_pure)
    (auto simp: nodes_checked_def emits_ret_iff dest: cordoned_nodes_Nil intro: emits_conseq [OF emits_refusal])

lemma emits_single_replica_validation:
  "emits (single_volume_replica_validation fuel api)
     (\<lambda>_ d. \<exists>vols. paged volume_page 0 vols d \<and> list_all (\<lambda>v. pv_num_replicas v \<noteq> 1) vols) (\<lambda>_. True)"
  unfolding single_volume_replica_validation_def
proof (rule emits_seq [OF emits_single_replica_volumes], goal_cases)
  case (1 uuids d)
  have "emits (bindP (get_pvc_from_uuid api (set uuids)) (\<lambda>pvcs. bindP (pl_error txt1 (str_join LF pvcs)) (\<lambda>_. failP e)))
      (\<lambda>_ _. False) (\<lambda>_. True)" for txt1 e
    by (rule emits_seq [OF only_emits [OF looks_release(3)]]) (simp_all add: emits_refusal)
  note refused = this
  show ?case
  proof (cases "uuids = []")
    case True
    with 1 show ?thesis by (auto simp: filter_empty_conv list_all_iff SINGLE_REPLICA_VOLUME_def emits_ret_iff)
  next
    case False
    then show ?thesis by (auto intro: emits_conseq [OF refused])
  qed
qed simp

lemma emits_unless: "emits m Q (\<lambda>_. True) \<Longrightarrow> emits (if \<not> skip then m else retP ()) (\<lambda>a d. skip \<or> Q a d) (\<lambda>_. True)"
  by (cases skip) (auto intro: emits_ret elim: emits_conseq)

text \<open>
  The trace of checks that were passed: after the warning and the client, one part for each
  check, skipped or seen to hold.
\<close>

definition preflight_passed ::
  "('v::linorder) plugin_lib \<Rightarrow> plugin_consts \<Rightarrow> string \<Rightarrow> upgrade_args \<Rightarrow> plugin_trace list \<Rightarrow> bool" where
  "preflight_passed lib c ns args d \<longleftrightarrow>
     (\<exists>d0 d1 d2 d3 d4. d = d0 @ d1 @ d2 @ d3 @ d4 \<and>
       (ua_skip_upgrade_path_validation args \<or> path_checked lib c ns (ua_allow_unstable args) d1) \<and>
       (ua_skip_replica_rebuild args \<or>
          (\<exists>vols. paged volume_page 0 vols d2 \<and> \<not> list_ex volume_rebuilding vols)) \<and>
       (ua_skip_cordoned_node_validation args \<or> nodes_checked d3) \<and>
       (ua_skip_single_replica_volume_validation args \<or>
          (\<exists>vols. paged volume_page 0 vols d4 \<and> list_all (\<lambda>v. pv_num_replicas v \<noteq> 1) vols)))"

lemma preflight_passedI:
  assumes "ua_skip_upgrade_path_validation args \<or> path_checked lib c ns (ua_allow_unstable args) d1"
    and "ua_skip_replica_rebuild args \<or> (\<exists>vols. paged volume_page 0 vols d2 \<and> \<not> list_ex volume_rebuilding vols)"
    and "ua_skip_cordoned_node_validation args \<or> nodes_checked d3"
    and "ua_skip_single_replica_volume_validation args \<or>
      (\<exists>vols. paged volume_page 0 vols d4 \<and> list_all (\<lambda>v. pv_num_replicas v \<noteq> 1) vols)"
  shows "preflight_passed lib c ns args (x @ y @ d1 @ d2 @ d3 @ d4)"
  unfolding preflight_passed_def using assms
  by (intro exI [of _ "x @ y"] exI [of _ d1] exI [of _ d2] exI [of _ d3] exI [of _ d4] conjI) simp_all

lemma emits_preflight:
  "emits (preflight_check fuel lib c api ns kube_config timeout args)
     (\<lambda>_ d. preflight_passed lib c ns args d \<and> list_all (\<lambda>e. \<not> changes e) d) (list_all (\<lambda>e. \<not> changes e))"
proof -
  have "emits (preflight_check fuel lib c api ns kube_config timeout args) (\<lambda>_. preflight_passed lib c ns args) (\<lambda>_. True)"
    unfolding preflight_check_def pl_info_def
    by (rule emits_seq [OF emits_tick_exact], rule emits_seq [OF emits_embedded_exact],
        rule emits_seq [OF emits_unless [OF emits_path_validation]], rule emits_seq [OF emits_unless [OF emits_rebuild_validation]],
        rule emits_seq [OF emits_unless [OF emits_cordoned_validation]],
        rule emits_conseq [OF emits_unless [OF emits_single_replica_validation]]) (blast intro: preflight_passedI)+
  from emits_conj [OF this only_emits [OF looks_preflight]] show ?thesis by (rule emits_conseq) auto
qed

text \<open>
  Property C26.  The checks before an upgrade only read, whatever happens; and when they pass,
  each check that was not skipped has seen what it is there for: the installed version, read
  from the REST deployment, is not an unsupported one, not newer than this plugin and not
  stable where the plugin is unstable; a complete listing of the volumes in which none is
  rebuilding; the storage nodes, of which none is cordoned; and a complete listing of the volumes
  in which none has just one replica.
\<close>

theorem preflight_check_sound:
  assumes "preflight_check fuel lib c api ns kube_config timeout args s = (r, t)"
  shows "\<exists>d. rt_trace t = rt_trace s @ d \<and> list_all (\<lambda>e. \<not> changes e) d \<and>
    (r = Ok () \<longrightarrow> preflight_passed lib c ns args d)"
proof -
  obtain d where "rt_trace t = rt_trace s @ d" "case r of
      Ok a \<Rightarrow> preflight_passed lib c ns args d \<and> list_all (\<lambda>e. \<not> changes e) d
    | Err e \<Rightarrow> list_all (\<lambda>e. \<not> changes e) d | OutOfFuel \<Rightarrow> list_all (\<lambda>e. \<not> changes e) d"
    using emitsD [OF emits_preflight assms] .
  then show ?thesis by (cases r) auto
qed

section \<open>When the cluster may change\<close>

text \<open>A job whose status says that it succeeded.\<close>

definition job_succeeded :: "plugin_trace \<Rightarrow> bool" where
  "job_succeeded e \<longleftrightarrow> (\<exists>ns name meta spec. e = PgGet KJob ns name (Inr (Some (JobObj meta spec (Some (Some 1))))))"

lemma completed_status:
  assumes "(case found of
       Some (JobObj _ _ status) \<Rightarrow> res_bind (ok_or e1 status) (\<lambda>succeeded. Inr (case succeeded of None \<Rightarrow> False | Some count \<Rightarrow> count = 1))
     | Some _ \<Rightarrow> Inl e2 | None \<Rightarrow> Inl e3) = Inr True"
  shows "job_succeeded (PgGet KJob sc name (Inr found))"
proof (cases found)
  case (Some obj)
  with assms show ?thesis
    by (cases obj) (auto simp: job_succeeded_def res_bind_eq_Inr ok_or_eq_Inr split: option.split_asm)
qed (use assms in simp)

lemma emits_job_completed:
  "emits (is_upgrade_job_completed c api ns)
     (\<lambda>b d. list_all (\<lambda>e. \<not> changes e) d \<and> (b \<longrightarrow> list_ex job_succeeded d)) (list_all (\<lambda>e. \<not> changes e))"
proof -
  have "emits (is_upgrade_job_completed c api ns) (\<lambda>b d. b \<longrightarrow> list_ex job_succeeded d) (\<lambda>_. True)"
    unfolding is_upgrade_job_completed_def Let_def get_opt_def
    by (rule emits_seq [OF only_emits [OF looks_commands(1)]], rule emits_seq [OF emits_logged_exact], rule emits_liftR)
      (auto intro!: disjI2 completed_status)
  from emits_conj [OF this only_emits [OF looks_commands(4)]] show ?thesis by (rule emits_conseq) auto
qed

text \<open>What an operation may have done before it changes the cluster.\<close>

fun may_change :: "('v::linorder) plugin_lib \<Rightarrow> plugin_consts \<Rightarrow> string \<Rightarrow> upgrade_operation \<Rightarrow> plugin_trace list \<Rightarrow> bool" where
  "may_change lib c ns GetUpgradeStatus pre = False"
| "may_change lib c ns (OpUpgrade args) pre \<longleftrightarrow>
     \<not> ua_dry_run args \<and> (\<exists>d d'. pre = d @ d' \<and> preflight_passed lib c ns args d)"
| "may_change lib c ns (DeleteUpgrade force) pre \<longleftrightarrow> force \<or> list_ex job_succeeded pre"

definition changes_allowed ::
  "('v::linorder) plugin_lib \<Rightarrow> plugin_consts \<Rightarrow> string \<Rightarrow> upgrade_operation \<Rightarrow> plugin_trace list \<Rightarrow> bool" where
  "changes_allowed lib c ns oper d \<longleftrightarrow>
     (\<forall>pre e post. d = pre @ e # post \<longrightarrow> changes e \<longrightarrow> may_change lib c ns oper pre)"

lemma changes_allowed_looks: "list_all (\<lambda>e. \<not> changes e) d \<Longrightarrow> changes_allowed lib c ns oper d"
  by (auto simp: changes_allowed_def)

lemma may_change_append: "may_change lib c ns oper pre \<Longrightarrow> may_change lib c ns oper (pre @ e)"
  by (cases oper) (simp, metis append_assoc may_change.simps(2), auto)

lemma changes_allowed_append:
  assumes "list_all (\<lambda>e. \<not> changes e) d" "may_change lib c ns oper d"
  shows "changes_allowed lib c ns oper (d @ e)"
  unfolding changes_allowed_def
proof (intro allI impI)
  fix pre x post
  assume "d @ e = pre @ x # post" "changes x"
  moreover from this assms(1) have "x \<notin> set d" by (auto simp: list_all_iff)
  ultimately obtain d' where "pre = d @ d'" by (auto simp: append_eq_append_conv2 append_eq_Cons_conv)
  with assms(2) show "may_change lib c ns oper pre" by (simp add: may_change_append)
qed

abbreviation traced :: "('w, 'a) plug \<Rightarrow> bool" where
  "traced \<equiv> only (\<lambda>_. True)"

lemma looks_traced: "looks_only m \<Longrightarrow> traced m"
  by (erule only_mono) simp

lemma traced_entries [only_rules]: "traced (config_map_entries api i args dm um)"
  by (induction args arbitrary: i dm um) (auto intro!: only_rules split: list.splits)

lemma traced_actions [only_rules]:
  "traced (service_account_actions c api release_name ns action)"
  "traced (cluster_role_actions c api release_name ns action)"
  "traced (cluster_role_binding_actions c api release_name ns action)"
  "traced (config_map_actions c api release_name ns action args)"
  "traced (job_actions c api release_name ns action args um)"
  by (auto simp: service_account_actions_def cluster_role_actions_def cluster_role_binding_actions_def
      config_map_actions_def job_actions_def create_config_map_data_def Let_def plugin_defs
      intro!: only_rules looks_traced [OF looks_basic(5)] split: option.splits plugin_action.splits)

lemma traced_resources [only_rules]:
  "traced (create_upgrade_resources c api ns args)"
  "traced (delete_upgrade_resources c api ns)"
  by (auto simp: create_upgrade_resources_def delete_upgrade_resources_def intro!: only_rules looks_traced [OF looks_commands(1)])

lemma traced_await [only_rules]: "traced (await_upgrade_event n lib c api ns release_name)"
  by (induction n) (auto simp: handle_upgrade_event_def plugin_defs
      intro!: only_rules looks_traced [OF looks_release(5)] split: option.splits sum.splits)

lemma traced_execute [only_rules]: "traced (upgrade_execute lib c api args ns)"
  by (auto simp: upgrade_execute_def upgrade_apply_def delete_upgrade_events_def Let_def
      intro!: only_rules looks_traced [OF looks_release(1)] looks_traced [OF looks_release(4)] looks_traced [OF looks_commands(3)])

lemma emits_execute_operation:
  "emits (execute_operation fuel lib c api ns kube_config timeout oper) (\<lambda>_. changes_allowed lib c ns oper) (changes_allowed lib c ns oper)"
proof (cases oper)
  case GetUpgradeStatus
  then show ?thesis
    by (auto intro: emits_conseq [OF only_emits [OF looks_commands(2)]] changes_allowed_looks)
next
  case (OpUpgrade args)
  show ?thesis unfolding OpUpgrade execute_operation.simps
  proof (rule emits_seq [OF emits_preflight], goal_cases)
    case (1 u d)
    show ?case
    proof (cases "ua_dry_run args")
      case True
      with 1 show ?thesis unfolding upgrade_execute_def
        by (auto intro!: emits_conseq [OF only_emits [OF looks_commands(3)]] changes_allowed_looks)
    next
      case False
      with 1 have "changes_allowed lib c ns (OpUpgrade args) (d @ e)" for e
        by (intro changes_allowed_append) auto
      then show ?thesis by (auto intro: emits_conseq [OF only_emits [OF traced_execute]])
    qed
  qed (rule changes_allowed_looks)
next
  case (DeleteUpgrade force)
  show ?thesis unfolding DeleteUpgrade execute_operation.simps delete_upgrade_def
  proof (rule emits_seq [OF emits_job_completed], goal_cases)
    case (1 completed d)
    show ?case
    proof (cases "completed \<or> force")
      case True
      with 1 have "changes_allowed lib c ns (DeleteUpgrade force) (d @ e)" for e
        by (intro changes_allowed_append) auto
      then show ?thesis using True by (auto intro: emits_conseq [OF only_emits [OF traced_resources(2)]])
    next
      case False
      with 1 show ?thesis unfolding pl_error_def
        by (auto intro!: emits_seq [OF emits_tick_exact] emits_ret changes_allowed_looks)
    qed
  qed (rule changes_allowed_looks)
qed

end
