(* ===== verification/DumpApi.thy ===== *)
theory DumpApi
  imports Proxy
begin

text \<open>
  The surroundings of the support tool (\<open>k8s/supportability\<close>): the storage REST API, Kubernetes,
  Loki, etcd, the file system and the console, as a record of functions over an arbitrary
  world; the tool's own log file (\<open>collect/utils.rs\<close>); its errors (\<open>collect/error.rs\<close> and
  the error enums of its modules); and programs that may also panic or end the process.
\<close>

section \<open>Errors\<close>

text \<open>An error of the REST client: a response with a status, or anything else.\<close>

datatype rest_error = RestStatus nat string | RestOther string

datatype resource_error =
    RIOError string
  | RRestJsonError rest_error
  | RJSONError string
  | RUUIDParseError string
  | RCustomError string
  | RMultipleErrors "resource_error list"

text \<open>An error of the Kubernetes client: an API error with its code, or anything else.\<close>

datatype kube_error = KubeApi nat string | KubeOther string

datatype k8s_resource_error =
    ClientConfigError string
  | InferConfigError string
  | ClientError kube_error
  | KResourceError string
  | KCustomError string

datatype loki_error = LRequest string | LResponse string | LTower string | LSerde string | LHyper string | LIOError string

datatype k8s_logger_error = LoggerK8s k8s_resource_error | LoggerIO string

datatype log_error =
    LogLoki loki_error
  | LogK8sResource k8s_resource_error
  | LogK8sLogger k8s_logger_error
  | LogIOError string
  | LogCustom string
  | LogMultipleErrors "log_error list"

datatype k8s_dumper_error =
    DumperK8s k8s_resource_error
  | DumperIO string
  | DumperYaml string
  | DumperJson string
  | DumperMultiple "k8s_dumper_error list"

datatype etcd_error = EtcdStoreError string | EtcdK8s k8s_resource_error | EtcdIO string | EtcdCustom string | EtcdCreateClient string

datatype dump_error =
    ResourceError resource_error
  | ArchiveError string
  | LogCollectionError log_error
  | K8sResourceDumperError k8s_dumper_error
  | OSStringError string
  | EtcdDumpError etcd_error
  | MultipleErrors "dump_error list"

text \<open>
  How a run of the tool can stop: with an error that the caller may handle, with a panic
  (\<open>unwrap\<close>, \<open>expect\<close>, an index out of bounds), or by \<open>process::exit(1)\<close>, the only status that it exits with.
\<close>

datatype 'e fault = Fault 'e | Panic | Exit

section \<open>Data\<close>

datatype d_node_status = NodeUnknown | NodeOnline | NodeOffline
datatype d_pool_status = PoolUnknown | PoolOnline | PoolDegraded | PoolFaulted
datatype d_replica_state = ReplicaUnknown | ReplicaOnline | ReplicaDegraded | ReplicaFaulted
datatype d_nexus_state = NexusUnknown | NexusOnline | NexusDegraded | NexusFaulted | NexusShuttingDown | NexusShutdown

record d_node =
  dn_id :: string
  dn_spec_id :: "string option"
  dn_state :: "(string \<times> d_node_status) option"

record d_device =
  dd_devname :: string
  dd_devpath :: string
  dd_devlinks :: "string list"

record d_pool_spec =
  dps_node :: string
  dps_disks :: "string list"

record d_pool =
  dp_id :: string
  dp_spec :: "d_pool_spec option"
  dp_state :: "(string \<times> d_pool_status) option"

record d_replica =
  dr_node :: string
  dr_pool :: string
  dr_state :: d_replica_state

record d_nexus =
  dx_node :: string
  dx_state :: d_nexus_state

text \<open>The replicas of a volume in the order in which the map of them is iterated over.\<close>

record d_volume =
  dv_uuid :: string
  dv_target :: "d_nexus option"
  dv_replicas :: "string list"

text \<open>The topologies that are written to files, and the trait object of them (\<open>Topologer\<close>).\<close>

record node_topology =
  nt_node :: d_node
  nt_devices :: "d_device list option"

record pool_topology =
  pt_pool :: d_pool
  pt_node_info :: "d_node option"
  pt_device_info :: "d_device list option"

record replica_topology =
  rt_replica :: d_replica
  rt_pool_topology :: pool_topology

record volume_topology =
  vt_volume :: d_volume
  vt_target :: "d_nexus option"
  vt_replicas_topology :: "replica_topology list"
  vt_rebuild_history :: "string option"

datatype topologer =
    NodeTopologer node_topology
  | PoolTopologer pool_topology
  | VolumeTopologer volume_topology
  | SnapshotTopologer string
  | VecTopologer "topologer list"

text \<open>
  A pod with the name and the restart count of its container statuses (\<open>None\<close> for a pod without
  a status, \<open>Some None\<close> for a status without them), and its spec with the node and the containers.
\<close>

record d_pod =
  dpod_name :: "string option"
  dpod_labels :: "(string \<rightharpoonup> string) option"
  dpod_spec :: "(string option \<times> string list) option"
  dpod_restarts :: "(string \<times> int) list option option"

record d_k8s_node =
  dk_name :: "string option"
  dk_labels :: "(string \<rightharpoonup> string) option"

record d_event =
  de_series :: "int option option"
  de_last_timestamp :: "int option"
  de_event_time :: "int option"
  de_other :: string

text \<open>
  A deployment, daemon set, stateful set or disk pool; a dynamic object with what \<open>data["driver"]\<close>
  and \<open>data["spec"]["driver"]\<close> are: absent, not a string, or a string.
\<close>

record d_app =
  dap_name :: "string option"
  dap_other :: string

record d_dynamic =
  dy_driver :: "string option option"
  dy_spec_driver :: "string option option option"
  dy_other :: string

text \<open>What the server's discovery says of a kind of objects.\<close>

record api_cap =
  ac_version :: string
  ac_kind :: string
  ac_can_list :: bool
  ac_cluster_scope :: bool

record list_params =
  lp_labels :: string
  lp_fields :: string
  lp_limit :: "nat option"
  lp_continue :: "string option"

record loki_stream =
  ls_values :: "string list list"

record loki_response =
  lr_status :: string
  lr_result :: "loki_stream list"

record log_resource =
  lgr_container_name :: string
  lgr_host_name :: "string option"
  lgr_label_selector :: string
  lgr_service_type :: string

section \<open>The surroundings\<close>

datatype list_kind = LDaemonSets | LDeployments | LStatefulSets | LDiskPools

text \<open>What is printed as JSON or YAML.\<close>

datatype printable =
    PrTopology topologer
  | PrEvents "d_event list"
  | PrPods "d_pod list"
  | PrApp list_kind d_app
  | PrDiskPools "d_app list"
  | PrDynamic "d_dynamic list"
  | PrEtcdValue string

record 'w dump_api =
  da_local_date :: "'w \<Rightarrow> string \<times> 'w"
  da_utc_date :: "'w \<Rightarrow> string \<times> 'w"
  da_timestamp_nanos :: "'w \<Rightarrow> int option \<times> 'w"
  da_create_dir_all :: "string \<Rightarrow> 'w \<Rightarrow> (string, unit) res \<times> 'w"
  da_metadata_ok :: "string \<Rightarrow> 'w \<Rightarrow> bool \<times> 'w"
  da_file_create :: "string \<Rightarrow> 'w \<Rightarrow> (string, unit) res \<times> 'w"
  da_write_all :: "string \<Rightarrow> string \<Rightarrow> 'w \<Rightarrow> (string, unit) res \<times> 'w"
  da_flush :: "string \<Rightarrow> 'w \<Rightarrow> (string, unit) res \<times> 'w"
  da_remove_file :: "string \<Rightarrow> 'w \<Rightarrow> (string, unit) res \<times> 'w"
  da_remove_dir_all :: "string \<Rightarrow> 'w \<Rightarrow> (string, unit) res \<times> 'w"
  da_append_dir_all :: "string \<Rightarrow> string \<Rightarrow> string \<Rightarrow> 'w \<Rightarrow> (string, unit) res \<times> 'w"
  da_tar_finish :: "string \<Rightarrow> 'w \<Rightarrow> (string, unit) res \<times> 'w"
  da_proxy :: "'w proxy_api"
  da_get_nodes :: "'w \<Rightarrow> (rest_error, d_node list) res \<times> 'w"
  da_get_node :: "string \<Rightarrow> 'w \<Rightarrow> (rest_error, d_node) res \<times> 'w"
  da_get_block_devices :: "string \<Rightarrow> bool \<Rightarrow> 'w \<Rightarrow> (rest_error, d_device list) res \<times> 'w"
  da_get_pools :: "'w \<Rightarrow> (rest_error, d_pool list) res \<times> 'w"
  da_get_pool :: "string \<Rightarrow> 'w \<Rightarrow> (rest_error, d_pool) res \<times> 'w"
  da_get_volumes :: "nat \<Rightarrow> int option \<Rightarrow> 'w \<Rightarrow> (rest_error, d_volume list \<times> int option) res \<times> 'w"
  da_get_volume :: "string \<Rightarrow> 'w \<Rightarrow> (rest_error, d_volume) res \<times> 'w"
  da_get_replica :: "string \<Rightarrow> 'w \<Rightarrow> (rest_error, d_replica) res \<times> 'w"
  da_get_rebuild_history :: "string \<Rightarrow> 'w \<Rightarrow> (rest_error, string) res \<times> 'w"
  da_get_snapshots :: "nat \<Rightarrow> int option \<Rightarrow> 'w \<Rightarrow> (rest_error, string list \<times> int option) res \<times> 'w"
  da_get_snapshot :: "string \<Rightarrow> 'w \<Rightarrow> (rest_error, string) res \<times> 'w"
  da_read_kubeconfig :: "string \<Rightarrow> 'w \<Rightarrow> (string, string) res \<times> 'w"
  da_custom_config :: "string \<Rightarrow> 'w \<Rightarrow> (string, string) res \<times> 'w"
  da_infer_config :: "'w \<Rightarrow> (string, string) res \<times> 'w"
  da_kube_client :: "string \<Rightarrow> 'w \<Rightarrow> (kube_error, unit) res \<times> 'w"
  da_platform_info :: "string \<Rightarrow> 'w \<Rightarrow> (string, string) res \<times> 'w"
  da_list_pods :: "string \<Rightarrow> list_params \<Rightarrow> 'w \<Rightarrow> (kube_error, d_pod list \<times> string option) res \<times> 'w"
  da_list_events :: "string \<Rightarrow> list_params \<Rightarrow> 'w \<Rightarrow> (kube_error, d_event list \<times> string option) res \<times> 'w"
  da_list_apps :: "list_kind \<Rightarrow> string \<Rightarrow> list_params \<Rightarrow> 'w \<Rightarrow> (kube_error, d_app list) res \<times> 'w"
  da_discovery :: "'w \<Rightarrow> (kube_error, (string \<times> api_cap list) list) res \<times> 'w"
  da_list_dynamic :: "string option \<times> string \<times> api_cap \<Rightarrow> list_params \<Rightarrow> 'w \<Rightarrow> (kube_error, d_dynamic list \<times> string option) res \<times> 'w"
  da_list_nodes :: "list_params \<Rightarrow> 'w \<Rightarrow> (kube_error, d_k8s_node list) res \<times> 'w"
  da_get_k8s_node :: "string \<Rightarrow> 'w \<Rightarrow> (kube_error, d_k8s_node) res \<times> 'w"
  da_log_stream :: "string \<Rightarrow> string \<Rightarrow> string \<Rightarrow> bool \<Rightarrow> 'w \<Rightarrow> (kube_error, (string, string) res list) res \<times> 'w"
  da_loki_call :: "string \<Rightarrow> 'w \<Rightarrow> (string, bool \<times> (string, string) res) res \<times> 'w"
  da_etcd_connect :: "string \<Rightarrow> 'w \<Rightarrow> (string, unit) res \<times> 'w"
  da_etcd_get_all :: "string \<Rightarrow> int \<Rightarrow> 'w \<Rightarrow> (string, (string \<times> string) list) res \<times> 'w"

text \<open>
  Library functions without effects: printing and parsing, the \<open>Debug\<close> texts of errors and of
  sets of resources, and the order in which a set of resources is iterated over.
\<close>

record dump_lib =
  dl_json_pretty :: "printable \<Rightarrow> (string, string) res"
  dl_yaml :: "printable \<Rightarrow> (string, string) res"
  dl_uuid_parse :: "string \<Rightarrow> (string, string) res"
  dl_loki_decode :: "string \<Rightarrow> (string, loki_response) res"
  dl_urlencode :: "string \<Rightarrow> string"
  dl_http_request :: "string \<Rightarrow> (string, unit) res"
  dl_csi_plugin_name :: string
  dl_logging_key :: string
  dl_key_prefix :: "string \<Rightarrow> string"
  dl_debug_string :: "string \<Rightarrow> string"
  dl_debug_opt :: "string option \<Rightarrow> string"
  dl_debug_resource :: "resource_error \<Rightarrow> string"
  dl_debug_loki :: "loki_error \<Rightarrow> string"
  dl_debug_logger :: "k8s_logger_error \<Rightarrow> string"
  dl_debug_log :: "log_error \<Rightarrow> string"
  dl_debug_dumper :: "k8s_dumper_error \<Rightarrow> string"
  dl_debug_etcd :: "etcd_error \<Rightarrow> string"
  dl_debug_dump :: "dump_error \<Rightarrow> string"
  dl_debug_resources :: "log_resource set \<Rightarrow> string"
  dl_iter :: "log_resource set \<Rightarrow> log_resource list"
  dl_sort_unstable_by_key :: "(int \<times> d_event) list \<Rightarrow> d_event list"

section \<open>Traces\<close>

datatype dump_trace =
    DPrint string
  | DDate
  | DCreateDir string "(string, unit) res"
  | DMetadata string bool
  | DCreate string "(string, unit) res"
  | DWrite string string "(string, unit) res"
  | DFlush string "(string, unit) res"
  | DRemoveFile string "(string, unit) res"
  | DRemoveDir string "(string, unit) res"
  | DArchive string string "(string, unit) res"
  | DFinish string "(string, unit) res"
  | DRequest string
  | DLoki string "(string, bool \<times> (string, string) res) res"
  | DEtcd string "(string, (string \<times> string) list) res"

text \<open>
  The state: the world and the cell of the tool's log file (\<open>OnceCell\<close>), which is unset, set
  to no file, or set to a file.
\<close>

record 'w dump_world =
  dw_env :: 'w
  dw_tool_log :: "string option option"

type_synonym ('w, 'e, 'a) dump = "(('w dump_world, dump_trace) rt, 'e fault, 'a) prog"

definition in_env :: "('w \<Rightarrow> 'r \<times> 'w) \<Rightarrow> 'w dump_world \<Rightarrow> 'r \<times> 'w dump_world" where
  "in_env f dw = (case f (dw_env dw) of (r, w) \<Rightarrow> (r, dw\<lparr>dw_env := w\<rparr>))"

definition dcall :: "('w \<Rightarrow> ('x, 'a) res \<times> 'w) \<Rightarrow> (('x, 'a) res \<Rightarrow> dump_trace) \<Rightarrow> ('x \<Rightarrow> 'e) \<Rightarrow> ('w, 'e, 'a) dump" where
  "dcall f ev ctx = logged (in_env f) ev (\<lambda>e. Fault (ctx e))"

text \<open>A request that only reads, of which the trace records that it was made.\<close>

definition dread :: "('w \<Rightarrow> ('x, 'a) res \<times> 'w) \<Rightarrow> string \<Rightarrow> ('x \<Rightarrow> 'e) \<Rightarrow> ('w, 'e, 'a) dump" where
  "dread f what ctx = dcall f (\<lambda>_. DRequest what) ctx"

definition dpure :: "('w \<Rightarrow> 'a \<times> 'w) \<Rightarrow> ('a \<Rightarrow> dump_trace) \<Rightarrow> ('w, 'e, 'a) dump" where
  "dpure f ev = logged (\<lambda>dw. case in_env f dw of (a, dw') \<Rightarrow> (Inr a, dw')) (\<lambda>r. case r of Inr a \<Rightarrow> ev a | Inl (_ :: unit) \<Rightarrow> DDate) (\<lambda>_. Panic)"

text \<open>A connection made by the proxy library; what is unimplemented there is a panic.\<close>

definition in_envP :: "('w, 'e, 'a) prog \<Rightarrow> ('w dump_world, 'e, 'a) prog" where
  "in_envP m dw = (case m (dw_env dw) of (r, w) \<Rightarrow> (r, dw\<lparr>dw_env := w\<rparr>))"

definition dproxy :: "('w, 'a) proxied \<Rightarrow> string \<Rightarrow> (string \<Rightarrow> 'e) \<Rightarrow> ('w, 'e, 'a) dump" where
  "dproxy m what ctx =
     embedded (in_envP m) (DRequest what) (\<lambda>e. case e of Anyhow text \<Rightarrow> Fault (ctx text) | Unimplemented \<Rightarrow> Panic)"

definition dprint :: "string \<Rightarrow> ('w, 'e, unit) dump" where
  "dprint text = tick id (DPrint text)"

text \<open>\<open>match m.await { .. Err(e) => .. }\<close> and \<open>map_err\<close>: a panic is not caught.\<close>

definition tryF :: "('w, 'e, 'a) dump \<Rightarrow> ('w, 'f, 'e + 'a) dump" where
  "tryF m s =
     (case m s of (Ok a, t) \<Rightarrow> (Ok (Inr a), t) | (Err (Fault e), t) \<Rightarrow> (Ok (Inl e), t)
      | (Err Panic, t) \<Rightarrow> (Err Panic, t) | (Err Exit, t) \<Rightarrow> (Err Exit, t) | (OutOfFuel, t) \<Rightarrow> (OutOfFuel, t))"

definition fault_of :: "'e \<Rightarrow> ('w, 'e, 'a) dump" where
  "fault_of e = failP (Fault e)"

definition liftF :: "('e, 'a) res \<Rightarrow> ('w, 'e, 'a) dump" where
  "liftF r = liftR (map_err Fault r)"

definition or_panic :: "'a option \<Rightarrow> ('w, 'e, 'a) dump" where
  "or_panic x = liftR (ok_or Panic x)"

text \<open>\<open>From\<close> for the error of a call, at a \<open>?\<close>.\<close>

definition conv :: "('e \<Rightarrow> 'f) \<Rightarrow> ('w, 'e, 'a) dump \<Rightarrow> ('w, 'f, 'a) dump" where
  "conv f m = bindP (tryF m) (\<lambda>r. case r of Inl e \<Rightarrow> fault_of (f e) | Inr a \<Rightarrow> retP a)"

text \<open>A \<open>for\<close> loop that pushes one result for each element.\<close>

primrec mapP :: "('a \<Rightarrow> ('s, 'e, 'b) prog) \<Rightarrow> 'a list \<Rightarrow> ('s, 'e, 'b list) prog" where
  "mapP f [] = retP []"
| "mapP f (x # xs) = bindP (f x) (\<lambda>y. bindP (mapP f xs) (\<lambda>ys. retP (y # ys)))"

text \<open>A \<open>for\<close> loop with a local variable.\<close>

primrec foldP :: "('a \<Rightarrow> 'b \<Rightarrow> ('s, 'e, 'b) prog) \<Rightarrow> 'a list \<Rightarrow> 'b \<Rightarrow> ('s, 'e, 'b) prog" where
  "foldP f [] b = retP b"
| "foldP f (x # xs) b = bindP (f x b) (foldP f xs)"

section \<open>What is done\<close>

lemma only_dcall [only_rules]: "(\<And>r. X (ev r)) \<Longrightarrow> only X (dcall f ev ctx)"
  unfolding dcall_def by (rule only_logged)

lemma only_dread [only_rules]: "X (DRequest what) \<Longrightarrow> only X (dread f what ctx)"
  unfolding dread_def by (rule only_dcall)

lemma only_dproxy [only_rules]: "X (DRequest what) \<Longrightarrow> only X (dproxy m what ctx)"
  unfolding dproxy_def by (rule only_embedded)

lemma only_dpure [only_rules]: "(\<And>a. X (ev a)) \<Longrightarrow> X DDate \<Longrightarrow> only X (dpure f ev)"
  unfolding dpure_def by (rule only_logged) (auto split: sum.splits)

lemma only_dprint [only_rules]: "X (DPrint text) \<Longrightarrow> only X (dprint text)"
  unfolding dprint_def by (rule only_tick)

lemma only_fault_of [only_rules]: "only X (fault_of e)"
  unfolding fault_of_def by (rule only_fail)

lemma only_liftF [only_rules]: "only X (liftF r)"
  unfolding liftF_def by (rule only_liftR)

lemma only_or_panic [only_rules]: "only X (or_panic x)"
  unfolding or_panic_def by (rule only_liftR)

lemma only_gets [only_rules]: "only X (getsP f)"
  by (simp add: only_def emits_def)

lemma only_modify [only_rules]: "(\<And>s. rt_trace (f s) = rt_trace s) \<Longrightarrow> only X (modifyP f)"
  by (simp add: only_def emits_def)

lemma emits_tryF:
  assumes "emits m Q I"
  shows "emits (tryF m) (\<lambda>r d. case r of Inr a \<Rightarrow> Q a d | Inl e \<Rightarrow> I d) I"
  unfolding emits_def
proof (intro allI impI)
  fix s r t
  assume run: "tryF m s = (r, t)"
  obtain r1 t1 where m1: "m s = (r1, t1)" by (cases "m s") auto
  obtain d where "rt_trace t1 = rt_trace s @ d"
    "case r1 of Ok a \<Rightarrow> Q a d | Err e \<Rightarrow> I d | OutOfFuel \<Rightarrow> I d" using emitsD [OF assms m1] .
  with run m1 show "\<exists>d. rt_trace t = rt_trace s @ d \<and>
      (case r of Ok a \<Rightarrow> (case a of Inl e \<Rightarrow> I d | Inr a \<Rightarrow> Q a d) | Err e \<Rightarrow> I d | OutOfFuel \<Rightarrow> I d)"
    by (intro exI [of _ d]) (auto simp: tryF_def split: outcome.splits fault.splits)
qed

lemma only_tryF [only_rules]: "only X m \<Longrightarrow> only X (tryF m)"
  unfolding only_def by (drule emits_tryF, erule emits_conseq) (simp_all split: sum.splits)

lemma only_conv [only_rules]: "only X m \<Longrightarrow> only X (conv f m)"
  unfolding conv_def by (auto intro!: only_rules split: sum.splits)

lemma only_mapP [only_rules]: "(\<And>x. only X (f x)) \<Longrightarrow> only X (mapP f xs)"
  by (induction xs) (auto intro!: only_rules)

lemma only_foldP [only_rules]: "(\<And>x b. only X (f x b)) \<Longrightarrow> only X (foldP f xs b)"
  by (induction xs arbitrary: b) (auto intro!: only_rules)

section \<open>What comes out\<close>

text \<open>
  \<open>gives Q F m\<close>: a value that \<open>m\<close> returns satisfies \<open>Q\<close> and an error that it returns
  satisfies \<open>F\<close>, whatever the state; nothing is said of a panic, an exit or an endless run.
\<close>

definition gives :: "('a \<Rightarrow> bool) \<Rightarrow> ('e \<Rightarrow> bool) \<Rightarrow> ('w, 'e, 'a) dump \<Rightarrow> bool" where
  "gives Q F m \<longleftrightarrow> (\<forall>s. case fst (m s) of Ok a \<Rightarrow> Q a | Err (Fault e) \<Rightarrow> F e | _ \<Rightarrow> True)"

named_theorems gives_rules "closure of gives under the control structures"

lemma gives_Ok: "gives Q F m \<Longrightarrow> m s = (Ok a, t) \<Longrightarrow> Q a"
  unfolding gives_def by (drule spec [of _ s]) simp

lemma gives_Fault: "gives Q F m \<Longrightarrow> m s = (Err (Fault e), t) \<Longrightarrow> F e"
  unfolding gives_def by (drule spec [of _ s]) simp

lemma givesI:
  assumes "\<And>s a t. m s = (Ok a, t) \<Longrightarrow> Q a" "\<And>s e t. m s = (Err (Fault e), t) \<Longrightarrow> F e"
  shows "gives Q F m"
  unfolding gives_def
proof
  fix s
  show "case fst (m s) of Ok a \<Rightarrow> Q a | Err (Fault e) \<Rightarrow> F e | _ \<Rightarrow> True"
    using assms [of s] by (cases "m s") (auto split: outcome.splits fault.splits)
qed

lemma gives_mono: "gives Q F m \<Longrightarrow> (\<And>a. Q a \<Longrightarrow> Q' a) \<Longrightarrow> (\<And>e. F e \<Longrightarrow> F' e) \<Longrightarrow> gives Q' F' m"
  by (rule givesI) (blast dest: gives_Ok gives_Fault)+

lemma gives_ret [gives_rules]: "Q a \<Longrightarrow> gives Q F (retP a)"
  by (rule givesI) auto

lemma gives_stop [gives_rules]: "gives Q F (failP Panic)" "gives Q F (failP Exit)"
  by (auto intro: givesI)

lemma gives_fault_of [gives_rules]: "F e \<Longrightarrow> gives Q F (fault_of e)"
  unfolding fault_of_def by (rule givesI) auto

lemma gives_or_panic [gives_rules]: "(\<And>a. Q a) \<Longrightarrow> gives Q F (or_panic x)"
  unfolding or_panic_def by (cases x; rule givesI) (auto simp: ok_or_def)

lemma gives_bind:
  assumes m: "gives P F m" and k: "\<And>a. P a \<Longrightarrow> gives Q F (k a)"
  shows "gives Q F (bindP m k)"
proof (rule givesI)
  show "Q b" if "bindP m k s = (Ok b, t)" for s b t
  proof -
    from that obtain a u where "m s = (Ok a, u)" "k a u = (Ok b, t)" by (auto simp: bindP_eq_Ok)
    then show "Q b" by (blast intro: gives_Ok [OF k] gives_Ok [OF m])
  qed
  show "F e" if "bindP m k s = (Err (Fault e), t)" for s e t
  proof (cases "fst (m s)")
    case (Ok a)
    with that have "m s = (Ok a, snd (m s))" "k a (snd (m s)) = (Err (Fault e), t)"
      by (auto simp: bindP_def split: prod.splits)
    then show "F e" by (blast intro: gives_Fault [OF k] gives_Ok [OF m])
  next
    case (Err f)
    with that have "m s = (Err (Fault e), t)" by (auto simp: bindP_def split: prod.splits)
    then show "F e" by (rule gives_Fault [OF m])
  next
    case OutOfFuel
    with that show "F e" by (auto simp: bindP_def split: prod.splits)
  qed
qed

lemma gives_bind_any [gives_rules]: "gives (\<lambda>_. True) F m \<Longrightarrow> (\<And>a. gives Q F (k a)) \<Longrightarrow> gives Q F (bindP m k)"
  by (rule gives_bind)

lemma gives_tryF: "gives Q F m \<Longrightarrow> gives (\<lambda>r. case r of Inl e \<Rightarrow> F e | Inr a \<Rightarrow> Q a) G (tryF m)"
  by (rule givesI) (auto simp: tryF_def dest: gives_Ok gives_Fault split: prod.splits outcome.splits fault.splits)

lemma gives_tryF_any [gives_rules]: "(\<And>r. Q r) \<Longrightarrow> gives Q G (tryF m)"
  by (rule givesI) (auto simp: tryF_def split: prod.splits outcome.splits fault.splits)

lemma gives_conv: "(\<And>e. F (f e)) \<Longrightarrow> (\<And>a. Q a) \<Longrightarrow> gives Q F (conv f m)"
  unfolding conv_def by (auto intro!: gives_rules split: sum.splits)

lemma gives_dprint [gives_rules]: "Q () \<Longrightarrow> gives Q F (dprint text)"
  by (rule givesI) (auto simp: dprint_def tick_def)

lemma emits_gives:
  assumes m: "emits m Q I" and P: "gives P F m"
  shows "emits m (\<lambda>a d. P a \<and> Q a d) I"
  unfolding emits_def
proof (intro allI impI)
  fix s r t
  assume run: "m s = (r, t)"
  obtain d where d: "rt_trace t = rt_trace s @ d" "case r of Ok a \<Rightarrow> Q a d | Err e \<Rightarrow> I d | OutOfFuel \<Rightarrow> I d"
    using emitsD [OF m run] .
  have "P a" if "r = Ok a" for a using gives_Ok [OF P] run that by blast
  with d show "\<exists>d. rt_trace t = rt_trace s @ d \<and> (case r of Ok a \<Rightarrow> P a \<and> Q a d | Err e \<Rightarrow> I d | OutOfFuel \<Rightarrow> I d)"
    by (intro exI [of _ d]) (auto split: outcome.splits)
qed

lemma gives_gets [gives_rules]: "(\<And>a. Q a) \<Longrightarrow> gives Q F (getsP f)"
  by (rule givesI) auto

lemma gives_modify [gives_rules]: "Q () \<Longrightarrow> gives Q F (modifyP f)"
  by (rule givesI) auto

section \<open>Runs that are known exactly\<close>

text \<open>\<open>does m a d\<close>: from every state, \<open>m\<close> returns \<open>a\<close> after the interactions \<open>d\<close>.\<close>

definition does :: "(('w, 'ev) rt, 'e, 'a) prog \<Rightarrow> 'a \<Rightarrow> 'ev list \<Rightarrow> bool" where
  "does m a d \<longleftrightarrow> (\<forall>s. \<exists>t. m s = (Ok a, t) \<and> rt_trace t = rt_trace s @ d)"

lemma doesD:
  assumes "does m a d"
  obtains t where "m s = (Ok a, t)" "rt_trace t = rt_trace s @ d"
  using assms unfolding does_def by blast

lemma does_ret: "does (retP a) a []"
  by (simp add: does_def)

lemma does_bind:
  assumes "does m a d" "does (k a) b e"
  shows "does (bindP m k) b (d @ e)"
  unfolding does_def
proof
  fix s
  obtain t where t: "m s = (Ok a, t)" "rt_trace t = rt_trace s @ d" using assms(1) by (rule doesD)
  obtain u where "k a t = (Ok b, u)" "rt_trace u = rt_trace t @ e" using assms(2) by (rule doesD)
  with t show "\<exists>u. bindP m k s = (Ok b, u) \<and> rt_trace u = rt_trace s @ d @ e" by (simp add: bindP_def)
qed

lemma does_bind_pure: "does m a [] \<Longrightarrow> does (k a) b e \<Longrightarrow> does (bindP m k) b e"
  using does_bind [of m a "[]" k b e] by simp

lemma does_for: "(\<And>x. x \<in> set xs \<Longrightarrow> does (f x) () (g x)) \<Longrightarrow> does (forP xs f) () (concat (map g xs))"
  by (induction xs) (auto intro: does_ret does_bind)

lemma does_dcall: "(\<And>w. fst (f w) = Inr a) \<Longrightarrow> does (dcall f ev ctx) a [ev (Inr a)]"
  unfolding does_def dcall_def logged_def in_env_def
  by (auto split: prod.splits sum.splits) (metis fst_conv sum.inject(2) sum.distinct(1))+

lemma does_tryF: "does m a d \<Longrightarrow> does (tryF m) (Inr a) d"
  unfolding does_def by (erule all_forward) (auto simp: tryF_def)

lemma does_conv: "does m a d \<Longrightarrow> does (conv f m) a d"
  unfolding does_def by (erule all_forward) (auto simp: conv_def bindP_def tryF_def)

lemma does_liftF: "does (liftF (Inr a)) a []"
  by (simp add: does_def liftF_def map_err_def)

lemma does_or_panic: "does (or_panic (Some a)) a []"
  by (simp add: does_def or_panic_def ok_or_def)

lemma does_loop_step: "does (body b) (Inl b') d \<Longrightarrow> does (loopP n body b') a e \<Longrightarrow> does (loopP (Suc n) body b) a (d @ e)"
  unfolding loopP.simps by (rule does_bind) auto

lemma does_loop_end: "does (body b) (Inr a) d \<Longrightarrow> does (loopP (Suc n) body b) a d"
  unfolding loopP.simps using does_bind [of "body b" "Inr a" d _ a "[]"] by (simp add: does_ret)

end
