(* ===== verification/DumpTool.thy ===== *)
theory DumpTool
  imports DumpApi
begin

text \<open>
  The parts that every dump uses: the tool's log file (\<open>collect/utils.rs\<close>), directories and
  temporary directories (\<open>collect/logs/mod.rs\<close>, \<open>collect/common.rs\<close>), the archive
  (\<open>collect/archive.rs\<close>) and the names of services (\<open>collect/constants.rs\<close>).  An open file
  is known by its path.
\<close>

section \<open>Paths\<close>

text \<open>\<open>Path::join\<close>: an absolute path replaces what is before it.\<close>

definition path_join :: "string \<Rightarrow> string \<Rightarrow> string" where
  "path_join a b =
     (if starts_with ''/'' b then b else if a = [] \<or> last a = CHR ''/'' then a @ b else a @ ''/'' @ b)"

section \<open>The log file of the tool (collect/utils.rs)\<close>

definition tool_log :: "('w, 'e, string option option) dump" where
  "tool_log = getsP (\<lambda>s. dw_tool_log (rt_world s))"

definition set_tool_log :: "string option \<Rightarrow> ('w, 'e, unit) dump" where
  "set_tool_log v =
     bindP tool_log (\<lambda>cell. case cell of
       Some _ \<Rightarrow> failP Panic
     | None \<Rightarrow> modifyP (\<lambda>s. s\<lparr>rt_world := (rt_world s)\<lparr>dw_tool_log := Some v\<rparr>\<rparr>))"

definition write_all :: "'w dump_api \<Rightarrow> string \<Rightarrow> string \<Rightarrow> ('w, string, unit) dump" where
  "write_all api path content = dcall (da_write_all api path content) (DWrite path content) id"

definition file_create :: "'w dump_api \<Rightarrow> string \<Rightarrow> ('w, string, unit) dump" where
  "file_create api path = dcall (da_file_create api path) (DCreate path) id"

definition file_flush :: "'w dump_api \<Rightarrow> string \<Rightarrow> ('w, string, unit) dump" where
  "file_flush api path = dcall (da_flush api path) (DFlush path) id"

definition write_to_log_file :: "'w dump_api \<Rightarrow> string \<Rightarrow> ('w, string, unit) dump" where
  "write_to_log_file api content =
     bindP tool_log (\<lambda>cell. case cell of
       None \<Rightarrow> fault_of ''LogFile not initialised!''
     | Some None \<Rightarrow> retP ()
     | Some (Some path) \<Rightarrow> write_all api path content)"

definition dlog :: "'w dump_api \<Rightarrow> string \<Rightarrow> ('w, 'e, unit) dump" where
  "dlog api content =
     bindP (dprint content) (\<lambda>_.
     bindP (tryF (write_to_log_file api (content @ EOL))) (\<lambda>r.
     case r of Inl e \<Rightarrow> dprint (''Not be able to write to log file, error: '' @ e) | Inr _ \<Rightarrow> retP ()))"

definition init_tool_log_file :: "'w dump_api \<Rightarrow> string \<Rightarrow> ('w, string, unit) dump" where
  "init_tool_log_file api path = bindP (file_create api path) (\<lambda>_. set_tool_log (Some path))"

definition init_no_log_file :: "('w, 'e, unit) dump" where
  "init_no_log_file = set_tool_log None"

definition flush_tool_log_file :: "'w dump_api \<Rightarrow> ('w, string, unit) dump" where
  "flush_tool_log_file api =
     bindP tool_log (\<lambda>cell. case cell of
       None \<Rightarrow> fault_of ''LogFile not initialised!''
     | Some None \<Rightarrow> retP ()
     | Some (Some path) \<Rightarrow> file_flush api path)"

section \<open>Directories\<close>

definition create_dir_all :: "'w dump_api \<Rightarrow> string \<Rightarrow> ('w, string, unit) dump" where
  "create_dir_all api path = dcall (da_create_dir_all api path) (DCreateDir path) id"

definition create_directory_if_not_exist :: "'w dump_api \<Rightarrow> string \<Rightarrow> ('w, string, unit) dump" where
  "create_directory_if_not_exist api path =
     bindP (dpure (da_metadata_ok api path) (DMetadata path)) (\<lambda>present.
     if present then retP () else create_dir_all api path)"

definition DUMP_TMP_PREFIX :: string where "DUMP_TMP_PREFIX = ''tmp-mayastor''"

definition create_and_get_tmp_directory :: "'w dump_api \<Rightarrow> string \<Rightarrow> ('w, dump_error, string) dump" where
  "create_and_get_tmp_directory api dir_path =
     bindP (dpure (da_local_date api) (\<lambda>_. DDate)) (\<lambda>date.
     let new_dir_path = path_join dir_path (DUMP_TMP_PREFIX @ ''-'' @ date) in
     bindP (conv ArchiveError (create_dir_all api new_dir_path)) (\<lambda>_.
     retP new_dir_path))"

text \<open>\<open>Stringer\<close> for a vector of strings: each followed by the delimiter, without the last one.\<close>

definition as_string :: "char \<Rightarrow> string list \<Rightarrow> string" where
  "as_string delim vals = butlast (concat (map (\<lambda>v. v @ [delim]) vals))"

section \<open>The archive (collect/archive.rs)\<close>

record archive =
  tar_writer :: "string option"

definition ARCHIVE_PREFIX :: string where "ARCHIVE_PREFIX = ''mayastor''"

definition archive_new :: "'w dump_api \<Rightarrow> string option \<Rightarrow> ('w, dump_error, archive) dump" where
  "archive_new api dir_path =
     (case dir_path of
        Some dir_path \<Rightarrow>
          bindP (dpure (da_utc_date api) (\<lambda>_. DDate)) (\<lambda>date.
          let tar_file_name = path_join dir_path (ARCHIVE_PREFIX @ ''-'' @ date @ ''.tar.gz'') in
          bindP (conv ArchiveError (file_create api tar_file_name)) (\<lambda>_.
          retP \<lparr>tar_writer = Some tar_file_name\<rparr>))
      | None \<Rightarrow> retP \<lparr>tar_writer = None\<rparr>)"

definition copy_to_archive :: "'w dump_api \<Rightarrow> archive \<Rightarrow> string \<Rightarrow> string \<Rightarrow> ('w, string, unit) dump" where
  "copy_to_archive api ar src_dir dest_dir =
     (case tar_writer ar of
        Some tar \<Rightarrow>
          bindP (dcall (da_append_dir_all api tar dest_dir src_dir) (DArchive tar src_dir) id) (\<lambda>_.
          dcall (da_tar_finish api tar) (DFinish tar) id)
      | None \<Rightarrow> retP ())"

definition remove_dir_all :: "'w dump_api \<Rightarrow> string \<Rightarrow> ('w, string, unit) dump" where
  "remove_dir_all api path = dcall (da_remove_dir_all api path) (DRemoveDir path) id"

section \<open>Services (collect/constants.rs)\<close>

definition CORE_AGENT_SERVICE :: string where "CORE_AGENT_SERVICE = ''agent-core''"
definition CSI_CONTROLLER_SERVICE :: string where "CSI_CONTROLLER_SERVICE = ''csi-controller''"
definition JAEGER_OPERATOR_SERVICE :: string where "JAEGER_OPERATOR_SERVICE = ''jaeger-operator''"
definition JAEGER_SERVICE :: string where "JAEGER_SERVICE = ''jaeger''"
definition POOL_OPERATOR_SERVICE :: string where "POOL_OPERATOR_SERVICE = ''operator-diskpool''"
definition REST_SERVICE :: string where "REST_SERVICE = ''api-rest''"
definition AGENT_HA_NODE_SERVICE :: string where "AGENT_HA_NODE_SERVICE = ''agent-ha-node''"
definition CSI_NODE_SERVICE :: string where "CSI_NODE_SERVICE = ''csi-node''"
definition ETCD_SERVICE :: string where "ETCD_SERVICE = ''etcd''"
definition ETCD_PAGED_LIMIT :: int where "ETCD_PAGED_LIMIT = 1000"
definition MAYASTOR_SERVICE :: string where "MAYASTOR_SERVICE = ''io-engine''"
definition DATA_PLANE_CONTAINER_NAME :: string where "DATA_PLANE_CONTAINER_NAME = ''io-engine''"
definition UPGRADE_SERVICE :: string where "UPGRADE_SERVICE = ''upgrade''"
definition CALLHOME_SERVICE :: string where "CALLHOME_SERVICE = ''obs-callhome''"
definition NATS_SERVICE :: string where "NATS_SERVICE = ''nats''"

definition logging_label_selector :: "dump_lib \<Rightarrow> string" where
  "logging_label_selector lib = dl_logging_key lib @ ''=true''"

definition CONTROL_PLANE_SERVICES :: "string list" where
  "CONTROL_PLANE_SERVICES =
     [CORE_AGENT_SERVICE, CSI_CONTROLLER_SERVICE, JAEGER_OPERATOR_SERVICE, JAEGER_SERVICE, POOL_OPERATOR_SERVICE,
      REST_SERVICE, CSI_NODE_SERVICE, ETCD_SERVICE, AGENT_HA_NODE_SERVICE]"

definition DATA_PLANE_SERVICES :: "string list" where "DATA_PLANE_SERVICES = [MAYASTOR_SERVICE]"
definition UPGRADE_JOB_SERVICE :: "string list" where "UPGRADE_JOB_SERVICE = [UPGRADE_SERVICE]"
definition CALLHOME_JOB_SERVICE :: "string list" where "CALLHOME_JOB_SERVICE = [CALLHOME_SERVICE]"
definition NATS_JOB_SERVICE :: "string list" where "NATS_JOB_SERVICE = [NATS_SERVICE]"

definition HOST_NAME_REQUIRED_SERVICES :: "string list" where
  "HOST_NAME_REQUIRED_SERVICES = [MAYASTOR_SERVICE, ETCD_SERVICE, CSI_NODE_SERVICE, AGENT_HA_NODE_SERVICE, NATS_SERVICE]"

end
