(* ===== verification/DumpResources.thy ===== *)
theory DumpResources
  imports DumpTool
begin

text \<open>
  The storage resources that a dump describes (\<open>collect/resources\<close>): how the topology of nodes,
  pools, replicas, volumes and snapshots is fetched from the REST API, how it is written to files,
  and which services it points at.  A method that panics gives \<open>None\<close>.
\<close>

section \<open>Services of resources (traits.rs, error.rs)\<close>

definition RESOURCE_TO_CONTAINER_NAME :: "string \<rightharpoonup> string" where
  "RESOURCE_TO_CONTAINER_NAME =
     map_of [(''node'', DATA_PLANE_CONTAINER_NAME), (''pool'', DATA_PLANE_CONTAINER_NAME),
             (''nexus'', DATA_PLANE_CONTAINER_NAME), (''replica'', DATA_PLANE_CONTAINER_NAME),
             (''device'', DATA_PLANE_CONTAINER_NAME)]"

definition MAYASTOR_DAEMONSET_LABEL :: string where "MAYASTOR_DAEMONSET_LABEL = ''app=io-engine''"

record resource_information =
  ri_container_name :: string
  ri_host_name :: string
  ri_label_selector :: "string list"

definition resource_information_default :: resource_information where
  "resource_information_default = \<lparr>ri_container_name = '''', ri_host_name = '''', ri_label_selector = []\<rparr>"

text \<open>
  The block of statements by which every topology makes its information; a key that is not in
  the map would be a panic.
\<close>

definition resource_info_of :: "string \<Rightarrow> string \<Rightarrow> resource_information option" where
  "resource_info_of what host =
     Option.bind (RESOURCE_TO_CONTAINER_NAME what) (\<lambda>container.
       Some (resource_information_default
         \<lparr>ri_container_name := container, ri_host_name := host, ri_label_selector := [MAYASTOR_DAEMONSET_LABEL]\<rparr>))"

definition info_set :: "bool \<Rightarrow> string \<Rightarrow> string \<Rightarrow> resource_information set option" where
  "info_set needed what host = (if needed then map_option (\<lambda>r. {r}) (resource_info_of what host) else Some {})"

definition opt_union :: "'a set option \<Rightarrow> 'a set option \<Rightarrow> 'a set option" where
  "opt_union a b = Option.bind a (\<lambda>x. Option.bind b (\<lambda>y. Some (x \<union> y)))"

fun not_found_rest_json_error :: "resource_error \<Rightarrow> (resource_error, bool) res" where
  "not_found_rest_json_error (RRestJsonError (RestStatus status text)) =
     (if status = 404 then Inr True else Inl (RRestJsonError (RestStatus status text)))"
| "not_found_rest_json_error e = Inl e"

section \<open>Nodes (node.rs)\<close>

definition is_device_not_online :: "d_device \<Rightarrow> bool" where
  "is_device_not_online device = False"

definition is_node_online :: "d_node_status \<Rightarrow> bool" where
  "is_node_online s \<longleftrightarrow> s = NodeOnline"

definition get_device_node_info :: "node_topology \<Rightarrow> (d_device \<Rightarrow> bool) \<Rightarrow> resource_information set option" where
  "get_device_node_info t predicate =
     (case nt_devices t of
        Some devices \<Rightarrow> info_set (filter predicate devices \<noteq> []) ''device'' (dn_id (nt_node t))
      | None \<Rightarrow> Some {})"

definition node_state_info :: "d_node \<Rightarrow> resource_information set option" where
  "node_state_info node =
     (case dn_state node of
        Some (ident, status) \<Rightarrow> info_set (\<not> is_node_online status) ''node'' ident
      | None \<Rightarrow> (case dn_spec_id node of Some ident \<Rightarrow> info_set True ''node'' ident | None \<Rightarrow> Some {}))"

definition node_unhealthy_info :: "node_topology \<Rightarrow> resource_information set option" where
  "node_unhealthy_info t = opt_union (node_state_info (nt_node t)) (get_device_node_info t is_device_not_online)"

definition node_all_info :: "node_topology \<Rightarrow> resource_information set option" where
  "node_all_info t =
     (case dn_spec_id (nt_node t) of Some ident \<Rightarrow> info_set True ''node'' ident | None \<Rightarrow> Some {})"

section \<open>Pools (pool.rs)\<close>

definition is_pool_not_online :: "d_pool_status \<Rightarrow> bool" where
  "is_pool_not_online s \<longleftrightarrow> s \<noteq> PoolOnline"

definition get_pool_info :: "pool_topology \<Rightarrow> (d_pool_status \<Rightarrow> bool) \<Rightarrow> resource_information set option" where
  "get_pool_info t predicate =
     (case dp_state (pt_pool t) of
        Some (node, status) \<Rightarrow> info_set (predicate status) ''pool'' node
      | None \<Rightarrow> (case dp_spec (pt_pool t) of Some spec \<Rightarrow> info_set True ''pool'' (dps_node spec) | None \<Rightarrow> Some {}))"

definition pool_unhealthy_info :: "pool_topology \<Rightarrow> resource_information set option" where
  "pool_unhealthy_info t =
     opt_union (case pt_node_info t of Some node \<Rightarrow> node_state_info node | None \<Rightarrow> Some {})
       (get_pool_info t is_pool_not_online)"

definition pool_all_info :: "pool_topology \<Rightarrow> resource_information set option" where
  "pool_all_info t = get_pool_info t (\<lambda>_. True)"

definition pool_k8s_resource_names :: "pool_topology \<Rightarrow> string list" where
  "pool_k8s_resource_names t = [dp_id (pt_pool t)]"

definition is_it_pool_device :: "d_pool_spec \<Rightarrow> d_device \<Rightarrow> bool" where
  "is_it_pool_device spec device \<longleftrightarrow>
     (\<exists>disk \<in> set (dps_disks spec). disk \<in> insert (dd_devpath device) (insert (dd_devname device) (set (dd_devlinks device))))"

section \<open>Replicas and volumes (replica.rs, volume.rs)\<close>

definition replica_unhealthy_resources :: "replica_topology \<Rightarrow> resource_information set option" where
  "replica_unhealthy_resources t =
     Option.bind (pool_unhealthy_info (rt_pool_topology t)) (\<lambda>resources.
     if resources \<noteq> {} then Some resources
     else info_set (dr_state (rt_replica t) \<noteq> ReplicaOnline) ''replica'' (dr_node (rt_replica t)))"

definition replica_all_resources :: "replica_topology \<Rightarrow> resource_information set option" where
  "replica_all_resources t = info_set True ''replica'' (dr_node (rt_replica t))"

primrec opt_unions :: "'a set option list \<Rightarrow> 'a set option" where
  "opt_unions [] = Some {}"
| "opt_unions (x # xs) = opt_union x (opt_unions xs)"

definition volume_unhealthy_info :: "volume_topology \<Rightarrow> resource_information set option" where
  "volume_unhealthy_info t =
     opt_union (opt_unions (map replica_unhealthy_resources (vt_replicas_topology t)))
       (case vt_target t of Some nexus \<Rightarrow> info_set (dx_state nexus \<noteq> NexusOnline) ''nexus'' (dx_node nexus)
        | None \<Rightarrow> Some {})"

text \<open>The information about the nexus is made, but it is not inserted into the result.\<close>

definition volume_all_info :: "volume_topology \<Rightarrow> resource_information set option" where
  "volume_all_info t =
     Option.bind (opt_unions (map replica_all_resources (vt_replicas_topology t))) (\<lambda>resources.
     case vt_target t of
       Some nexus \<Rightarrow> Option.bind (resource_info_of ''nexus'' (dx_node nexus)) (\<lambda>unused. Some resources)
     | None \<Rightarrow> Some resources)"

definition volume_k8s_resource_names :: "volume_topology \<Rightarrow> string list" where
  "volume_k8s_resource_names t =
     concat (map (\<lambda>r. pool_k8s_resource_names (rt_pool_topology r)) (vt_replicas_topology t))"

section \<open>Topologers (traits.rs, utils.rs)\<close>

fun get_unhealthy_resource_info :: "topologer \<Rightarrow> resource_information set option" where
  "get_unhealthy_resource_info (NodeTopologer t) = node_unhealthy_info t"
| "get_unhealthy_resource_info (PoolTopologer t) = pool_unhealthy_info t"
| "get_unhealthy_resource_info (VolumeTopologer t) = volume_unhealthy_info t"
| "get_unhealthy_resource_info (SnapshotTopologer t) = None"
| "get_unhealthy_resource_info (VecTopologer ts) = opt_unions (map get_unhealthy_resource_info ts)"

fun get_all_resource_info :: "topologer \<Rightarrow> resource_information set option" where
  "get_all_resource_info (NodeTopologer t) = node_all_info t"
| "get_all_resource_info (PoolTopologer t) = pool_all_info t"
| "get_all_resource_info (VolumeTopologer t) = volume_all_info t"
| "get_all_resource_info (SnapshotTopologer t) = None"
| "get_all_resource_info (VecTopologer ts) = opt_unions (map get_all_resource_info ts)"

primrec opt_concat :: "'a list option list \<Rightarrow> 'a list option" where
  "opt_concat [] = Some []"
| "opt_concat (x # xs) = Option.bind x (\<lambda>a. Option.bind (opt_concat xs) (\<lambda>b. Some (a @ b)))"

fun get_k8s_resource_names :: "topologer \<Rightarrow> string list option" where
  "get_k8s_resource_names (NodeTopologer t) = Some []"
| "get_k8s_resource_names (PoolTopologer t) = Some (pool_k8s_resource_names t)"
| "get_k8s_resource_names (VolumeTopologer t) = Some (volume_k8s_resource_names t)"
| "get_k8s_resource_names (SnapshotTopologer t) = None"
| "get_k8s_resource_names (VecTopologer ts) = opt_concat (map get_k8s_resource_names ts)"

text \<open>The file of a topology that is not a vector.\<close>

fun topology_file_name :: "topologer \<Rightarrow> string" where
  "topology_file_name (NodeTopologer t) = ''node-'' @ dn_id (nt_node t) @ ''-topology.json''"
| "topology_file_name (PoolTopologer t) = ''pool-'' @ dp_id (pt_pool t) @ ''-topology.json''"
| "topology_file_name (VolumeTopologer t) = ''volume-'' @ dv_uuid (vt_volume t) @ ''-topology.json''"
| "topology_file_name (SnapshotTopologer uuid) = ''snapshot-'' @ uuid @ ''-topology.json''"
| "topology_file_name (VecTopologer ts) = ''all-topology.json''"

definition get_printable_topology :: "dump_lib \<Rightarrow> topologer \<Rightarrow> (resource_error, string \<times> string) res" where
  "get_printable_topology lib t =
     res_bind (map_err RJSONError (dl_json_pretty lib (PrTopology t))) (\<lambda>text. Inr (topology_file_name t, text))"

definition dump_one_topology :: "'w dump_api \<Rightarrow> dump_lib \<Rightarrow> topologer \<Rightarrow> string \<Rightarrow> ('w, resource_error, unit) dump" where
  "dump_one_topology api lib t dir_path =
     bindP (conv RIOError (create_directory_if_not_exist api dir_path)) (\<lambda>_.
     let file_path = path_join dir_path (topology_file_name t) in
     bindP (conv RIOError (file_create api file_path)) (\<lambda>_.
     bindP (liftF (map_err RJSONError (dl_json_pretty lib (PrTopology t)))) (\<lambda>text.
     bindP (conv RIOError (write_all api file_path text)) (\<lambda>_.
     conv RIOError (file_flush api file_path)))))"

lemma forP_cong [fundef_cong]:
  "xs = ys \<Longrightarrow> (\<And>x. x \<in> set ys \<Longrightarrow> f x = g x) \<Longrightarrow> forP xs f = forP ys g"
  by (induction xs arbitrary: ys) auto

fun dump_topology_info :: "'w dump_api \<Rightarrow> dump_lib \<Rightarrow> topologer \<Rightarrow> string \<Rightarrow> ('w, resource_error, unit) dump" where
  "dump_topology_info api lib (VecTopologer ts) dir_path = forP ts (\<lambda>t. dump_topology_info api lib t dir_path)"
| "dump_topology_info api lib t dir_path = dump_one_topology api lib t dir_path"

section \<open>Fetching topologies\<close>

definition MAX_RESOURCE_ENTRIES :: nat where "MAX_RESOURCE_ENTRIES = 200"

definition list_nodes :: "'w dump_api \<Rightarrow> ('w, resource_error, d_node list) dump" where
  "list_nodes api = dread (da_get_nodes api) ''get_nodes'' RRestJsonError"

definition get_node :: "'w dump_api \<Rightarrow> string \<Rightarrow> ('w, resource_error, d_node) dump" where
  "get_node api ident = dread (da_get_node api ident) ''get_node'' RRestJsonError"

definition list_node_block_devices :: "'w dump_api \<Rightarrow> string \<Rightarrow> ('w, resource_error, d_device list) dump" where
  "list_node_block_devices api ident =
     bindP (tryF (dread (da_get_block_devices api ident True) ''get_node_block_devices'' id)) (\<lambda>r. case r of
       Inr devices \<Rightarrow> retP devices
     | Inl err \<Rightarrow> bindP (liftF (not_found_rest_json_error (RRestJsonError err))) (\<lambda>_. retP []))"

definition node_devices :: "'w dump_api \<Rightarrow> string \<Rightarrow> d_node \<Rightarrow> ('w, resource_error, d_device list option) dump" where
  "node_devices api ident node =
     (case dn_state node of
        Some (_, NodeOnline) \<Rightarrow> bindP (list_node_block_devices api ident) (\<lambda>devices. retP (Some devices))
      | _ \<Rightarrow> retP None)"

definition node_get_topologer :: "'w dump_api \<Rightarrow> string option \<Rightarrow> ('w, resource_error, topologer) dump" where
  "node_get_topologer api ident =
     (case ident of
        Some node_id \<Rightarrow>
          bindP (get_node api node_id) (\<lambda>node.
          bindP (node_devices api node_id node) (\<lambda>devices.
          retP (NodeTopologer \<lparr>nt_node = node, nt_devices = devices\<rparr>)))
      | None \<Rightarrow>
          bindP (list_nodes api) (\<lambda>nodes.
          bindP (mapP (\<lambda>node. bindP (node_devices api (dn_id node) node) (\<lambda>devices.
              retP (NodeTopologer \<lparr>nt_node = node, nt_devices = devices\<rparr>))) nodes) (\<lambda>nodes_topology.
          if nodes_topology = [] then
            bindP (dlog api ''No Node resources, Are daemonset pods in Running State?!!'') (\<lambda>_.
            fault_of (RCustomError ''No Node resources''))
          else retP (VecTopologer nodes_topology))))"

definition list_pools :: "'w dump_api \<Rightarrow> ('w, resource_error, d_pool list) dump" where
  "list_pools api = dread (da_get_pools api) ''get_pools'' RRestJsonError"

definition get_pool :: "'w dump_api \<Rightarrow> string \<Rightarrow> ('w, resource_error, d_pool) dump" where
  "get_pool api ident = dread (da_get_pool api ident) ''get_pool'' RRestJsonError"

definition get_pool_node_info :: "'w dump_api \<Rightarrow> d_pool \<Rightarrow> ('w, resource_error, d_node option) dump" where
  "get_pool_node_info api pool =
     (case dp_spec pool of
        Some spec \<Rightarrow> bindP (dread (da_get_node api (dps_node spec)) ''get_node'' RRestJsonError) (\<lambda>node. retP (Some node))
      | None \<Rightarrow> retP None)"

definition get_pool_disks_info :: "'w dump_api \<Rightarrow> d_pool \<Rightarrow> ('w, resource_error, d_device list option) dump" where
  "get_pool_disks_info api pool =
     (case dp_spec pool of
        Some spec \<Rightarrow>
          bindP (dread (da_get_block_devices api (dps_node spec) True) ''get_node_block_devices'' RRestJsonError) (\<lambda>devices.
          retP (Some (filter (is_it_pool_device spec) devices)))
      | None \<Rightarrow> retP None)"

text \<open>An error while the node or the disks of a pool are fetched is logged and the part left out.\<close>

definition pool_topology_of ::
  "'w dump_api \<Rightarrow> dump_lib \<Rightarrow> string \<Rightarrow> d_pool \<Rightarrow> ('w, resource_error, pool_topology) dump" where
  "pool_topology_of api lib whose pool =
     bindP (tryF (get_pool_node_info api pool)) (\<lambda>r1.
     bindP (case r1 of Inr node_info \<Rightarrow> retP node_info
       | Inl e \<Rightarrow> bindP (dlog api (''Failed to get node information for '' @ whose @ '', error: '' @ dl_debug_resource lib e))
           (\<lambda>_. retP None)) (\<lambda>node_info.
     bindP (tryF (get_pool_disks_info api pool)) (\<lambda>r2.
     bindP (case r2 of Inr device_info \<Rightarrow> retP device_info
       | Inl e \<Rightarrow> bindP (dlog api (''Failed to get device information for '' @ whose @ '', error: '' @ dl_debug_resource lib e))
           (\<lambda>_. retP None)) (\<lambda>device_info.
     retP \<lparr>pt_pool = pool, pt_node_info = node_info, pt_device_info = device_info\<rparr>))))"

definition pool_get_topologer :: "'w dump_api \<Rightarrow> dump_lib \<Rightarrow> string option \<Rightarrow> ('w, resource_error, topologer) dump" where
  "pool_get_topologer api lib ident =
     (case ident of
        Some pool_id \<Rightarrow>
          bindP (get_pool api pool_id) (\<lambda>pool.
          bindP (pool_topology_of api lib (''pool: '' @ pool_id) pool) (\<lambda>t. retP (PoolTopologer t)))
      | None \<Rightarrow>
          bindP (list_pools api) (\<lambda>pools.
          bindP (mapP (\<lambda>pool. bindP (pool_topology_of api lib ''pools'' pool) (\<lambda>t. retP (PoolTopologer t))) pools)
            (\<lambda>pools_topology. retP (VecTopologer pools_topology))))"

definition get_replica :: "'w dump_api \<Rightarrow> string \<Rightarrow> ('w, resource_error, d_replica) dump" where
  "get_replica api ident = dread (da_get_replica api ident) ''get_replica'' RRestJsonError"

definition get_replica_topology :: "'w dump_api \<Rightarrow> dump_lib \<Rightarrow> string \<Rightarrow> ('w, resource_error, replica_topology) dump" where
  "get_replica_topology api lib ident =
     bindP (get_replica api ident) (\<lambda>replica.
     bindP (pool_get_topologer api lib (Some (dr_pool replica))) (\<lambda>topologer.
     case topologer of
       PoolTopologer pool_topology \<Rightarrow> retP \<lparr>rt_replica = replica, rt_pool_topology = pool_topology\<rparr>
     | _ \<Rightarrow> failP Panic))"

definition list_volumes :: "nat \<Rightarrow> 'w dump_api \<Rightarrow> ('w, resource_error, d_volume list) dump" where
  "list_volumes fuel api =
     loopP fuel (\<lambda>(volumes, next_token).
       bindP (dread (da_get_volumes api MAX_RESOURCE_ENTRIES next_token) ''get_volumes'' RRestJsonError) (\<lambda>(entries, tok).
       if tok = None then retP (Inr (volumes @ entries)) else retP (Inl (volumes @ entries, tok))))
     ([], Some 0)"

definition get_volume :: "'w dump_api \<Rightarrow> string \<Rightarrow> ('w, resource_error, d_volume) dump" where
  "get_volume api ident = dread (da_get_volume api ident) ''get_volume'' RRestJsonError"

definition get_rebuild_history :: "'w dump_api \<Rightarrow> string \<Rightarrow> ('w, resource_error, string) dump" where
  "get_rebuild_history api ident = dread (da_get_rebuild_history api ident) ''get_rebuild_history'' RRestJsonError"

text \<open>
  The topologies of the replicas of a volume; a replica that is not found is left out.  The
  identifier of a replica is parsed with \<open>?\<close> when one volume is dumped, and with \<open>unwrap\<close> when
  all of them are.
\<close>

definition replicas_topology_of ::
  "'w dump_api \<Rightarrow> dump_lib \<Rightarrow> (string \<Rightarrow> ('w, resource_error, string) dump) \<Rightarrow> d_volume \<Rightarrow> ('w, resource_error, replica_topology list) dump" where
  "replicas_topology_of api lib parse volume =
     bindP (mapP (\<lambda>replica_id_str.
       bindP (parse replica_id_str) (\<lambda>replica_uuid.
       bindP (tryF (get_replica_topology api lib replica_uuid)) (\<lambda>r. case r of
         Inr t \<Rightarrow> retP [t]
       | Inl err \<Rightarrow> bindP (liftF (not_found_rest_json_error err)) (\<lambda>_. retP [])))) (dv_replicas volume)) (\<lambda>ts.
     retP (concat ts))"

definition volume_topology_of ::
  "'w dump_api \<Rightarrow> dump_lib \<Rightarrow> (string \<Rightarrow> ('w, resource_error, string) dump) \<Rightarrow> string \<Rightarrow> d_volume \<Rightarrow> ('w, resource_error, topologer) dump" where
  "volume_topology_of api lib parse ident volume =
     bindP (replicas_topology_of api lib parse volume) (\<lambda>replicas_topology.
     bindP (tryF (get_rebuild_history api ident)) (\<lambda>r.
     bindP (case r of Inr history \<Rightarrow> retP (Some history)
       | Inl e \<Rightarrow> bindP (dlog api (''Could not fetch rebuild history for '' @ ident @ '', error: '' @ dl_debug_resource lib e))
           (\<lambda>_. retP None)) (\<lambda>history.
     retP (VolumeTopologer \<lparr>vt_volume = volume, vt_target = dv_target volume, vt_replicas_topology = replicas_topology,
       vt_rebuild_history = history\<rparr>))))"

definition volume_get_topologer :: "nat \<Rightarrow> 'w dump_api \<Rightarrow> dump_lib \<Rightarrow> string option \<Rightarrow> ('w, resource_error, topologer) dump" where
  "volume_get_topologer fuel api lib ident =
     (case ident of
        Some volume_id \<Rightarrow>
          bindP (get_volume api volume_id) (\<lambda>volume.
          volume_topology_of api lib (\<lambda>x. liftF (map_err RUUIDParseError (dl_uuid_parse lib x))) volume_id volume)
      | None \<Rightarrow>
          bindP (list_volumes fuel api) (\<lambda>volumes.
          bindP (mapP (\<lambda>volume. volume_topology_of api lib
              (\<lambda>x. case dl_uuid_parse lib x of Inr u \<Rightarrow> retP u | Inl _ \<Rightarrow> failP Panic) (dv_uuid volume) volume) volumes)
            (\<lambda>ts. retP (VecTopologer ts))))"

definition list_snapshots :: "nat \<Rightarrow> 'w dump_api \<Rightarrow> ('w, resource_error, string list) dump" where
  "list_snapshots fuel api =
     loopP fuel (\<lambda>(snapshots, next_token).
       bindP (dread (da_get_snapshots api MAX_RESOURCE_ENTRIES next_token) ''get_volumes_snapshots'' RRestJsonError) (\<lambda>(entries, tok).
       if tok = None then retP (Inr (snapshots @ entries)) else retP (Inl (snapshots @ entries, tok))))
     ([], Some 0)"

definition get_snapshot :: "'w dump_api \<Rightarrow> string \<Rightarrow> ('w, resource_error, string) dump" where
  "get_snapshot api ident = dread (da_get_snapshot api ident) ''get_volumes_snapshot'' RRestJsonError"

definition snapshot_get_topologer :: "nat \<Rightarrow> 'w dump_api \<Rightarrow> string option \<Rightarrow> ('w, resource_error, topologer) dump" where
  "snapshot_get_topologer fuel api ident =
     (case ident of
        Some snapshot_id \<Rightarrow> bindP (get_snapshot api snapshot_id) (\<lambda>snapshot. retP (SnapshotTopologer snapshot))
      | None \<Rightarrow> bindP (list_snapshots fuel api) (\<lambda>snapshots. retP (VecTopologer (map SnapshotTopologer snapshots))))"

end
