(* ===== verification/DumpK8s.thy ===== *)
theory DumpK8s
  imports DumpTool
begin

text \<open>
  The Kubernetes client of the support tool (\<open>collect/k8s_resources/client.rs\<close>) and the dump of
  the Kubernetes objects (\<open>collect/k8s_resources/k8s_resource_dump.rs\<close>).
\<close>

section \<open>The client (client.rs, common.rs)\<close>

definition SNAPSHOT_GROUP :: string where "SNAPSHOT_GROUP = ''snapshot.storage.k8s.io''"
definition SNAPSHOT_VERSION :: string where "SNAPSHOT_VERSION = ''v1''"
definition VOLUME_SNAPSHOT_CLASS :: string where "VOLUME_SNAPSHOT_CLASS = ''VolumeSnapshotClass''"
definition VOLUME_SNAPSHOT_CONTENT :: string where "VOLUME_SNAPSHOT_CONTENT = ''VolumeSnapshotContent''"
definition KUBERNETES_HOST_LABEL_KEY :: string where "KUBERNETES_HOST_LABEL_KEY = ''kubernetes.io/hostname''"
definition RUNNING_FIELD_SELECTOR :: string where "RUNNING_FIELD_SELECTOR = ''status.phase=Running''"
definition NODE_NAME_FIELD_SELECTOR :: string where "NODE_NAME_FIELD_SELECTOR = ''spec.nodeName''"

record client_set =
  cs_namespace :: string

definition client_set_new :: "'w dump_api \<Rightarrow> string option \<Rightarrow> string \<Rightarrow> ('w, k8s_resource_error, client_set) dump" where
  "client_set_new api kube_config_path ns =
     bindP (case kube_config_path of
         Some config_path \<Rightarrow>
           bindP (dread (da_read_kubeconfig api config_path) ''read_kubeconfig'' ClientConfigError) (\<lambda>kube_config.
           dread (da_custom_config api kube_config) ''custom_config'' ClientConfigError)
       | None \<Rightarrow> dread (da_infer_config api) ''infer_config'' InferConfigError) (\<lambda>config.
     bindP (dread (da_kube_client api config) ''kube_client'' ClientError) (\<lambda>_.
     retP \<lparr>cs_namespace = ns\<rparr>))"

definition list_params_default :: list_params where
  "list_params_default = \<lparr>lp_labels = '''', lp_fields = '''', lp_limit = None, lp_continue = None\<rparr>"

definition api_unavailable :: "string \<Rightarrow> string \<Rightarrow> string \<Rightarrow> k8s_resource_error" where
  "api_unavailable group_name version kind =
     KCustomError (''DynamicObject Api not available for '' @ kind @ '' of '' @ group_name @ ''/'' @ version)"

text \<open>The resources of the groups with the name, in order, that can be listed and have the version and kind.\<close>

definition matching_caps :: "string \<Rightarrow> string \<Rightarrow> string \<Rightarrow> (string \<times> api_cap list) list \<Rightarrow> api_cap list" where
  "matching_caps group_name version kind groups =
     filter (\<lambda>ar. ac_can_list ar \<and> ac_version ar = version \<and> ac_kind ar = kind)
       (concat (map snd (filter (\<lambda>g. fst g = group_name) groups)))"

definition dynamic_object_api ::
  "'w dump_api \<Rightarrow> string option \<Rightarrow> string \<Rightarrow> string \<Rightarrow> string \<Rightarrow> ('w, k8s_resource_error, string option \<times> string \<times> api_cap) dump" where
  "dynamic_object_api api ns group_name version kind =
     bindP (dread (da_discovery api) ''discovery'' ClientError) (\<lambda>groups.
     case matching_caps group_name version kind groups of
       [] \<Rightarrow> fault_of (api_unavailable group_name version kind)
     | ar # _ \<Rightarrow>
         if (ns = None \<and> ac_cluster_scope ar) \<or> (ns \<noteq> None \<and> \<not> ac_cluster_scope ar) then retP (ns, group_name, ar)
         else fault_of (api_unavailable group_name version kind))"

definition get_nodes_map :: "'w dump_api \<Rightarrow> ('w, k8s_resource_error, string \<rightharpoonup> d_k8s_node) dump" where
  "get_nodes_map api =
     bindP (dread (da_list_nodes api list_params_default) ''list_nodes'' ClientError) (\<lambda>nodes.
     liftF (res_fold (\<lambda>node node_map.
         res_bind (ok_or (KCustomError ''Unable to get node name'') (dk_name node)) (\<lambda>name. Inr (node_map(name \<mapsto> node))))
       nodes Map.empty))"

definition get_pods :: "nat \<Rightarrow> 'w dump_api \<Rightarrow> client_set \<Rightarrow> string \<Rightarrow> string \<Rightarrow> ('w, k8s_resource_error, d_pod list) dump" where
  "get_pods fuel api cs label_selector field_selector =
     loopP fuel (\<lambda>(pods, list_params).
       bindP (dread (da_list_pods api (cs_namespace cs) list_params) ''list_pods'' ClientError) (\<lambda>(items, cont).
       case cont of
         None \<Rightarrow> retP (Inr (pods @ items))
       | Some token \<Rightarrow> retP (Inl (pods @ items, list_params\<lparr>lp_continue := Some token\<rparr>))))
     ([], list_params_default\<lparr>lp_labels := label_selector, lp_fields := field_selector, lp_limit := Some 100\<rparr>)"

definition get_events :: "nat \<Rightarrow> 'w dump_api \<Rightarrow> client_set \<Rightarrow> string \<Rightarrow> string \<Rightarrow> ('w, k8s_resource_error, d_event list) dump" where
  "get_events fuel api cs label_selector field_selector =
     loopP fuel (\<lambda>(events, list_params).
       bindP (dread (da_list_events api (cs_namespace cs) list_params) ''list_events'' ClientError) (\<lambda>(items, cont).
       case cont of
         Some token \<Rightarrow>
           if token \<noteq> [] then retP (Inl (events @ items, list_params\<lparr>lp_continue := Some token\<rparr>))
           else retP (Inr (events @ items))
       | None \<Rightarrow> retP (Inr (events @ items))))
     ([], list_params_default\<lparr>lp_labels := label_selector, lp_fields := field_selector, lp_limit := Some 100\<rparr>)"

text \<open>A listing that answers 404 counts as empty; \<open>None\<close> stands for the early return.\<close>

definition or_not_found :: "('w, kube_error, 'a) dump \<Rightarrow> ('w, k8s_resource_error, 'a option) dump" where
  "or_not_found m =
     bindP (tryF m) (\<lambda>r. case r of
       Inr a \<Rightarrow> retP (Some a)
     | Inl (KubeApi code text) \<Rightarrow> if code = 404 then retP None else fault_of (ClientError (KubeApi code text))
     | Inl e \<Rightarrow> fault_of (ClientError e))"

definition selector_params :: "string option \<Rightarrow> string option \<Rightarrow> list_params" where
  "selector_params label_selector field_selector =
     list_params_default\<lparr>lp_labels := unwrap_or '''' label_selector, lp_fields := unwrap_or '''' field_selector\<rparr>"

definition list_disk_pools :: "'w dump_api \<Rightarrow> client_set \<Rightarrow> string option \<Rightarrow> string option \<Rightarrow> ('w, k8s_resource_error, d_app list) dump" where
  "list_disk_pools api cs label_selector field_selector =
     bindP (or_not_found (dread (da_list_apps api LDiskPools (cs_namespace cs) (selector_params label_selector field_selector))
       ''list_pools'' id)) (\<lambda>pools.
     retP (unwrap_or [] pools))"

text \<open>\<open>None\<close>, \<open>Some None\<close> and \<open>Some (Some d)\<close>: the field is absent, not a string, or the string \<open>d\<close>.\<close>

definition driver_is :: "string option option \<Rightarrow> string \<Rightarrow> bool" where
  "driver_is value selector \<longleftrightarrow> value = Some (Some selector)"

definition class_selected :: "string option \<Rightarrow> d_dynamic \<Rightarrow> bool" where
  "class_selected driver_selector item \<longleftrightarrow>
     (case driver_selector of None \<Rightarrow> True | Some selector \<Rightarrow> driver_is (dy_driver item) selector)"

definition content_selected :: "string option \<Rightarrow> d_dynamic \<Rightarrow> bool" where
  "content_selected driver_selector item \<longleftrightarrow>
     (case driver_selector of None \<Rightarrow> True
      | Some selector \<Rightarrow> (case dy_spec_driver item of None \<Rightarrow> False | Some driver \<Rightarrow> driver_is driver selector))"

definition list_volumesnapshot_classes ::
  "'w dump_api \<Rightarrow> string option \<Rightarrow> string option \<Rightarrow> string option \<Rightarrow> ('w, k8s_resource_error, d_dynamic list) dump" where
  "list_volumesnapshot_classes api driver_selector label_selector field_selector =
     bindP (dynamic_object_api api None SNAPSHOT_GROUP SNAPSHOT_VERSION VOLUME_SNAPSHOT_CLASS) (\<lambda>vsc_api.
     bindP (or_not_found (dread (da_list_dynamic api vsc_api (selector_params label_selector field_selector)) ''list_classes'' id))
       (\<lambda>vscs. case vscs of
         None \<Rightarrow> retP []
       | Some (items, _) \<Rightarrow> retP (filter (class_selected driver_selector) items)))"

definition list_volumesnapshotcontents ::
  "nat \<Rightarrow> 'w dump_api \<Rightarrow> string option \<Rightarrow> string option \<Rightarrow> string option \<Rightarrow> ('w, k8s_resource_error, d_dynamic list) dump" where
  "list_volumesnapshotcontents fuel api driver_selector label_selector field_selector =
     bindP (dynamic_object_api api None SNAPSHOT_GROUP SNAPSHOT_VERSION VOLUME_SNAPSHOT_CONTENT) (\<lambda>vsc_api.
     loopP fuel (\<lambda>(filtered, list_params).
       bindP (or_not_found (dread (da_list_dynamic api vsc_api list_params) ''list_contents'' id)) (\<lambda>vscs. case vscs of
         None \<Rightarrow> retP (Inr [])
       | Some (items, cont) \<Rightarrow>
           (let filtered = filtered @ filter (content_selected driver_selector) items in
            case cont of
              Some token \<Rightarrow>
                if token \<noteq> [] then retP (Inl (filtered, list_params\<lparr>lp_continue := Some token\<rparr>)) else retP (Inr filtered)
            | None \<Rightarrow> retP (Inr filtered))))
     ([], (selector_params label_selector field_selector)\<lparr>lp_limit := Some 2\<rparr>))"

definition get_apps :: "'w dump_api \<Rightarrow> list_kind \<Rightarrow> client_set \<Rightarrow> string \<Rightarrow> string \<Rightarrow> ('w, k8s_resource_error, d_app list) dump" where
  "get_apps api kind cs label_selector field_selector =
     dread (da_list_apps api kind (cs_namespace cs) (list_params_default\<lparr>lp_labels := label_selector, lp_fields := field_selector\<rparr>))
       ''list_apps'' ClientError"

definition get_deployments :: "'w dump_api \<Rightarrow> client_set \<Rightarrow> string \<Rightarrow> string \<Rightarrow> ('w, k8s_resource_error, d_app list) dump" where
  "get_deployments api = get_apps api LDeployments"

definition get_daemonsets :: "'w dump_api \<Rightarrow> client_set \<Rightarrow> string \<Rightarrow> string \<Rightarrow> ('w, k8s_resource_error, d_app list) dump" where
  "get_daemonsets api = get_apps api LDaemonSets"

definition get_statefulsets :: "'w dump_api \<Rightarrow> client_set \<Rightarrow> string \<Rightarrow> string \<Rightarrow> ('w, k8s_resource_error, d_app list) dump" where
  "get_statefulsets api = get_apps api LStatefulSets"

definition get_hostname :: "'w dump_api \<Rightarrow> string \<Rightarrow> ('w, k8s_resource_error, string) dump" where
  "get_hostname api node_name =
     bindP (dread (da_get_k8s_node api node_name) ''get_node'' ClientError) (\<lambda>node.
     liftF (
       res_bind (ok_or (KCustomError (''No labels available on node '' @ [CHR 0x27] @ node_name @ [CHR 0x27])) (dk_labels node)) (\<lambda>labels.
       ok_or (KCustomError (''Node '' @ [CHR 0x27] @ KUBERNETES_HOST_LABEL_KEY @ [CHR 0x27] @ '' label not found on node '' @ node_name))
         (labels KUBERNETES_HOST_LABEL_KEY))))"

definition get_nodename :: "'w dump_api \<Rightarrow> string \<Rightarrow> ('w, k8s_resource_error, string) dump" where
  "get_nodename api host_name =
     bindP (dread (da_list_nodes api (list_params_default\<lparr>lp_labels := KUBERNETES_HOST_LABEL_KEY @ ''='' @ host_name\<rparr>))
       ''list_nodes'' ClientError) (\<lambda>nodes.
     case nodes of
       [] \<Rightarrow> fault_of (KCustomError (''No node found for hostname '' @ host_name))
     | node # _ \<Rightarrow> or_panic (dk_name node))"

section \<open>The dump of the objects (k8s_resource_dump.rs)\<close>

definition create_file_and_write :: "'w dump_api \<Rightarrow> string \<Rightarrow> string \<Rightarrow> string \<Rightarrow> ('w, string, unit) dump" where
  "create_file_and_write api dir file_name content =
     (let path = path_join dir file_name in
      bindP (file_create api path) (\<lambda>_.
      bindP (write_all api path content) (\<lambda>_.
      bindP (tryF (file_flush api path)) (\<lambda>r. case r of Inr _ \<Rightarrow> retP () | Inl _ \<Rightarrow> failP Panic))))"

definition app_name :: "d_app \<Rightarrow> ('w, 'e, string) dump" where
  "app_name app = or_panic (dap_name app)"

definition create_app_configurations ::
  "'w dump_api \<Rightarrow> dump_lib \<Rightarrow> list_kind \<Rightarrow> d_app list \<Rightarrow> string \<Rightarrow> ('w, k8s_dumper_error, unit) dump" where
  "create_app_configurations api lib kind apps dir_path =
     forP apps (\<lambda>app.
       case dl_yaml lib (PrApp kind app) of
         Inl e \<Rightarrow> bindP (app_name app) (\<lambda>name. dlog api (''Error serializing the app : '' @ name @ '' , error: '' @ e))
       | Inr serialized \<Rightarrow>
           bindP (app_name app) (\<lambda>name.
           bindP (tryF (create_file_and_write api dir_path (name @ ''.yaml'') serialized)) (\<lambda>r. case r of
             Inr _ \<Rightarrow> retP ()
           | Inl e \<Rightarrow> dlog api (''Error creating or writing file for the app : '' @ name @ '' , error: '' @ e))))"

text \<open>The time by which events are sorted; \<open>None\<close> is a panic.\<close>

definition event_time :: "d_event \<Rightarrow> int option" where
  "event_time event =
     (case de_series event of
        Some last_observed_time \<Rightarrow> last_observed_time
      | None \<Rightarrow> (case de_last_timestamp event of Some t \<Rightarrow> Some t | None \<Rightarrow> de_event_time event))"

text \<open>
  \<open>sort_unstable_by_key\<close>: with two events or more the time of each of them is asked for.
\<close>

definition sort_events :: "dump_lib \<Rightarrow> d_event list \<Rightarrow> d_event list option" where
  "sort_events lib events =
     (if length events < 2 then Some events
      else map_option (\<lambda>keys. dl_sort_unstable_by_key lib (zip keys events)) (those (map event_time events)))"

definition write_yaml ::
  "'w dump_api \<Rightarrow> dump_lib \<Rightarrow> string \<Rightarrow> string \<Rightarrow> printable \<Rightarrow> ('w, k8s_dumper_error, unit) dump" where
  "write_yaml api lib root_dir file_name content =
     bindP (liftF (map_err DumperYaml (dl_yaml lib content))) (\<lambda>text.
     conv DumperIO (create_file_and_write api root_dir file_name text))"

definition get_k8s_daemonsets :: "'w dump_api \<Rightarrow> dump_lib \<Rightarrow> client_set \<Rightarrow> string \<Rightarrow> ('w, k8s_dumper_error, unit) dump" where
  "get_k8s_daemonsets api lib cs configurations_path =
     bindP (dlog api (CHR 0x09 # '' Collecting daemonsets configuration'')) (\<lambda>_.
     bindP (conv DumperK8s (get_daemonsets api cs '''' '''')) (\<lambda>daemonsets.
     create_app_configurations api lib LDaemonSets daemonsets configurations_path))"

definition get_k8s_deployments :: "'w dump_api \<Rightarrow> dump_lib \<Rightarrow> client_set \<Rightarrow> string \<Rightarrow> ('w, k8s_dumper_error, unit) dump" where
  "get_k8s_deployments api lib cs configurations_path =
     bindP (dlog api (CHR 0x09 # '' Collecting deployments configuration'')) (\<lambda>_.
     bindP (conv DumperK8s (get_deployments api cs '''' '''')) (\<lambda>deploys.
     create_app_configurations api lib LDeployments deploys configurations_path))"

definition get_k8s_statefulsets :: "'w dump_api \<Rightarrow> dump_lib \<Rightarrow> client_set \<Rightarrow> string \<Rightarrow> ('w, k8s_dumper_error, unit) dump" where
  "get_k8s_statefulsets api lib cs configurations_path =
     bindP (dlog api (CHR 0x09 # '' Collecting statefulsets configuration'')) (\<lambda>_.
     bindP (conv DumperK8s (get_statefulsets api cs '''' '''')) (\<lambda>statefulsets.
     create_app_configurations api lib LStatefulSets statefulsets configurations_path))"

text \<open>A pool without a name is a panic of the filter.\<close>

definition filter_pools :: "string list option \<Rightarrow> d_app list \<Rightarrow> d_app list option" where
  "filter_pools required_pools disk_pools =
     (case required_pools of
        Some p_names \<Rightarrow>
          if None \<in> set (map dap_name disk_pools) then None
          else Some (filter (\<lambda>p. case dap_name p of Some name \<Rightarrow> name \<in> set p_names | None \<Rightarrow> False) disk_pools)
      | None \<Rightarrow> Some disk_pools)"

definition get_k8s_diskpools ::
  "'w dump_api \<Rightarrow> dump_lib \<Rightarrow> client_set \<Rightarrow> string \<Rightarrow> string list option \<Rightarrow> ('w, k8s_dumper_error, unit) dump" where
  "get_k8s_diskpools api lib cs root_dir required_pools =
     bindP (dlog api (CHR 0x09 # '' Collecting Kubernetes disk pool resources'')) (\<lambda>_.
     bindP (conv DumperK8s (list_disk_pools api cs None None)) (\<lambda>disk_pools.
     bindP (or_panic (filter_pools required_pools disk_pools)) (\<lambda>filtered_pools.
     write_yaml api lib root_dir ''k8s_disk_pools.yaml'' (PrDiskPools filtered_pools))))"

definition get_k8s_vs_classes :: "'w dump_api \<Rightarrow> dump_lib \<Rightarrow> string \<Rightarrow> ('w, k8s_dumper_error, unit) dump" where
  "get_k8s_vs_classes api lib root_dir =
     bindP (dlog api (CHR 0x09 # '' Collecting Kubernetes VolumeSnapshotClass resources'')) (\<lambda>_.
     bindP (conv DumperK8s (list_volumesnapshot_classes api (Some (dl_csi_plugin_name lib)) None None)) (\<lambda>vscs.
     write_yaml api lib root_dir ''volume_snapshot_classes.yaml'' (PrDynamic vscs)))"

definition get_k8s_vsnapshot_contents :: "nat \<Rightarrow> 'w dump_api \<Rightarrow> dump_lib \<Rightarrow> string \<Rightarrow> ('w, k8s_dumper_error, unit) dump" where
  "get_k8s_vsnapshot_contents fuel api lib root_dir =
     bindP (dlog api (CHR 0x09 # '' Collecting Kubernetes VolumeSnapshotContents resources'')) (\<lambda>_.
     bindP (conv DumperK8s (list_volumesnapshotcontents fuel api (Some (dl_csi_plugin_name lib)) None None)) (\<lambda>vscs.
     write_yaml api lib root_dir ''volume_snapshot_contents.yaml'' (PrDynamic vscs)))"

definition get_k8s_pod_configurations :: "nat \<Rightarrow> 'w dump_api \<Rightarrow> dump_lib \<Rightarrow> client_set \<Rightarrow> string \<Rightarrow> ('w, k8s_dumper_error, unit) dump" where
  "get_k8s_pod_configurations fuel api lib cs root_dir =
     bindP (dlog api (CHR 0x09 # '' Collecting Kuberbetes pod resources'')) (\<lambda>_.
     bindP (conv DumperK8s (get_pods fuel api cs '''' '''')) (\<lambda>pods.
     write_yaml api lib root_dir ''pods.yaml'' (PrPods pods)))"

definition get_k8s_events :: "nat \<Rightarrow> 'w dump_api \<Rightarrow> dump_lib \<Rightarrow> client_set \<Rightarrow> string \<Rightarrow> ('w, k8s_dumper_error, unit) dump" where
  "get_k8s_events fuel api lib cs root_dir =
     bindP (dlog api (CHR 0x09 # '' Collecting Kubernetes events'')) (\<lambda>_.
     bindP (conv DumperK8s (get_events fuel api cs '''' '''')) (\<lambda>events.
     bindP (or_panic (sort_events lib events)) (\<lambda>sorted_events.
     bindP (liftF (map_err DumperJson (dl_json_pretty lib (PrEvents sorted_events)))) (\<lambda>text.
     conv DumperIO (create_file_and_write api root_dir ''k8s_events.json'' text)))))"

text \<open>\<open>if let Err(error) = m.await { errors.push(error) }\<close>\<close>

definition push_err :: "'e list \<Rightarrow> ('w, 'e, unit) dump \<Rightarrow> ('w, 'f, 'e list) dump" where
  "push_err errors m =
     bindP (tryF m) (\<lambda>r. case r of Inl e \<Rightarrow> retP (errors @ [e]) | Inr _ \<Rightarrow> retP errors)"

definition dump_k8s_resources ::
  "nat \<Rightarrow> 'w dump_api \<Rightarrow> dump_lib \<Rightarrow> client_set \<Rightarrow> string \<Rightarrow> string list option \<Rightarrow> ('w, k8s_dumper_error, unit) dump" where
  "dump_k8s_resources fuel api lib cs root_path required_pools =
     (let root_dir = path_join root_path ''k8s_resources''; configurations_path = path_join root_dir ''configurations'' in
      bindP (conv DumperIO (create_directory_if_not_exist api root_dir)) (\<lambda>_.
      bindP (conv DumperIO (create_directory_if_not_exist api configurations_path)) (\<lambda>_.
      bindP (push_err [] (get_k8s_events fuel api lib cs root_dir)) (\<lambda>errors.
      bindP (push_err errors (get_k8s_daemonsets api lib cs configurations_path)) (\<lambda>errors.
      bindP (push_err errors (get_k8s_deployments api lib cs configurations_path)) (\<lambda>errors.
      bindP (push_err errors (get_k8s_statefulsets api lib cs configurations_path)) (\<lambda>errors.
      bindP (push_err errors (get_k8s_diskpools api lib cs root_dir required_pools)) (\<lambda>errors.
      bindP (push_err errors (get_k8s_vs_classes api lib root_dir)) (\<lambda>errors.
      bindP (push_err errors (get_k8s_vsnapshot_contents fuel api lib root_dir)) (\<lambda>errors.
      bindP (push_err errors (get_k8s_pod_configurations fuel api lib cs root_dir)) (\<lambda>errors.
      if errors \<noteq> [] then fault_of (DumperMultiple errors) else retP ())))))))))))"

end
