(* ===== verification/DumpLogs.thy ===== *)
theory DumpLogs
  imports DumpK8s
begin

text \<open>
  The collection of logs (\<open>collect/logs\<close>): historical logs from Loki (\<open>loki.rs\<close>), current ones
  from the Kubernetes API (\<open>k8s_log.rs\<close>), and which services they are collected for
  (\<open>mod.rs\<close>).  Arithmetic on \<open>u128\<close> panics on overflow, as in a build with debug assertions.
\<close>

section \<open>Loki (loki.rs)\<close>

definition ENDPOINT :: string where "ENDPOINT = ''/loki/api/v1/query_range''"
definition SERVICE_NAME :: string where "SERVICE_NAME = ''loki''"

definition u128_sub :: "nat \<Rightarrow> nat \<Rightarrow> nat option" where
  "u128_sub x y = (if y \<le> x then Some (x - y) else None)"

definition u128_add :: "nat \<Rightarrow> nat \<Rightarrow> nat option" where
  "u128_add x y = (if x + y < 2 ^ 128 then Some (x + y) else None)"

definition get_last_stream_unix_time :: "loki_response \<Rightarrow> nat" where
  "get_last_stream_unix_time resp =
     (if lr_result resp = [] then 0
      else let values = ls_values (last (lr_result resp));
               last_value = (if values = [] then [] else last values);
               time = (case last_value of t # _ \<Rightarrow> t | [] \<Rightarrow> ''0'')
           in unwrap_or 0 (parse_uint (2 ^ 128) time))"

datatype log_direction = Forward

definition direction_as_string :: "log_direction \<Rightarrow> string" where
  "direction_as_string d = (case d of Forward \<Rightarrow> ''forward'')"

record loki_client =
  lc_uri :: string
  lc_logs_endpoint :: string
  lc_since :: nat
  lc_direction :: log_direction
  lc_limit :: nat

definition get_epoch_unix_time :: "'w dump_api \<Rightarrow> nat \<Rightarrow> ('w, 'e, nat) dump" where
  "get_epoch_unix_time api since =
     bindP (dpure (da_timestamp_nanos api) (\<lambda>_. DDate)) (\<lambda>timestamp.
     bindP (or_panic timestamp) (\<lambda>timestamp.
     or_panic (u128_sub (nat (timestamp mod 2 ^ 128)) since)))"

definition loki_client_new :: "'w dump_api \<Rightarrow> dump_lib \<Rightarrow> string option \<Rightarrow> string option \<Rightarrow> string \<Rightarrow> nat \<Rightarrow> ('w, 'e, loki_client option) dump" where
  "loki_client_new api lib uri kube_config_path ns since =
     bindP (case uri of
         None \<Rightarrow>
           bindP (tryF (dproxy (loki_build (da_proxy api)
               (with_target_mod (\<lambda>t. WithNamespace t ns) (with_kube_config kube_config_path (default_loki (da_proxy api)))))
               ''loki_connect'' id)) (\<lambda>r. case r of
             Inr (uri, svc) \<Rightarrow> retP (Some uri)
           | Inl error \<Rightarrow> bindP (dlog api (''Failed to create loki client ('' @ error @ ''). Continuing...'')) (\<lambda>_. retP None))
       | Some uri \<Rightarrow> retP (Some uri)) (\<lambda>uri.
     case uri of
       None \<Rightarrow> retP None
     | Some uri \<Rightarrow>
         bindP (get_epoch_unix_time api since) (\<lambda>since.
         retP (Some \<lparr>lc_uri = uri, lc_logs_endpoint = ENDPOINT, lc_since = since, lc_direction = Forward, lc_limit = 3000\<rparr>)))"

text \<open>The label selector as a Loki filter; a part without an equals sign is a panic.\<close>

definition label_filter :: "string \<Rightarrow> string option" where
  "label_filter key_value_pair =
     (case split_char (CHR ''='') key_value_pair of
        k # v # _ \<Rightarrow>
          Some (str_replace_char (CHR ''/'') ''_'' (str_replace_char (CHR ''.'') ''_''
            (k @ ''='' @ DQUOTE @ v @ DQUOTE @ '','')))
      | _ \<Rightarrow> None)"

definition label_filters :: "string \<Rightarrow> string option" where
  "label_filters label_selector =
     map_option (\<lambda>fs. butlast (concat fs)) (those (map label_filter (split_char (CHR '','') label_selector)))"

text \<open>The name of the file and the query.\<close>

definition loki_query :: "string \<Rightarrow> string \<Rightarrow> string option \<Rightarrow> string \<times> string" where
  "loki_query filters container_name host_name =
     (case host_name of
        Some host_name \<Rightarrow>
          (host_name @ ''-'' @ SERVICE_NAME @ ''-'' @ container_name @ ''.log'',
           ''{'' @ filters @ '',container='' @ DQUOTE @ container_name @ DQUOTE @ '',hostname=~'' @ DQUOTE @ host_name @ ''.*'' @ DQUOTE @ ''}'')
      | None \<Rightarrow>
          (SERVICE_NAME @ ''-'' @ container_name @ ''.log'',
           ''{'' @ filters @ '',container='' @ DQUOTE @ container_name @ DQUOTE @ ''}''))"

record loki_poll =
  lp_uri :: string
  lp_endpoint :: string
  lp_since :: nat
  lp_query_params :: string
  lp_next_start :: nat

definition request_str :: "loki_poll \<Rightarrow> string" where
  "request_str p =
     (let start_time = (if lp_next_start p \<noteq> 0 then lp_since p else lp_since p)
      in lp_uri p @ lp_endpoint p @ lp_query_params p @ ''&start='' @ nat_to_string start_time)"

definition stream_logs :: "loki_stream \<Rightarrow> string list" where
  "stream_logs stream =
     filter (\<lambda>val. val \<noteq> []) (map (\<lambda>value. case value of _ # log # _ \<Rightarrow> log | _ \<Rightarrow> []) (ls_values stream))"

definition loki_logs :: "loki_response \<Rightarrow> string list" where
  "loki_logs resp = concat (map stream_logs (lr_result resp))"

definition poll_next ::
  "'w dump_api \<Rightarrow> dump_lib \<Rightarrow> loki_poll \<Rightarrow> ('w, loki_error, string list option \<times> loki_poll) dump" where
  "poll_next api lib p =
     bindP (liftF (map_err LRequest (dl_http_request lib (request_str p)))) (\<lambda>_.
     bindP (dcall (da_loki_call api (request_str p)) (DLoki (request_str p)) LTower) (\<lambda>(success, body).
     if \<not> success then
       bindP (liftF (map_err LHyper body)) (\<lambda>bytes.
       fault_of (LResponse (case from_utf8 bytes of Inr text \<Rightarrow> text | Inl _ \<Rightarrow> [])))
     else
       bindP (liftF (map_err LHyper body)) (\<lambda>bytes.
       bindP (liftF (map_err LSerde (dl_loki_decode lib bytes))) (\<lambda>resp.
       if lr_status resp = ''success'' \<and> lr_result resp = [] then retP (None, p)
       else
         let last_unix_time = get_last_stream_unix_time resp in
         if last_unix_time = 0 then retP (None, p)
         else
           bindP (or_panic (u128_add last_unix_time 1000000)) (\<lambda>since.
           retP (Some (loki_logs resp), p\<lparr>lp_since := since\<rparr>))))))"

text \<open>\<open>str::trim_end\<close>, for ASCII white space.\<close>

definition str_trim_end :: "string \<Rightarrow> string" where
  "str_trim_end s = rev (dropWhile is_space (rev s))"

definition loki_poller :: "dump_lib \<Rightarrow> loki_client \<Rightarrow> string \<Rightarrow> loki_poll" where
  "loki_poller lib client query =
     \<lparr>lp_uri = lc_uri client, lp_endpoint = lc_logs_endpoint client, lp_since = lc_since client,
      lp_query_params = ''?query='' @ dl_urlencode lib query @ ''&limit='' @ nat_to_string (lc_limit client) @
        ''&direction='' @ direction_as_string (lc_direction client),
      lp_next_start = 0\<rparr>"

definition loki_round ::
  "'w dump_api \<Rightarrow> dump_lib \<Rightarrow> string \<Rightarrow> loki_poll \<times> bool \<Rightarrow> ('w, loki_error, loki_poll \<times> bool + unit) dump" where
  "loki_round api lib file_path = (\<lambda>(poller, is_written).
     bindP (tryF (poll_next api lib poller)) (\<lambda>r. case r of
       Inr (None, _) \<Rightarrow> retP (Inr ())
     | Inr (Some result, poller') \<Rightarrow>
         bindP (forP result (\<lambda>msg. conv LIOError (write_all api file_path (str_trim_end msg @ EOL)))) (\<lambda>_.
         retP (Inl (poller', True)))
     | Inl e \<Rightarrow>
         bindP (if is_written then retP ()
           else bindP (tryF (dcall (da_remove_file api file_path) (DRemoveFile file_path) id)) (\<lambda>r. case r of
             Inl e \<Rightarrow> dlog api (''[Warning] Failed to remove empty historic log file '' @ e)
           | Inr _ \<Rightarrow> retP ())) (\<lambda>_.
         bindP (conv LIOError (write_to_log_file api (''[Warning] While fetching logs from Loki '' @ dl_debug_loki lib e))) (\<lambda>_.
         fault_of e))))"

definition loki_fetch_and_dump_logs ::
  "nat \<Rightarrow> 'w dump_api \<Rightarrow> dump_lib \<Rightarrow> loki_client \<Rightarrow> string \<Rightarrow> string \<Rightarrow> string option \<Rightarrow> string \<Rightarrow> ('w, loki_error, unit) dump" where
  "loki_fetch_and_dump_logs fuel api lib client label_selector container_name host_name service_dir =
     bindP (or_panic (label_filters label_selector)) (\<lambda>filters.
     let (file_name, query) = loki_query filters container_name host_name;
         file_path = path_join service_dir file_name in
     bindP (conv LIOError (file_create api file_path)) (\<lambda>_.
     loopP fuel (loki_round api lib file_path) (loki_poller lib client query, False)))"

section \<open>Logs of running pods (k8s_log.rs)\<close>

definition MAX_POLLING_RETRIES :: nat where "MAX_POLLING_RETRIES = 2"

text \<open>\<open>write_all(a).and(write_all(b))\<close>: both are executed, and the first error is the result.\<close>

definition write_line :: "'w dump_api \<Rightarrow> string \<Rightarrow> string \<Rightarrow> ('w, k8s_logger_error, unit) dump" where
  "write_line api path line =
     bindP (tryF (write_all api path line)) (\<lambda>r1.
     bindP (tryF (write_all api path EOL)) (\<lambda>r2.
     liftF (map_err LoggerIO (res_bind r1 (\<lambda>_. r2)))))"

definition log_line ::
  "'w dump_api \<Rightarrow> string \<Rightarrow> (string, string) res \<Rightarrow> nat \<Rightarrow> ('w, k8s_logger_error, nat) dump" where
  "log_line api path result_data max_retries =
     (case result_data of
        Inr line \<Rightarrow> bindP (write_line api path line) (\<lambda>_. retP max_retries)
      | Inl err \<Rightarrow>
          if max_retries > MAX_POLLING_RETRIES then
            bindP (conv LoggerIO (file_flush api path)) (\<lambda>_. fault_of (LoggerK8s (KResourceError err)))
          else retP (max_retries + 1))"

definition write_logs_stream ::
  "'w dump_api \<Rightarrow> client_set \<Rightarrow> string \<Rightarrow> string \<Rightarrow> string \<Rightarrow> bool \<Rightarrow> ('w, k8s_logger_error, unit) dump" where
  "write_logs_stream api cs pod container_name path previous_logs =
     bindP (dread (da_log_stream api (cs_namespace cs) pod container_name previous_logs) ''log_stream''
       (\<lambda>e. LoggerK8s (ClientError e))) (\<lambda>log_stream.
     bindP (foldP (log_line api path) log_stream 0) (\<lambda>_.
     conv LoggerIO (file_flush api path)))"

definition create_container_log_file ::
  "'w dump_api \<Rightarrow> client_set \<Rightarrow> bool \<Rightarrow> string \<Rightarrow> string \<Rightarrow> string \<Rightarrow> ('w, k8s_logger_error, unit) dump" where
  "create_container_log_file api cs pod_restarted pod container_name pod_dir =
     (let container_file = path_join pod_dir (if pod_restarted then ''previous_'' @ container_name @ ''.log'' else container_name @ ''.log'') in
      bindP (conv LoggerIO (file_create api container_file)) (\<lambda>_.
      write_logs_stream api cs pod container_name container_file pod_restarted))"

definition logger_invalid :: "string \<Rightarrow> k8s_logger_error" where
  "logger_invalid err = LoggerK8s (KCustomError err)"

definition container_restart_map :: "d_pod \<Rightarrow> string \<rightharpoonup> bool" where
  "container_restart_map pod =
     (case dpod_restarts pod of
        Some (Some container_statuses) \<Rightarrow> List.fold (\<lambda>(name, restart_count) m. m(name \<mapsto> restart_count > 0)) container_statuses Map.empty
      | _ \<Rightarrow> Map.empty)"

definition create_pod_logs ::
  "'w dump_api \<Rightarrow> client_set \<Rightarrow> d_pod \<Rightarrow> string list \<Rightarrow> string \<Rightarrow> ('w, k8s_logger_error, unit) dump" where
  "create_pod_logs api cs pod containers service_dir =
     bindP (liftF (ok_or (logger_invalid ''pod.name is invalid'') (dpod_name pod))) (\<lambda>name.
     bindP (liftF (ok_or (logger_invalid ''pod.spec is invalid'') (dpod_spec pod))) (\<lambda>(spec_node, _).
     bindP (liftF (ok_or (logger_invalid ''pod.spec.node_name is invalid'') spec_node)) (\<lambda>node_name.
     bindP (conv LoggerK8s (get_hostname api node_name)) (\<lambda>host_name.
     let pod_dir = path_join service_dir (host_name @ ''_'' @ name) in
     bindP (conv LoggerIO (create_directory_if_not_exist api pod_dir)) (\<lambda>_.
     forP containers (\<lambda>container_name.
       bindP (if unwrap_or False (container_restart_map pod container_name)
         then create_container_log_file api cs True name container_name pod_dir else retP ()) (\<lambda>_.
       create_container_log_file api cs False name container_name pod_dir)))))))"

definition dump_pod_logs ::
  "nat \<Rightarrow> 'w dump_api \<Rightarrow> dump_lib \<Rightarrow> client_set \<Rightarrow> string \<Rightarrow> string \<Rightarrow> string option \<Rightarrow> string list \<Rightarrow> ('w, k8s_logger_error, unit) dump" where
  "dump_pod_logs fuel api lib cs label_selector service_dir hostname containers =
     bindP (case hostname of
         None \<Rightarrow> retP RUNNING_FIELD_SELECTOR
       | Some name \<Rightarrow>
           bindP (conv LoggerK8s (get_nodename api name)) (\<lambda>node_name.
           retP (RUNNING_FIELD_SELECTOR @ '','' @ NODE_NAME_FIELD_SELECTOR @ ''='' @ node_name))) (\<lambda>field_selector.
     bindP (conv LoggerK8s (get_pods fuel api cs label_selector field_selector)) (\<lambda>pods.
     forP pods (\<lambda>pod.
       bindP (tryF (create_pod_logs api cs pod containers service_dir)) (\<lambda>r. case r of
         Inr _ \<Rightarrow> retP ()
       | Inl err \<Rightarrow> dlog api (''Error fetching logs for pod : '' @ unwrap_or '''' (dpod_name pod) @ '', error: '' @ dl_debug_logger lib err)))))"

section \<open>Which logs are collected (mod.rs)\<close>

record log_collection =
  lgc_loki_client :: "loki_client option"
  lgc_k8s_client :: client_set

definition new_logger ::
  "'w dump_api \<Rightarrow> dump_lib \<Rightarrow> string option \<Rightarrow> string \<Rightarrow> string option \<Rightarrow> nat \<Rightarrow> ('w, log_error, log_collection) dump" where
  "new_logger api lib kube_config_path ns loki_uri since =
     bindP (conv LogK8sResource (client_set_new api kube_config_path ns)) (\<lambda>cs.
     bindP (loki_client_new api lib loki_uri kube_config_path ns since) (\<lambda>client.
     retP \<lparr>lgc_loki_client = client, lgc_k8s_client = cs\<rparr>))"

definition is_host_name_required :: "string \<Rightarrow> bool" where
  "is_host_name_required service_name \<longleftrightarrow> service_name \<in> set HOST_NAME_REQUIRED_SERVICES"

definition pod_hostname :: "dump_lib \<Rightarrow> (string \<rightharpoonup> d_k8s_node) \<Rightarrow> d_pod \<Rightarrow> (k8s_resource_error, string) res" where
  "pod_hostname lib nodes_map pod =
     res_bind (ok_or (KCustomError (''Pod spec not found in pod '' @ dl_debug_opt lib (dpod_name pod) @ '' resource'')) (dpod_spec pod)) (\<lambda>(spec_node, _).
     res_bind (ok_or (KCustomError ''Node name not found in running pod resource'') spec_node) (\<lambda>node_name.
     res_bind (ok_or (KCustomError (''Unable to find node: '' @ node_name @ '' object'')) (nodes_map node_name)) (\<lambda>node.
     res_bind (ok_or (KCustomError (''No labels found in node '' @ node_name)) (dk_labels node)) (\<lambda>labels.
     ok_or (KCustomError (''Hostname not found for node '' @ node_name)) (labels KUBERNETES_HOST_LABEL_KEY)))))"

definition pod_logging_resources ::
  "dump_lib \<Rightarrow> (string \<rightharpoonup> d_k8s_node) \<Rightarrow> d_pod \<Rightarrow> log_resource set \<Rightarrow> (k8s_resource_error, log_resource set) res" where
  "pod_logging_resources lib nodes_map pod logging_resources =
     res_bind (ok_or (KCustomError (''No labels found in pod '' @ dl_debug_opt lib (dpod_name pod))) (dpod_labels pod)) (\<lambda>labels.
     let service_name = unwrap_or '''' (labels ''app'') in
     res_bind (if is_host_name_required service_name then res_bind (pod_hostname lib nodes_map pod) (\<lambda>h. Inr (Some h)) else Inr None) (\<lambda>hostname.
     res_bind (ok_or (KCustomError ''Pod sepc not found'') (dpod_spec pod)) (\<lambda>(_, containers).
     Inr (List.fold (\<lambda>container. insert
       \<lparr>lgr_container_name = container, lgr_host_name = hostname, lgr_label_selector = ''app='' @ service_name,
        lgr_service_type = service_name\<rparr>) containers logging_resources))))"

definition get_logging_resources ::
  "'w dump_api \<Rightarrow> dump_lib \<Rightarrow> d_pod list \<Rightarrow> ('w, log_error, log_resource set) dump" where
  "get_logging_resources api lib pods =
     bindP (conv LogK8sResource (get_nodes_map api)) (\<lambda>nodes_map.
     liftF (map_err LogK8sResource (res_fold (pod_logging_resources lib nodes_map) pods {})))"

definition pod_service :: "d_pod \<Rightarrow> string" where
  "pod_service pod = (case dpod_labels pod of Some labels \<Rightarrow> unwrap_or '''' (labels ''app'') | None \<Rightarrow> '''')"

text \<open>The five methods \<open>get_*_logging_services\<close> differ in the table of services only.\<close>

definition get_logging_services ::
  "string list \<Rightarrow> nat \<Rightarrow> 'w dump_api \<Rightarrow> dump_lib \<Rightarrow> log_collection \<Rightarrow> ('w, log_error, log_resource set) dump" where
  "get_logging_services services fuel api lib lc =
     bindP (conv LogK8sResource (get_pods fuel api (lgc_k8s_client lc) (logging_label_selector lib) '''')) (\<lambda>pods.
     get_logging_resources api lib (filter (\<lambda>pod. pod_service pod \<in> set services) pods))"

definition get_control_plane_logging_services ::
  "nat \<Rightarrow> 'w dump_api \<Rightarrow> dump_lib \<Rightarrow> log_collection \<Rightarrow> ('w, log_error, log_resource set) dump" where
  "get_control_plane_logging_services = get_logging_services CONTROL_PLANE_SERVICES"

definition get_data_plane_logging_services ::
  "nat \<Rightarrow> 'w dump_api \<Rightarrow> dump_lib \<Rightarrow> log_collection \<Rightarrow> ('w, log_error, log_resource set) dump" where
  "get_data_plane_logging_services = get_logging_services DATA_PLANE_SERVICES"

definition get_upgrade_logging_services ::
  "nat \<Rightarrow> 'w dump_api \<Rightarrow> dump_lib \<Rightarrow> log_collection \<Rightarrow> ('w, log_error, log_resource set) dump" where
  "get_upgrade_logging_services = get_logging_services UPGRADE_JOB_SERVICE"

definition get_callhome_logging_services ::
  "nat \<Rightarrow> 'w dump_api \<Rightarrow> dump_lib \<Rightarrow> log_collection \<Rightarrow> ('w, log_error, log_resource set) dump" where
  "get_callhome_logging_services = get_logging_services CALLHOME_JOB_SERVICE"

definition get_nats_logging_services ::
  "nat \<Rightarrow> 'w dump_api \<Rightarrow> dump_lib \<Rightarrow> log_collection \<Rightarrow> ('w, log_error, log_resource set) dump" where
  "get_nats_logging_services = get_logging_services NATS_JOB_SERVICE"

definition of_service :: "dump_lib \<Rightarrow> log_resource \<Rightarrow> string" where
  "of_service lib resource =
     '' logs of service: '' @ lgr_service_type resource @ '', container: '' @ lgr_container_name resource"

definition collect_resource_logs ::
  "nat \<Rightarrow> 'w dump_api \<Rightarrow> dump_lib \<Rightarrow> log_collection \<Rightarrow> string \<Rightarrow> log_resource \<Rightarrow> log_error list \<Rightarrow> ('w, log_error, log_error list) dump" where
  "collect_resource_logs fuel api lib lc working_dir resource errors =
     bindP (dlog api (CHR 0x09 # '' Collecting'' @ of_service lib resource @ '' of host: '' @ dl_debug_opt lib (lgr_host_name resource))) (\<lambda>_.
     let service_dir = path_join (path_join working_dir ''logs'') (lgr_service_type resource) in
     bindP (conv LogIOError (create_directory_if_not_exist api service_dir)) (\<lambda>_.
     bindP (case lgc_loki_client lc of
         Some client \<Rightarrow>
           bindP (tryF (loki_fetch_and_dump_logs fuel api lib client (lgr_label_selector resource) (lgr_container_name resource)
             (lgr_host_name resource) service_dir)) (\<lambda>r. case r of
             Inl e \<Rightarrow> bindP (dlog api (CHR 0x09 # '' Failed to collect historical'' @ of_service lib resource @ '' of: host '' @ dl_debug_opt lib (lgr_host_name resource)))
               (\<lambda>_. retP (errors @ [LogLoki e]))
           | Inr _ \<Rightarrow> retP errors)
       | None \<Rightarrow> retP errors) (\<lambda>errors.
     bindP (tryF (dump_pod_logs fuel api lib (lgc_k8s_client lc) (lgr_label_selector resource) service_dir (lgr_host_name resource)
       [lgr_container_name resource])) (\<lambda>r. case r of
         Inl e \<Rightarrow> bindP (dlog api (CHR 0x09 # '' Failed to collect current'' @ of_service lib resource @ '' of: host '' @ dl_debug_opt lib (lgr_host_name resource)))
           (\<lambda>_. retP (errors @ [LogK8sLogger e]))
       | Inr _ \<Rightarrow> retP errors))))"

definition fetch_and_dump_logs ::
  "nat \<Rightarrow> 'w dump_api \<Rightarrow> dump_lib \<Rightarrow> log_collection \<Rightarrow> log_resource set \<Rightarrow> string \<Rightarrow> ('w, log_error, unit) dump" where
  "fetch_and_dump_logs fuel api lib lc resources working_dir =
     bindP (foldP (collect_resource_logs fuel api lib lc working_dir) (dl_iter lib resources) []) (\<lambda>errors.
     if errors \<noteq> [] then fault_of (LogMultipleErrors errors) else retP ())"

end
