(* ===== verification/DumpSystem.thy ===== *)
theory DumpSystem
  imports DumpResources DumpLogs
begin

text \<open>
  The dumps themselves: of etcd (\<open>collect/persistent_store/etcd.rs\<close>), of single resources
  (\<open>collect/resource_dump.rs\<close>), of the whole system (\<open>collect/system_dump.rs\<close>), and the command
  that runs them (\<open>lib.rs\<close>, \<open>operations.rs\<close>), in a build with debug assertions, which has all of the
  subcommands.
\<close>

section \<open>etcd (etcd.rs)\<close>

record etcd_store =
  es_key_prefix :: string

definition etcd_store_new ::
  "'w dump_api \<Rightarrow> dump_lib \<Rightarrow> string option \<Rightarrow> string option \<Rightarrow> string \<Rightarrow> ('w, etcd_error, etcd_store) dump" where
  "etcd_store_new api lib kube_config_path etcd_endpoint ns =
     bindP (conv EtcdK8s (client_set_new api kube_config_path ns)) (\<lambda>cs.
     bindP (dread (da_platform_info api (cs_namespace cs)) ''platform_info''
       (\<lambda>e. EtcdCustom (''Failed to get k8s platform info: '' @ e))) (\<lambda>platform_info.
     let key_prefix = dl_key_prefix lib platform_info in
     bindP (case etcd_endpoint of
         Some endpoint \<Rightarrow> retP endpoint
       | None \<Rightarrow> dproxy (etcd_build (da_proxy api)
             (with_target_mod (\<lambda>t. WithNamespace t ns) (with_kube_config kube_config_path (default_etcd (da_proxy api)))))
             ''etcd_proxy'' EtcdCreateClient) (\<lambda>endpoint.
     bindP (dread (da_etcd_connect api endpoint) ''etcd_connect'' EtcdStoreError) (\<lambda>_.
     retP \<lparr>es_key_prefix = key_prefix\<rparr>))))"

definition etcd_get :: "'w dump_api \<Rightarrow> string \<Rightarrow> ('w, etcd_error, (string \<times> string) list) dump" where
  "etcd_get api prefix = dcall (da_etcd_get_all api prefix ETCD_PAGED_LIMIT) (DEtcd prefix) EtcdStoreError"

definition etcd_entry :: "dump_lib \<Rightarrow> string \<times> string \<Rightarrow> string" where
  "etcd_entry lib kv =
     fst kv @ '':'' @ EOL @ (case dl_json_pretty lib (PrEtcdValue (snd kv)) of Inr text \<Rightarrow> text | Inl _ \<Rightarrow> [])"

definition etcd_write :: "'w dump_api \<Rightarrow> dump_lib \<Rightarrow> string option \<Rightarrow> string \<times> string \<Rightarrow> ('w, etcd_error, unit) dump" where
  "etcd_write api lib etcd_dump_file kv =
     (case etcd_dump_file of
        Some path \<Rightarrow> conv EtcdIO (write_all api path (etcd_entry lib kv @ EOL @ EOL))
      | None \<Rightarrow> dprint (etcd_entry lib kv @ EOL))"

text \<open>
  One round: fetch, leave out the first entry unless it is the first round, write the entries
  and go on from the last key.
\<close>

definition etcd_round ::
  "'w dump_api \<Rightarrow> dump_lib \<Rightarrow> string option \<Rightarrow> string \<times> bool \<Rightarrow> ('w, etcd_error, string \<times> bool + unit) dump" where
  "etcd_round api lib etcd_dump_file = (\<lambda>(prefix, first).
     bindP (etcd_get api prefix) (\<lambda>dump.
     let dump = (if \<not> first \<and> dump \<noteq> [] then tl dump else dump) in
     bindP (forP dump (etcd_write api lib etcd_dump_file)) (\<lambda>_.
     bindP (case etcd_dump_file of Some path \<Rightarrow> conv EtcdIO (file_flush api path) | None \<Rightarrow> retP ()) (\<lambda>_.
     if dump = [] then retP (Inr ()) else retP (Inl (fst (last dump), False))))))"

definition etcd_dump :: "nat \<Rightarrow> 'w dump_api \<Rightarrow> dump_lib \<Rightarrow> etcd_store \<Rightarrow> string \<Rightarrow> bool \<Rightarrow> ('w, etcd_error, unit) dump" where
  "etcd_dump fuel api lib store working_dir stdout =
     bindP (if stdout then retP None
       else let file_path = path_join working_dir ''etcd_dump'' in
            bindP (conv EtcdIO (file_create api file_path)) (\<lambda>_. retP (Some file_path))) (\<lambda>etcd_dump_file.
     loopP fuel (etcd_round api lib etcd_dump_file) (es_key_prefix store, True))"

section \<open>Configuration (common.rs)\<close>

datatype output_format = Tar | Stdout

record dump_config =
  dc_output_directory :: string
  dc_namespace :: string
  dc_loki_uri :: "string option"
  dc_etcd_uri :: "string option"
  dc_since :: nat
  dc_kube_config_path :: "string option"
  dc_topologer :: "topologer option"
  dc_output_format :: output_format

text \<open>\<open>process::exit(1)\<close> after a message; \<open>match r { Ok(val) => val, Err(e) => { log(..); exit } }\<close>.\<close>

definition or_exit :: "('e \<Rightarrow> ('w, 'f, unit) dump) \<Rightarrow> ('w, 'e, 'a) dump \<Rightarrow> ('w, 'f, 'a) dump" where
  "or_exit complain m =
     bindP (tryF m) (\<lambda>r. case r of Inr a \<Rightarrow> retP a | Inl e \<Rightarrow> bindP (complain e) (\<lambda>_. failP Exit))"

definition etcd_dumper_of :: "'w dump_api \<Rightarrow> dump_lib \<Rightarrow> dump_config \<Rightarrow> ('w, 'e, etcd_store option) dump" where
  "etcd_dumper_of api lib config =
     bindP (tryF (etcd_store_new api lib (dc_kube_config_path config) (dc_etcd_uri config) (dc_namespace config))) (\<lambda>r.
     case r of
       Inr store \<Rightarrow> retP (Some store)
     | Inl err \<Rightarrow> bindP (dlog api (''Failed to initialize etcd client, error: '' @ dl_debug_etcd lib err)) (\<lambda>_. retP None))"

definition logger_of :: "'w dump_api \<Rightarrow> dump_lib \<Rightarrow> dump_config \<Rightarrow> ('w, 'e, log_collection) dump" where
  "logger_of api lib config =
     or_exit (\<lambda>err. dlog api (''Failed to initialize logging service, error: '' @ dl_debug_log lib err))
       (new_logger api lib (dc_kube_config_path config) (dc_namespace config) (dc_loki_uri config) (dc_since config))"

definition k8s_dumper_of :: "'w dump_api \<Rightarrow> dump_lib \<Rightarrow> dump_config \<Rightarrow> ('w, 'e, client_set) dump" where
  "k8s_dumper_of api lib config =
     or_exit (\<lambda>err. dlog api (''Failed to instantiate K8s resource dumper, error: '' @ dl_debug_dumper lib err))
       (conv DumperK8s (client_set_new api (dc_kube_config_path config) (dc_namespace config)))"

section \<open>The dump of a resource (resource_dump.rs)\<close>

record resource_dumper =
  rd_topologer :: "topologer option"
  rd_archive :: archive
  rd_dir_path :: string
  rd_logger :: log_collection
  rd_k8s_resource_dumper :: client_set
  rd_etcd_dumper :: "etcd_store option"
  rd_output_format :: output_format

definition get_or_panic_resource_dumper :: "'w dump_api \<Rightarrow> dump_lib \<Rightarrow> dump_config \<Rightarrow> ('w, 'e, resource_dumper) dump" where
  "get_or_panic_resource_dumper api lib config =
     bindP (case dc_output_format config of
         Tar \<Rightarrow>
           bindP (or_exit (\<lambda>e. dprint (''Failed to create temporary directory to dump information, error: '' @ dl_debug_dump lib e))
             (create_and_get_tmp_directory api (dc_output_directory config))) (\<lambda>new_dir.
           bindP (or_exit (\<lambda>e. dprint (''Encountered error while creating log file: '' @ e @ '' ''))
             (init_tool_log_file api (new_dir @ ''/support_tool_logs.log''))) (\<lambda>_.
           retP (new_dir, Some (dc_output_directory config))))
       | Stdout \<Rightarrow> bindP init_no_log_file (\<lambda>_. retP ('''', None))) (\<lambda>(new_dir, output_directory).
     bindP (or_exit (\<lambda>err. dlog api (''Failed to create archive, '' @ dl_debug_dump lib err)) (archive_new api output_directory)) (\<lambda>ar.
     bindP (logger_of api lib config) (\<lambda>logger.
     bindP (k8s_dumper_of api lib config) (\<lambda>cs.
     bindP (etcd_dumper_of api lib config) (\<lambda>etcd_dumper.
     retP \<lparr>rd_topologer = dc_topologer config, rd_archive = ar, rd_dir_path = new_dir, rd_logger = logger,
       rd_k8s_resource_dumper = cs, rd_etcd_dumper = etcd_dumper, rd_output_format = dc_output_format config\<rparr>)))))"

definition delete_temporary_directory :: "'w dump_api \<Rightarrow> string \<Rightarrow> ('w, dump_error, unit) dump" where
  "delete_temporary_directory api dir_path = conv ArchiveError (remove_dir_all api dir_path)"

text \<open>\<open>m.map_err(|e| { complain; errors.push(ctx(e)) })\<close>, the result of which is dropped.\<close>

definition noting ::
  "('e \<Rightarrow> dump_error) \<Rightarrow> ('e \<Rightarrow> ('w, 'f, unit) dump) \<Rightarrow> ('w, 'e, unit) dump \<Rightarrow> dump_error list \<Rightarrow> ('w, 'f, dump_error list) dump" where
  "noting ctx complain m errors =
     bindP (tryF m) (\<lambda>r. case r of Inl e \<Rightarrow> bindP (complain e) (\<lambda>_. retP (errors @ [ctx e])) | Inr _ \<Rightarrow> retP errors)"

definition log_resource_of :: "resource_information \<Rightarrow> log_resource" where
  "log_resource_of resource =
     \<lparr>lgr_container_name = ri_container_name resource, lgr_host_name = Some (ri_host_name resource),
      lgr_label_selector = as_string (CHR '','') (ri_label_selector resource), lgr_service_type = MAYASTOR_SERVICE\<rparr>"

text \<open>\<open>try_join_all\<close> over an optional store: the dump is run if there is one.\<close>

definition dump_etcd_if_any :: "nat \<Rightarrow> 'w dump_api \<Rightarrow> dump_lib \<Rightarrow> etcd_store option \<Rightarrow> string \<Rightarrow> ('w, etcd_error, unit) dump" where
  "dump_etcd_if_any fuel api lib store dir_path =
     (case store of Some store \<Rightarrow> etcd_dump fuel api lib store dir_path False | None \<Rightarrow> retP ())"

definition dump_topologer ::
  "'w dump_api \<Rightarrow> dump_lib \<Rightarrow> resource_dumper \<Rightarrow> string \<Rightarrow> log_resource set \<Rightarrow> dump_error list \<Rightarrow>
   ('w, 'e, log_resource set \<times> string list option \<times> dump_error list) dump" where
  "dump_topologer api lib d folder_path resources errors =
     (case rd_topologer d of
        Some topologer \<Rightarrow>
          bindP (noting ResourceError (\<lambda>e. dlog api (''Failed to collect topology information, error: '' @ dl_debug_resource lib e))
            (dump_topology_info api lib topologer (rd_dir_path d @ ''/'' @ folder_path)) errors) (\<lambda>errors.
          bindP (or_panic (get_unhealthy_resource_info topologer)) (\<lambda>unhealthy_resources.
          bindP (or_panic (get_k8s_resource_names topologer)) (\<lambda>names.
          retP (resources \<union> log_resource_of ` unhealthy_resources, Some names, errors))))
      | None \<Rightarrow> retP (resources, None, errors))"

definition dump_info :: "nat \<Rightarrow> 'w dump_api \<Rightarrow> dump_lib \<Rightarrow> resource_dumper \<Rightarrow> string \<Rightarrow> ('w, dump_error, unit) dump" where
  "dump_info fuel api lib d folder_path =
     bindP (tryF (get_control_plane_logging_services fuel api lib (rd_logger d))) (\<lambda>r.
     bindP (case r of
         Inr resources \<Rightarrow> retP (resources, [])
       | Inl e \<Rightarrow> bindP (dlog api (''Failed to fetch control plane services, error: '' @ dl_debug_log lib e))
           (\<lambda>_. retP ({}, [LogCollectionError e]))) (\<lambda>(resources, errors).
     bindP (dlog api ''Collecting topology information of resource(s)...'') (\<lambda>_.
     bindP (dump_topologer api lib d folder_path resources errors) (\<lambda>(resources, k8s_resources, errors).
     bindP (dlog api ''Completed collection of topology information'') (\<lambda>_.
     bindP (tryF (write_to_log_file api (''Collecting logs from following services: '' @ dl_debug_resources lib resources))) (\<lambda>_.
     bindP (dlog api ''Collecting logs...'') (\<lambda>_.
     bindP (noting LogCollectionError (\<lambda>_. retP ()) (fetch_and_dump_logs fuel api lib (rd_logger d) resources (rd_dir_path d)) errors) (\<lambda>errors.
     bindP (dlog api ''Completed collection of logs'') (\<lambda>_.
     bindP (dlog api ''Collecting Kubernetes resources specific to mayastor service'') (\<lambda>_.
     bindP (noting K8sResourceDumperError (\<lambda>_. retP ())
       (dump_k8s_resources fuel api lib (rd_k8s_resource_dumper d) (rd_dir_path d) k8s_resources) errors) (\<lambda>errors.
     bindP (dlog api ''Completed collection of Kubernetes resource specific information'') (\<lambda>_.
     bindP (dlog api ''Collecting mayastor specific information from Etcd...'') (\<lambda>_.
     bindP (noting EtcdDumpError (\<lambda>e. dlog api (''Failed to collect etcd dump information, error: '' @ dl_debug_etcd lib e))
       (dump_etcd_if_any fuel api lib (rd_etcd_dumper d) (rd_dir_path d)) errors) (\<lambda>errors.
     bindP (dlog api ''Completed collection of mayastor specific resources from Etcd service'') (\<lambda>_.
     bindP (noting ArchiveError (\<lambda>e. dlog api (''Failed to move content into archive file, error: '' @ e))
       (copy_to_archive api (rd_archive d) (rd_dir_path d) ''.'') errors) (\<lambda>errors.
     bindP (tryF (delete_temporary_directory api (rd_dir_path d))) (\<lambda>r.
     bindP (case r of Inl e \<Rightarrow> dlog api (''Failed to delete temporary directory, error: '' @ dl_debug_dump lib e) | Inr _ \<Rightarrow> retP ()) (\<lambda>_.
     if errors \<noteq> [] then fault_of (MultipleErrors errors) else retP ()))))))))))))))))))"

text \<open>\<open>map_err(|e| { complain; e })?\<close>\<close>

definition complaining :: "('e \<Rightarrow> ('w, 'f, unit) dump) \<Rightarrow> ('e \<Rightarrow> 'f) \<Rightarrow> ('w, 'e, 'a) dump \<Rightarrow> ('w, 'f, 'a) dump" where
  "complaining complain ctx m =
     bindP (tryF m) (\<lambda>r. case r of Inl e \<Rightarrow> bindP (complain e) (\<lambda>_. fault_of (ctx e)) | Inr a \<Rightarrow> retP a)"

definition dump_etcd :: "nat \<Rightarrow> 'w dump_api \<Rightarrow> dump_lib \<Rightarrow> resource_dumper \<Rightarrow> ('w, dump_error, unit) dump" where
  "dump_etcd fuel api lib d =
     bindP (liftF (ok_or (EtcdDumpError (EtcdCustom ''etcd not configured'')) (rd_etcd_dumper d))) (\<lambda>store.
     bindP (complaining (\<lambda>e. dlog api (''Failed to collect etcd dump information, error: '' @ dl_debug_etcd lib e)) EtcdDumpError
       (etcd_dump fuel api lib store (rd_dir_path d) (rd_output_format d = Stdout))) (\<lambda>_.
     bindP (dlog api ''Completed collection of etcd dump information'') (\<lambda>_.
     if rd_output_format d = Tar then
       bindP (complaining (\<lambda>e. dlog api (''Failed to move content into archive file, error: '' @ e)) ArchiveError
         (copy_to_archive api (rd_archive d) (rd_dir_path d) ''.'')) (\<lambda>_.
       bindP (tryF (delete_temporary_directory api (rd_dir_path d))) (\<lambda>r.
       case r of Inl e \<Rightarrow> dlog api (''Failed to delete temporary directory, error: '' @ dl_debug_dump lib e) | Inr _ \<Rightarrow> retP ()))
     else retP ())))"

text \<open>The method of the same name of both dumpers.\<close>

definition fill_archive_and_delete_tmp :: "'w dump_api \<Rightarrow> dump_lib \<Rightarrow> archive \<Rightarrow> string \<Rightarrow> ('w, dump_error, unit) dump" where
  "fill_archive_and_delete_tmp api lib ar dir_path =
     bindP (tryF (write_to_log_file api ''Will copy temporary directory content to archive'')) (\<lambda>_.
     bindP (conv ArchiveError (flush_tool_log_file api)) (\<lambda>_.
     bindP (complaining (\<lambda>e. dlog api (''Failed to move content into archive file, error: '' @ e)) ArchiveError
       (copy_to_archive api ar dir_path ''.'')) (\<lambda>_.
     complaining (\<lambda>e. dlog api (''Failed to delete temporary directory, error: '' @ dl_debug_dump lib e)) id
       (delete_temporary_directory api dir_path))))"

section \<open>The dump of the system (system_dump.rs)\<close>

record system_dumper =
  sd_archive :: archive
  sd_dir_path :: string
  sd_logger :: log_collection
  sd_k8s_resource_dumper :: client_set
  sd_etcd_dumper :: "etcd_store option"
  sd_disable_log_collection :: bool

definition get_or_panic_system_dumper :: "'w dump_api \<Rightarrow> dump_lib \<Rightarrow> dump_config \<Rightarrow> bool \<Rightarrow> ('w, 'e, system_dumper) dump" where
  "get_or_panic_system_dumper api lib config disable_log_collection =
     bindP (or_exit (\<lambda>e. dprint (''Failed to create temporary directory to dump information, error: '' @ dl_debug_dump lib e))
       (create_and_get_tmp_directory api (dc_output_directory config))) (\<lambda>new_dir.
     bindP (tryF (init_tool_log_file api (new_dir @ ''/support_tool_logs.log''))) (\<lambda>r.
     bindP (case r of Inr _ \<Rightarrow> retP () | Inl _ \<Rightarrow> failP Panic) (\<lambda>_.
     bindP (or_exit (\<lambda>err. dlog api (''Failed to create archive archive, error: '' @ dl_debug_dump lib err))
       (archive_new api (Some (dc_output_directory config)))) (\<lambda>ar.
     bindP (logger_of api lib config) (\<lambda>logger.
     bindP (k8s_dumper_of api lib config) (\<lambda>cs.
     bindP (etcd_dumper_of api lib config) (\<lambda>etcd_dumper.
     retP \<lparr>sd_archive = ar, sd_dir_path = new_dir, sd_logger = logger, sd_k8s_resource_dumper = cs,
       sd_etcd_dumper = etcd_dumper, sd_disable_log_collection = disable_log_collection\<rparr>)))))))"

definition collect_and_dump_loki_logs ::
  "nat \<Rightarrow> 'w dump_api \<Rightarrow> dump_lib \<Rightarrow> system_dumper \<Rightarrow> topologer option \<Rightarrow> ('w, log_error, unit) dump" where
  "collect_and_dump_loki_logs fuel api lib d node_topologer =
     bindP (get_control_plane_logging_services fuel api lib (sd_logger d)) (\<lambda>control_plane.
     bindP (get_data_plane_logging_services fuel api lib (sd_logger d)) (\<lambda>data_plane.
     bindP (get_upgrade_logging_services fuel api lib (sd_logger d)) (\<lambda>upgrade.
     bindP (get_callhome_logging_services fuel api lib (sd_logger d)) (\<lambda>callhome.
     bindP (get_nats_logging_services fuel api lib (sd_logger d)) (\<lambda>nats.
     bindP (case node_topologer of
         Some topologer \<Rightarrow> or_panic (get_all_resource_info topologer)
       | None \<Rightarrow> retP {}) (\<lambda>node_info.
     let resources = control_plane \<union> data_plane \<union> upgrade \<union> callhome \<union> nats \<union> log_resource_of ` node_info in
     bindP (tryF (write_to_log_file api (''Collecting logs of following services: '' @ EOL @ '' '' @ dl_debug_resources lib resources))) (\<lambda>_.
     bindP (dlog api ''Collecting logs...'') (\<lambda>_.
     bindP (fetch_and_dump_logs fuel api lib (sd_logger d) resources (sd_dir_path d)) (\<lambda>_.
     dlog api ''Completed collection of logs'')))))))))"

text \<open>
  The part of \<open>dump_system\<close> for one kind of resources: fetch the topology and write it; the
  topology itself is used later for the nodes only.
\<close>

definition dump_kind ::
  "'w dump_api \<Rightarrow> dump_lib \<Rightarrow> string \<Rightarrow> string \<Rightarrow> ('w, resource_error, topologer) dump \<Rightarrow> dump_error list \<Rightarrow>
   ('w, 'e, topologer option \<times> dump_error list) dump" where
  "dump_kind api lib dir_path kind get_topologer errors =
     bindP (tryF get_topologer) (\<lambda>r. case r of
       Inr topologer \<Rightarrow>
         bindP (dlog api (CHR 0x09 # '' Collecting '' @ kind @ '' topology information'')) (\<lambda>_.
         bindP (noting ResourceError (\<lambda>_. dlog api (CHR 0x09 # '' Failed to dump '' @ kind @ '' topology information''))
           (dump_topology_info api lib topologer (dir_path @ ''/topology/'' @ kind)) errors) (\<lambda>errors.
         retP (Some topologer, errors)))
     | Inl e \<Rightarrow> retP (None, errors @ [ResourceError e]))"

definition dump_system :: "nat \<Rightarrow> 'w dump_api \<Rightarrow> dump_lib \<Rightarrow> system_dumper \<Rightarrow> ('w, dump_error, unit) dump" where
  "dump_system fuel api lib d =
     bindP (dlog api ''Collecting topology information...'') (\<lambda>_.
     bindP (dump_kind api lib (sd_dir_path d) ''volume'' (volume_get_topologer fuel api lib None) []) (\<lambda>(_, errors).
     bindP (dump_kind api lib (sd_dir_path d) ''snapshot'' (snapshot_get_topologer fuel api None) errors) (\<lambda>(_, errors).
     bindP (dump_kind api lib (sd_dir_path d) ''pool'' (pool_get_topologer api lib None) errors) (\<lambda>(_, errors).
     bindP (dump_kind api lib (sd_dir_path d) ''node'' (node_get_topologer api None) errors) (\<lambda>(node_topologer, errors).
     bindP (dlog api ''Completed collection of topology information'') (\<lambda>_.
     bindP (if sd_disable_log_collection d then retP errors
       else noting LogCollectionError (\<lambda>_. dlog api ''Error occurred while collecting logs'')
         (collect_and_dump_loki_logs fuel api lib d node_topologer) errors) (\<lambda>errors.
     bindP (dlog api ''Collecting Kubernetes resources specific to mayastor service'') (\<lambda>_.
     bindP (noting K8sResourceDumperError (\<lambda>_. dlog api ''Error occured while collecting logs'')
       (dump_k8s_resources fuel api lib (sd_k8s_resource_dumper d) (sd_dir_path d) None) errors) (\<lambda>errors.
     bindP (dlog api ''Completed collection of Kubernetes resource specific information'') (\<lambda>_.
     bindP (if sd_etcd_dumper d = None then retP () else dlog api ''Collecting mayastor specific information from Etcd...'') (\<lambda>_.
     bindP (noting EtcdDumpError (\<lambda>e. dlog api (''Failed to collect etcd dump information, error: '' @ dl_debug_etcd lib e))
       (dump_etcd_if_any fuel api lib (sd_etcd_dumper d) (sd_dir_path d)) errors) (\<lambda>errors.
     retP ()))))))))))))"

section \<open>The command (lib.rs, operations.rs)\<close>

datatype resource =
    RSystem bool
  | RVolumes
  | RVolume string
  | RPools
  | RPool string
  | RNodes
  | RNode string
  | REtcd bool
  | RLoki

record support_args =
  sa_timeout :: duration
  sa_since :: nat
  sa_loki_endpoint :: "string option"
  sa_etcd_endpoint :: "string option"
  sa_output_directory_path :: string
  sa_namespace :: string
  sa_kube_config_path :: "string option"

definition dump_config_of :: "support_args \<Rightarrow> dump_config" where
  "dump_config_of args =
     \<lparr>dc_output_directory = sa_output_directory_path args, dc_namespace = sa_namespace args,
      dc_loki_uri = sa_loki_endpoint args, dc_etcd_uri = sa_etcd_endpoint args, dc_since = sa_since args,
      dc_kube_config_path = sa_kube_config_path args, dc_topologer = None, dc_output_format = Tar\<rparr>"

text \<open>\<open>if let Err(e) = m { log(..); errors.push(e) }\<close>\<close>

definition attempt ::
  "'w dump_api \<Rightarrow> dump_lib \<Rightarrow> string \<Rightarrow> ('w, dump_error, unit) dump \<Rightarrow> dump_error list \<Rightarrow> ('w, 'e, dump_error list) dump" where
  "attempt api lib text m errors = noting id (\<lambda>e. dlog api (text @ dl_debug_dump lib e)) m errors"

definition fill_text :: string where "fill_text = ''Failed to copy content to archive, error: ''"

text \<open>The six branches for volumes, pools and nodes.\<close>

definition run_resource_dump ::
  "nat \<Rightarrow> 'w dump_api \<Rightarrow> dump_lib \<Rightarrow> dump_config \<Rightarrow> ('w, resource_error, topologer) dump \<Rightarrow> string \<Rightarrow> string \<Rightarrow>
   ('w, dump_error, dump_error list) dump" where
  "run_resource_dump fuel api lib config get_topologer folder text =
     bindP (conv ResourceError get_topologer) (\<lambda>topologer.
     bindP (get_or_panic_resource_dumper api lib (config\<lparr>dc_topologer := Some topologer\<rparr>)) (\<lambda>dumper.
     bindP (attempt api lib text (dump_info fuel api lib dumper folder) []) (\<lambda>errors.
     attempt api lib fill_text (fill_archive_and_delete_tmp api lib (rd_archive dumper) (rd_dir_path dumper)) errors)))"

definition run_resource ::
  "nat \<Rightarrow> 'w dump_api \<Rightarrow> dump_lib \<Rightarrow> dump_config \<Rightarrow> resource \<Rightarrow> ('w, dump_error, dump_error list) dump" where
  "run_resource fuel api lib config resource =
     (case resource of
        RLoki \<Rightarrow>
          bindP (get_or_panic_system_dumper api lib config True) (\<lambda>dumper.
          bindP (tryF (node_get_topologer api None)) (\<lambda>r.
          let node_topologer = (case r of Inr t \<Rightarrow> Some t | Inl _ \<Rightarrow> None) in
          bindP (dlog api ''Completed collection of topology information'') (\<lambda>_.
          bindP (conv LogCollectionError (collect_and_dump_loki_logs fuel api lib dumper node_topologer)) (\<lambda>_.
          attempt api lib fill_text (fill_archive_and_delete_tmp api lib (sd_archive dumper) (sd_dir_path dumper)) []))))
      | RSystem disable_log_collection \<Rightarrow>
          bindP (get_or_panic_system_dumper api lib config disable_log_collection) (\<lambda>dumper.
          bindP (attempt api lib ''Failed to dump system state, error: '' (dump_system fuel api lib dumper) []) (\<lambda>errors.
          attempt api lib fill_text (fill_archive_and_delete_tmp api lib (sd_archive dumper) (sd_dir_path dumper)) errors))
      | RVolumes \<Rightarrow> run_resource_dump fuel api lib config (volume_get_topologer fuel api lib None) ''topology/volume''
          ''Failed to dump volumes information, Error: ''
      | RVolume ident \<Rightarrow> run_resource_dump fuel api lib config (volume_get_topologer fuel api lib (Some ident)) ''topology/volume''
          (''Failed to dump volume '' @ ident @ '' information, Error: '')
      | RPools \<Rightarrow> run_resource_dump fuel api lib config (pool_get_topologer api lib None) ''topology/pool''
          ''Failed to dump pools information, Error: ''
      | RPool ident \<Rightarrow> run_resource_dump fuel api lib config (pool_get_topologer api lib (Some ident)) ''topology/pool''
          (''Failed to dump pool '' @ ident @ '' information, Error: '')
      | RNodes \<Rightarrow> run_resource_dump fuel api lib config (node_get_topologer api None) ''topology/node''
          ''Failed to dump nodes information, Error: ''
      | RNode ident \<Rightarrow> run_resource_dump fuel api lib config (node_get_topologer api (Some ident)) ''topology/node''
          (''Failed to dump node '' @ ident @ '' information, Error: '')
      | REtcd stdout \<Rightarrow>
          bindP (get_or_panic_resource_dumper api lib (config\<lparr>dc_output_format := (if stdout then Stdout else Tar)\<rparr>)) (\<lambda>dumper.
          attempt api lib ''Failed to dump etcd information, Error: '' (dump_etcd fuel api lib dumper) []))"

definition execute_resource_dump ::
  "nat \<Rightarrow> 'w dump_api \<Rightarrow> dump_lib \<Rightarrow> support_args \<Rightarrow> resource \<Rightarrow> ('w, dump_error, unit) dump" where
  "execute_resource_dump fuel api lib args resource =
     bindP (run_resource fuel api lib (dump_config_of args) resource) (\<lambda>errors.
     if errors \<noteq> [] then fault_of (MultipleErrors errors)
     else dprint ''Completed collection of dump !!'')"

text \<open>The error of the command is the text of the error.\<close>

definition execute ::
  "nat \<Rightarrow> 'w dump_api \<Rightarrow> dump_lib \<Rightarrow> support_args \<Rightarrow> resource \<Rightarrow> ('w, string, unit) dump" where
  "execute fuel api lib args resource =
     bindP (dproxy (api_rest_build (da_proxy api)
       (with_target_mod (\<lambda>t. WithNamespace t (sa_namespace args))
         (with_timeout (Some (sa_timeout args)) (with_kube_config (sa_kube_config_path args) (default_api_rest (da_proxy api))))))
       ''rest_config'' id) (\<lambda>_.
     conv (dl_debug_dump lib) (execute_resource_dump fuel api lib args resource))"

end
