(* ===== verification/PluginMain.thy ===== *)
theory PluginMain
  imports PluginSafety DumpSystem
begin

text \<open>
  The process of the kubectl plugin (\<open>k8s/plugin\<close>): the connection to the REST API that comes
  first (\<open>main.rs\<close>), the dispatch of the commands (\<open>resources/mod.rs\<close>), which runs the upgrade
  commands of \<open>PluginUpgrade\<close> and the support tool of \<open>DumpSystem\<close>, the interruption by a signal,
  and the exit status.  The commands on storage resources are code of another repository: a
  function of the world for each verb.
\<close>

section \<open>Data\<close>

record plugin_cli =
  ca_rest :: "string option"
  ca_kube_config_path :: "string option"
  ca_namespace :: string
  ca_timeout :: duration

datatype rest_verb = VGet | VDrain | VLabel | VScale | VSet | VCordon | VUncordon

datatype 'c get_resources_k8s = GetRest 'c | UpgradeStatus

datatype 'c operation =
    ODrain 'c
  | OLabel 'c
  | OGet "'c get_resources_k8s"
  | OScale 'c
  | OSet 'c
  | OCordon 'c
  | OUncordon 'c
  | ODump support_args resource
  | OUpgrade upgrade_args
  | ODelete bool

datatype main_error =
    EUpgrade plugin_error
  | ERestPlugin string
  | ERestClient string
  | EGeneric string

record ('w, 'c) main_api =
  mn_proxy :: "'w proxy_api"
  mn_rest_init :: "string \<Rightarrow> duration \<Rightarrow> 'w \<Rightarrow> (string, unit) res \<times> 'w"
  mn_rest_init_with_config :: "rest_configuration \<Rightarrow> 'w \<Rightarrow> (string, unit) res \<times> 'w"
  mn_rest_command :: "rest_verb \<Rightarrow> 'c \<Rightarrow> plugin_cli \<Rightarrow> 'w \<Rightarrow> (string, unit) res \<times> 'w"
  mn_plugin :: "'w plugin_api"
  mn_dump :: "'w dump_api"

record 'v main_lib =
  ml_plugin :: "'v plugin_lib"
  ml_consts :: plugin_consts
  ml_dump :: dump_lib

datatype main_trace =
    MProxy
  | MRestInit "(string, unit) res"
  | MRestCommand rest_verb "(string, unit) res"
  | MUpgrade plugin_trace
  | MDump dump_trace
  | MPrint string

type_synonym ('w, 'a) main_prog = "(('w, main_trace) rt, main_error fault, 'a) prog"

section \<open>Running a part\<close>

text \<open>A program on a part of the state, with its interactions among those of the process.\<close>

definition hosted ::
  "('v \<Rightarrow> 'ev) \<Rightarrow> ('w \<Rightarrow> 'x) \<Rightarrow> ('x \<Rightarrow> 'w) \<Rightarrow> ('e \<Rightarrow> 'f) \<Rightarrow> (('x, 'v) rt, 'e, 'a) prog \<Rightarrow> (('w, 'ev) rt, 'f, 'a) prog" where
  "hosted wrap enter leave ctx m s =
     (case m \<lparr>rt_world = enter (rt_world s), rt_trace = []\<rparr> of (r, t) \<Rightarrow>
        (case r of Ok a \<Rightarrow> Ok a | Err e \<Rightarrow> Err (ctx e) | OutOfFuel \<Rightarrow> OutOfFuel,
         \<lparr>rt_world = leave (rt_world t), rt_trace = rt_trace s @ map wrap (rt_trace t)\<rparr>))"

definition on_fault :: "('s, 'e fault, 'a) prog \<Rightarrow> ('e \<Rightarrow> ('s, 'e fault, 'a) prog) \<Rightarrow> ('s, 'e fault, 'a) prog" where
  "on_fault m handle s = (case m s of (Err (Fault e), t) \<Rightarrow> handle e t | rt \<Rightarrow> rt)"

definition upgrade_fault :: "plugin_error \<Rightarrow> main_error fault" where
  "upgrade_fault e = (if e = PanicUnwrap then Panic else Fault (EUpgrade e))"

fun dump_fault :: "string fault \<Rightarrow> main_error fault" where
  "dump_fault (Fault e) = Fault (EGeneric e)"
| "dump_fault Panic = Panic"
| "dump_fault Exit = Exit"

definition run_upgrade_operation ::
  "nat \<Rightarrow> ('v::linorder) main_lib \<Rightarrow> ('w, 'c) main_api \<Rightarrow> plugin_cli \<Rightarrow> upgrade_operation \<Rightarrow> ('w, unit) main_prog" where
  "run_upgrade_operation fuel lib api cli oper =
     hosted MUpgrade id id upgrade_fault
       (execute_operation fuel (ml_plugin lib) (ml_consts lib) (mn_plugin api) (ca_namespace cli)
         (ca_kube_config_path cli) (ca_timeout cli) oper)"

text \<open>The support tool starts without a log file.\<close>

definition run_dump ::
  "nat \<Rightarrow> 'v main_lib \<Rightarrow> ('w, 'c) main_api \<Rightarrow> support_args \<Rightarrow> resource \<Rightarrow> ('w, unit) main_prog" where
  "run_dump fuel lib api args resource =
     hosted MDump (\<lambda>w. \<lparr>dw_env = w, dw_tool_log = None\<rparr>) dw_env dump_fault
       (execute fuel (mn_dump api) (ml_dump lib) args resource)"

definition run_rest :: "('w, 'c) main_api \<Rightarrow> plugin_cli \<Rightarrow> rest_verb \<Rightarrow> 'c \<Rightarrow> ('w, unit) main_prog" where
  "run_rest api cli verb resource =
     logged (mn_rest_command api verb resource cli) (MRestCommand verb) (\<lambda>e. Fault (ERestPlugin e))"

section \<open>Commands (resources/mod.rs)\<close>

definition operations_execute ::
  "nat \<Rightarrow> ('v::linorder) main_lib \<Rightarrow> ('w, 'c) main_api \<Rightarrow> plugin_cli \<Rightarrow> 'c operation \<Rightarrow> ('w, unit) main_prog" where
  "operations_execute fuel lib api cli oper =
     (case oper of
        OGet (GetRest resource) \<Rightarrow> run_rest api cli VGet resource
      | OGet UpgradeStatus \<Rightarrow> run_upgrade_operation fuel lib api cli GetUpgradeStatus
      | ODrain resource \<Rightarrow> run_rest api cli VDrain resource
      | OLabel resource \<Rightarrow> run_rest api cli VLabel resource
      | OScale resource \<Rightarrow> run_rest api cli VScale resource
      | OSet resource \<Rightarrow> run_rest api cli VSet resource
      | OCordon resource \<Rightarrow> run_rest api cli VCordon resource
      | OUncordon resource \<Rightarrow> run_rest api cli VUncordon resource
      | ODump args resource \<Rightarrow>
          on_fault (run_dump fuel lib api args resource) (\<lambda>e.
            bindP (tick id (MPrint ''Partially collected dump information: '')) (\<lambda>_. failP (Fault e)))
      | OUpgrade args \<Rightarrow> run_upgrade_operation fuel lib api cli (OpUpgrade args)
      | ODelete force \<Rightarrow> run_upgrade_operation fuel lib api cli (DeleteUpgrade force))"

section \<open>The process (main.rs)\<close>

definition init_rest :: "('w, 'c) main_api \<Rightarrow> plugin_cli \<Rightarrow> ('w, unit) main_prog" where
  "init_rest api cli =
     (case ca_rest cli of
        Some url \<Rightarrow> logged (mn_rest_init api url (ca_timeout cli)) MRestInit (\<lambda>e. Fault (ERestClient e))
      | None \<Rightarrow>
          bindP (embedded (api_rest_build (mn_proxy api)
              (with_target_mod (\<lambda>t. WithNamespace t (ca_namespace cli))
                (with_timeout (Some (ca_timeout cli))
                  (with_kube_config (ca_kube_config_path cli) (default_api_rest (mn_proxy api))))))
              MProxy (\<lambda>e. case e of Anyhow text \<Rightarrow> Fault (EGeneric text) | Unimplemented \<Rightarrow> Panic)) (\<lambda>config.
          logged (mn_rest_init_with_config api config) MRestInit (\<lambda>e. Fault (EGeneric e))))"

text \<open>
  How a process can end, with its interactions: without a connection; when the operation is
  done, having taken any number of rounds; or by a signal, which drops the operation at one of its
  interactions (what the answer to it would have been is then not known to the process).
\<close>

inductive plugin_process ::
  "('v::linorder) main_lib \<Rightarrow> ('w, 'c) main_api \<Rightarrow> plugin_cli \<Rightarrow> 'c operation \<Rightarrow> ('w, main_trace) rt \<Rightarrow>
   (main_error fault, unit) res \<Rightarrow> main_trace list \<Rightarrow> bool"
  for lib api cli oper s where
  unconnected: "init_rest api cli s = (Err e, t) \<Longrightarrow> plugin_process lib api cli oper s (Inl e) (rt_trace t)"
| succeeded: "init_rest api cli s = (Ok (), t) \<Longrightarrow> operations_execute fuel lib api cli oper t = (Ok (), u) \<Longrightarrow>
    plugin_process lib api cli oper s (Inr ()) (rt_trace u)"
| failed: "init_rest api cli s = (Ok (), t) \<Longrightarrow> operations_execute fuel lib api cli oper t = (Err e, u) \<Longrightarrow>
    plugin_process lib api cli oper s (Inl e) (rt_trace u)"
| interrupted: "init_rest api cli s = (Ok (), t) \<Longrightarrow> operations_execute fuel lib api cli oper t = (r, u) \<Longrightarrow>
    rt_trace u = rt_trace t @ d @ d' \<Longrightarrow>
    plugin_process lib api cli oper s (Inl (Fault (EGeneric (''Interrupted by '' @ sig)))) (rt_trace t @ d)"

definition main_message :: "main_error \<Rightarrow> string" where
  "main_message error =
     (case error of
        ERestPlugin e \<Rightarrow> e
      | ERestClient e \<Rightarrow> ''Failed to initialise the REST client. Error '' @ e
      | EUpgrade e \<Rightarrow> plugin_error_display e
      | EGeneric e \<Rightarrow> e)"

text \<open>The status that is passed to \<open>process::exit\<close>; a panic ends the process with 101.\<close>

fun main_exit :: "(main_error fault, unit) res \<Rightarrow> int" where
  "main_exit (Inr _) = 0"
| "main_exit (Inl (Fault (EUpgrade e))) = exit_code e"
| "main_exit (Inl (Fault _)) = 1"
| "main_exit (Inl Panic) = 101"
| "main_exit (Inl Exit) = 1"

text \<open>What the parent process sees of it on Unix.\<close>

definition wait_status :: "(main_error fault, unit) res \<Rightarrow> int" where
  "wait_status r = main_exit r mod 256"


section \<open>What a process may change\<close>

lemma emits_hosted:
  assumes "emits m Q I"
  shows "emits (hosted wrap enter leave ctx m)
    (\<lambda>a d. \<exists>d'. d = map wrap d' \<and> Q a d') (\<lambda>d. \<exists>d'. d = map wrap d' \<and> I d')"
  unfolding emits_def
proof (intro allI impI)
  fix s r t
  assume run: "hosted wrap enter leave ctx m s = (r, t)"
  obtain r' t' where m: "m \<lparr>rt_world = enter (rt_world s), rt_trace = []\<rparr> = (r', t')" by (cases "m \<lparr>rt_world = enter (rt_world s), rt_trace = []\<rparr>")
  then obtain d' where "rt_trace t' = d'" "case r' of Ok a \<Rightarrow> Q a d' | Err e \<Rightarrow> I d' | OutOfFuel \<Rightarrow> I d'"
    using emitsD [OF assms] by (metis append_Nil rt.select_convs(2))
  with run m show "\<exists>d. rt_trace t = rt_trace s @ d \<and> (case r of Ok a \<Rightarrow> \<exists>d'. d = map wrap d' \<and> Q a d'
      | Err e \<Rightarrow> \<exists>d'. d = map wrap d' \<and> I d' | OutOfFuel \<Rightarrow> \<exists>d'. d = map wrap d' \<and> I d')"
    by (auto simp: hosted_def split: outcome.splits)
qed

lemma only_hosted: "(\<And>e. Y (wrap e)) \<Longrightarrow> only Y (hosted wrap enter leave ctx m)"
  by (auto simp: only_def emits_def hosted_def list_all_iff split: prod.splits outcome.splits)

lemma emits_uniform:
  assumes "emits m (\<lambda>_. P) P" "m s = (r, t)"
  obtains d where "rt_trace t = rt_trace s @ d" "P d"
proof -
  obtain d where "rt_trace t = rt_trace s @ d" "case r of Ok a \<Rightarrow> P d | Err e \<Rightarrow> P d | OutOfFuel \<Rightarrow> P d"
    using emitsD [OF assms] .
  then show ?thesis by (intro that) (cases r; simp)+
qed

lemmas only_trace = emits_uniform [OF only_emits]

lemma only_on_fault:
  assumes "only X m" "\<And>e. only X (handle e)"
  shows "only X (on_fault m handle)"
  unfolding only_def emits_def
proof (intro allI impI)
  fix s r u
  assume run: "on_fault m handle s = (r, u)"
  obtain r1 t where m: "m s = (r1, t)" by (cases "m s")
  obtain d1 where d1: "rt_trace t = rt_trace s @ d1" "list_all X d1" using only_trace [OF assms(1) m] .
  show "\<exists>d. rt_trace u = rt_trace s @ d \<and> (case r of Ok a \<Rightarrow> list_all X d | Err e \<Rightarrow> list_all X d | OutOfFuel \<Rightarrow> list_all X d)"
  proof (cases "\<exists>e. r1 = Err (Fault e)")
    case True
    with run m obtain e where "handle e t = (r, u)" by (auto simp: on_fault_def)
    then obtain d2 where "rt_trace u = rt_trace t @ d2" "list_all X d2" using only_trace [OF assms(2)] by blast
    with d1 show ?thesis by (intro exI [of _ "d1 @ d2"]) (auto split: outcome.splits)
  next
    case False
    with run m have "(r, u) = (r1, t)" by (auto simp: on_fault_def split: outcome.splits fault.splits)
    with d1 show ?thesis by (auto split: outcome.splits)
  qed
qed

fun upgrade_part :: "main_trace list \<Rightarrow> plugin_trace list" where
  "upgrade_part (MUpgrade e # tr) = e # upgrade_part tr"
| "upgrade_part (_ # tr) = upgrade_part tr"
| "upgrade_part [] = []"

fun as_upgrade_operation :: "'c operation \<Rightarrow> upgrade_operation option" where
  "as_upgrade_operation (OGet UpgradeStatus) = Some GetUpgradeStatus"
| "as_upgrade_operation (OUpgrade args) = Some (OpUpgrade args)"
| "as_upgrade_operation (ODelete force) = Some (DeleteUpgrade force)"
| "as_upgrade_operation _ = None"

fun upgrades :: "main_trace \<Rightarrow> bool" where
  "upgrades (MUpgrade _) = True"
| "upgrades _ = False"

lemma upgrade_part_append: "upgrade_part (xs @ ys) = upgrade_part xs @ upgrade_part ys"
  by (induction xs rule: upgrade_part.induct) auto

lemma upgrade_part_map: "upgrade_part (map MUpgrade xs) = xs"
  by (induction xs) auto

lemma upgrade_part_none: "list_all (\<lambda>e. \<not> upgrades e) xs \<Longrightarrow> upgrade_part xs = []"
  by (induction xs rule: upgrade_part.induct) auto

text \<open>When the process has done enough to change the cluster by an upgrade command.\<close>

definition main_may_change ::
  "('v::linorder) main_lib \<Rightarrow> plugin_cli \<Rightarrow> 'c operation \<Rightarrow> main_trace list \<Rightarrow> bool" where
  "main_may_change lib cli oper pre \<longleftrightarrow>
     (\<exists>uo. as_upgrade_operation oper = Some uo \<and>
        may_change (ml_plugin lib) (ml_consts lib) (ca_namespace cli) uo (upgrade_part pre))"

definition main_allowed ::
  "('v::linorder) main_lib \<Rightarrow> plugin_cli \<Rightarrow> 'c operation \<Rightarrow> main_trace list \<Rightarrow> bool" where
  "main_allowed lib cli oper d \<longleftrightarrow>
     (\<forall>pre e post. d = pre @ MUpgrade e # post \<longrightarrow> changes e \<longrightarrow> main_may_change lib cli oper pre)"

lemma main_allowed_none: "list_all (\<lambda>e. \<not> upgrades e) d \<Longrightarrow> main_allowed lib cli oper d"
  by (auto simp: main_allowed_def)

lemma main_allowed_prefix: "main_allowed lib cli oper (d @ d') \<Longrightarrow> main_allowed lib cli oper d"
  by (auto simp: main_allowed_def)

lemma main_allowed_after:
  assumes "list_all (\<lambda>e. \<not> upgrades e) i" "main_allowed lib cli oper d"
  shows "main_allowed lib cli oper (i @ d)"
  unfolding main_allowed_def
proof (intro allI impI)
  fix pre e post
  assume split: "i @ d = pre @ MUpgrade e # post" "changes e"
  with assms(1) have "MUpgrade e \<notin> set i" by (auto simp: list_all_iff)
  with split(1) obtain pre' where "pre = i @ pre'" "d = pre' @ MUpgrade e # post"
    by (auto simp: append_eq_append_conv2 append_eq_Cons_conv)
  with assms split(2) show "main_may_change lib cli oper pre"
    by (auto simp: main_allowed_def main_may_change_def upgrade_part_append upgrade_part_none)
qed

lemma main_allowed_map:
  assumes "as_upgrade_operation oper = Some uo"
    and "changes_allowed (ml_plugin lib) (ml_consts lib) (ca_namespace cli) uo d"
  shows "main_allowed lib cli oper (map MUpgrade d)"
  using assms by (auto simp: main_allowed_def main_may_change_def changes_allowed_def map_eq_append_conv upgrade_part_map)


lemma emits_upgrade_operation:
  assumes "as_upgrade_operation oper = Some uo"
  shows "emits (run_upgrade_operation fuel lib api cli uo) (\<lambda>_. main_allowed lib cli oper) (main_allowed lib cli oper)"
  unfolding run_upgrade_operation_def
  by (rule emits_conseq [OF emits_hosted [OF emits_execute_operation]]) (auto intro: main_allowed_map [OF assms])

lemma only_other_operation:
  assumes "as_upgrade_operation oper = None"
  shows "only (\<lambda>e. \<not> upgrades e) (operations_execute fuel lib api cli oper)"
  using assms unfolding operations_execute_def run_rest_def run_dump_def
  by (auto intro!: only_rules only_on_fault only_hosted split: operation.splits get_resources_k8s.splits)

lemma emits_operations_execute:
  "emits (operations_execute fuel lib api cli oper) (\<lambda>_. main_allowed lib cli oper) (main_allowed lib cli oper)"
proof (cases "as_upgrade_operation oper")
  case None
  from only_emits [OF only_other_operation [OF None]] show ?thesis
    by (rule emits_conseq) (auto intro: main_allowed_none)
next
  case (Some uo)
  then have "operations_execute fuel lib api cli oper = run_upgrade_operation fuel lib api cli uo"
    unfolding operations_execute_def by (cases oper rule: as_upgrade_operation.cases) auto
  with emits_upgrade_operation [OF Some] show ?thesis by simp
qed

lemma only_init_rest: "only (\<lambda>e. \<not> upgrades e) (init_rest api cli)"
  unfolding init_rest_def by (auto intro!: only_rules split: option.splits)

lemma plugin_process_allowed:
  assumes "plugin_process lib api cli oper s r tr"
  shows "\<exists>d. tr = rt_trace s @ d \<and> main_allowed lib cli oper d"
proof -
  have after: "\<exists>i. rt_trace t = rt_trace s @ i \<and> list_all (\<lambda>e. \<not> upgrades e) i" if "init_rest api cli s = (x, t)" for x t
    using only_trace [OF only_init_rest that] by blast
  have ran: "\<exists>d. rt_trace u = rt_trace t @ d \<and> main_allowed lib cli oper d"
    if "operations_execute fuel lib api cli oper t = (x, u)" for fuel t x u
    using emits_uniform [OF emits_operations_execute that] by blast
  show ?thesis using assms
  proof cases
    case (unconnected e t)
    with after show ?thesis by (metis main_allowed_none)
  next
    case (succeeded t fuel u)
    with after [OF succeeded(3)] ran [OF succeeded(4)] show ?thesis by (metis append_assoc main_allowed_after)
  next
    case (failed t fuel e u)
    with after [OF failed(3)] ran [OF failed(4)] show ?thesis by (metis append_assoc main_allowed_after)
  next
    case (interrupted t fuel x u d d' sig)
    with ran [OF interrupted(4)] have "main_allowed lib cli oper d" by (auto intro: main_allowed_prefix)
    with after [OF interrupted(3)] interrupted(2) show ?thesis by (metis append_assoc main_allowed_after)
  qed
qed

text \<open>
  Property C25.  The whole process of the plugin, whatever the command, whatever fails and whenever it is
  interrupted: a Kubernetes object of an upgrade is created or deleted only by an upgrade that is no dry run,
  after all its checks were passed, or by a deletion with \<open>--force\<close> or after the upgrade job was seen
  to have succeeded.
\<close>

theorem plugin_process_guarded:
  assumes "plugin_process lib api cli oper s r tr"
    and "tr = rt_trace s @ pre @ MUpgrade e # post" "changes e"
  shows "main_may_change lib cli oper pre"
  using plugin_process_allowed [OF assms(1)] assms(2,3) by (auto simp: main_allowed_def)


section \<open>The exit status\<close>

lemma exit_code_visible: "exit_code e mod 256 \<noteq> 0"
  by (cases e) simp_all

lemma wait_status_zero: "wait_status r = 0 \<longleftrightarrow> r = Inr ()"
  unfolding wait_status_def using exit_code_visible by (cases r rule: main_exit.cases) auto


end
