(* ===== verification/PluginStore.thy ===== *)
theory PluginStore
  imports PluginSafety
begin

text \<open>
  The resources of an upgrade in a cluster that stores objects: creating them makes the five
  objects of the upgrade present, deleting them makes exactly these absent again, for every
  state the cluster is in before.  \<open>view\<close> reads the stored objects off the world, by kind,
  namespace and name; cluster roles and their bindings have the empty namespace.
\<close>

section \<open>Object stores\<close>

type_synonym obj_key = "res_kind \<times> string \<times> string"
type_synonym 'w obj_view = "'w \<Rightarrow> obj_key \<Rightarrow> upgrade_object option"

definition named_obj :: "obj_key \<Rightarrow> upgrade_object \<Rightarrow> bool" where
  "named_obj key obj \<longleftrightarrow>
     (case key of (k, ns, name) \<Rightarrow>
        om_name (object_meta_of obj) = Some name \<and> (ns \<noteq> [] \<longrightarrow> om_namespace (object_meta_of obj) = Some ns))"

text \<open>The server keeps what was asked for, and may complete the metadata and the status.\<close>

fun stored_as :: "upgrade_object \<Rightarrow> upgrade_object \<Rightarrow> bool" where
  "stored_as (ServiceAccountObj m) (ServiceAccountObj m') = True"
| "stored_as (ClusterRoleObj m rules) (ClusterRoleObj m' rules') \<longleftrightarrow> rules' = rules"
| "stored_as (ClusterRoleBindingObj m role subjects) (ClusterRoleBindingObj m' role' subjects') \<longleftrightarrow>
     role' = role \<and> subjects' = subjects"
| "stored_as (ConfigMapObj m data imm) (ConfigMapObj m' data' imm') \<longleftrightarrow> data' = data \<and> imm' = imm"
| "stored_as (JobObj m spec status) (JobObj m' spec' status') \<longleftrightarrow> spec' = spec"
| "stored_as _ _ = False"

text \<open>
  What is relied on of Kubernetes: a lookup returns what is stored and changes nothing, an
  object that is not there can be created and is then stored under its name, one that is
  there can be deleted, and stored objects carry their name and namespace.
\<close>

definition object_store :: "'w plugin_api \<Rightarrow> 'w obj_view \<Rightarrow> bool" where
  "object_store api view \<longleftrightarrow>
     (\<forall>k ns name w. \<exists>w'. pl_get_opt api k ns name w = (Inr (view w (k, ns, name)), w') \<and> view w' = view w) \<and>
     (\<forall>k ns obj name w. om_name (object_meta_of obj) = Some name \<longrightarrow> view w (k, ns, name) = None \<longrightarrow>
        (\<exists>obj' w'. pl_create api k ns obj w = (Inr obj', w') \<and> stored_as obj obj' \<and>
           view w' = (view w)((k, ns, name) \<mapsto> obj'))) \<and>
     (\<forall>k ns name w. view w (k, ns, name) \<noteq> None \<longrightarrow>
        (\<exists>w'. pl_delete api k ns name w = (Inr (), w') \<and> view w' = (view w)((k, ns, name) := None))) \<and>
     (\<forall>w key obj. view w key = Some obj \<longrightarrow> named_obj key obj)"

text \<open>The client can be made, the REST deployment is found, and files can be read.\<close>

definition rest_deployed :: "'w plugin_api \<Rightarrow> 'w obj_view \<Rightarrow> string \<Rightarrow> deployment \<Rightarrow> bool" where
  "rest_deployed api view ns dep \<longleftrightarrow>
     (\<forall>w. \<exists>w'. pl_client api w = (Inr (), w') \<and> view w' = view w) \<and>
     (\<forall>w. \<exists>rest w'. pl_deployments_list api ns API_REST_LABEL_SELECTOR w = (Inr (dep # rest), w') \<and> view w' = view w)"

definition files_readable :: "'w plugin_api \<Rightarrow> 'w obj_view \<Rightarrow> string list \<Rightarrow> bool" where
  "files_readable api view args \<longleftrightarrow>
     list_all (\<lambda>arg. \<exists>key path. arg = key @ ''='' @ path \<and> CHR ''='' \<notin> set key \<and> CHR ''='' \<notin> set path \<and>
       (\<forall>w. \<exists>content w'. pl_read_to_string api path w = (Inr content, w') \<and> view w' = view w)) args"

section \<open>Programs that return\<close>

text \<open>\<open>total view m V Q\<close>: started where \<open>V\<close> is stored, \<open>m\<close> returns a value, and \<open>Q\<close> holds then.\<close>

definition total ::
  "'w obj_view \<Rightarrow> ('w, 'a) plug \<Rightarrow> (obj_key \<Rightarrow> upgrade_object option) \<Rightarrow>
     ('a \<Rightarrow> (obj_key \<Rightarrow> upgrade_object option) \<Rightarrow> bool) \<Rightarrow> bool" where
  "total view m V Q \<longleftrightarrow>
     (\<forall>s. view (rt_world s) = V \<longrightarrow> (\<exists>a t. m s = (Ok a, t) \<and> Q a (view (rt_world t))))"

lemma total_ret: "Q a V \<Longrightarrow> total view (retP a) V Q"
  by (simp add: total_def)

lemma total_liftR: "r = Inr a \<Longrightarrow> Q a V \<Longrightarrow> total view (liftR r) V Q"
  by (simp add: total_def)

lemma total_bind:
  assumes "total view m V R" "\<And>a V'. R a V' \<Longrightarrow> total view (k a) V' Q"
  shows "total view (bindP m k) V Q"
  using assms unfolding total_def bindP_def by fastforce

lemma total_conseq: "total view m V R \<Longrightarrow> (\<And>a V'. R a V' \<Longrightarrow> Q a V') \<Longrightarrow> total view m V Q"
  unfolding total_def by fastforce

lemma total_tick: "Q () V \<Longrightarrow> total view (tick id ev) V Q"
  by (simp add: total_def tick_def)

lemma total_logged:
  assumes "\<And>w. view w = V \<Longrightarrow> \<exists>a w'. f w = (Inr a, w') \<and> Q a (view w')"
  shows "total view (logged f ev ctx) V Q"
  unfolding total_def
proof (intro allI impI, goal_cases)
  case (1 s)
  from assms [OF this] obtain a w' where "f (rt_world s) = (Inr a, w')" "Q a (view w')" by blast
  then show ?case by (simp add: logged_def)
qed

lemma total_get:
  assumes "object_store api view"
  shows "total view (get_opt api k ns name ctx) V (\<lambda>a V'. a = V (k, scope k ns, name) \<and> V' = V)"
  unfolding get_opt_def
  by (rule total_logged) (use assms in \<open>auto simp: object_store_def\<close>)

lemma total_create:
  assumes "object_store api view" "om_name (object_meta_of obj) = Some name" "V (k, scope k ns, name) = None"
  shows "total view (create_obj api k ns obj ctx) V
    (\<lambda>a V'. stored_as obj a \<and> named_obj (k, scope k ns, name) a \<and> V' = V((k, scope k ns, name) \<mapsto> a))"
  unfolding create_obj_def
proof (rule total_logged, goal_cases)
  case (1 w)
  with assms obtain obj' w' where "pl_create api k (scope k ns) obj w = (Inr obj', w')" "stored_as obj obj'"
    and w': "view w' = (view w)((k, scope k ns, name) \<mapsto> obj')" unfolding object_store_def by blast
  moreover from w' have "view w' (k, scope k ns, name) = Some obj'" by simp
  then have "named_obj (k, scope k ns, name) obj'" using assms(1) unfolding object_store_def by blast
  ultimately show ?case using 1 by simp
qed

lemma total_delete:
  assumes "object_store api view" "V (k, scope k ns, name) \<noteq> None"
  shows "total view (delete_obj api k ns name ctx) V (\<lambda>_ V'. V' = V((k, scope k ns, name) := None))"
  unfolding delete_obj_def
proof (rule total_logged, goal_cases)
  case (1 w)
  with assms obtain w' where "pl_delete api k (scope k ns) name w = (Inr (), w')"
    "view w' = (view w)((k, scope k ns, name) := None)" unfolding object_store_def by blast
  with 1 show ?case by simp
qed

lemma total_deployment:
  assumes "rest_deployed api view ns dep"
  shows "total view (get_deployment_for_rest api ns) V (\<lambda>a V'. a = dep \<and> V' = V)"
  unfolding get_deployment_for_rest_def
proof (rule total_bind, rule total_logged [where Q = "\<lambda>_ V'. V' = V"], goal_cases)
  case (1 w)
  with assms show ?case by (auto simp: rest_deployed_def)
next
  case (2 u V')
  show ?case
  proof (rule total_bind, rule total_logged [where Q = "\<lambda>a V'. (\<exists>rest. a = dep # rest) \<and> V' = V"], goal_cases)
    case (1 w)
    from assms obtain rest w' where "pl_deployments_list api ns API_REST_LABEL_SELECTOR w = (Inr (dep # rest), w')"
      "view w' = view w" unfolding rest_deployed_def by blast
    with 1 2 show ?case by auto
  qed (auto intro!: total_liftR simp: ok_or_def)
qed

definition release_of :: "plugin_consts \<Rightarrow> deployment \<Rightarrow> string" where
  "release_of c dep = (case dep_labels dep of
     Some labels \<Rightarrow> unwrap_or (DEFAULT_RELEASE_NAME c) (labels (helm_release_name_key c)) | None \<Rightarrow> DEFAULT_RELEASE_NAME c)"

lemma total_new:
  assumes "rest_deployed api view ns dep"
  shows "total view (upgrade_resources_new c api ns) V (\<lambda>a V'. a = release_of c dep \<and> V' = V)"
  unfolding upgrade_resources_new_def get_release_name_def
proof (rule total_bind, rule total_logged [where Q = "\<lambda>_ V'. V' = V"], goal_cases)
  case (1 w)
  with assms show ?case by (auto simp: rest_deployed_def)
next
  case (2 u V')
  show ?case
    by (rule total_bind [OF total_deployment [OF assms]]) (auto intro!: total_ret simp: release_of_def 2)
qed

section \<open>The actions\<close>

definition key_of :: "plugin_consts \<Rightarrow> string \<Rightarrow> string \<Rightarrow> res_kind \<Rightarrow> obj_key" where
  "key_of c ns release_name k = (k, scope k ns, upgrade_name_concat c release_name
     (case k of KServiceAccount \<Rightarrow> UPGRADE_JOB_SERVICEACCOUNT_NAME_SUFFIX | KClusterRole \<Rightarrow> UPGRADE_JOB_CLUSTERROLE_NAME_SUFFIX
      | KClusterRoleBinding \<Rightarrow> UPGRADE_JOB_CLUSTERROLEBINDING_NAME_SUFFIX | KConfigMap \<Rightarrow> UPGRADE_CONFIG_MAP_NAME_SUFFIX
      | KJob \<Rightarrow> UPGRADE_JOB_NAME_SUFFIX))"

lemma fun_upd_None: "V x = None \<Longrightarrow> V(x := None) = V"
  by (rule ext) simp

lemmas action_defs = service_account_actions_def cluster_role_actions_def cluster_role_binding_actions_def
  config_map_actions_def job_actions_def

lemma stored_named: "object_store api view \<Longrightarrow> view w key = Some obj \<Longrightarrow> named_obj key obj"
  unfolding object_store_def by blast

lemma total_found:
  assumes st: "object_store api view"
    and some: "\<And>obj. V (k, scope k ns, name) = Some obj \<Longrightarrow> named_obj (k, scope k ns, name) obj \<Longrightarrow> total view (f (Some obj)) V Q"
    and none: "V (k, scope k ns, name) = None \<Longrightarrow> total view (f None) V Q"
  shows "total view (bindP (get_opt api k ns name ctx) f) V Q"
proof (cases "\<exists>w. view w = V")
  case True
  then obtain w where w: "view w = V" by blast
  show ?thesis
    by (rule total_bind [OF total_get [OF st]])
      (use some none stored_named [OF st, of w] w in \<open>cases "V (k, scope k ns, name)"; auto\<close>)
qed (auto simp: total_def)

lemma total_delete_action:
  assumes st: "object_store api view"
    and "\<And>obj. f (Some obj) = bindP (delete_obj api k ns name ctx') (\<lambda>_. pl_print txt1)" "f None = pl_print txt2"
  shows "total view (bindP (get_opt api k ns name ctx) f) V (\<lambda>_ V'. V' = V((k, scope k ns, name) := None))"
  by (rule total_found [OF st])
    (auto simp: assms(2,3) fun_upd_None pl_print_def intro!: total_bind [OF total_delete [OF st]] total_tick)

lemma total_delete_actions:
  assumes st: "object_store api view"
  shows "total view (service_account_actions c api rn ns ADelete) V (\<lambda>_ V'. V' = V(key_of c ns rn KServiceAccount := None))"
    and "total view (cluster_role_actions c api rn ns ADelete) V (\<lambda>_ V'. V' = V(key_of c ns rn KClusterRole := None))"
    and "total view (cluster_role_binding_actions c api rn ns ADelete) V (\<lambda>_ V'. V' = V(key_of c ns rn KClusterRoleBinding := None))"
    and "total view (job_actions c api rn ns ADelete args um) V (\<lambda>_ V'. V' = V(key_of c ns rn KJob := None))"
  unfolding action_defs Let_def key_of_def res_kind.case
  by (rule total_delete_action [OF st], (simp only: option.case plugin_action.case prod.case)+)+

lemma total_delete_config_map:
  assumes "object_store api view" "ua_set_file args = []"
  shows "total view (config_map_actions c api rn ns ADelete args) V (\<lambda>_ V'. V' = V(key_of c ns rn KConfigMap := None))"
proof -
  have "config_map_actions c api rn ns ADelete args =
      bindP (bindP (get_opt api KConfigMap ns (upgrade_name_concat c rn UPGRADE_CONFIG_MAP_NAME_SUFFIX)
          (\<lambda>e. GetUpgradeConfigMap e (upgrade_name_concat c rn UPGRADE_CONFIG_MAP_NAME_SUFFIX)))
        (\<lambda>found. case found of
           Some _ \<Rightarrow> bindP (delete_obj api KConfigMap ns (upgrade_name_concat c rn UPGRADE_CONFIG_MAP_NAME_SUFFIX)
               (UpgradeConfigMapDelete (upgrade_name_concat c rn UPGRADE_CONFIG_MAP_NAME_SUFFIX)))
             (\<lambda>_. pl_print (''ConfigMap '' @ upgrade_name_concat c rn UPGRADE_CONFIG_MAP_NAME_SUFFIX @ '' in namespace '' @ ns @ '' deleted''))
         | None \<Rightarrow> pl_print (''ConfigMap '' @ upgrade_name_concat c rn UPGRADE_CONFIG_MAP_NAME_SUFFIX @ '' in namespace '' @ ns @ '' does not exist'')))
      (\<lambda>_. retP Map.empty)"
    unfolding config_map_actions_def create_config_map_data_def Let_def assms(2) bindP_assoc config_map_entries.simps bindP_retP
      prod.sel
    by (intro arg_cong [where f = "bindP _"] ext) (simp split: option.split)
  then show ?thesis unfolding key_of_def res_kind.case
    by (auto intro!: total_bind [OF total_delete_action [OF assms(1)]] total_ret)
qed

lemma range_res_kind: "range f = {f KJob, f KConfigMap, f KClusterRoleBinding, f KClusterRole, f KServiceAccount}"
proof -
  have kinds: "(UNIV :: res_kind set) = {KJob, KConfigMap, KClusterRoleBinding, KClusterRole, KServiceAccount}"
    by (auto intro: res_kind.exhaust)
  show ?thesis by (subst kinds) simp
qed

lemma total_delete_resources:
  assumes "object_store api view" "rest_deployed api view ns dep"
  shows "total view (delete_upgrade_resources c api ns) V
    (\<lambda>_ V'. V' = (\<lambda>key. if key \<in> range (key_of c ns (release_of c dep)) then None else V key))"
proof -
  show ?thesis unfolding delete_upgrade_resources_def
    apply (rule total_bind [OF total_new [OF assms(2)]], elim conjE, hypsubst)
    apply (rule total_bind [OF total_delete_actions(4) [OF assms(1)]], hypsubst)
    apply (rule total_bind [OF total_delete_config_map [OF assms(1)]], simp add: upgrade_args_new_def, hypsubst)
    apply (rule total_bind [OF total_delete_actions(3) [OF assms(1)]], hypsubst)
    apply (rule total_bind [OF total_delete_actions(2) [OF assms(1)]], hypsubst)
    apply (rule total_conseq [OF total_delete_actions(1) [OF assms(1)]])
    apply (auto simp: range_res_kind fun_eq_iff)
    done
qed

text \<open>An object that was there is kept; otherwise the given one is stored.\<close>

definition ensured ::
  "obj_key \<Rightarrow> (upgrade_object \<Rightarrow> bool) \<Rightarrow> (obj_key \<Rightarrow> upgrade_object option) \<Rightarrow> (obj_key \<Rightarrow> upgrade_object option) \<Rightarrow> bool" where
  "ensured key new V V' \<longleftrightarrow> (\<exists>obj. V' = V(key \<mapsto> obj) \<and> (V key = Some obj \<or> V key = None \<and> new obj))"

lemma ensured_same: "V key = Some obj \<Longrightarrow> ensured key new V V"
  unfolding ensured_def by (intro exI [of _ obj]) (auto simp: fun_eq_iff)

lemma ensured_mono: "ensured key new V V' \<Longrightarrow> (\<And>obj. new obj \<Longrightarrow> new' obj) \<Longrightarrow> ensured key new' V V'"
  unfolding ensured_def by blast

lemma named_unwrap:
  assumes "named_obj (k, n, name) obj"
  shows "unwrap_name obj = Inr name" "n \<noteq> [] \<Longrightarrow> unwrap_namespace obj = Inr n"
  using assms by (simp_all add: named_obj_def unwrap_name_def unwrap_namespace_def ok_or_def)

text \<open>
  Creating one object: \<open>f\<close> prints something about the object where it exists, which needs its
  name and namespace, and creates it otherwise.
\<close>

lemma total_create_action:
  assumes st: "object_store api view" and nm: "om_name (object_meta_of obj) = Some name"
    and some: "\<And>x. named_obj (k, scope k ns, name) x \<Longrightarrow> f (Some x) = pl_print (txt1 x)"
    and none: "f None = bindP (create_obj api k ns obj ctx') g"
    and g: "\<And>x. named_obj (k, scope k ns, name) x \<Longrightarrow> g x = pl_print (txt2 x)"
  shows "total view (bindP (get_opt api k ns name ctx) f) V (\<lambda>_. ensured (k, scope k ns, name) (stored_as obj) V)"
proof (rule total_found [OF st], goal_cases)
  case (1 x)
  with some [OF 1(2)] show ?case by (simp add: pl_print_def ensured_same total_tick)
next
  case 2
  show ?case unfolding none
    by (rule total_bind [OF total_create [OF st nm, where V = V, OF 2]])
      (use 2 in \<open>auto simp: g pl_print_def ensured_def intro!: total_tick\<close>)
qed

lemmas create_simps = option.case plugin_action.case prod.case scope.simps bindP_liftR_Inr named_unwrap(1)

lemma total_create_actions:
  assumes st: "object_store api view" and ns: "ns \<noteq> []"
  shows "total view (service_account_actions c api rn ns ACreate) V
    (\<lambda>_. ensured (key_of c ns rn KServiceAccount)
       (stored_as (upgrade_job_service_account c (Some ns) (snd (snd (key_of c ns rn KServiceAccount))))) V)"
    and "total view (cluster_role_actions c api rn ns ACreate) V
    (\<lambda>_. ensured (key_of c ns rn KClusterRole)
       (stored_as (upgrade_job_cluster_role c (Some ns) (snd (snd (key_of c ns rn KClusterRole))))) V)"
    and "total view (cluster_role_binding_actions c api rn ns ACreate) V
    (\<lambda>_. ensured (key_of c ns rn KClusterRoleBinding) (stored_as (upgrade_job_cluster_role_binding c (Some ns) rn)) V)"
  unfolding action_defs Let_def key_of_def res_kind.case prod.sel
  by (rule total_create_action [OF st],
      simp add: upgrade_job_service_account_def upgrade_job_cluster_role_def upgrade_job_cluster_role_binding_def,
      simp only: create_simps named_unwrap(2) [OF _ ns], simp only: create_simps,
      simp only: create_simps named_unwrap(2) [OF _ ns])+

lemma files_readable_Cons:
  assumes "files_readable api view (arg # args)"
  obtains key path where "split_char (CHR ''='') arg = [key, path]" "files_readable api view args"
    "\<And>w. \<exists>content w'. pl_read_to_string api path w = (Inr content, w') \<and> view w' = view w"
  using assms unfolding files_readable_def by (auto simp: split_char_pair_iff)

lemma total_config_map_entries:
  "files_readable api view args \<Longrightarrow>
     total view (config_map_entries api i args dm um) V (\<lambda>a V'. snd a = numbers i args um \<and> V' = V)"
proof (induction args arbitrary: i dm um V)
  case (Cons arg args)
  obtain key path where arg: "split_char (CHR ''='') arg = [key, path]" "files_readable api view args"
    and read: "\<And>w. \<exists>content w'. pl_read_to_string api path w = (Inr content, w') \<and> view w' = view w"
    using files_readable_Cons [OF Cons.prems] by metis
  show ?case unfolding config_map_entries.simps arg(1) list.case
  proof (rule total_bind, rule total_logged [where Q = "\<lambda>_ V'. V' = V"], goal_cases)
    case (1 w)
    with read show ?case by metis
  next
    case (2 content V')
    with Cons.IH [OF arg(2)] arg(1) show ?case by (simp add: total_conseq)
  qed
qed (simp add: total_ret)

lemma numbers_defined:
  "path \<in> (\<lambda>arg. last (split_char (CHR ''='') arg)) ` set args \<or> um path \<noteq> None \<Longrightarrow> numbers i args um path \<noteq> None"
  by (induction args arbitrary: i um) auto

lemma helm_set_file_args_defined:
  assumes "\<forall>arg \<in> set args. \<exists>key path. split_char (CHR ''='') arg = [key, path] \<and> um path \<noteq> None"
  shows "\<exists>outs. helm_set_file_args (Some um) args = Inr outs"
  using assms
proof (induction args)
  case (Cons arg args)
  then obtain outs key path n where "helm_set_file_args (Some um) args = Inr outs"
    "split_char (CHR ''='') arg = [key, path]" "um path = Some n" by auto
  then show ?case by (simp add: ok_or_def)
qed simp

lemma create_helm_set_file_args_defined:
  assumes "files_readable api view (ua_set_file args)"
  shows "\<exists>set_file. create_helm_set_file_args args (Some (numbers 1 (ua_set_file args) Map.empty)) = Inr set_file"
proof -
  have "\<exists>key path. split_char (CHR ''='') arg = [key, path] \<and> numbers 1 (ua_set_file args) Map.empty path \<noteq> None"
    if arg: "arg \<in> set (ua_set_file args)" for arg
  proof -
    from assms arg obtain key path where kp: "split_char (CHR ''='') arg = [key, path]"
      by (auto simp: files_readable_def list_all_iff split_char_pair_iff)
    then have "path \<in> (\<lambda>arg. last (split_char (CHR ''='') arg)) ` set (ua_set_file args)"
      using arg by (force simp: image_iff)
    with kp numbers_defined show ?thesis by blast
  qed
  then obtain outs where "helm_set_file_args (Some (numbers 1 (ua_set_file args) Map.empty)) (ua_set_file args) = Inr outs"
    using helm_set_file_args_defined by blast
  then show ?thesis by (simp add: create_helm_set_file_args_def)
qed

lemma total_put:
  assumes "object_store api view" "om_name (object_meta_of obj) = Some name" "V (k, scope k ns, name) = None"
  shows "total view (bindP (create_obj api k ns obj ctx) (\<lambda>_. bindP (tick id ev) (\<lambda>_. retP b))) V
    (\<lambda>a V'. a = b \<and> (\<exists>x. stored_as obj x \<and> V' = V((k, scope k ns, name) \<mapsto> x)))"
  by (rule total_bind [OF total_create [OF assms(1,2), where V = V, OF assms(3)]], rule total_bind [OF total_tick [where Q = "\<lambda>_ V'.
      \<exists>x. stored_as obj x \<and> V' = V((k, scope k ns, name) \<mapsto> x)"]]) (auto intro!: total_ret)

lemma total_replace:
  assumes st: "object_store api view" and nm: "om_name (object_meta_of obj) = Some name"
    and "V (k, scope k ns, name) \<noteq> None"
  shows "total view (bindP (delete_obj api k ns name ctx') (\<lambda>_. bindP (create_obj api k ns obj ctx) (\<lambda>_.
      bindP (tick id ev) (\<lambda>_. retP b)))) V
    (\<lambda>a V'. a = b \<and> (\<exists>x. stored_as obj x \<and> V' = V((k, scope k ns, name) \<mapsto> x)))"
proof (rule total_bind [OF total_delete [OF st, where V = V, OF assms(3)]], goal_cases)
  case (1 u V')
  show ?case by (rule total_conseq [OF total_put [OF st nm]]) (use 1 in auto)
qed

lemma total_create_config_map:
  assumes st: "object_store api view" and files: "files_readable api view (ua_set_file args)"
  shows "total view (config_map_actions c api rn ns ACreate args) V
    (\<lambda>um V'. um = numbers 1 (ua_set_file args) Map.empty \<and>
       (\<exists>dm obj. stored_as (upgrade_configmap c dm ns rn) obj \<and> V' = V(key_of c ns rn KConfigMap \<mapsto> obj)))"
  unfolding config_map_actions_def Let_def create_config_map_data_def key_of_def res_kind.case
proof (rule total_bind [OF total_config_map_entries [OF files]], goal_cases)
  case (1 data V')
  then have data: "snd data = numbers 1 (ua_set_file args) Map.empty" "V' = V" by auto
  have nm: "om_name (object_meta_of (upgrade_configmap c dm ns rn)) = Some (upgrade_name_concat c rn UPGRADE_CONFIG_MAP_NAME_SUFFIX)" for dm
    by (simp add: upgrade_configmap_def)
  show ?case
  proof (rule total_found [OF st], goal_cases)
    case (1 x)
    then have found: "V' (KConfigMap, scope KConfigMap ns, upgrade_name_concat c rn UPGRADE_CONFIG_MAP_NAME_SUFFIX) \<noteq> None" by simp
    show ?case unfolding option.case plugin_action.case prod.case bindP_assoc pl_print_def
      by (rule total_conseq [OF total_replace [OF st nm, where V = V', OF found]]) (use data in auto)
  next
    case 2
    show ?case unfolding option.case plugin_action.case prod.case bindP_assoc pl_print_def
    proof (rule total_bind [OF total_config_map_entries [OF files]], goal_cases)
      case (1 data' V'')
      have none: "V'' (KConfigMap, scope KConfigMap ns, upgrade_name_concat c rn UPGRADE_CONFIG_MAP_NAME_SUFFIX) = None"
        using 1 2 by simp
      show ?case by (rule total_conseq [OF total_put [OF st nm, where V = V'', OF none]]) (use data 1 in auto)
    qed
  qed
qed

lemma total_create_job:
  assumes st: "object_store api view" and ns: "ns \<noteq> []" and dep: "rest_deployed api view ns dep"
    and img: "image_properties_try_from dep = Inr img" and set_file: "create_helm_set_file_args args (Some um) = Inr set_file"
  shows "total view (job_actions c api rn ns ACreate args (Some um)) V
    (\<lambda>_. ensured (key_of c ns rn KJob) (\<lambda>obj. \<exists>image set_file.
       stored_as (upgrade_job c ns image rn args set_file (ip_pull_secrets img) (ip_pull_policy img)) obj) V)"
  unfolding job_actions_def Let_def key_of_def res_kind.case
proof (rule total_found [OF st], goal_cases)
  case (1 x)
  from ensured_same [where V = V, OF 1(1)] show ?case
    using 1(2) by (simp only: create_simps named_unwrap(2) [OF _ ns] pl_print_def total_tick)
next
  case 2
  let ?image = "upgrade_image_concat (unwrap_or (ip_registry img) (ua_registry args)) UPGRADE_JOB_IMAGE_REPO
    (upgrade_job_img c) (get_image_version_tag c)"
  have nm: "om_name (object_meta_of (upgrade_job c ns ?image rn args (unwrap_or '''' set_file) (ip_pull_secrets img) (ip_pull_policy img))) =
      Some (upgrade_name_concat c rn UPGRADE_JOB_NAME_SUFFIX)" by (simp add: upgrade_job_def)
  show ?case unfolding option.case plugin_action.case prod.case
  proof (rule total_bind [OF total_deployment [OF dep]], goal_cases)
    case (1 d V')
    show ?case unfolding conjunct1 [OF 1] conjunct2 [OF 1] img set_file bindP_liftR_Inr
    proof (rule total_bind [OF total_create [OF st nm, where V = V, OF 2]], goal_cases)
      case (1 job V'')
      with 2 have "ensured (KJob, scope KJob ns, upgrade_name_concat c rn UPGRADE_JOB_NAME_SUFFIX) (\<lambda>obj. \<exists>image set_file.
         stored_as (upgrade_job c ns image rn args set_file (ip_pull_secrets img) (ip_pull_policy img)) obj) V V''"
        by (auto simp: ensured_def)
      moreover from 1 have "named_obj (KJob, ns, upgrade_name_concat c rn UPGRADE_JOB_NAME_SUFFIX) job" by simp
      ultimately show ?case by (simp only: create_simps named_unwrap(2) [OF _ ns] pl_print_def total_tick)
    qed
  qed
qed

section \<open>The life of the upgrade resources\<close>

text \<open>The objects that creating the resources makes.\<close>

fun new_obj :: "plugin_consts \<Rightarrow> string \<Rightarrow> string \<Rightarrow> upgrade_args \<Rightarrow> res_kind \<Rightarrow> upgrade_object \<Rightarrow> bool" where
  "new_obj c ns rn args KServiceAccount obj \<longleftrightarrow>
     stored_as (upgrade_job_service_account c (Some ns) (snd (snd (key_of c ns rn KServiceAccount)))) obj"
| "new_obj c ns rn args KClusterRole obj \<longleftrightarrow>
     stored_as (upgrade_job_cluster_role c (Some ns) (snd (snd (key_of c ns rn KClusterRole)))) obj"
| "new_obj c ns rn args KClusterRoleBinding obj \<longleftrightarrow> stored_as (upgrade_job_cluster_role_binding c (Some ns) rn) obj"
| "new_obj c ns rn args KConfigMap obj \<longleftrightarrow> (\<exists>dm. stored_as (upgrade_configmap c dm ns rn) obj)"
| "new_obj c ns rn args KJob obj \<longleftrightarrow>
     (\<exists>image set_file secrets policy. stored_as (upgrade_job c ns image rn args set_file secrets policy) obj)"

definition created ::
  "plugin_consts \<Rightarrow> string \<Rightarrow> string \<Rightarrow> upgrade_args \<Rightarrow> (obj_key \<Rightarrow> upgrade_object option) \<Rightarrow> (obj_key \<Rightarrow> upgrade_object option) \<Rightarrow> bool" where
  "created c ns rn args V V' \<longleftrightarrow>
     (\<forall>key. key \<notin> range (key_of c ns rn) \<longrightarrow> V' key = V key) \<and>
     (\<forall>k. \<exists>obj. V' (key_of c ns rn k) = Some obj \<and>
        (if V (key_of c ns rn k) = None \<or> k = KConfigMap then new_obj c ns rn args k obj else V (key_of c ns rn k) = Some obj))"

lemma key_of_inj: "key_of c ns rn k = key_of c ns rn k' \<longleftrightarrow> k = k'"
  by (auto simp: key_of_def)

lemma createdI:
  assumes "ensured (key_of c ns rn KServiceAccount) (new_obj c ns rn args KServiceAccount) V V1"
    and "ensured (key_of c ns rn KClusterRole) (new_obj c ns rn args KClusterRole) V1 V2"
    and "ensured (key_of c ns rn KClusterRoleBinding) (new_obj c ns rn args KClusterRoleBinding) V2 V3"
    and "V4 = V3(key_of c ns rn KConfigMap \<mapsto> cm)" "new_obj c ns rn args KConfigMap cm"
    and "ensured (key_of c ns rn KJob) (new_obj c ns rn args KJob) V4 V5"
  shows "created c ns rn args V V5"
  unfolding created_def
proof (intro conjI allI impI)
  fix key
  assume "key \<notin> range (key_of c ns rn)"
  then have ne: "key \<noteq> key_of c ns rn k" for k by blast
  from assms show "V5 key = V key" by (auto simp: ensured_def ne)
next
  fix k
  from assms show "\<exists>obj. V5 (key_of c ns rn k) = Some obj \<and>
      (if V (key_of c ns rn k) = None \<or> k = KConfigMap then new_obj c ns rn args k obj else V (key_of c ns rn k) = Some obj)"
    by (cases k) (auto simp: ensured_def key_of_inj simp del: new_obj.simps)
qed

lemma total_create_resources:
  assumes st: "object_store api view" and ns: "ns \<noteq> []" and dep: "rest_deployed api view ns dep"
    and img: "image_properties_try_from dep = Inr img" and files: "files_readable api view (ua_set_file args)"
  shows "total view (create_upgrade_resources c api ns args) V (\<lambda>_. created c ns (release_of c dep) args V)"
proof -
  obtain set_file where sf: "create_helm_set_file_args args (Some (numbers 1 (ua_set_file args) Map.empty)) = Inr set_file"
    using create_helm_set_file_args_defined [OF files] by blast
  show ?thesis unfolding create_upgrade_resources_def
  proof (rule total_bind [OF total_new [OF dep]], elim conjE, hypsubst,
      rule total_bind [OF total_create_actions(1) [OF st ns]], rule total_bind [OF total_create_actions(2) [OF st ns]],
      rule total_bind [OF total_create_actions(3) [OF st ns]], rule total_bind [OF total_create_config_map [OF st files]], goal_cases)
    case (1 rn V0 u1 V1 u2 V2 u3 V3 um V4)
    then obtain dm cm where cm: "stored_as (upgrade_configmap c dm ns (release_of c dep)) cm"
      "V4 = V3(key_of c ns (release_of c dep) KConfigMap \<mapsto> cm)" by blast
    from 1 have um: "um = numbers 1 (ua_set_file args) Map.empty" by blast
    let ?e = "\<lambda>k. ensured (key_of c ns (release_of c dep) k) (new_obj c ns (release_of c dep) args k)"
    from 1 have e: "?e KServiceAccount V V1" "?e KClusterRole V1 V2" "?e KClusterRoleBinding V2 V3"
      by (simp_all add: ensured_def)
    have "created c ns (release_of c dep) args V V5" if "?e KJob V4 V5" for V5
      by (rule createdI [OF e cm(2) _ that]) (use cm(1) in auto)
    moreover have "?e KJob V4 V5" if "ensured (key_of c ns (release_of c dep) KJob) (\<lambda>obj. \<exists>image set_file.
        stored_as (upgrade_job c ns image (release_of c dep) args set_file (ip_pull_secrets img) (ip_pull_policy img)) obj) V4 V5" for V5
      by (rule ensured_mono [OF that]) auto
    ultimately show ?case unfolding um by (intro total_conseq [OF total_create_job [OF st ns dep img sf]]) simp
  qed
qed


text \<open>
  Property C29.  The resources of an upgrade in a cluster that stores objects, whatever is
  stored before: creating the resources returns, leaves the five objects of the upgrade
  in place, each either the one that was there before or the one the plugin makes (the
  configuration map always the new one), and changes nothing else; deleting them afterwards
  returns, and then these five are gone and everything else is as it was at the beginning.
\<close>

theorem upgrade_resources_life:
  assumes "object_store api view" "ns \<noteq> []" "rest_deployed api view ns dep"
    and "image_properties_try_from dep = Inr img" "files_readable api view (ua_set_file args)"
  shows "\<exists>t u. create_upgrade_resources c api ns args s = (Ok (), t) \<and>
      created c ns (release_of c dep) args (view (rt_world s)) (view (rt_world t)) \<and>
      delete_upgrade_resources c api ns t = (Ok (), u) \<and>
      view (rt_world u) = (\<lambda>key. if key \<in> range (key_of c ns (release_of c dep)) then None else view (rt_world s) key)"
proof -
  from total_create_resources [OF assms, of c "view (rt_world s)"] obtain t where
    t: "create_upgrade_resources c api ns args s = (Ok (), t)"
      "created c ns (release_of c dep) args (view (rt_world s)) (view (rt_world t))" unfolding total_def by auto
  from total_delete_resources [OF assms(1,3), of c "view (rt_world t)"] obtain u where
    u: "delete_upgrade_resources c api ns t = (Ok (), u)"
      "view (rt_world u) = (\<lambda>key. if key \<in> range (key_of c ns (release_of c dep)) then None else view (rt_world t) key)"
    unfolding total_def by auto
  from t(2) have "view (rt_world t) key = view (rt_world s) key" if "key \<notin> range (key_of c ns (release_of c dep))" for key
    using that unfolding created_def by blast
  with u(2) have "view (rt_world u) = (\<lambda>key. if key \<in> range (key_of c ns (release_of c dep)) then None else view (rt_world s) key)"
    by auto
  with t u(1) show ?thesis by blast
qed

end
