(* ===== verification/UpgradeError.thy ===== *)
theory UpgradeError
  imports Prelude
begin

text \<open>
  The error type of the upgrade job (\<open>k8s/upgrade/src/bin/upgrade-job/common/error.rs\<close>), one
  constructor per variant with its fields in the order of the source.  An error of a
  library (\<open>source\<close>), a path, a URL and a structure carried in an error are the text that the
  message shows of them.
\<close>

datatype (plugins only: ) upgrade_error =
    RestUrlParse string string
  | K8sClientGeneration string
  | GetNamespace string string
  | RestClientConfiguration string string
  | HelmCommand string string "string list"
  | RegexCompile string string
  | HelmVersion string
  | HelmRelease string string
  | NoInputHelmChartDir string
  | JobPodOwnerNotFound string string
  | JobPodHasTooManyOwners string string
  | JobPodOwnerIsNotJob string string
  | YamlParseFromSlice string string
  | YamlParseFromFile string string
  | YamlParseBufferForUnsupportedVersion string
  | DetermineChartVariant string string string
  | ValidateDirPath string string
  | ValidateFilePath string string
  | NotADirectory string
  | NotAFile string
  | ReadingFile string string
  | FindingHelmChart string
  | GetPod string string string
  | ListPodsWithLabelAndField string string string string
  | ListCtrlRevsWithLabelAndField string string string string
  | ListNodesWithLabelAndField string string string
  | EmptyPodSpec string string
  | EmptyPodNodeName string string
  | EmptyPodUid string string
  | StorageNodeUncordon string string
  | PodDelete string string string
  | ListStorageNodes string
  | GetStorageNode string string
  | EmptyStorageNodeSpec string
  | ListStorageVolumes string
  | DrainStorageNode string string
  | CordonStorageNode string string
  | YamlStructure string
  | U8VectorToString string
  | EventPublish string
  | HelmChartNameSplit string char
  | HelmListCommand string "string list" string
  | HelmVersionCommand string "string list" string
  | HelmUpgradeCommand string "string list" string
  | HelmGetValuesCommand string "string list" string
  | NotAKnownHelmChart string
  | EventRecorderOptionsAbsent
  | PodUidIsNone
  | HelmClientNs
  | HelmUpgradeOptionReleaseNameAbsent
  | HelmUpgradeOptionNamespaceAbsent
  | SemverParse string string
  | InvalidUpgradePath
  | SerializeEventNote string string
  | SerializePromtailConfigClientToJson string string
  | SerializePromtailInitContainerToJson string string
  | DeserializePromtailExtraConfig string string
  | SerializePromtailExtraConfigToJson string string
  | SerializePromtailExtraClientConfigToJson string string
  | TooManyIoEnginePods string
  | ThinProvisioningOptionsAbsent
  | EventChannelSend
  | UmbrellaChartNotUpgraded
  | CoreChartUpgradeNoneChartDir
  | InvalidHelmUpgrade
  | RollbackForbidden string string
  | YqCommandExec string string "string list"
  | YqVersionCommand string string string
  | YqMergeCommand string "string list" string
  | NotYqV4
  | TempFileCreation string
  | WriteToTempFile string string
  | NotAValidYamlKeyForStringValue string
  | YqSetCommand string "string list" string
  | YqDeleteObjectCommand string "string list" string
  | YqAppendToArrayCommand string "string list" string
  | YqAppendToObjectCommand string "string list" string
  | ListCrds string
  | PartialRebuildNotAllowed string string string
  | ControllerRevisionListEmpty string string string
  | ControllerRevisionDoesntHaveHashLabel string string string

end
