(* ===== verification/KubeRest.thy ===== *)
theory KubeRest
  imports Traced UpgradeError
begin

text \<open>
  What the upgrade job sees of Kubernetes and of the storage REST API: the fields of the
  objects that it reads, the requests that it makes, and the listing functions of
  \<open>common/kube_client.rs\<close> and \<open>upgrade/utils.rs\<close> with their pagination.

  The cluster itself is a parameter: a record of functions, one per request, over an
  arbitrary type of worlds.  Constants of the \<open>utils\<close> crate are fields of \<open>product\<close>.
\<close>

section \<open>Objects\<close>

record pod_condition =
  cond_type :: string
  cond_status :: string

record owner_reference =
  owner_api_version :: string
  owner_kind :: string
  owner_name :: string
  owner_uid :: string

text \<open>\<open>name_any\<close> is the answer of the accessor of the same name, \<open>pod_node_name\<close> the field of the spec.\<close>

record pod =
  name_any :: string
  pod_node_name :: "string option option"
  pod_conditions :: "pod_condition list option option"
  owner_references :: "owner_reference list option"

record controller_revision =
  rev_name :: string
  revision :: int
  rev_labels :: "string \<rightharpoonup> string"

datatype cordon_drain_state =
    cordonedstate "string list"
  | drainingstate "string list"
  | drainedstate "string list"

text \<open>A storage node: \<open>None\<close> when the spec is absent, else its cordon or drain state.\<close>

record storage_node =
  storage_node_id :: string
  node_spec :: "cordon_drain_state option option"

datatype volume_status = VolOnline | VolDegraded | VolFaulted | VolUnknown | VolShutdown

record volume_target =
  target_node :: string
  frontend_nodes :: "string list option"

text \<open>The nexus in the state of a volume: its node and the rebuild progress of each child.\<close>

record nexus_state =
  nexus_node :: string
  nexus_children :: "nat option list"

text \<open>\<open>volume_other\<close> stands for the fields not read here; they take part in comparisons.\<close>

record volume =
  volume_uuid :: string
  spec_target :: "volume_target option"
  volume_status :: volume_status
  state_target :: "nexus_state option"
  replica_topology :: "(string \<times> string option) list"
  volume_other :: string

record list_params =
  lp_limit :: nat
  lp_labels :: "string option"
  lp_fields :: "string option"
  lp_continue :: "string option"

section \<open>Constants\<close>

record product =
  PRODUCT_NAME :: string
  API_REST_LABEL :: string
  ETCD_LABEL :: string
  csi_node_nvme_ana :: string

definition drain_for_upgrade :: "product \<Rightarrow> string" where
  "drain_for_upgrade p = PRODUCT_NAME p @ ''-upgrade''"

definition cordon_ana_check :: "product \<Rightarrow> string" where
  "cordon_ana_check p = PRODUCT_NAME p @ ''-upgrade-nvme-ana-check''"

definition IO_ENGINE_LABEL :: string where "IO_ENGINE_LABEL = ''app=io-engine''"
definition AGENT_CORE_LABEL :: string where "AGENT_CORE_LABEL = ''app=agent-core''"
definition KUBE_API_PAGE_SIZE :: nat where "KUBE_API_PAGE_SIZE = 500"
definition DS_CONTROLLER_REVISION_HASH_LABEL_KEY :: string where
  "DS_CONTROLLER_REVISION_HASH_LABEL_KEY = ''controller-revision-hash''"

section \<open>Requests\<close>

record 'w cluster =
  try_default :: "'w \<Rightarrow> (string, unit) res \<times> 'w"
  pods_list :: "string \<Rightarrow> list_params \<Rightarrow> 'w \<Rightarrow> (string, pod list \<times> string option) res \<times> 'w"
  pods_get :: "string \<Rightarrow> string \<Rightarrow> 'w \<Rightarrow> (string, pod) res \<times> 'w"
  pods_delete :: "string \<Rightarrow> string \<Rightarrow> 'w \<Rightarrow> (string, unit) res \<times> 'w"
  nodes_list_metadata :: "list_params \<Rightarrow> 'w \<Rightarrow> (string, string list \<times> string option) res \<times> 'w"
  ctrl_revs_list :: "string \<Rightarrow> list_params \<Rightarrow> 'w
     \<Rightarrow> (string, controller_revision list \<times> string option) res \<times> 'w"
  url_parse :: "string \<Rightarrow> (string, string) res"
  rest_build_url :: "string \<Rightarrow> (string, unit) res"
  get_nodes :: "'w \<Rightarrow> (string, storage_node list) res \<times> 'w"
  get_node :: "string \<Rightarrow> 'w \<Rightarrow> (string, storage_node) res \<times> 'w"
  put_node_drain :: "string \<Rightarrow> string \<Rightarrow> 'w \<Rightarrow> (string, unit) res \<times> 'w"
  put_node_cordon :: "string \<Rightarrow> string \<Rightarrow> 'w \<Rightarrow> (string, unit) res \<times> 'w"
  delete_node_cordon :: "string \<Rightarrow> string \<Rightarrow> 'w \<Rightarrow> (string, unit) res \<times> 'w"
  get_volumes :: "nat \<Rightarrow> int \<Rightarrow> 'w \<Rightarrow> (string, volume list \<times> int option) res \<times> 'w"
  sleep_secs :: "nat \<Rightarrow> 'w \<Rightarrow> 'w"

text \<open>
  The rest of the surroundings of the job: programs it runs, with arguments and additional
  environment variables, the file system, the channel to the event worker, and two more
  requests to Kubernetes.
\<close>

record cmd_output =
  cmd_success :: bool
  cmd_stdout :: string
  cmd_stderr :: string

datatype event_type = Normal | Warning

record kube_event =
  ev_type :: event_type
  ev_reason :: string
  ev_note :: "string option"
  ev_action :: string

record 'w host =
  run_command :: "string \<Rightarrow> string list \<Rightarrow> (string \<times> string) list \<Rightarrow> 'w \<Rightarrow> (string, cmd_output) res \<times> 'w"
  read_file :: "string \<Rightarrow> 'w \<Rightarrow> (string, string) res \<times> 'w"
  path_is_dir :: "string \<Rightarrow> 'w \<Rightarrow> (string, bool) res \<times> 'w"
  path_is_file :: "string \<Rightarrow> 'w \<Rightarrow> (string, bool) res \<times> 'w"
  tempfile_new_in :: "string option \<Rightarrow> 'w \<Rightarrow> (string, string) res \<times> 'w"
  file_write :: "string \<Rightarrow> string \<Rightarrow> 'w \<Rightarrow> (string, nat) res \<times> 'w"
  channel_send :: "kube_event \<Rightarrow> 'w \<Rightarrow> (string, unit) res \<times> 'w"
  namespaces_get :: "string \<Rightarrow> 'w \<Rightarrow> (string, unit) res \<times> 'w"
  crds_list_metadata :: "list_params \<Rightarrow> 'w \<Rightarrow> (string, string list \<times> string option) res \<times> 'w"

datatype event =
    EvClient "(string, unit) res"
  | EvPodsList string list_params "(string, pod list \<times> string option) res"
  | EvPodGet string string "(string, pod) res"
  | EvPodDelete string string "(string, unit) res"
  | EvNodesList list_params "(string, string list \<times> string option) res"
  | EvRevsList string list_params "(string, controller_revision list \<times> string option) res"
  | EvGetNodes "(string, storage_node list) res"
  | EvGetNode string "(string, storage_node) res"
  | EvPutDrain string string "(string, unit) res"
  | EvPutCordon string string "(string, unit) res"
  | EvDelCordon string string "(string, unit) res"
  | EvGetVolumes nat int "(string, volume list \<times> int option) res"
  | EvSleep nat
  | EvCommand string "string list" "(string \<times> string) list" "(string, cmd_output) res"
  | EvReadFile string "(string, string) res"
  | EvIsDir string "(string, bool) res"
  | EvIsFile string "(string, bool) res"
  | EvTempFile "string option" "(string, string) res"
  | EvFileWrite string string "(string, nat) res"
  | EvSend kube_event "(string, unit) res"
  | EvNamespace string "(string, unit) res"
  | EvCrdsList list_params "(string, string list \<times> string option) res"

type_synonym ('w, 'a) job = "(('w, event) rt, upgrade_error, 'a) prog"

definition sleep :: "'w cluster \<Rightarrow> nat \<Rightarrow> ('w, unit) job" where
  "sleep api secs = tick (sleep_secs api secs) (EvSleep secs)"

definition client :: "'w cluster \<Rightarrow> ('w, unit) job" where
  "client api = logged (try_default api) EvClient K8sClientGeneration"

definition new_with_url :: "'w cluster \<Rightarrow> string \<Rightarrow> (upgrade_error, unit) res" where
  "new_with_url api rest_endpoint =
     res_bind (map_err (\<lambda>e. RestUrlParse e rest_endpoint) (url_parse api rest_endpoint)) (\<lambda>rest_url.
     map_err (\<lambda>e. RestClientConfiguration e rest_url) (rest_build_url api rest_url))"

section \<open>Listing objects of Kubernetes\<close>

definition list_params_of :: "string option \<Rightarrow> string option \<Rightarrow> string option \<Rightarrow> list_params" where
  "list_params_of label_selector field_selector token =
     \<lparr>lp_limit = KUBE_API_PAGE_SIZE, lp_labels = label_selector, lp_fields = field_selector, lp_continue = token\<rparr>"

definition pods_page ::
  "'w cluster \<Rightarrow> string \<Rightarrow> string option \<Rightarrow> string option \<Rightarrow> string option
     \<Rightarrow> ('w, pod list \<times> string option option) job" where
  "pods_page api namespace label_selector field_selector token =
     bindP (client api) (\<lambda>_.
     bindP (logged (pods_list api namespace (list_params_of label_selector field_selector token))
              (EvPodsList namespace (list_params_of label_selector field_selector token))
              (\<lambda>e. ListPodsWithLabelAndField e (unwrap_or [] label_selector) (unwrap_or [] field_selector) namespace)) (\<lambda>(pods, next).
     retP (pods, map_option Some next)))"

definition list_pods ::
  "nat \<Rightarrow> 'w cluster \<Rightarrow> string \<Rightarrow> string option \<Rightarrow> string option \<Rightarrow> ('w, pod list) job" where
  "list_pods fuel api namespace label_selector field_selector =
     collect_pages fuel (pods_page api namespace label_selector field_selector) None"

definition nodes_page ::
  "'w cluster \<Rightarrow> string option \<Rightarrow> string option \<Rightarrow> string option
     \<Rightarrow> ('w, string list \<times> string option option) job" where
  "nodes_page api label_selector field_selector token =
     bindP (client api) (\<lambda>_.
     bindP (logged (nodes_list_metadata api (list_params_of label_selector field_selector token))
              (EvNodesList (list_params_of label_selector field_selector token))
              (\<lambda>e. ListNodesWithLabelAndField e (unwrap_or [] label_selector) (unwrap_or [] field_selector))) (\<lambda>(nodes, next).
     retP (nodes, map_option Some next)))"

definition list_nodes_metadata ::
  "nat \<Rightarrow> 'w cluster \<Rightarrow> string option \<Rightarrow> string option \<Rightarrow> ('w, string list) job" where
  "list_nodes_metadata fuel api label_selector field_selector = collect_pages fuel (nodes_page api label_selector field_selector) None"

definition ctrl_revs_page ::
  "'w cluster \<Rightarrow> string \<Rightarrow> string option \<Rightarrow> string option \<Rightarrow> string option
     \<Rightarrow> ('w, controller_revision list \<times> string option option) job" where
  "ctrl_revs_page api namespace label_selector field_selector token =
     bindP (client api) (\<lambda>_.
     bindP (logged (ctrl_revs_list api namespace (list_params_of label_selector field_selector token))
              (EvRevsList namespace (list_params_of label_selector field_selector token))
              (\<lambda>e. ListCtrlRevsWithLabelAndField e (unwrap_or [] label_selector) (unwrap_or [] field_selector) namespace)) (\<lambda>(revs, next).
     retP (revs, map_option Some next)))"

definition list_controller_revisions ::
  "nat \<Rightarrow> 'w cluster \<Rightarrow> string \<Rightarrow> string option \<Rightarrow> string option \<Rightarrow> ('w, controller_revision list) job" where
  "list_controller_revisions fuel api namespace label_selector field_selector =
     collect_pages fuel (ctrl_revs_page api namespace label_selector field_selector) None"

text \<open>
  The hash of the newest revision.  \<open>sort\<close> stands for \<open>sort_unstable_by\<close> with the given key,
  whose order among equal keys is not fixed.
\<close>

definition latest_controller_revision_hash ::
  "nat \<Rightarrow> 'w cluster \<Rightarrow> (controller_revision list \<Rightarrow> controller_revision list) \<Rightarrow> string
     \<Rightarrow> string option \<Rightarrow> string option \<Rightarrow> string \<Rightarrow> ('w, string) job" where
  "latest_controller_revision_hash fuel api sort_revs namespace label_selector field_selector hash_label_key =
     bindP (list_controller_revisions fuel api namespace label_selector field_selector) (\<lambda>revs.
     bindP (liftR (ensure (revs \<noteq> [])
       (ControllerRevisionListEmpty namespace (unwrap_or [] label_selector) (unwrap_or [] field_selector)))) (\<lambda>_.
     let newest = hd (sort_revs revs)
     in liftR (ok_or (ControllerRevisionDoesntHaveHashLabel (rev_name newest) namespace hash_label_key)
          (rev_labels newest hash_label_key))))"

section \<open>Listing volumes\<close>

definition volumes_page :: "'w cluster \<Rightarrow> int \<Rightarrow> ('w, volume list \<times> int option) job" where
  "volumes_page api token = logged (get_volumes api 200 token) (EvGetVolumes 200 token) ListStorageVolumes"

definition list_all_volumes :: "nat \<Rightarrow> 'w cluster \<Rightarrow> ('w, volume list) job" where
  "list_all_volumes fuel api = collect_pages fuel (volumes_page api) 0"

section \<open>Read-only requests\<close>

fun is_read :: "event \<Rightarrow> bool" where
  "is_read (EvPodDelete _ _ _) = False"
| "is_read (EvPutDrain _ _ _) = False"
| "is_read (EvPutCordon _ _ _) = False"
| "is_read (EvDelCordon _ _ _) = False"
| "is_read (EvCommand _ _ _ _) = False"
| "is_read (EvTempFile _ _) = False"
| "is_read (EvFileWrite _ _ _) = False"
| "is_read (EvSend _ _) = False"
| "is_read _ = True"

lemma only_read_basic [only_rules]:
  "only is_read (sleep api secs)"
  "only is_read (client api)"
  "only is_read (volumes_page api token)"
  by (auto simp: sleep_def client_def volumes_page_def intro: only_rules)

lemma only_read_pages [only_rules]:
  "only is_read (pods_page api namespace label_selector field_selector token)"
  "only is_read (nodes_page api label_selector field_selector token)"
  "only is_read (ctrl_revs_page api namespace label_selector field_selector token)"
  by (auto simp: pods_page_def nodes_page_def ctrl_revs_page_def intro!: only_rules split: prod.splits)

lemma only_read_lists [only_rules]:
  "only is_read (list_pods fuel api namespace label_selector field_selector)"
  "only is_read (list_nodes_metadata fuel api label_selector field_selector)"
  "only is_read (list_controller_revisions fuel api namespace label_selector field_selector)"
  "only is_read (list_all_volumes fuel api)"
  by (simp_all add: list_pods_def list_nodes_metadata_def list_controller_revisions_def
      list_all_volumes_def only_rules)

lemma only_read_latest [only_rules]:
  "only is_read (latest_controller_revision_hash fuel api sort_revs namespace label_selector
     field_selector hash_label_key)"
  by (auto simp: latest_controller_revision_hash_def Let_def intro!: only_rules)

text \<open>
  Complete listings in a trace: the requests for the pages follow each other, each with the
  token of the answer before it.
\<close>

definition volumes_listing :: "volume list \<Rightarrow> event list \<Rightarrow> bool" where
  "volumes_listing = paged (\<lambda>tok xs next d. d = [EvGetVolumes 200 tok (Inr (xs, next))]) 0"

definition pods_listing ::
  "string \<Rightarrow> string option \<Rightarrow> string option \<Rightarrow> pod list \<Rightarrow> event list \<Rightarrow> bool" where
  "pods_listing namespace label_selector field_selector =
     paged (\<lambda>tok xs next d. \<exists>nxt. next = map_option Some nxt \<and> d = [EvClient (Inr ()),
       EvPodsList namespace (list_params_of label_selector field_selector tok) (Inr (xs, nxt))]) None"

definition nodes_listing :: "string option \<Rightarrow> string option \<Rightarrow> string list \<Rightarrow> event list \<Rightarrow> bool" where
  "nodes_listing label_selector field_selector =
     paged (\<lambda>tok xs next d. \<exists>nxt. next = map_option Some nxt \<and> d = [EvClient (Inr ()),
       EvNodesList (list_params_of label_selector field_selector tok) (Inr (xs, nxt))]) None"

definition revs_listing ::
  "string \<Rightarrow> string option \<Rightarrow> string option \<Rightarrow> controller_revision list \<Rightarrow> event list \<Rightarrow> bool" where
  "revs_listing namespace label_selector field_selector =
     paged (\<lambda>tok xs next d. \<exists>nxt. next = map_option Some nxt \<and> d = [EvClient (Inr ()),
       EvRevsList namespace (list_params_of label_selector field_selector tok) (Inr (xs, nxt))]) None"

lemma emits_volumes_page:
  "emits (volumes_page api tok) (\<lambda>(xs, next) d. d = [EvGetVolumes 200 tok (Inr (xs, next))]) (list_all is_read)"
  unfolding volumes_page_def by (rule emits_logged) auto

lemma emits_list_all_volumes:
  "emits (list_all_volumes fuel api) (\<lambda>vs d. list_all is_read d \<and> volumes_listing vs d) (list_all is_read)"
  unfolding list_all_volumes_def volumes_listing_def
  by (rule emits_collect_pages [where h = "\<lambda>xs. xs", simplified])
    (auto intro!: emits_conseq [OF emits_volumes_page])

text \<open>A request to Kubernetes: a new client, then the call.\<close>

lemma emits_kube_request:
  "emits (bindP (client api) (\<lambda>_. bindP (logged f (ev :: _ \<Rightarrow> event) ctx) (\<lambda>(xs, next). retP (xs, map_option Some next))))
     (\<lambda>(xs, next) d. \<exists>nxt. next = map_option Some nxt \<and> d = [EvClient (Inr ()), ev (Inr (xs, nxt))])
     (\<lambda>d. \<exists>r r'. d = [EvClient r] \<or> d = [EvClient r, ev r'])"
  by (auto simp: emits_def client_def logged_def bindP_def split: sum.splits prod.splits)

lemma emits_list_pods:
  "emits (list_pods fuel api namespace label_selector field_selector)
     (\<lambda>ps d. list_all is_read d \<and> pods_listing namespace label_selector field_selector ps d) (list_all is_read)"
  unfolding list_pods_def pods_listing_def
  by (rule emits_collect_pages [where h = "\<lambda>xs. xs", simplified])
    (auto intro!: emits_conseq [OF emits_kube_request] simp: pods_page_def)

lemma emits_list_controller_revisions:
  "emits (list_controller_revisions fuel api namespace label_selector field_selector)
     (\<lambda>rs d. list_all is_read d \<and> revs_listing namespace label_selector field_selector rs d) (list_all is_read)"
  unfolding list_controller_revisions_def revs_listing_def
  by (rule emits_collect_pages [where h = "\<lambda>xs. xs", simplified])
    (auto intro!: emits_conseq [OF emits_kube_request] simp: ctrl_revs_page_def)

lemma emits_latest_hash:
  "emits (latest_controller_revision_hash fuel api sort_revs namespace label_selector field_selector key)
     (\<lambda>hash d. list_all is_read d \<and> (\<exists>rs. revs_listing namespace label_selector field_selector rs d \<and> rs \<noteq> [] \<and>
        rev_labels (hd (sort_revs rs)) key = Some hash)) (list_all is_read)"
  unfolding latest_controller_revision_hash_def
  by (rule emits_seq [OF emits_list_controller_revisions])
    (auto simp: Let_def ensure_eq_Inr ok_or_eq_Inr intro!: emits_bind_pure emits_liftR)

lemma emits_list_nodes_metadata:
  "emits (list_nodes_metadata fuel api label_selector field_selector)
     (\<lambda>ns d. list_all is_read d \<and> nodes_listing label_selector field_selector ns d) (list_all is_read)"
  unfolding list_nodes_metadata_def nodes_listing_def
  by (rule emits_collect_pages [where h = "\<lambda>xs. xs", simplified])
    (auto intro!: emits_conseq [OF emits_kube_request] simp: nodes_page_def)

section \<open>Complete listings\<close>

interpretation pods: paged_listing "\<lambda>fuel. list_pods fuel api namespace label_selector field_selector"
  "pods_page api namespace label_selector field_selector" None
  for api namespace label_selector field_selector
  by unfold_locales (simp add: list_pods_def)

interpretation nodes: paged_listing "\<lambda>fuel. list_nodes_metadata fuel api label_selector field_selector"
  "nodes_page api label_selector field_selector" None
  for api label_selector field_selector
  by unfold_locales (simp add: list_nodes_metadata_def)

interpretation revs: paged_listing
  "\<lambda>fuel. list_controller_revisions fuel api namespace label_selector field_selector"
  "ctrl_revs_page api namespace label_selector field_selector" None
  for api namespace label_selector field_selector
  by unfold_locales (simp add: list_controller_revisions_def)

interpretation volumes: paged_listing "\<lambda>fuel. list_all_volumes fuel api" "volumes_page api" 0
  for api
  by unfold_locales (simp add: list_all_volumes_def)

text \<open>
  The two services with a fixed content: the storage REST API, whose token is the number of
  the next entry, and the Kubernetes API, whose continue token is opaque.
\<close>

definition volumes_served :: "'w cluster \<Rightarrow> ('w \<Rightarrow> bool) \<Rightarrow> volume list \<Rightarrow> bool" where
  "volumes_served api up vs \<longleftrightarrow>
     (\<forall>k w. up w \<longrightarrow> k \<le> length vs \<longrightarrow> (\<exists>w'. up w' \<and> get_volumes api 200 (int k) w =
        (Inr (take 200 (drop k vs), if k + 200 < length vs then Some (int (k + 200)) else None), w')))"

definition pods_served ::
  "'w cluster \<Rightarrow> string \<Rightarrow> string option \<Rightarrow> string option \<Rightarrow> ('w \<Rightarrow> bool)
     \<Rightarrow> (string option \<Rightarrow> nat \<Rightarrow> bool) \<Rightarrow> pod list \<Rightarrow> bool" where
  "pods_served api namespace label_selector field_selector up at ps \<longleftrightarrow>
     (\<forall>w. up w \<longrightarrow> (\<exists>w'. up w' \<and> try_default api w = (Inr (), w'))) \<and>
     (\<forall>tok k w. up w \<longrightarrow> at tok k \<longrightarrow> k \<le> length ps \<longrightarrow> (\<exists>next w'. up w' \<and>
        pods_list api namespace (list_params_of label_selector field_selector tok) w =
          (Inr (take KUBE_API_PAGE_SIZE (drop k ps), next), w') \<and>
        (case next of None \<Rightarrow> length ps \<le> k + KUBE_API_PAGE_SIZE
         | Some t \<Rightarrow> at (Some t) (k + KUBE_API_PAGE_SIZE) \<and> k + KUBE_API_PAGE_SIZE < length ps)))"

lemma volumes_page_serves:
  assumes "volumes_served api up vs"
  shows "serves (volumes_page api) (\<lambda>s. up (rt_world s)) (\<lambda>tok k. tok = int k) 200 vs"
  unfolding serves_def
proof (intro conjI allI impI)
  fix tok and k and s :: "('a, event) rt"
  assume "up (rt_world s)" "tok = int k" "k \<le> length vs"
  with assms obtain w' where "up w'" "get_volumes api 200 tok (rt_world s) =
    (Inr (take 200 (drop k vs), if k + 200 < length vs then Some (int (k + 200)) else None), w')"
    unfolding volumes_served_def by blast
  then show "\<exists>nxt t. volumes_page api tok s = (Ok (take 200 (drop k vs), nxt), t) \<and> up (rt_world t) \<and>
      (case nxt of None \<Rightarrow> length vs \<le> k + 200 | Some tok' \<Rightarrow> tok' = int (k + 200) \<and> k + 200 < length vs)"
    by (simp add: volumes_page_def logged_def)
qed simp

lemma pods_page_serves:
  assumes "pods_served api namespace label_selector field_selector up at ps"
  shows "serves (pods_page api namespace label_selector field_selector) (\<lambda>s. up (rt_world s)) at
    KUBE_API_PAGE_SIZE ps"
  unfolding serves_def
proof (intro conjI allI impI)
  fix tok and k and s :: "('a, event) rt"
  assume up: "up (rt_world s)" and k: "at tok k" "k \<le> length ps"
  from assms up obtain w1 where c: "up w1" "try_default api (rt_world s) = (Inr (), w1)"
    unfolding pods_served_def by blast
  with assms k obtain nxt w' where "up w'"
    "pods_list api namespace (list_params_of label_selector field_selector tok) w1 =
       (Inr (take KUBE_API_PAGE_SIZE (drop k ps), nxt), w')"
    "case nxt of None \<Rightarrow> length ps \<le> k + KUBE_API_PAGE_SIZE
     | Some t \<Rightarrow> at (Some t) (k + KUBE_API_PAGE_SIZE) \<and> k + KUBE_API_PAGE_SIZE < length ps"
    unfolding pods_served_def by blast
  with c show "\<exists>nxt t. pods_page api namespace label_selector field_selector tok s =
        (Ok (take KUBE_API_PAGE_SIZE (drop k ps), nxt), t) \<and> up (rt_world t) \<and>
      (case nxt of None \<Rightarrow> length ps \<le> k + KUBE_API_PAGE_SIZE
       | Some tok' \<Rightarrow> at tok' (k + KUBE_API_PAGE_SIZE) \<and> k + KUBE_API_PAGE_SIZE < length ps)"
    by (auto simp: pods_page_def client_def logged_def bindP_def split: option.splits)
qed (simp add: KUBE_API_PAGE_SIZE_def)

text \<open>
  Against a storage API that serves a fixed list of volumes 200 at a time,
  listing all volumes ends, after at most one request per volume, with exactly that list.
\<close>

theorem list_all_volumes_complete:
  assumes "volumes_served api up vs" "up (rt_world s)" "length vs < fuel"
  shows "\<exists>t. up (rt_world t) \<and> list_all_volumes fuel api s = (Ok vs, t)"
  by (rule volumes.lists_everything [OF volumes_page_serves [OF assms(1)] _ assms(2,3)]) simp

text \<open>
  Against a Kubernetes API that serves a fixed list of pods for the selectors, a
  page at a time under opaque continue tokens, listing the pods ends with exactly that list.
\<close>

theorem list_pods_complete:
  assumes "pods_served api namespace label_selector field_selector up at ps" "at None 0"
    and "up (rt_world s)" "length ps < fuel"
  shows "\<exists>t. up (rt_world t) \<and> list_pods fuel api namespace label_selector field_selector s = (Ok ps, t)"
  by (rule pods.lists_everything [OF pods_page_serves [OF assms(1)] assms(2,3,4)])

end
