(* ===== verification/UpgradeUtils.thy ===== *)
theory UpgradeUtils
  imports KubeRest
begin

text \<open>
  The helpers of the data-plane upgrade (\<open>upgrade/utils.rs\<close> of the upgrade job): looking for
  unhealthy volumes and rebuilds, the readiness of pods, and the cordoning of storage nodes.
\<close>

section \<open>Rebuilds\<close>

record rebuild_result =
  rebuilding :: bool
  discarded_volumes :: "volume list"

definition rebuild_result_default :: rebuild_result where
  "rebuild_result_default = \<lparr>rebuilding = False, discarded_volumes = []\<rparr>"

definition unhealthy :: "volume \<Rightarrow> bool" where
  "unhealthy v \<longleftrightarrow> volume_status v = VolFaulted \<or> volume_status v = VolDegraded"

definition unhealthy_page :: "'w cluster \<Rightarrow> int \<Rightarrow> ('w, volume list \<times> int option) job" where
  "unhealthy_page api token =
     bindP (volumes_page api token) (\<lambda>(vs, next). retP (filter unhealthy vs, next))"

definition list_unhealthy_volumes :: "nat \<Rightarrow> 'w cluster \<Rightarrow> volume list \<Rightarrow> ('w, volume list) job" where
  "list_unhealthy_volumes fuel api discarded =
     bindP (collect_pages fuel (unhealthy_page api) 0) (\<lambda>vs.
     retP (filter (\<lambda>v. v \<notin> set discarded) vs))"

definition replica_rebuild_count :: "volume \<Rightarrow> int" where
  "replica_rebuild_count v =
     (case state_target v of None \<Rightarrow> 0
      | Some target \<Rightarrow> int (length (filter (\<lambda>progress. progress \<noteq> None) (nexus_children target))))"

text \<open>The inner wait: one look at the volume at hand after each minute.\<close>

primrec rebuild_starts :: "'w cluster \<Rightarrow> nat \<Rightarrow> volume \<Rightarrow> ('w, bool) job" where
  "rebuild_starts api 0 v = retP False"
| "rebuild_starts api (Suc n) v =
     bindP (sleep api 60) (\<lambda>_.
     if replica_rebuild_count v > 0 then retP True else rebuild_starts api n v)"

definition volume_nodes :: "volume \<Rightarrow> nexus_state \<Rightarrow> string set" where
  "volume_nodes v target = insert (nexus_node target) {n. Some n \<in> snd ` set (replica_topology v)}"

text \<open>
  The pass over the unhealthy volumes.  \<open>over\<close> is \<open>volume_over_nodes\<close>, which grows over the
  whole pass, and \<open>stale\<close> the discarded volumes; \<open>Inr\<close> is the early return.
\<close>

fun scan_volumes ::
  "'w cluster \<Rightarrow> string \<Rightarrow> volume list \<Rightarrow> string set \<Rightarrow> volume list
     \<Rightarrow> ('w, (string set \<times> volume list) + rebuild_result) job" where
  "scan_volumes api node [] over stale = retP (Inl (over, stale))"
| "scan_volumes api node (v # vs) over stale =
     (case state_target v of
        None \<Rightarrow> scan_volumes api node vs over stale
      | Some target \<Rightarrow>
          if node \<in> over \<union> volume_nodes v target
          then if replica_rebuild_count v = 0
               then bindP (rebuild_starts api 11 v) (\<lambda>started.
                    if started then retP (Inr \<lparr>rebuilding = True, discarded_volumes = stale\<rparr>)
                    else scan_volumes api node vs (over \<union> volume_nodes v target) (stale @ [v]))
               else retP (Inr \<lparr>rebuilding = True, discarded_volumes = stale\<rparr>)
          else scan_volumes api node vs (over \<union> volume_nodes v target) stale)"

definition rebuild_pass ::
  "nat \<Rightarrow> 'w cluster \<Rightarrow> string \<Rightarrow> volume list \<Rightarrow> ('w, volume list + rebuild_result) job" where
  "rebuild_pass fuel api node stale =
     bindP (list_unhealthy_volumes fuel api stale) (\<lambda>vs.
     if vs = [] then retP (Inr \<lparr>rebuilding = False, discarded_volumes = stale\<rparr>)
     else bindP (scan_volumes api node vs {} stale) (\<lambda>r.
       case r of
         Inr res \<Rightarrow> retP (Inr res)
       | Inl (over, stale') \<Rightarrow>
           if over = {} then retP (Inr \<lparr>rebuilding = False, discarded_volumes = stale'\<rparr>)
           else retP (Inl stale')))"

text \<open>
  \<open>rebuild_result\<close> extends the vector it is lent; the vector after the call is the
  \<open>discarded_volumes\<close> of the answer.
\<close>

definition rebuild_result_of ::
  "nat \<Rightarrow> 'w cluster \<Rightarrow> volume list \<Rightarrow> string \<Rightarrow> ('w, rebuild_result) job" where
  "rebuild_result_of fuel api stale node = loopP fuel (rebuild_pass fuel api node) stale"

section \<open>Readiness\<close>

fun ready_condition :: "pod_condition list \<Rightarrow> bool" where
  "ready_condition [] = True"
| "ready_condition (c # cs) =
     (if cond_type c = ''Ready'' then cond_status c = ''True'' else ready_condition cs)"

fun all_pods_are_ready :: "pod list \<Rightarrow> bool" where
  "all_pods_are_ready [] = True"
| "all_pods_are_ready (p # ps) =
     (case Option.bind (pod_conditions p) id of
        Some conditions \<Rightarrow> (if ready_condition conditions then all_pods_are_ready ps else False)
      | None \<Rightarrow> False)"

section \<open>Cordons\<close>

definition fetch_node :: "'w cluster \<Rightarrow> string \<Rightarrow> ('w, cordon_drain_state option) job" where
  "fetch_node api node_id =
     bindP (logged (get_node api node_id) (EvGetNode node_id) (\<lambda>e. GetStorageNode e node_id)) (\<lambda>node.
     liftR (ok_or (EmptyStorageNodeSpec node_id) (node_spec node)))"

definition is_cordoned :: "string \<Rightarrow> cordon_drain_state option \<Rightarrow> bool" where
  "is_cordoned label st =
     (case st of Some (cordonedstate cordonlabels) \<Rightarrow> label \<in> set cordonlabels | _ \<Rightarrow> False)"

definition cordon_storage_node :: "'w cluster \<Rightarrow> string \<Rightarrow> string \<Rightarrow> ('w, unit) job" where
  "cordon_storage_node api node_id cordon_label =
     bindP (fetch_node api node_id) (\<lambda>st.
     if is_cordoned cordon_label st then retP ()
     else logged (put_node_cordon api node_id cordon_label) (EvPutCordon node_id cordon_label)
            (\<lambda>e. CordonStorageNode e node_id))"

definition uncordon_storage_node :: "'w cluster \<Rightarrow> string \<Rightarrow> string \<Rightarrow> ('w, unit) job" where
  "uncordon_storage_node api node_id cordon_label =
     bindP (fetch_node api node_id) (\<lambda>st.
     if is_cordoned cordon_label st
     then logged (delete_node_cordon api node_id cordon_label) (EvDelCordon node_id cordon_label)
            (\<lambda>e. StorageNodeUncordon e node_id)
     else retP ())"

section \<open>Readiness, characterised\<close>

lemma ready_condition_find:
  "ready_condition cs \<longleftrightarrow>
     (\<forall>c. find (\<lambda>c. cond_type c = ''Ready'') cs = Some c \<longrightarrow> cond_status c = ''True'')"
  by (induction cs) auto

text \<open>
  \<open>all_pods_are_ready\<close> answers true exactly when every pod reports its conditions and
  the first condition of type Ready, if there is one, has status True.  So a pod without a
  Ready condition counts as ready, and so does an empty list.
\<close>

theorem all_pods_are_ready_iff:
  "all_pods_are_ready ps \<longleftrightarrow>
     (\<forall>p \<in> set ps. \<exists>cs. pod_conditions p = Some (Some cs) \<and>
        (\<forall>c. find (\<lambda>c. cond_type c = ''Ready'') cs = Some c \<longrightarrow> cond_status c = ''True''))"
  by (induction ps) (auto simp: ready_condition_find bind_eq_Some_conv split: option.splits)

section \<open>What the helpers do to the cluster\<close>

lemma only_read_rebuild_starts [only_rules]: "only is_read (rebuild_starts api n v)"
  by (induction n) (auto intro!: only_rules)

lemma only_read_scan [only_rules]: "only is_read (scan_volumes api node vs over stale)"
  by (induction api node vs over stale rule: scan_volumes.induct)
    (auto intro!: only_rules split: option.splits)

lemma only_read_unhealthy [only_rules]:
  "only is_read (unhealthy_page api token)"
  "only is_read (list_unhealthy_volumes fuel api stale)"
  by (auto simp: list_unhealthy_volumes_def unhealthy_page_def intro!: only_rules split: prod.splits)

lemma only_read_rebuild_result [only_rules]:
  "only is_read (rebuild_pass fuel api node stale)"
  "only is_read (rebuild_result_of fuel api stale node)"
  by (auto simp: rebuild_result_of_def rebuild_pass_def intro!: only_rules split: sum.splits)

lemma only_read_fetch [only_rules]: "only is_read (fetch_node api node_id)"
  by (auto simp: fetch_node_def intro!: only_rules)

section \<open>Finding rebuilds\<close>

lemma emits_list_unhealthy:
  "emits (list_unhealthy_volumes fuel api stale)
     (\<lambda>vs d. list_all is_read d \<and> (\<exists>all. volumes_listing all d \<and>
        vs = filter (\<lambda>v. unhealthy v \<and> v \<notin> set stale) all)) (list_all is_read)"
proof -
  have "emits (unhealthy_page api tok)
      (\<lambda>(xs, next) d. \<exists>ys. xs = filter unhealthy ys \<and> d = [EvGetVolumes 200 tok (Inr (ys, next))])
      (list_all is_read)" for tok
    unfolding unhealthy_page_def
    by (rule emits_bindI [OF emits_volumes_page,
          where R = "\<lambda>(ys, next) r d. r = (filter unhealthy ys, next) \<and> d = []" and J = "\<lambda>_ _. False"])
      (auto intro: emits_ret split: prod.splits)
  from emits_collect_pages [of "unhealthy_page api" "filter unhealthy", OF this, of fuel 0]
  have "emits (collect_pages fuel (unhealthy_page api) 0)
      (\<lambda>xs d. list_all is_read d \<and> (\<exists>ys. xs = filter unhealthy ys \<and> volumes_listing ys d)) (list_all is_read)"
    by (simp add: volumes_listing_def)
  then show ?thesis unfolding list_unhealthy_volumes_def
    by (rule emits_bindI [where R = "\<lambda>vs r d. r = filter (\<lambda>v. v \<notin> set stale) vs \<and> d = []" and J = "\<lambda>_ _. False"])
      (auto intro!: emits_ret simp: conj_commute)
qed

text \<open>A pass over the volumes: it always ends, and discards only volumes without a rebuild.\<close>

definition idle :: "volume \<Rightarrow> bool" where
  "idle v \<longleftrightarrow> replica_rebuild_count v = 0"

lemma replica_rebuild_count_nonneg: "0 \<le> replica_rebuild_count v"
  by (simp add: replica_rebuild_count_def split: option.splits)

lemma idle_no_target: "state_target v = None \<Longrightarrow> idle v"
  by (simp add: idle_def replica_rebuild_count_def)

lemma rebuild_starts_idle:
  "idle v \<Longrightarrow> rebuild_starts api n v s =
     (Ok False, \<lparr>rt_world = (sleep_secs api 60 ^^ n) (rt_world s),
                 rt_trace = rt_trace s @ replicate n (EvSleep 60)\<rparr>)"
proof (induction n arbitrary: s)
  case (Suc n)
  then show ?case
    by (simp add: sleep_def tick_def bindP_def idle_def funpow_swap1 replicate_append_same [symmetric])
qed simp

definition scan_ok ::
  "string \<Rightarrow> volume list \<Rightarrow> string set \<Rightarrow> volume list \<Rightarrow> (string set \<times> volume list) + rebuild_result \<Rightarrow> bool" where
  "scan_ok node vs over stale r \<longleftrightarrow>
     (case r of
        Inl (over', stale') \<Rightarrow> \<exists>new. stale' = stale @ new \<and> set new \<subseteq> set vs \<and> (\<forall>v \<in> set new. idle v) \<and>
          over \<subseteq> over' \<and> (over' = {} \<longrightarrow> new = [] \<and> (\<forall>v \<in> set vs. state_target v = None)) \<and>
          (\<forall>v \<in> set vs. \<forall>tg. state_target v = Some tg \<longrightarrow> node \<in> volume_nodes v tg \<longrightarrow> v \<in> set new)
      | Inr res \<Rightarrow> rebuilding res \<and>
          (\<exists>new. discarded_volumes res = stale @ new \<and> set new \<subseteq> set vs \<and> (\<forall>v \<in> set new. idle v)) \<and>
          (\<exists>v \<in> set vs. \<not> idle v))"

lemma scan_ok_skip:
  "state_target v = None \<Longrightarrow> scan_ok node vs over stale r \<Longrightarrow> scan_ok node (v # vs) over stale r"
  by (cases r) (auto simp: scan_ok_def)

lemma volume_nodes_nonempty: "volume_nodes v tg \<noteq> {}"
  by (simp add: volume_nodes_def)

lemma scan_ok_elsewhere:
  "state_target v = Some tg \<Longrightarrow> node \<notin> volume_nodes v tg \<Longrightarrow>
   scan_ok node vs (over \<union> volume_nodes v tg) stale r \<Longrightarrow> scan_ok node (v # vs) over stale r"
  using volume_nodes_nonempty [of v tg] by (cases r) (auto simp: scan_ok_def)

lemma scan_ok_discard:
  assumes "state_target v = Some tg" "idle v" "scan_ok node vs (over \<union> volume_nodes v tg) (stale @ [v]) r"
  shows "scan_ok node (v # vs) over stale r"
proof (cases r)
  case (Inl p)
  with assms(3) obtain over' new where p: "p = (over', stale @ v # new)" "set new \<subseteq> set vs"
      "\<forall>v \<in> set new. idle v" "over \<union> volume_nodes v tg \<subseteq> over'"
      "\<forall>v \<in> set vs. \<forall>tg. state_target v = Some tg \<longrightarrow> node \<in> volume_nodes v tg \<longrightarrow> v \<in> set new"
    by (cases p) (auto simp: scan_ok_def)
  with volume_nodes_nonempty [of v tg] assms(2) show ?thesis
    unfolding Inl scan_ok_def p(1) sum.case prod.case by (intro exI [of _ "v # new"]) auto
next
  case (Inr res)
  with assms(3) obtain new where "discarded_volumes res = stale @ v # new" "set new \<subseteq> set vs"
      "\<forall>v \<in> set new. idle v" "rebuilding res" "\<exists>v \<in> set vs. \<not> idle v"
    by (auto simp: scan_ok_def)
  with assms(2) show ?thesis
    unfolding Inr scan_ok_def sum.case by (intro conjI exI [of _ "v # new"]) auto
qed

lemma scan_volumes_result:
  "\<exists>r t. scan_volumes api node vs over stale s = (Ok r, t) \<and> scan_ok node vs over stale r"
proof (induction api node vs over stale arbitrary: s rule: scan_volumes.induct)
  case (1 api node over stale)
  show ?case by (simp add: scan_ok_def)
next
  case (2 api node v vs over stale)
  show ?case
  proof (cases "state_target v")
    case None
    with 2(1) [OF None, of s] show ?thesis by (auto intro: scan_ok_skip)
  next
    case (Some tg)
    consider (here) "node \<in> over \<union> volume_nodes v tg" "idle v"
      | (busy) "node \<in> over \<union> volume_nodes v tg" "\<not> idle v"
      | (elsewhere) "node \<notin> over \<union> volume_nodes v tg" by blast
    then show ?thesis
    proof cases
      case here
      then have zero: "replica_rebuild_count v = 0" by (simp add: idle_def)
      obtain r t where "scan_volumes api node vs (over \<union> volume_nodes v tg) (stale @ [v])
            \<lparr>rt_world = (sleep_secs api 60 ^^ 11) (rt_world s),
             rt_trace = rt_trace s @ replicate 11 (EvSleep 60)\<rparr> = (Ok r, t)"
          "scan_ok node vs (over \<union> volume_nodes v tg) (stale @ [v]) r"
        using 2(2) [OF Some here(1) zero, of False] by blast
      with here Some zero show ?thesis
        by (auto simp: bindP_def rebuild_starts_idle intro: scan_ok_discard)
    next
      case busy
      with Some show ?thesis by (auto simp: idle_def scan_ok_def)
    next
      case elsewhere
      with 2(3) [OF Some elsewhere, of s] Some show ?thesis by (auto intro: scan_ok_elsewhere)
    qed
  qed
qed

lemma scan_volumes_no_target:
  "\<forall>v \<in> set vs. state_target v = None \<Longrightarrow> scan_volumes api node vs over stale = retP (Inl (over, stale))"
  by (induction vs) auto

lemma emits_scan:
  "emits (scan_volumes api node vs {} stale)
     (\<lambda>r d. list_all is_read d \<and> scan_ok node vs {} stale r \<and> (\<forall>st. r = Inl ({}, st) \<longrightarrow> d = []))
     (list_all is_read)"
  unfolding emits_def
proof (intro allI impI)
  fix s r t
  assume run: "scan_volumes api node vs {} stale s = (r, t)"
  with scan_volumes_result obtain a where a: "r = Ok a" "scan_ok node vs {} stale a"
    by (metis prod.inject)
  from only_emits [OF only_read_scan] run obtain d where
    d: "rt_trace t = rt_trace s @ d" "list_all is_read d"
    by (rule emitsD) (simp add: a)
  have "d = []" if "a = Inl ({}, st)" for st
  proof -
    from that a(2) have "\<forall>v \<in> set vs. state_target v = None" by (auto simp: scan_ok_def)
    with run d show ?thesis by (simp add: scan_volumes_no_target)
  qed
  with a d show "\<exists>d. rt_trace t = rt_trace s @ d \<and> (case r of
      Ok a \<Rightarrow> list_all is_read d \<and> scan_ok node vs {} stale a \<and> (\<forall>st. a = Inl ({}, st) \<longrightarrow> d = [])
    | Err e \<Rightarrow> list_all is_read d | OutOfFuel \<Rightarrow> list_all is_read d)" by auto
qed

text \<open>
  The trace ends with a complete listing of the volumes in which no unhealthy volume is
  being rebuilt.
\<close>

definition settled :: "event list \<Rightarrow> bool" where
  "settled d \<longleftrightarrow> (\<exists>d1 d2 vs. d = d1 @ d2 \<and> volumes_listing vs d2 \<and>
     (\<forall>v \<in> set vs. unhealthy v \<longrightarrow> idle v))"

lemma settled_append: "settled d \<Longrightarrow> settled (e @ d)"
  unfolding settled_def by (metis append_assoc)

definition pass_ok :: "volume list \<Rightarrow> volume list + rebuild_result \<Rightarrow> event list \<Rightarrow> bool" where
  "pass_ok stale r d \<longleftrightarrow> list_all is_read d \<and> (list_all idle stale \<longrightarrow>
     (case r of Inl stale' \<Rightarrow> list_all idle stale'
      | Inr res \<Rightarrow> list_all idle (discarded_volumes res) \<and> (\<not> rebuilding res \<longrightarrow> settled d)))"

lemma emits_rebuild_pass: "emits (rebuild_pass fuel api node stale) (pass_ok stale) (list_all is_read)"
  unfolding rebuild_pass_def
proof (rule emits_bindI [OF emits_list_unhealthy, where J = "\<lambda>_. list_all is_read"
      and R = "\<lambda>vs r d. list_all is_read d \<and> (list_all idle stale \<longrightarrow>
        (case r of Inl stale' \<Rightarrow> list_all idle stale'
         | Inr res \<Rightarrow> list_all idle (discarded_volumes res) \<and>
            (\<not> rebuilding res \<longrightarrow> d = [] \<and> (\<forall>v \<in> set vs. state_target v = None))))"], goal_cases)
  case (1 vs)
  show ?case
  proof (cases "vs = []")
    case True
    then show ?thesis by (auto intro!: emits_ret)
  next
    case False
    have "emits (bindP (scan_volumes api node vs {} stale) (\<lambda>r. case r of
           Inr res \<Rightarrow> retP (Inr res)
         | Inl (over, stale') \<Rightarrow>
             if over = {} then retP (Inr \<lparr>rebuilding = False, discarded_volumes = stale'\<rparr>)
             else retP (Inl stale')))
        (\<lambda>r d. list_all is_read d \<and> (list_all idle stale \<longrightarrow>
          (case r of Inl stale' \<Rightarrow> list_all idle stale'
           | Inr res \<Rightarrow> list_all idle (discarded_volumes res) \<and>
              (\<not> rebuilding res \<longrightarrow> d = [] \<and> (\<forall>v \<in> set vs. state_target v = None))))) (list_all is_read)"
      by (rule emits_bindI [OF emits_scan, where J = "\<lambda>_. list_all is_read" and
            R = "\<lambda>r r' d. d = [] \<and> r' = (case r of Inr res \<Rightarrow> Inr res | Inl (over, stale') \<Rightarrow>
              if over = {} then Inr \<lparr>rebuilding = False, discarded_volumes = stale'\<rparr> else Inl stale')"])
        (auto intro!: emits_ret simp: scan_ok_def list_all_iff split: sum.splits if_splits)
    with False show ?thesis by simp
  qed
next
  case (2 vs r d1 d2)
  from 2(1) obtain all where all: "list_all is_read d1" "volumes_listing all d1"
    "vs = filter (\<lambda>v. unhealthy v \<and> v \<notin> set stale) all" by blast
  have "settled (d1 @ d2)" if "list_all idle stale" "d2 = []" "\<forall>v \<in> set vs. state_target v = None"
    unfolding settled_def
    by (rule exI [of _ "[]"], rule exI [of _ d1], rule exI [of _ all])
      (use that all idle_no_target in \<open>auto simp: list_all_iff\<close>)
  with 2(2) all(1) show ?case by (auto simp: pass_ok_def split: sum.splits)
qed auto

lemma emits_rebuild_result:
  assumes "list_all idle stale"
  shows "emits (rebuild_result_of fuel api stale node)
     (\<lambda>res d. list_all is_read d \<and> list_all idle (discarded_volumes res) \<and> (\<not> rebuilding res \<longrightarrow> settled d))
     (list_all is_read)"
  unfolding rebuild_result_of_def
  by (rule emits_loop [where P = "\<lambda>st d. list_all idle st \<and> list_all is_read d"])
    (auto intro!: emits_conseq [OF emits_rebuild_pass] settled_append simp: pass_ok_def assms split: sum.splits)

section \<open>Whether the search for rebuilds ends\<close>

lemma list_unhealthy_served:
  assumes "volumes_served api up vs" "up (rt_world s)" "length vs < fuel"
  shows "\<exists>t. up (rt_world t) \<and> list_unhealthy_volumes fuel api stale s =
    (Ok (filter (\<lambda>v. unhealthy v \<and> v \<notin> set stale) vs), t)"
proof -
  from collect_pages_filter [OF volumes_page_serves [OF assms(1)], of 0 s fuel unhealthy] assms(2,3)
  obtain t where "up (rt_world t)" "collect_pages fuel (unhealthy_page api) 0 s = (Ok (filter unhealthy vs), t)"
    by (auto simp: unhealthy_page_def [abs_def])
  then show ?thesis by (auto simp: list_unhealthy_volumes_def bindP_def conj_commute)
qed

definition patient :: "'w cluster \<Rightarrow> ('w \<Rightarrow> bool) \<Rightarrow> bool" where
  "patient api up \<longleftrightarrow> (\<forall>d w. up w \<longrightarrow> up (sleep_secs api d w))"

lemma rebuild_starts_up:
  "patient api up \<Longrightarrow> up (rt_world s) \<Longrightarrow> idle v \<Longrightarrow>
   \<exists>t. rebuild_starts api n v s = (Ok False, t) \<and> up (rt_world t)"
proof (induction n arbitrary: s)
  case (Suc n)
  then have "up (sleep_secs api 60 (rt_world s))" by (simp add: patient_def)
  from Suc.IH [OF Suc.prems(1), of "\<lparr>rt_world = sleep_secs api 60 (rt_world s),
      rt_trace = rt_trace s @ [EvSleep 60]\<rparr>"] this Suc.prems show ?case
    by (simp add: bindP_def sleep_def tick_def idle_def)
qed simp

text \<open>A pass over volumes none of which is being rebuilt.\<close>

lemma scan_volumes_idle:
  assumes "patient api up"
  shows "up (rt_world s) \<Longrightarrow> \<forall>v \<in> set vs. idle v \<Longrightarrow>
    \<exists>over' new t. scan_volumes api node vs over stale s = (Ok (Inl (over', stale @ new)), t) \<and> up (rt_world t) \<and>
      over' = over \<union> (\<Union>v \<in> set vs. case state_target v of None \<Rightarrow> {} | Some tg \<Rightarrow> volume_nodes v tg) \<and>
      (node \<notin> over' \<longrightarrow> new = [])"
proof (induction vs arbitrary: over stale s)
  case (Cons v vs)
  show ?case
  proof (cases "state_target v")
    case None
    with Cons.IH [of s over stale] Cons.prems show ?thesis by simp
  next
    case (Some tg)
    show ?thesis
    proof (cases "node \<in> over \<union> volume_nodes v tg")
      case True
      from Cons.prems have "idle v" by simp
      from rebuild_starts_up [OF assms Cons.prems(1) this, of 11] obtain t1 where
        t1: "rebuild_starts api 11 v s = (Ok False, t1)" "up (rt_world t1)" by blast
      from Cons.IH [OF t1(2), of "over \<union> volume_nodes v tg" "stale @ [v]"] Cons.prems obtain new t where
        "scan_volumes api node vs (over \<union> volume_nodes v tg) (stale @ [v]) t1 =
          (Ok (Inl (over \<union> volume_nodes v tg \<union> (\<Union>v \<in> set vs. case state_target v of None \<Rightarrow> {} | Some tg \<Rightarrow> volume_nodes v tg),
            stale @ v # new)), t)" "up (rt_world t)" by auto
      with t1 True \<open>idle v\<close> Some show ?thesis
        by (auto simp: bindP_def idle_def Un_assoc intro!: exI [of _ "v # new"])
    next
      case False
      with Cons.IH [of s "over \<union> volume_nodes v tg" stale] Cons.prems Some show ?thesis
        by (auto simp: Un_assoc)
    qed
  qed
qed simp

lemma fuel_le_rebuild_result [fuel_mono]:
  assumes "n \<le> n'"
  shows "fuel_le (rebuild_result_of n api stale node) (rebuild_result_of n' api stale node)"
  unfolding rebuild_result_of_def rebuild_pass_def list_unhealthy_volumes_def
  by (intro fuel_le_loop fuel_le_bind fuel_le_collect_pages assms fuel_le_refl)

lemma rebuild_pass_elsewhere:
  assumes "volumes_served api up vs" "patient api up" "length vs < fuel" "up (rt_world s)"
    and "\<forall>v \<in> set vs. unhealthy v \<longrightarrow> idle v \<and> (\<forall>tg. state_target v = Some tg \<longrightarrow> node \<notin> volume_nodes v tg)"
    and "\<exists>v \<in> set vs. unhealthy v \<and> state_target v \<noteq> None"
  shows "\<exists>t. rebuild_pass fuel api node [] s = (Ok (Inl []), t) \<and> up (rt_world t)"
proof -
  let ?vs = "filter (\<lambda>v. unhealthy v \<and> v \<notin> set []) vs"
  let ?over = "\<Union>v \<in> set ?vs. case state_target v of None \<Rightarrow> {} | Some tg \<Rightarrow> volume_nodes v tg"
  from list_unhealthy_served [OF assms(1,4,3)] obtain t1 where
    t1: "list_unhealthy_volumes fuel api [] s = (Ok ?vs, t1)" "up (rt_world t1)" by blast
  from assms(5) have "\<forall>v \<in> set ?vs. idle v" and node: "node \<notin> ?over"
    by (auto split: option.splits)
  from scan_volumes_idle [OF assms(2) t1(2) this(1), of node "{}" "[]"] node obtain t where
    "scan_volumes api node ?vs {} [] t1 = (Ok (Inl (?over, [])), t)" "up (rt_world t)" by auto
  moreover have "?vs \<noteq> []" "?over \<noteq> {}"
    using assms(6) volume_nodes_nonempty by (auto simp: filter_empty_conv split: option.splits)
  ultimately show ?thesis using t1 by (simp add: rebuild_pass_def bindP_def)
qed

text \<open>
  Property C8. While the only unhealthy volumes that still have a target live on other nodes
  than the one being upgraded, and none of them is being rebuilt, the search for rebuilds
  never returns, whatever the fuel: such volumes are neither waited for nor discarded.
\<close>

theorem rebuild_result_endless:
  assumes "volumes_served api up vs" "patient api up" "up (rt_world s)"
    and "\<forall>v \<in> set vs. unhealthy v \<longrightarrow> idle v \<and> (\<forall>tg. state_target v = Some tg \<longrightarrow> node \<notin> volume_nodes v tg)"
    and "\<exists>v \<in> set vs. unhealthy v \<and> state_target v \<noteq> None"
  shows "\<not> finished (rebuild_result_of fuel api [] node s)"
proof
  assume fin: "finished (rebuild_result_of fuel api [] node s)"
  define big where "big = max fuel (Suc (length vs))"
  have "rebuild_result_of big api [] node s = rebuild_result_of fuel api [] node s"
    by (rule fuel_leD [OF fuel_le_rebuild_result fin]) (simp add: big_def)
  moreover have "\<not> finished (rebuild_result_of big api [] node s)"
    unfolding rebuild_result_of_def
  proof (rule loop_never_finishes [where P = "\<lambda>st s. st = [] \<and> up (rt_world s)"])
    show "\<exists>b' t. rebuild_pass big api node b s = (Ok (Inl b'), t) \<and> b' = [] \<and> up (rt_world t)"
      if "b = [] \<and> up (rt_world s)" for b s
      using rebuild_pass_elsewhere [OF assms(1,2) _ _ assms(4,5), of big s] that by (auto simp: big_def)
  qed (use assms(3) in simp)
  ultimately show False using fin by simp
qed

lemma rebuild_pass_idle:
  assumes "volumes_served api up vs" "patient api up" "length vs < fuel" "up (rt_world s)"
    and "\<forall>v \<in> set vs. unhealthy v \<longrightarrow> idle v \<and> (\<forall>tg. state_target v = Some tg \<longrightarrow> node \<in> volume_nodes v tg)"
  shows "\<exists>r t. rebuild_pass fuel api node stale s = (Ok r, t) \<and> up (rt_world t) \<and>
    (case r of Inr res \<Rightarrow> \<not> rebuilding res
     | Inl stale' \<Rightarrow> \<forall>v \<in> set vs. unhealthy v \<longrightarrow> state_target v \<noteq> None \<longrightarrow> v \<in> set stale') \<and>
    ((\<forall>v \<in> set vs. unhealthy v \<longrightarrow> state_target v \<noteq> None \<longrightarrow> v \<in> set stale) \<longrightarrow> (\<exists>res. r = Inr res))"
proof -
  let ?vs = "filter (\<lambda>v. unhealthy v \<and> v \<notin> set stale) vs"
  from list_unhealthy_served [OF assms(1,4,3)] obtain t1 where
    t1: "list_unhealthy_volumes fuel api stale s = (Ok ?vs, t1)" "up (rt_world t1)" by blast
  from assms(5) have "\<forall>v \<in> set ?vs. idle v" by auto
  from scan_volumes_idle [OF assms(2) t1(2) this, of node "{}" stale] obtain over new t where
    t: "scan_volumes api node ?vs {} stale t1 = (Ok (Inl (over, stale @ new)), t)" "up (rt_world t)" and
    over: "over = (\<Union>v \<in> set ?vs. case state_target v of None \<Rightarrow> {} | Some tg \<Rightarrow> volume_nodes v tg)" by auto
  from scan_volumes_result [of api node ?vs "{}" stale t1] t
  have "scan_ok node ?vs {} stale (Inl (over, stale @ new))" by auto
  then have all: "\<forall>v \<in> set ?vs. state_target v \<noteq> None \<longrightarrow> v \<in> set new"
    using assms(5) by (auto simp: scan_ok_def)
  from over have "over = {}"
    if "\<forall>v \<in> set vs. unhealthy v \<longrightarrow> state_target v \<noteq> None \<longrightarrow> v \<in> set stale"
    using that by (auto split: option.splits)
  with t1 t all assms(4) show ?thesis
    by (cases "?vs = []"; cases "over = {}") (auto simp: rebuild_pass_def bindP_def)
qed


end
