(* ===== verification/DataPlane.thy ===== *)
theory DataPlane
  imports UpgradeUtils
begin

text \<open>
  The data-plane upgrade (\<open>upgrade/data_plane.rs\<close> of the upgrade job): one io-engine pod after
  another is drained, deleted, and waited for.  The program records every request it
  makes, so that the theorems speak about the order of the requests, for every cluster and
  every amount of fuel, including runs that never end.
\<close>

section \<open>The functions\<close>

definition has_label :: "string \<Rightarrow> string list \<Rightarrow> bool" where
  "has_label l ls \<longleftrightarrow> l \<in> set ls"

definition uncordon_drained_storage_node ::
  "nat \<Rightarrow> 'w cluster \<Rightarrow> product \<Rightarrow> string \<Rightarrow> ('w, unit) job" where
  "uncordon_drained_storage_node fuel api pc node_id =
     loopP fuel (\<lambda>_.
       bindP (fetch_node api node_id) (\<lambda>st.
       case st of
         Some (drainedstate drainlabels) \<Rightarrow>
           if has_label (drain_for_upgrade pc) drainlabels
           then bindP (logged (delete_node_cordon api node_id (drain_for_upgrade pc))
                         (EvDelCordon node_id (drain_for_upgrade pc)) (\<lambda>e. StorageNodeUncordon e node_id)) (\<lambda>_.
                bindP (sleep api 1) (\<lambda>_. retP (Inl ())))
           else retP (Inr ())
       | _ \<Rightarrow> retP (Inr ()))) ()"

definition delete_data_plane_pod :: "'w cluster \<Rightarrow> string \<Rightarrow> pod \<Rightarrow> string \<Rightarrow> ('w, unit) job" where
  "delete_data_plane_pod api node_name pod namespace =
     bindP (client api) (\<lambda>_.
     logged (pods_delete api namespace (name_any pod)) (EvPodDelete namespace (name_any pod))
       (\<lambda>e. PodDelete e (name_any pod) node_name))"

definition running_label :: "string \<Rightarrow> string" where
  "running_label hash = IO_ENGINE_LABEL @ '','' @ DS_CONTROLLER_REVISION_HASH_LABEL_KEY @ ''='' @ hash"

definition node_field :: "string \<Rightarrow> string" where
  "node_field node = ''spec.nodeName='' @ node"

definition data_plane_pod_is_running ::
  "nat \<Rightarrow> 'w cluster \<Rightarrow> string \<Rightarrow> string \<Rightarrow> string \<Rightarrow> ('w, bool) job" where
  "data_plane_pod_is_running fuel api node namespace hash =
     bindP (list_pods fuel api namespace (Some (running_label hash)) (Some (node_field node))) (\<lambda>pod_list.
     if pod_list = [] then retP False
     else if length pod_list \<noteq> 1 then failP (TooManyIoEnginePods node)
     else retP (all_pods_are_ready pod_list))"

definition verify_data_plane_pod_is_running ::
  "nat \<Rightarrow> 'w cluster \<Rightarrow> string \<Rightarrow> string \<Rightarrow> string \<Rightarrow> ('w, unit) job" where
  "verify_data_plane_pod_is_running fuel api node_name namespace hash =
     loopP fuel (\<lambda>_.
       bindP (data_plane_pod_is_running fuel api node_name namespace hash) (\<lambda>running.
       if running then retP (Inr ())
       else bindP (sleep api 5) (\<lambda>_. retP (Inl ())))) ()"

definition wait_for_rebuild :: "nat \<Rightarrow> 'w cluster \<Rightarrow> string \<Rightarrow> ('w, unit) job" where
  "wait_for_rebuild fuel api node_name =
     bindP (sleep api 60) (\<lambda>_.
     loopP fuel (\<lambda>discarded.
       bindP (rebuild_result_of fuel api discarded node_name) (\<lambda>rebuild.
       if rebuilding rebuild
       then bindP (sleep api 10) (\<lambda>_. retP (Inl (discarded_volumes rebuild)))
       else retP (Inr ()))) (discarded_volumes rebuild_result_default))"

definition drain_storage_node :: "nat \<Rightarrow> 'w cluster \<Rightarrow> product \<Rightarrow> string \<Rightarrow> ('w, unit) job" where
  "drain_storage_node fuel api pc node_id =
     loopP fuel (\<lambda>_.
       bindP (fetch_node api node_id) (\<lambda>st.
       let issue = bindP (logged (put_node_drain api node_id (drain_for_upgrade pc))
                            (EvPutDrain node_id (drain_for_upgrade pc)) (\<lambda>e. DrainStorageNode e node_id))
                     (\<lambda>_. retP (Inl ()))
       in case st of
            Some (drainingstate drainlabels) \<Rightarrow>
              if has_label (drain_for_upgrade pc) drainlabels
              then bindP (sleep api 5) (\<lambda>_. retP (Inl ()))
              else issue
          | Some (drainedstate drainlabels) \<Rightarrow>
              if has_label (drain_for_upgrade pc) drainlabels then retP (Inr ()) else issue
          | _ \<Rightarrow> issue)) ()"

definition control_plane_is_running :: "nat \<Rightarrow> 'w cluster \<Rightarrow> product \<Rightarrow> string \<Rightarrow> ('w, bool) job" where
  "control_plane_is_running fuel api pc namespace =
     bindP (list_pods fuel api namespace (Some AGENT_CORE_LABEL) None) (\<lambda>core.
     bindP (list_pods fuel api namespace (Some (API_REST_LABEL pc)) None) (\<lambda>rest.
     bindP (list_pods fuel api namespace (Some (ETCD_LABEL pc)) None) (\<lambda>etcd.
     retP (all_pods_are_ready core \<and> all_pods_are_ready rest \<and> all_pods_are_ready etcd))))"

definition verify_control_plane_is_running :: "nat \<Rightarrow> 'w cluster \<Rightarrow> product \<Rightarrow> string \<Rightarrow> ('w, unit) job" where
  "verify_control_plane_is_running fuel api pc namespace =
     loopP fuel (\<lambda>_.
       bindP (control_plane_is_running fuel api pc namespace) (\<lambda>running.
       if running then retP (Inr ())
       else bindP (sleep api 3) (\<lambda>_. retP (Inl ())))) ()"

definition target_frontend_nodes :: "string \<Rightarrow> volume list \<Rightarrow> string list" where
  "target_frontend_nodes node_name volumes =
     fold (\<lambda>volume acc.
       case spec_target volume of
         None \<Rightarrow> acc
       | Some target \<Rightarrow>
           if target_node target = node_name
           then (case frontend_nodes target of None \<Rightarrow> acc | Some ns \<Rightarrow> acc @ ns)
           else acc) volumes []"

definition frontend_nodes_ana_check ::
  "nat \<Rightarrow> 'w cluster \<Rightarrow> string \<Rightarrow> string list \<Rightarrow> ('w, bool) job" where
  "frontend_nodes_ana_check fuel api node_name ana_disabled_nodes =
     bindP (list_all_volumes fuel api) (\<lambda>volumes.
     if list_ex (\<lambda>node. node \<in> set (target_frontend_nodes node_name volumes)) ana_disabled_nodes
     then retP False else retP True)"

definition ana_disabled_label :: "product \<Rightarrow> string" where
  "ana_disabled_label pc = csi_node_nvme_ana pc @ ''=false''"

definition is_node_drainable :: "nat \<Rightarrow> 'w cluster \<Rightarrow> product \<Rightarrow> bool \<Rightarrow> string \<Rightarrow> ('w, bool) job" where
  "is_node_drainable fuel api pc ha_is_enabled node_name =
     (if \<not> ha_is_enabled then retP False
      else bindP (list_nodes_metadata fuel api (Some (ana_disabled_label pc)) None) (\<lambda>ana_disabled_nodes.
        if ana_disabled_nodes = [] then retP True
        else bindP (cordon_storage_node api node_name (cordon_ana_check pc)) (\<lambda>_.
             bindP (tryP (frontend_nodes_ana_check fuel api node_name ana_disabled_nodes)) (\<lambda>result.
             bindP (uncordon_storage_node api node_name (cordon_ana_check pc)) (\<lambda>_.
             liftR result)))))"

text \<open>The body of the \<open>for\<close> loop: everything that happens to one pod.\<close>

definition pod_node :: "string \<Rightarrow> pod \<Rightarrow> (upgrade_error, string) res" where
  "pod_node namespace pod =
     res_bind (ok_or (EmptyPodSpec (name_any pod) namespace) (pod_node_name pod)) (\<lambda>spec.
     ok_or (EmptyPodNodeName (name_any pod) namespace) spec)"

definition upgrade_pod ::
  "nat \<Rightarrow> 'w cluster \<Rightarrow> product \<Rightarrow> string \<Rightarrow> string \<Rightarrow> bool \<Rightarrow> pod \<Rightarrow> ('w, unit) job" where
  "upgrade_pod fuel api pc namespace hash ha_is_enabled pod =
     bindP (verify_control_plane_is_running fuel api pc namespace) (\<lambda>_.
     bindP (liftR (pod_node namespace pod)) (\<lambda>node_name.
     bindP (wait_for_rebuild fuel api node_name) (\<lambda>_.
     bindP (is_node_drainable fuel api pc ha_is_enabled node_name) (\<lambda>drainable.
     bindP (if drainable then drain_storage_node fuel api pc node_name else retP ()) (\<lambda>_.
     bindP (delete_data_plane_pod api node_name pod namespace) (\<lambda>_.
     bindP (verify_data_plane_pod_is_running fuel api node_name namespace hash) (\<lambda>_.
     uncordon_drained_storage_node fuel api pc node_name)))))))"

definition upgrade_data_plane ::
  "nat \<Rightarrow> 'w cluster \<Rightarrow> product \<Rightarrow> string \<Rightarrow> string \<Rightarrow> string \<Rightarrow> bool \<Rightarrow> string \<Rightarrow> pod list \<Rightarrow> ('w, unit) job" where
  "upgrade_data_plane fuel api pc namespace rest_endpoint hash ha_is_enabled
     yet_to_upgrade_io_engine_label yet_to_upgrade_io_engine_pods =
     (if yet_to_upgrade_io_engine_pods = [] then retP ()
      else bindP (liftR (new_with_url api rest_endpoint)) (\<lambda>_.
           bindP (logged (get_nodes api) EvGetNodes ListStorageNodes) (\<lambda>storage_nodes.
           bindP (forP storage_nodes (\<lambda>n. uncordon_drained_storage_node fuel api pc (storage_node_id n))) (\<lambda>_.
           loopP fuel (\<lambda>_.
             bindP (list_pods fuel api namespace (Some yet_to_upgrade_io_engine_label) None) (\<lambda>pods.
             if pods = [] then retP (Inr ())
             else bindP (forP pods (upgrade_pod fuel api pc namespace hash ha_is_enabled)) (\<lambda>_.
                  retP (Inl ())))) ()))))"

section \<open>What the requests have to look like\<close>

text \<open>Requests that do not delete a pod.\<close>

fun keeps_pods :: "event \<Rightarrow> bool" where
  "keeps_pods (EvPodDelete _ _ _) = False"
| "keeps_pods _ = True"

text \<open>The control plane was seen ready: complete listings of the three kinds of pods, all ready.\<close>

definition control_plane_seen :: "product \<Rightarrow> string \<Rightarrow> event list \<Rightarrow> bool" where
  "control_plane_seen pc namespace d \<longleftrightarrow> (\<exists>d0 d1 d2 d3 core rest etcd. d = d0 @ d1 @ d2 @ d3 \<and>
     pods_listing namespace (Some AGENT_CORE_LABEL) None core d1 \<and> all_pods_are_ready core \<and>
     pods_listing namespace (Some (API_REST_LABEL pc)) None rest d2 \<and> all_pods_are_ready rest \<and>
     pods_listing namespace (Some (ETCD_LABEL pc)) None etcd d3 \<and> all_pods_are_ready etcd)"

text \<open>
  Whether a node may be drained: only with HA, and only when no node without ANA is a
  frontend of a volume whose target is on the node.
\<close>

definition drain_decision :: "product \<Rightarrow> bool \<Rightarrow> string \<Rightarrow> bool \<Rightarrow> event list \<Rightarrow> bool" where
  "drain_decision pc ha node b d \<longleftrightarrow>
     (if \<not> ha then \<not> b \<and> d = []
      else \<exists>d1 d2 nodes. d = d1 @ d2 \<and> nodes_listing (Some (ana_disabled_label pc)) None nodes d1 \<and>
        (if nodes = [] then b \<and> d2 = []
         else \<exists>d3 d4 d5 vs. d2 = d3 @ d4 @ d5 \<and> volumes_listing vs d4 \<and>
           (b \<longleftrightarrow> set nodes \<inter> set (target_frontend_nodes node vs) = {})))"

definition drained_seen :: "product \<Rightarrow> string \<Rightarrow> event list \<Rightarrow> bool" where
  "drained_seen pc node d \<longleftrightarrow> (\<exists>d0 n ls. d = d0 @ [EvGetNode node (Inr n)] \<and>
     node_spec n = Some (Some (drainedstate ls)) \<and> drain_for_upgrade pc \<in> set ls)"

definition uncordoned_seen :: "product \<Rightarrow> string \<Rightarrow> event list \<Rightarrow> bool" where
  "uncordoned_seen pc node d \<longleftrightarrow> (\<exists>d0 n. d = d0 @ [EvGetNode node (Inr n)] \<and>
     (\<forall>ls. node_spec n = Some (Some (drainedstate ls)) \<longrightarrow> drain_for_upgrade pc \<notin> set ls))"

text \<open>The new pod was seen: one pod with the latest revision on the node, and it is ready.\<close>

definition pod_back_seen :: "string \<Rightarrow> string \<Rightarrow> string \<Rightarrow> event list \<Rightarrow> bool" where
  "pod_back_seen namespace hash node d \<longleftrightarrow> (\<exists>d0 d1 p. d = d0 @ d1 \<and>
     pods_listing namespace (Some (running_label hash)) (Some (node_field node)) [p] d1 \<and> all_pods_are_ready [p])"

text \<open>What precedes the deletion of a pod on a node, and what follows it.\<close>

definition restart_guard :: "product \<Rightarrow> string \<Rightarrow> bool \<Rightarrow> string \<Rightarrow> event list \<Rightarrow> bool" where
  "restart_guard pc namespace ha node d \<longleftrightarrow> list_all keeps_pods d \<and>
     (\<exists>d1 d2 d3 d4 b. d = d1 @ d2 @ d3 @ d4 \<and> control_plane_seen pc namespace d1 \<and> settled d2 \<and>
        drain_decision pc ha node b d3 \<and> (if b then drained_seen pc node d4 else d4 = []))"

definition pod_restart :: "product \<Rightarrow> string \<Rightarrow> string \<Rightarrow> bool \<Rightarrow> pod \<Rightarrow> event list \<Rightarrow> bool" where
  "pod_restart pc namespace hash ha pod d \<longleftrightarrow> (\<exists>node pre d1 d2. pod_node_name pod = Some (Some node) \<and>
     d = pre @ [EvClient (Inr ()), EvPodDelete namespace (name_any pod) (Inr ())] @ d1 @ d2 \<and>
     restart_guard pc namespace ha node pre \<and>
     list_all keeps_pods d1 \<and> pod_back_seen namespace hash node d1 \<and>
     list_all keeps_pods d2 \<and> uncordoned_seen pc node d2)"

definition pod_restart_cut :: "product \<Rightarrow> string \<Rightarrow> bool \<Rightarrow> pod \<Rightarrow> event list \<Rightarrow> bool" where
  "pod_restart_cut pc namespace ha pod d \<longleftrightarrow> list_all keeps_pods d \<or>
     (\<exists>node pre r post. pod_node_name pod = Some (Some node) \<and>
        d = pre @ [EvClient (Inr ()), EvPodDelete namespace (name_any pod) r] @ post \<and>
        restart_guard pc namespace ha node pre \<and> list_all keeps_pods post)"

text \<open>A round: the pods to upgrade are listed, then restarted one after the other.\<close>

definition upgrade_round :: "product \<Rightarrow> string \<Rightarrow> string \<Rightarrow> bool \<Rightarrow> string \<Rightarrow> event list \<Rightarrow> bool" where
  "upgrade_round pc namespace hash ha label d \<longleftrightarrow> (\<exists>ps d0 ds. d = d0 @ concat ds \<and> ps \<noteq> [] \<and>
     pods_listing namespace (Some label) None ps d0 \<and> list_all keeps_pods d0 \<and>
     list_all2 (pod_restart pc namespace hash ha) ps ds)"

definition upgrade_round_cut :: "product \<Rightarrow> string \<Rightarrow> string \<Rightarrow> bool \<Rightarrow> string \<Rightarrow> event list \<Rightarrow> bool" where
  "upgrade_round_cut pc namespace hash ha label d \<longleftrightarrow> list_all keeps_pods d \<or>
     (\<exists>ps p qs d0 ds d1. d = d0 @ concat ds @ d1 \<and>
        pods_listing namespace (Some label) None (ps @ p # qs) d0 \<and> list_all keeps_pods d0 \<and>
        list_all2 (pod_restart pc namespace hash ha) ps ds \<and> pod_restart_cut pc namespace ha p d1)"

section \<open>What the functions request\<close>

lemma is_read_keeps_pod: "is_read e \<Longrightarrow> keeps_pods e"
  by (cases e) auto

lemma is_read_keeps_pods: "list_all is_read d \<Longrightarrow> list_all keeps_pods d"
  by (auto simp: list_all_iff is_read_keeps_pod)

lemma emits_fetch_node:
  "emits (fetch_node api node) (\<lambda>st d. \<exists>n. d = [EvGetNode node (Inr n)] \<and> node_spec n = Some st) (list_all is_read)"
  unfolding fetch_node_def
  by (rule emits_bindI [OF emits_logged [where Q = "\<lambda>n d. d = [EvGetNode node (Inr n)]" and I = "list_all is_read"],
        where R = "\<lambda>n st d. node_spec n = Some st \<and> d = []" and J = "\<lambda>_ d. d = []"])
    (auto intro: emits_liftR simp: ok_or_eq_Inr)

text \<open>\<open>while !check { sleep }\<close>.\<close>

lemma emits_poll:
  assumes check: "emits check (\<lambda>b d. list_all is_read d \<and> (b \<longrightarrow> Q d)) (list_all is_read)"
    and Q: "\<And>d e. Q d \<Longrightarrow> Q (e @ d)"
  shows "emits (loopP fuel (\<lambda>_. bindP check (\<lambda>b. if b then retP (Inr ())
           else bindP (sleep api secs) (\<lambda>_. retP (Inl ())))) ()) (\<lambda>_ d. list_all is_read d \<and> Q d) (list_all is_read)"
proof (rule emits_loop [where P = "\<lambda>_. list_all is_read"], goal_cases)
  case (1 u)
  have "emits (if b then retP (Inr ()) else bindP (sleep api secs) (\<lambda>_. retP (Inl ())))
      (\<lambda>r d. case r of Inr _ \<Rightarrow> b \<and> d = [] | Inl _ \<Rightarrow> list_all is_read d) (list_all is_read)" for b
    by (auto simp: emits_def sleep_def tick_def bindP_def)
  from emits_bind [OF check this] show ?case
    by (rule emits_conseq) (auto simp: Q split: sum.splits)
qed auto

lemma control_plane_seen_append: "control_plane_seen pc namespace d \<Longrightarrow> control_plane_seen pc namespace (e @ d)"
  unfolding control_plane_seen_def by (metis append_assoc)

lemma pod_back_seen_append: "pod_back_seen namespace hash node d \<Longrightarrow> pod_back_seen namespace hash node (e @ d)"
  unfolding pod_back_seen_def by (metis append_assoc)

lemma emits_control_plane:
  "emits (control_plane_is_running fuel api pc namespace)
     (\<lambda>b d. list_all is_read d \<and> (b \<longrightarrow> control_plane_seen pc namespace d)) (list_all is_read)"
  unfolding control_plane_is_running_def
proof (rule emits_conseq [OF emits_bind [OF emits_list_pods emits_bind [OF emits_list_pods
        emits_bind [OF emits_list_pods emits_ret_exact]]]], goal_cases)
  case (1 b d)
  then obtain core rest etcd d1 d2 d3 where "d = [] @ d1 @ d2 @ d3" "list_all is_read d"
    "pods_listing namespace (Some AGENT_CORE_LABEL) None core d1"
    "pods_listing namespace (Some (API_REST_LABEL pc)) None rest d2"
    "pods_listing namespace (Some (ETCD_LABEL pc)) None etcd d3"
    "b \<longrightarrow> all_pods_are_ready core \<and> all_pods_are_ready rest \<and> all_pods_are_ready etcd"
    by (elim exE conjE) simp
  then show ?case unfolding control_plane_seen_def by blast
qed auto

lemma emits_verify_control_plane:
  "emits (verify_control_plane_is_running fuel api pc namespace)
     (\<lambda>_ d. list_all is_read d \<and> control_plane_seen pc namespace d) (list_all is_read)"
  unfolding verify_control_plane_is_running_def
  by (rule emits_poll [OF emits_control_plane control_plane_seen_append])

lemma emits_pod_is_running:
  "emits (data_plane_pod_is_running fuel api node namespace hash)
     (\<lambda>b d. list_all is_read d \<and> (b \<longrightarrow> pod_back_seen namespace hash node d)) (list_all is_read)"
  unfolding data_plane_pod_is_running_def
proof (rule emits_bindI [OF emits_list_pods, where J = "\<lambda>_ d. d = []" and
      R = "\<lambda>ps b d. d = [] \<and> (b \<longrightarrow> (\<exists>p. ps = [p] \<and> all_pods_are_ready [p]))"], goal_cases)
  case (1 ps)
  show ?case
    by (cases "ps = []"; cases "length ps = 1")
      (auto intro!: emits_ret emits_fail simp: length_Suc_conv simp del: all_pods_are_ready.simps)
next
  case (2 ps b d1 d2)
  then have "pods_listing namespace (Some (running_label hash)) (Some (node_field node)) ps ([] @ d1 @ d2)" by simp
  with 2 show ?case unfolding pod_back_seen_def append_Nil
    by (metis append_Nil append_Nil2)
qed auto

lemma emits_verify_data_plane_pod:
  "emits (verify_data_plane_pod_is_running fuel api node namespace hash)
     (\<lambda>_ d. list_all is_read d \<and> pod_back_seen namespace hash node d) (list_all is_read)"
  unfolding verify_data_plane_pod_is_running_def
  by (rule emits_poll [OF emits_pod_is_running pod_back_seen_append])

lemma emits_wait_for_rebuild:
  "emits (wait_for_rebuild fuel api node) (\<lambda>_ d. list_all is_read d \<and> settled d) (list_all is_read)"
proof -
  have round: "emits (bindP (rebuild_result_of fuel api stale node) (\<lambda>rebuild.
       if rebuilding rebuild
       then bindP (sleep api 10) (\<lambda>_. retP (Inl (discarded_volumes rebuild)))
       else retP (Inr ())))
      (\<lambda>r d. list_all is_read d \<and> (case r of Inl st \<Rightarrow> list_all idle st | Inr _ \<Rightarrow> settled d)) (list_all is_read)"
    if "list_all idle stale" for stale
  proof (rule emits_bindI [OF emits_rebuild_result [OF that], where J = "\<lambda>_. list_all is_read" and
        R = "\<lambda>res r d. list_all is_read d \<and>
          (case r of Inl st \<Rightarrow> st = discarded_volumes res | Inr _ \<Rightarrow> \<not> rebuilding res \<and> d = [])"], goal_cases)
    case (1 res)
    show ?case by (auto simp: emits_def sleep_def tick_def bindP_def)
  qed (auto split: sum.splits)
  have "emits (loopP fuel (\<lambda>stale. bindP (rebuild_result_of fuel api stale node) (\<lambda>rebuild.
       if rebuilding rebuild
       then bindP (sleep api 10) (\<lambda>_. retP (Inl (discarded_volumes rebuild)))
       else retP (Inr ()))) (discarded_volumes rebuild_result_default))
      (\<lambda>_ d. list_all is_read d \<and> settled d) (list_all is_read)"
  proof (rule emits_loop [where P = "\<lambda>st d. list_all idle st \<and> list_all is_read d"], goal_cases)
    case (1 stale)
    show ?case
    proof (cases "list_all idle stale")
      case True
      show ?thesis by (rule emits_conseq [OF round [OF True]]) (auto simp: settled_append split: sum.splits)
    next
      case False
      then show ?thesis
        by (intro emits_conseq [OF only_emits [where X = is_read]]) (auto intro!: only_rules)
    qed
  qed (auto simp: rebuild_result_default_def)
  then show ?thesis unfolding wait_for_rebuild_def
    by (rule emits_bindI [OF only_emits [OF only_read_basic(1)]]) (auto simp: settled_append)
qed

lemma drained_seen_append: "drained_seen pc node d \<Longrightarrow> drained_seen pc node (e @ d)"
  unfolding drained_seen_def by (metis append_assoc)

lemma uncordoned_seen_append: "uncordoned_seen pc node d \<Longrightarrow> uncordoned_seen pc node (e @ d)"
  unfolding uncordoned_seen_def by (metis append_assoc)

lemma emits_call_again:
  "(\<And>r. X (ev r)) \<Longrightarrow> emits (bindP (logged f ev ctx) (\<lambda>_. retP (Inl ()))) (\<lambda>r d. r = Inl () \<and> list_all X d) (list_all X)"
  by (rule emits_bindI [OF only_emits [OF only_logged] emits_ret_exact]) auto

lemma emits_sleep_again:
  "emits (bindP (sleep api secs) (\<lambda>_. retP (Inl ()))) (\<lambda>r d. r = Inl () \<and> list_all keeps_pods d) (list_all keeps_pods)"
  by (auto simp: emits_def sleep_def tick_def bindP_def)

lemma emits_drain:
  "emits (drain_storage_node fuel api pc node)
     (\<lambda>_ d. list_all keeps_pods d \<and> drained_seen pc node d) (list_all keeps_pods)"
  unfolding drain_storage_node_def Let_def
proof (rule emits_loop [where P = "\<lambda>_. list_all keeps_pods"], goal_cases)
  case (1 u)
  show ?case
  proof (rule emits_bindI [OF emits_fetch_node, where J = "\<lambda>_. list_all keeps_pods" and
      R = "\<lambda>st r d. list_all keeps_pods d \<and> (r = Inr () \<longrightarrow> d = [] \<and>
        (\<exists>ls. st = Some (drainedstate ls) \<and> drain_for_upgrade pc \<in> set ls))"], goal_cases)
    case (1 st)
    note again = emits_conseq [OF emits_sleep_again] emits_conseq [OF emits_call_again [of keeps_pods]]
    show ?case
      by (auto simp: has_label_def intro!: again emits_ret split: option.splits cordon_drain_state.splits)
  next
    case (2 st r d1 d2)
    then show ?case by (cases r) (auto simp: drained_seen_def)
  qed (auto dest: is_read_keeps_pods)
qed auto

lemma emits_uncordon_drained:
  "emits (uncordon_drained_storage_node fuel api pc node)
     (\<lambda>_ d. list_all keeps_pods d \<and> uncordoned_seen pc node d) (list_all keeps_pods)"
  unfolding uncordon_drained_storage_node_def
proof (rule emits_loop [where P = "\<lambda>_. list_all keeps_pods"], goal_cases)
  case (1 u)
  show ?case
  proof (rule emits_bindI [OF emits_fetch_node, where J = "\<lambda>_. list_all keeps_pods" and
      R = "\<lambda>st r d. list_all keeps_pods d \<and> (r = Inr () \<longrightarrow> d = [] \<and>
        (\<forall>ls. st = Some (drainedstate ls) \<longrightarrow> drain_for_upgrade pc \<notin> set ls))"], goal_cases)
    case (1 st)
    have "emits (bindP (logged (delete_node_cordon api node (drain_for_upgrade pc))
             (EvDelCordon node (drain_for_upgrade pc)) (\<lambda>e. StorageNodeUncordon e node))
           (\<lambda>_. bindP (sleep api 1) (\<lambda>_. retP (Inl ()))))
        (\<lambda>r d. r = Inl () \<and> list_all keeps_pods d) (list_all keeps_pods)"
      by (rule emits_bindI [OF only_emits [OF only_logged] emits_sleep_again]) auto
    note again = emits_conseq [OF this]
    show ?case
      by (auto simp: has_label_def intro!: again emits_ret split: option.splits cordon_drain_state.splits
          simp del: One_nat_def)
  next
    case (2 st r d1 d2)
    then show ?case by (cases r) (auto simp: uncordoned_seen_def)
  qed (auto dest: is_read_keeps_pods)
qed auto

lemma keeps_pods_cordons:
  "only keeps_pods (cordon_storage_node api node label)"
  "only keeps_pods (uncordon_storage_node api node label)"
proof -
  have "only keeps_pods (fetch_node api node)"
    by (rule only_mono [OF only_read_fetch is_read_keeps_pod])
  then show "only keeps_pods (cordon_storage_node api node label)"
    "only keeps_pods (uncordon_storage_node api node label)"
    unfolding cordon_storage_node_def uncordon_storage_node_def by (auto intro!: only_rules)
qed

lemma emits_ana_check:
  "emits (frontend_nodes_ana_check fuel api node nodes)
     (\<lambda>b d. list_all keeps_pods d \<and> (\<exists>vs. volumes_listing vs d \<and>
        (b \<longleftrightarrow> set nodes \<inter> set (target_frontend_nodes node vs) = {}))) (list_all keeps_pods)"
  unfolding frontend_nodes_ana_check_def
  by (rule emits_bindI [OF emits_list_all_volumes, where J = "\<lambda>_ _. False" and
        R = "\<lambda>vs b d. d = [] \<and> (b \<longleftrightarrow> set nodes \<inter> set (target_frontend_nodes node vs) = {})"])
    (auto intro!: emits_ret dest: is_read_keeps_pods simp: list_ex_iff)

lemma drain_decisionI:
  assumes "ha" "nodes_listing (Some (ana_disabled_label pc)) None nodes d1"
    and "if nodes = [] then b \<and> d2 = []
         else \<exists>d3 d4 d5 vs. d2 = d3 @ d4 @ d5 \<and> volumes_listing vs d4 \<and>
           (b \<longleftrightarrow> set nodes \<inter> set (target_frontend_nodes node vs) = {})"
  shows "drain_decision pc ha node b (d1 @ d2)"
proof -
  from assms(1) have "(\<not> ha) = False" by simp
  then show ?thesis unfolding drain_decision_def
    by (simp only: if_False) (rule exI [of _ d1], rule exI [of _ d2], rule exI [of _ nodes], use assms in blast)
qed

lemma emits_drainable:
  "emits (is_node_drainable fuel api pc ha node)
     (\<lambda>b d. list_all keeps_pods d \<and> drain_decision pc ha node b d) (list_all keeps_pods)"
proof (cases ha)
  case False
  then show ?thesis by (simp add: is_node_drainable_def drain_decision_def emits_def)
next
  case True
  have tried: "emits (tryP (frontend_nodes_ana_check fuel api node nodes) :: ('a, _) job)
      (\<lambda>r d. list_all keeps_pods d \<and> (\<forall>b. r = Inr b \<longrightarrow> (\<exists>vs. volumes_listing vs d \<and>
         (b \<longleftrightarrow> set nodes \<inter> set (target_frontend_nodes node vs) = {})))) (list_all keeps_pods)" for nodes
    by (rule emits_conseq [OF emits_try [OF emits_ana_check]]) (auto split: sum.splits)
  have check: "emits (bindP (cordon_storage_node api node (cordon_ana_check pc)) (\<lambda>_.
             bindP (tryP (frontend_nodes_ana_check fuel api node nodes)) (\<lambda>result.
             bindP (uncordon_storage_node api node (cordon_ana_check pc)) (\<lambda>_. liftR result))))
      (\<lambda>b d. list_all keeps_pods d \<and> (\<exists>d3 d4 d5 vs. d = d3 @ d4 @ d5 \<and> volumes_listing vs d4 \<and>
           (b \<longleftrightarrow> set nodes \<inter> set (target_frontend_nodes node vs) = {}))) (list_all keeps_pods)" for nodes
  proof (rule emits_conseq [OF emits_bind [OF only_emits [OF keeps_pods_cordons(1)]
        emits_bind [OF tried
        emits_bind [OF only_emits [OF keeps_pods_cordons(2)]
          emits_liftR_exact]]]], goal_cases)
    case (1 b d)
    then show ?case by fastforce
  qed auto
  have "emits (bindP (list_nodes_metadata fuel api (Some (ana_disabled_label pc)) None) (\<lambda>nodes.
        if nodes = [] then retP True
        else bindP (cordon_storage_node api node (cordon_ana_check pc)) (\<lambda>_.
             bindP (tryP (frontend_nodes_ana_check fuel api node nodes)) (\<lambda>result.
             bindP (uncordon_storage_node api node (cordon_ana_check pc)) (\<lambda>_. liftR result)))))
      (\<lambda>b d. list_all keeps_pods d \<and> drain_decision pc ha node b d) (list_all keeps_pods)"
  proof (rule emits_bindI [OF emits_list_nodes_metadata, where J = "\<lambda>_. list_all keeps_pods" and
      R = "\<lambda>nodes b d. list_all keeps_pods d \<and> (if nodes = [] then b \<and> d = []
         else \<exists>d3 d4 d5 vs. d = d3 @ d4 @ d5 \<and> volumes_listing vs d4 \<and>
           (b \<longleftrightarrow> set nodes \<inter> set (target_frontend_nodes node vs) = {}))"], goal_cases)
    case (1 nodes)
    show ?case using check [of nodes] by (cases "nodes = []") (simp_all add: emits_ret)
  next
    case (2 nodes b d1 d2)
    then have "list_all keeps_pods (d1 @ d2)" by (auto dest: is_read_keeps_pods)
    moreover have "drain_decision pc ha node b (d1 @ d2)"
      by (rule drain_decisionI [OF True]) (use 2 in blast)+
    ultimately show ?case ..
  qed (auto dest: is_read_keeps_pods)
  with True show ?thesis by (simp add: is_node_drainable_def)
qed

text \<open>Everything before the deletion.\<close>

lemma emits_guard:
  "emits (bindP (verify_control_plane_is_running fuel api pc namespace) (\<lambda>_.
     bindP (liftR (pod_node namespace pod)) (\<lambda>node.
     bindP (wait_for_rebuild fuel api node) (\<lambda>_.
     bindP (is_node_drainable fuel api pc ha node) (\<lambda>drainable.
     bindP (if drainable then drain_storage_node fuel api pc node else retP ()) (\<lambda>_.
     retP node))))))
   (\<lambda>node d. pod_node_name pod = Some (Some node) \<and> restart_guard pc namespace ha node d) (list_all keeps_pods)"
proof -
  have drain: "emits (if b then drain_storage_node fuel api pc node else retP ())
      (\<lambda>_ d. list_all keeps_pods d \<and> (if b then drained_seen pc node d else d = [])) (list_all keeps_pods)" for b node
    using emits_drain [of fuel api pc node] by (auto intro: emits_ret)
  have node: "pod_node namespace pod = Inr node \<Longrightarrow> pod_node_name pod = Some (Some node)" for node
    by (auto simp: pod_node_def res_bind_eq_Inr ok_or_eq_Inr)
  show ?thesis
  proof (rule emits_conseq [OF emits_bind [OF emits_verify_control_plane emits_bind [OF emits_liftR_exact
          emits_bind [OF emits_wait_for_rebuild emits_bind [OF emits_drainable emits_bind [OF drain emits_ret_exact]]]]]],
      goal_cases)
    case (1 n d)
    then obtain d1 d2 b d3 d4 where d: "d = d1 @ d2 @ d3 @ d4" "list_all is_read d1" "list_all is_read d2"
        "control_plane_seen pc namespace d1" "settled d2" "list_all keeps_pods d3" "drain_decision pc ha n b d3"
        "list_all keeps_pods d4" "if b then drained_seen pc n d4 else d4 = []"
        "pod_node namespace pod = Inr n"
      by (elim exE conjE) simp
    then have "list_all keeps_pods d" by (simp add: is_read_keeps_pods)
    with d node show ?case unfolding restart_guard_def by blast
  next
    case (2 d)
    then show ?case by (auto dest: is_read_keeps_pods)
  qed
qed

lemma emits_delete:
  "emits (delete_data_plane_pod api node pod namespace)
     (\<lambda>_ d. d = [EvClient (Inr ()), EvPodDelete namespace (name_any pod) (Inr ())])
     (\<lambda>d. list_all keeps_pods d \<or> (\<exists>e. d = [EvClient (Inr ()), EvPodDelete namespace (name_any pod) (Inl e)]))"
  by (auto simp: emits_def delete_data_plane_pod_def client_def logged_def bindP_def split: sum.splits prod.splits)

text \<open>The deletion and everything after it.\<close>

lemma emits_restart:
  "emits (bindP (delete_data_plane_pod api node pod namespace) (\<lambda>_.
     bindP (verify_data_plane_pod_is_running fuel api node namespace hash) (\<lambda>_.
     uncordon_drained_storage_node fuel api pc node)))
   (\<lambda>_ d. \<exists>d1 d2. d = [EvClient (Inr ()), EvPodDelete namespace (name_any pod) (Inr ())] @ d1 @ d2 \<and>
      list_all keeps_pods d1 \<and> pod_back_seen namespace hash node d1 \<and>
      list_all keeps_pods d2 \<and> uncordoned_seen pc node d2)
   (\<lambda>d. list_all keeps_pods d \<or> (\<exists>r post. list_all keeps_pods post \<and>
      d = [EvClient (Inr ()), EvPodDelete namespace (name_any pod) r] @ post))"
  by (rule emits_conseq [OF emits_bind [OF emits_delete emits_bind [OF emits_verify_data_plane_pod emits_uncordon_drained]]])
    (auto dest: is_read_keeps_pods)

lemma emits_upgrade_pod:
  "emits (upgrade_pod fuel api pc namespace hash ha pod)
     (\<lambda>_. pod_restart pc namespace hash ha pod) (pod_restart_cut pc namespace ha pod)"
proof -
  have split: "upgrade_pod fuel api pc namespace hash ha pod = bindP
    (bindP (verify_control_plane_is_running fuel api pc namespace) (\<lambda>_.
     bindP (liftR (pod_node namespace pod)) (\<lambda>node.
     bindP (wait_for_rebuild fuel api node) (\<lambda>_.
     bindP (is_node_drainable fuel api pc ha node) (\<lambda>drainable.
     bindP (if drainable then drain_storage_node fuel api pc node else retP ()) (\<lambda>_.
     retP node)))))) (\<lambda>node.
    bindP (delete_data_plane_pod api node pod namespace) (\<lambda>_.
     bindP (verify_data_plane_pod_is_running fuel api node namespace hash) (\<lambda>_.
     uncordon_drained_storage_node fuel api pc node)))"
    by (simp only: upgrade_pod_def bindP_assoc bindP_retP)
  show ?thesis unfolding split
  proof (rule emits_bindI [OF emits_guard emits_restart], goal_cases)
    case (1 node b d1 d2)
    then show ?case unfolding pod_restart_def by blast
  next
    case (2 d)
    then show ?case by (simp add: pod_restart_cut_def)
  next
    case (3 node d1 d2)
    then have "list_all keeps_pods d1" by (simp add: restart_guard_def)
    with 3 show ?case unfolding pod_restart_cut_def by (auto simp del: append_Cons)
  qed
qed

text \<open>
  A whole run: requests that delete nothing, then complete rounds, then \<open>fin\<close>.
\<close>

definition rolling_run ::
  "product \<Rightarrow> string \<Rightarrow> string \<Rightarrow> bool \<Rightarrow> string \<Rightarrow> event list \<Rightarrow> event list \<Rightarrow> bool" where
  "rolling_run pc namespace hash ha label fin d \<longleftrightarrow> (\<exists>pre rounds. d = pre @ concat rounds @ fin \<and>
     list_all keeps_pods pre \<and> list_all (upgrade_round pc namespace hash ha label) rounds)"

lemma emits_round:
  "emits (bindP (list_pods fuel api namespace (Some label) None) (\<lambda>pods.
      if pods = [] then retP (Inr ())
      else bindP (forP pods (upgrade_pod fuel api pc namespace hash ha)) (\<lambda>_. retP (Inl ()))))
     (\<lambda>r d. case r of Inr _ \<Rightarrow> pods_listing namespace (Some label) None [] d
             | Inl _ \<Rightarrow> upgrade_round pc namespace hash ha label d)
     (upgrade_round_cut pc namespace hash ha label)"
proof (rule emits_bindI [OF emits_list_pods, where
    R = "\<lambda>ps r d. case r of Inr _ \<Rightarrow> ps = [] \<and> d = []
           | Inl _ \<Rightarrow> ps \<noteq> [] \<and> (\<exists>ds. d = concat ds \<and> list_all2 (pod_restart pc namespace hash ha) ps ds)"
    and J = "\<lambda>ps d. \<exists>ys x zs ds d'. ps = ys @ x # zs \<and> d = concat ds @ d' \<and>
       list_all2 (pod_restart pc namespace hash ha) ys ds \<and> pod_restart_cut pc namespace ha x d'"], goal_cases)
  case (1 ps)
  show ?case
  proof (cases "ps = []")
    case False
    from emits_for [of ps "upgrade_pod fuel api pc namespace hash ha" "pod_restart pc namespace hash ha"
        "pod_restart_cut pc namespace ha"] emits_upgrade_pod
    have "emits (forP ps (upgrade_pod fuel api pc namespace hash ha))
       (\<lambda>_ d. \<exists>ds. d = concat ds \<and> list_all2 (pod_restart pc namespace hash ha) ps ds)
       (\<lambda>d. \<exists>ys x zs ds d'. ps = ys @ x # zs \<and> d = concat ds @ d' \<and>
          list_all2 (pod_restart pc namespace hash ha) ys ds \<and> pod_restart_cut pc namespace ha x d')" by blast
    then have "emits (bindP (forP ps (upgrade_pod fuel api pc namespace hash ha)) (\<lambda>_. retP (Inl ())))
       (\<lambda>r d. case r of Inr _ \<Rightarrow> ps = [] \<and> d = []
           | Inl _ \<Rightarrow> ps \<noteq> [] \<and> (\<exists>ds. d = concat ds \<and> list_all2 (pod_restart pc namespace hash ha) ps ds))
       (\<lambda>d. \<exists>ys x zs ds d'. ps = ys @ x # zs \<and> d = concat ds @ d' \<and>
          list_all2 (pod_restart pc namespace hash ha) ys ds \<and> pod_restart_cut pc namespace ha x d')"
      by (rule emits_conseq [OF emits_bind [OF _ emits_ret_exact]]) (use False in auto)
    with False show ?thesis by simp
  qed (simp add: emits_ret)
next
  case (2 ps r d1 d2)
  then have "list_all keeps_pods d1" by (simp add: is_read_keeps_pods)
  with 2 show ?case by (cases r) (auto simp: upgrade_round_def)
next
  case (3 d)
  then show ?case by (simp add: upgrade_round_cut_def is_read_keeps_pods)
next
  case (4 ps d1 d2)
  then have "list_all keeps_pods d1" by (simp add: is_read_keeps_pods)
  with 4 show ?case unfolding upgrade_round_cut_def by (intro disjI2) blast
qed

lemma rolling_run_rounds:
  "list_all (upgrade_round pc namespace hash ha label) rounds \<Longrightarrow>
   rolling_run pc namespace hash ha label fin (concat rounds @ fin)"
  unfolding rolling_run_def by (rule exI [of _ "[]"]) auto

lemma rolling_run_prepend:
  "rolling_run pc namespace hash ha label fin d \<Longrightarrow> list_all keeps_pods pre \<Longrightarrow>
   rolling_run pc namespace hash ha label fin (pre @ d)"
  unfolding rolling_run_def by (metis append_assoc list_all_append)

lemma emits_rounds:
  "emits (loopP fuel (\<lambda>_. bindP (list_pods fuel api namespace (Some label) None) (\<lambda>pods.
      if pods = [] then retP (Inr ())
      else bindP (forP pods (upgrade_pod fuel api pc namespace hash ha)) (\<lambda>_. retP (Inl ())))) ())
     (\<lambda>_ d. \<exists>fin. pods_listing namespace (Some label) None [] fin \<and> rolling_run pc namespace hash ha label fin d)
     (\<lambda>d. \<exists>fin. upgrade_round_cut pc namespace hash ha label fin \<and> rolling_run pc namespace hash ha label fin d)"
proof (rule emits_loop [where P = "\<lambda>_ d. \<exists>rounds. d = concat rounds \<and>
    list_all (upgrade_round pc namespace hash ha label) rounds"], goal_cases)
  case (1 u)
  show ?case
  proof (rule emits_conseq [OF emits_round], goal_cases)
    case (1 r d)
    show ?case
    proof (intro allI impI, elim exE conjE)
      fix acc rounds
      assume acc: "acc = concat rounds" "list_all (upgrade_round pc namespace hash ha label) rounds"
      show "case r of Inl b' \<Rightarrow> \<exists>rounds. acc @ d = concat rounds \<and> list_all (upgrade_round pc namespace hash ha label) rounds
        | Inr a \<Rightarrow> \<exists>fin. pods_listing namespace (Some label) None [] fin \<and>
            rolling_run pc namespace hash ha label fin (acc @ d)"
      proof (cases r)
        case (Inl v)
        with 1 acc show ?thesis by (simp, intro exI [of _ "rounds @ [d]"]) simp
      next
        case (Inr v)
        with 1 acc show ?thesis using rolling_run_rounds [OF acc(2), of d] by auto
      qed
    qed
  next
    case (2 d)
    then show ?case using rolling_run_rounds by blast
  qed
next
  case (2 b d)
  have "upgrade_round_cut pc namespace hash ha label []" by (simp add: upgrade_round_cut_def)
  with 2 rolling_run_rounds [where fin = "[]"] show ?case by auto
qed (auto intro: exI [of _ "[]"])

lemma emits_upgrade_data_plane:
  assumes "pods \<noteq> []"
  shows "emits (upgrade_data_plane fuel api pc namespace rest_endpoint hash ha label pods)
     (\<lambda>_ d. \<exists>fin. pods_listing namespace (Some label) None [] fin \<and> rolling_run pc namespace hash ha label fin d)
     (\<lambda>d. \<exists>fin. upgrade_round_cut pc namespace hash ha label fin \<and> rolling_run pc namespace hash ha label fin d)"
proof -
  let ?init = "bindP (liftR (new_with_url api rest_endpoint)) (\<lambda>_.
     bindP (logged (get_nodes api) EvGetNodes ListStorageNodes) (\<lambda>storage_nodes.
     forP storage_nodes (\<lambda>n. uncordon_drained_storage_node fuel api pc (storage_node_id n))))"
  have "only keeps_pods (uncordon_drained_storage_node fuel api pc node)" for node
    unfolding only_def by (rule emits_conseq [OF emits_uncordon_drained]) simp_all
  then have "only keeps_pods ?init" by (auto intro!: only_rules)
  then have init: "emits ?init (\<lambda>_. list_all keeps_pods) (list_all keeps_pods)" by (rule only_emits)
  have cut: "\<exists>fin. upgrade_round_cut pc namespace hash ha label fin \<and> rolling_run pc namespace hash ha label fin d"
    if "list_all keeps_pods d" for d
    using rolling_run_rounds [of pc namespace hash ha label "[]" d] that
    by (auto simp: upgrade_round_cut_def)
  have "upgrade_data_plane fuel api pc namespace rest_endpoint hash ha label pods =
    bindP ?init (\<lambda>_. loopP fuel (\<lambda>_. bindP (list_pods fuel api namespace (Some label) None) (\<lambda>pods.
      if pods = [] then retP (Inr ())
      else bindP (forP pods (upgrade_pod fuel api pc namespace hash ha)) (\<lambda>_. retP (Inl ())))) ())"
    using assms by (simp add: upgrade_data_plane_def bindP_assoc)
  then show ?thesis
    by (simp only:) (rule emits_bindI [OF init emits_rounds]; blast intro: rolling_run_prepend cut)
qed

section \<open>Properties\<close>

text \<open>
  Property C4. Whatever the cluster answers, the requests of a data-plane upgrade are, after
  some that delete nothing, complete rounds: the pods that are not up to date are listed and
  then restarted strictly one after the other.  Each pod is deleted only after the control
  plane was seen ready, a listing of the volumes showed no rebuild, and, if the node may be
  drained, the node was seen drained; and nothing else is deleted before exactly one ready pod
  of the new revision was seen on that node and the drain label was seen gone.  When the
  upgrade returns successfully its last listing shows no pod left to upgrade; when it fails
  or is cut off anywhere, the same holds up to that point.
\<close>

theorem upgrade_data_plane_rolling:
  assumes "pods \<noteq> []"
    and "upgrade_data_plane fuel api pc namespace rest_endpoint hash ha label pods s = (r, t)"
  shows "\<exists>d fin. rt_trace t = rt_trace s @ d \<and> rolling_run pc namespace hash ha label fin d \<and>
    (if r = Ok () then pods_listing namespace (Some label) None [] fin
     else upgrade_round_cut pc namespace hash ha label fin)"
  by (rule emitsD [OF emits_upgrade_data_plane [OF assms(1)] assms(2)])
    (auto split: outcome.splits)

text \<open>
  Property C5. \<open>wait_for_rebuild\<close> makes read-only requests, and it returns only when the last
  thing it did was a complete listing of the volumes in which no degraded or faulted volume
  has a replica that is being rebuilt.
\<close>

theorem wait_for_rebuild_settled:
  assumes "wait_for_rebuild fuel api node s = (Ok (), t)"
  shows "\<exists>d1 d2 vs. rt_trace t = rt_trace s @ d1 @ d2 \<and> list_all is_read (d1 @ d2) \<and> volumes_listing vs d2 \<and>
    (\<forall>v \<in> set vs. unhealthy v \<longrightarrow> replica_rebuild_count v = 0)"
proof (rule emits_Ok [OF emits_wait_for_rebuild assms])
  fix d
  assume d: "rt_trace t = rt_trace s @ d" "list_all is_read d \<and> settled d"
  then obtain d1 d2 vs where "d = d1 @ d2" "volumes_listing vs d2" "\<forall>v \<in> set vs. unhealthy v \<longrightarrow> replica_rebuild_count v = 0"
    unfolding settled_def idle_def by blast
  with d show ?thesis by blast
qed

lemma target_frontend_nodes_iff:
  "n \<in> set (target_frontend_nodes node vs) \<longleftrightarrow>
     (\<exists>v \<in> set vs. \<exists>tg ns. spec_target v = Some tg \<and> target_node tg = node \<and> frontend_nodes tg = Some ns \<and> n \<in> set ns)"
proof -
  have "n \<in> set (fold (\<lambda>volume acc. case spec_target volume of None \<Rightarrow> acc
       | Some target \<Rightarrow> if target_node target = node
           then (case frontend_nodes target of None \<Rightarrow> acc | Some ns \<Rightarrow> acc @ ns) else acc) vs acc) \<longleftrightarrow>
     n \<in> set acc \<or> (\<exists>v \<in> set vs. \<exists>tg ns. spec_target v = Some tg \<and> target_node tg = node \<and>
       frontend_nodes tg = Some ns \<and> n \<in> set ns)" for acc
    by (induction vs arbitrary: acc) (auto split: option.splits)
  then show ?thesis by (simp add: target_frontend_nodes_def)
qed

text \<open>
  Property C6. With HA enabled a node is declared drainable exactly when no node of the
  cluster is labelled as lacking ANA, or the listing of the volumes shows none of them as a
  frontend node of a volume whose target is on the node.
\<close>

theorem is_node_drainable_iff:
  assumes "is_node_drainable fuel api pc True node s = (Ok b, t)"
  shows "\<exists>d1 d2 nodes. rt_trace t = rt_trace s @ d1 @ d2 \<and>
    nodes_listing (Some (ana_disabled_label pc)) None nodes d1 \<and>
    (if nodes = [] then b \<and> d2 = []
     else \<exists>d3 d4 d5 vs. d2 = d3 @ d4 @ d5 \<and> volumes_listing vs d4 \<and>
       (b \<longleftrightarrow> (\<forall>v \<in> set vs. \<forall>tg ns. spec_target v = Some tg \<longrightarrow> target_node tg = node \<longrightarrow>
          frontend_nodes tg = Some ns \<longrightarrow> set ns \<inter> set nodes = {})))"
proof -
  have eq: "set nodes \<inter> set (target_frontend_nodes node vs) = {} \<longleftrightarrow>
    (\<forall>v \<in> set vs. \<forall>tg ns. spec_target v = Some tg \<longrightarrow> target_node tg = node \<longrightarrow>
       frontend_nodes tg = Some ns \<longrightarrow> set ns \<inter> set nodes = {})" for nodes vs
    by (auto simp: disjoint_iff target_frontend_nodes_iff)
  obtain d where d: "rt_trace t = rt_trace s @ d" "drain_decision pc True node b d"
    by (rule emits_Ok [OF emits_drainable assms]) blast
  then obtain d1 d2 nodes where "d = d1 @ d2" "nodes_listing (Some (ana_disabled_label pc)) None nodes d1"
    "if nodes = [] then b \<and> d2 = []
     else \<exists>d3 d4 d5 vs. d2 = d3 @ d4 @ d5 \<and> volumes_listing vs d4 \<and>
       (b \<longleftrightarrow> set nodes \<inter> set (target_frontend_nodes node vs) = {})"
    unfolding drain_decision_def not_True_eq_False if_False by blast
  with d(1) show ?thesis unfolding eq by blast
qed

section \<open>Draining ends\<close>

text \<open>
  A storage API on which a drain makes progress: reading a node changes nothing, a drain
  request puts the label on the node, and while the node drains with that label every five
  seconds bring it closer to being drained.  \<open>st\<close> is the state of the node and \<open>work\<close> what is
  left to move, never more than \<open>bound\<close>.
\<close>

definition drain_label_of :: "string \<Rightarrow> cordon_drain_state option \<Rightarrow> bool" where
  "drain_label_of l st = (case st of Some (drainingstate ls) \<Rightarrow> l \<in> set ls | Some (drainedstate ls) \<Rightarrow> l \<in> set ls | _ \<Rightarrow> False)"

definition is_drained :: "cordon_drain_state option \<Rightarrow> bool" where
  "is_drained st = (case st of Some (drainedstate _) \<Rightarrow> True | _ \<Rightarrow> False)"

definition drains ::
  "'w cluster \<Rightarrow> string \<Rightarrow> string \<Rightarrow> ('w \<Rightarrow> cordon_drain_state option) \<Rightarrow> ('w \<Rightarrow> nat) \<Rightarrow> nat \<Rightarrow> bool" where
  "drains api label node st work bound \<longleftrightarrow>
     (\<forall>w. \<exists>n w'. get_node api node w = (Inr n, w') \<and> node_spec n = Some (st w) \<and> st w' = st w \<and> work w' = work w) \<and>
     (\<forall>w. \<exists>w'. put_node_drain api node label w = (Inr (), w') \<and> drain_label_of label (st w')) \<and>
     (\<forall>w. drain_label_of label (st w) \<longrightarrow> \<not> is_drained (st w) \<longrightarrow>
        drain_label_of label (st (sleep_secs api 5 w)) \<and>
        (is_drained (st (sleep_secs api 5 w)) \<or> work (sleep_secs api 5 w) < work w)) \<and>
     (\<forall>w. work w \<le> bound)"

lemma drain_label_of_iff:
  "drain_label_of l st \<longleftrightarrow> (\<exists>ls. l \<in> set ls \<and> (st = Some (drainingstate ls) \<or> st = Some (drainedstate ls)))"
  by (auto simp: drain_label_of_def split: option.splits cordon_drain_state.splits)

lemma drain_case_new:
  "\<not> drain_label_of l st \<Longrightarrow>
   (case st of None \<Rightarrow> B | Some (cordonedstate _) \<Rightarrow> B
    | Some (drainingstate ls) \<Rightarrow> if has_label l ls then A else B
    | Some (drainedstate ls) \<Rightarrow> if has_label l ls then C else B) = B"
  by (auto simp: drain_label_of_def has_label_def split: option.splits cordon_drain_state.splits)

lemma fetch_node_drains:
  assumes "drains api label node st work bound"
  shows "\<exists>t. fetch_node api node s = (Ok (st (rt_world s)), t) \<and> st (rt_world t) = st (rt_world s) \<and>
    work (rt_world t) = work (rt_world s)"
proof -
  from assms obtain n w' where "get_node api node (rt_world s) = (Inr n, w')" "node_spec n = Some (st (rt_world s))"
    "st w' = st (rt_world s)" "work w' = work (rt_world s)"
    unfolding drains_def by blast
  then show ?thesis by (simp add: fetch_node_def logged_def bindP_def)
qed

lemma drainsD:
  assumes "drains api label node st work bound"
  shows "work w \<le> bound"
    and "\<exists>w'. put_node_drain api node label w = (Inr (), w') \<and> drain_label_of label (st w')"
    and "st w = Some (drainingstate ls) \<Longrightarrow> label \<in> set ls \<Longrightarrow> drain_label_of label (st (sleep_secs api 5 w)) \<and>
      (is_drained (st (sleep_secs api 5 w)) \<or> work (sleep_secs api 5 w) < work w)"
  using assms by (simp_all add: drains_def drain_label_of_def is_drained_def)

text \<open>
  Property C7. On such an API \<open>drain_storage_node\<close> returns, within as many rounds as there is
  work plus three.
\<close>

theorem drain_storage_node_returns:
  assumes "drains api (drain_for_upgrade pc) node st work bound" "bound + 3 < fuel"
  shows "\<exists>t. drain_storage_node fuel api pc node s = (Ok (), t) \<and>
    is_drained (st (rt_world t)) \<and> drain_label_of (drain_for_upgrade pc) (st (rt_world t))"
proof -
  let ?l = "drain_for_upgrade pc"
  let ?\<mu> = "\<lambda>_ s. if \<not> drain_label_of ?l (st (rt_world s)) then bound + 2
    else if is_drained (st (rt_world s)) then 0 else work (rt_world s) + 1"
  have "\<exists>u t. drain_storage_node fuel api pc node s = (Ok u, t) \<and>
      is_drained (st (rt_world t)) \<and> drain_label_of ?l (st (rt_world t))"
    unfolding drain_storage_node_def Let_def
  proof (rule loop_returns [where P = "\<lambda>_ _. True" and \<mu> = ?\<mu>], goal_cases)
    case (1 u s)
    obtain t where t: "fetch_node api node s = (Ok (st (rt_world s)), t)" "st (rt_world t) = st (rt_world s)"
      "work (rt_world t) = work (rt_world s)" using fetch_node_drains [OF assms(1)] by blast
    consider (new) "\<not> drain_label_of ?l (st (rt_world s))"
      | (draining) ls where "st (rt_world s) = Some (drainingstate ls)" "?l \<in> set ls"
      | (drained) ls where "st (rt_world s) = Some (drainedstate ls)" "?l \<in> set ls"
      using drain_label_of_iff by blast
    then show ?case
    proof cases
      case new
      from drainsD(2) [OF assms(1)] obtain w' where
        w': "put_node_drain api node ?l (rt_world t) = (Inr (), w')" "drain_label_of ?l (st w')" by blast
      with new t drainsD(1) [OF assms(1), of w'] show ?thesis
        by (intro exI [of _ "Inl ()"]
            exI [of _ "\<lparr>rt_world = w', rt_trace = rt_trace t @ [EvPutDrain node ?l (Inr ())]\<rparr>"])
          (simp add: bindP_def [of "fetch_node api node"] drain_case_new, simp add: bindP_def logged_def)
    next
      case draining
      let ?w = "sleep_secs api 5 (rt_world t)"
      have "has_label ?l ls" "drain_label_of ?l (st ?w) \<and> (is_drained (st ?w) \<or> work ?w < work (rt_world t))"
        using draining t(2) drainsD(3) [OF assms(1), of "rt_world t" ls] by (simp_all add: has_label_def)
      then show ?thesis
        by (intro exI [of _ "Inl ()"] exI [of _ "\<lparr>rt_world = ?w, rt_trace = rt_trace t @ [EvSleep 5]\<rparr>"])
          (use draining t in \<open>auto simp: bindP_def sleep_def tick_def drain_label_of_def is_drained_def\<close>)
    next
      case drained
      with t show ?thesis by (simp add: bindP_def has_label_def drain_label_of_def is_drained_def)
    qed
  next
    case 3
    from drainsD(1) [OF assms(1), of "rt_world s"] assms(2) show ?case by auto
  qed simp
  then show ?thesis by auto
qed

end
