(* ===== verification/Chart.thy ===== *)
theory Chart
  imports Prelude
begin

text \<open>
  The helm values that the upgrade job reads (\<open>helm/chart.rs\<close>): one record per struct, the
  getters, and what \<open>#[derive(Deserialize)]\<close> with the \<open>serde\<close> attributes of the source makes
  of a YAML tree: unknown keys are ignored, a missing field takes its default if it has one
  and is an error otherwise, and a value of the wrong kind is an error.  The YAML syntax
  itself, and the decoding of the Kubernetes types \<open>Container\<close> and \<open>Probe\<close>, are parameters.
\<close>

section \<open>YAML trees and decoders\<close>

datatype yaml =
    YNull
  | YBool bool
  | YNumber string
  | YString string
  | YSeq "yaml list"
  | YMap "(string \<times> yaml) list"

type_synonym 'a decoder = "yaml \<Rightarrow> (string, 'a) res"

fun de_string :: "string decoder" where
  "de_string (YString s) = Inr s"
| "de_string _ = Inl ''invalid type, expected a string''"

fun de_bool :: "bool decoder" where
  "de_bool (YBool b) = Inr b"
| "de_bool _ = Inl ''invalid type, expected a boolean''"

fun de_seq :: "'a decoder \<Rightarrow> 'a list decoder" where
  "de_seq d (YSeq ys) = res_fold (\<lambda>y acc. res_bind (d y) (\<lambda>a. Inr (acc @ [a]))) ys []"
| "de_seq d _ = Inl ''invalid type, expected a sequence''"

text \<open>The value under a key of a mapping; a struct can only be read from a mapping.\<close>

fun yaml_entries :: "yaml \<Rightarrow> (string, (string \<times> yaml) list) res" where
  "yaml_entries (YMap kvs) = Inr kvs"
| "yaml_entries _ = Inl ''invalid type, expected a mapping''"

definition required_field :: "string \<Rightarrow> 'a decoder \<Rightarrow> (string \<times> yaml) list \<Rightarrow> (string, 'a) res" where
  "required_field key d kvs =
     (case map_of kvs key of None \<Rightarrow> Inl (''missing field '' @ key) | Some y \<Rightarrow> d y)"

definition default_field :: "string \<Rightarrow> 'a \<Rightarrow> 'a decoder \<Rightarrow> (string \<times> yaml) list \<Rightarrow> (string, 'a) res" where
  "default_field key dflt d kvs = (case map_of kvs key of None \<Rightarrow> Inr dflt | Some y \<Rightarrow> d y)"

section \<open>The structs\<close>

record 'v chart =
  chart_name :: string
  chart_version :: 'v

record rebuild_partial =
  partial_enabled :: bool

record rebuild =
  rebuild_partial_of :: rebuild_partial

record core =
  core_rebuild :: rebuild

record ha =
  ha_enabled :: bool

record agents =
  agents_core :: core
  agents_ha :: ha

record base =
  base_deprecated_log_silence_level :: string

record repo_tags =
  repo_control_plane :: string
  repo_data_plane :: string
  repo_extensions :: string

record image =
  image_tag_of :: string
  image_repo_tags :: repo_tags

record io_engine =
  log_level :: string

record eventing =
  eventing_enabled_of :: bool

record csi_image =
  provisioner_tag :: string
  attacher_tag :: string
  snapshotter_tag :: string
  snapshot_controller_tag :: string
  registrar_tag :: string
  resizer_tag :: string

record csi_node_nvme =
  io_timeout :: string

record csi_node =
  node_nvme :: csi_node_nvme
  deprecated_plugin_mount_path :: string

record csi =
  csi_image_of :: csi_image
  csi_node_of :: csi_node

record generic_image =
  generic_tag :: string

record filebeat =
  filebeat_tag :: string

record grafana_download_dashboards_image =
  download_tag :: string

record grafana_sidecar =
  sidecar_image :: generic_image

record grafana =
  grafana_download :: grafana_download_dashboards_image
  grafana_image_of :: generic_image
  grafana_sidecar_of :: grafana_sidecar

record logstash =
  logstash_tag :: string

record loki =
  loki_image :: generic_image

record prometheus_alertmanager =
  alertmanager_image :: generic_image

record prometheus_node_exporter =
  node_exporter_image :: generic_image

record prometheus_pushgateway =
  pushgateway_image :: generic_image

record prometheus_server =
  server_image :: generic_image

record prometheus =
  alertmanager :: prometheus_alertmanager
  node_exporter :: prometheus_node_exporter
  pushgateway :: prometheus_pushgateway
  server :: prometheus_server

record promtail_config_snippets =
  deprecated_extra_client_configs :: string
  scrape_configs :: string

record promtail_config =
  deprecated_loki_address :: string
  config_file :: string
  config_snippets :: promtail_config_snippets

datatype promtail_init_container =
    DeprecatedInitContainer
  | InitContainer "yaml list"

text \<open>\<open>readiness_probe\<close> is the \<open>path\<close> of the optional \<open>http_get\<close> of the probe.\<close>

record promtail =
  promtail_config_of :: promtail_config
  init_container_of :: promtail_init_container
  readiness_probe :: "string option option"

record loki_stack =
  ls_filebeat :: filebeat
  ls_grafana :: grafana
  ls_logstash :: logstash
  ls_loki :: loki
  ls_prometheus :: prometheus
  ls_promtail :: promtail

record localpv_provisioner_release =
  release_version_of :: string

record localpv_provisioner_localpv =
  localpv_image :: generic_image

record localpv_provisioner_helper_pod =
  helper_image :: generic_image

record localpv_provisioner =
  lp_release :: localpv_provisioner_release
  lp_localpv :: localpv_provisioner_localpv
  lp_helper_pod :: localpv_provisioner_helper_pod

record jaeger_operator =
  jaeger_image :: generic_image

record core_values =
  cv_agents :: agents
  cv_base :: base
  cv_image :: image
  cv_io_engine :: io_engine
  cv_eventing :: eventing
  cv_csi :: csi
  cv_jaeger_operator :: jaeger_operator
  cv_loki_stack :: loki_stack
  cv_localpv_provisioner :: localpv_provisioner

record umbrella_values =
  um_core :: core_values

section \<open>Default values\<close>

definition promtail_init_container_default :: promtail_init_container where
  "promtail_init_container_default = InitContainer []"

definition rebuild_partial_default :: rebuild_partial where
  "rebuild_partial_default = \<lparr>partial_enabled = True\<rparr>"

definition rebuild_default :: rebuild where
  "rebuild_default = \<lparr>rebuild_partial_of = rebuild_partial_default\<rparr>"

definition repo_tags_default :: repo_tags where
  "repo_tags_default = \<lparr>repo_control_plane = '''', repo_data_plane = '''', repo_extensions = ''''\<rparr>"

definition eventing_default :: eventing where
  "eventing_default = \<lparr>eventing_enabled_of = False\<rparr>"

definition generic_image_default :: generic_image where
  "generic_image_default = \<lparr>generic_tag = ''''\<rparr>"

definition filebeat_default :: filebeat where
  "filebeat_default = \<lparr>filebeat_tag = ''''\<rparr>"

definition grafana_download_dashboards_image_default :: grafana_download_dashboards_image where
  "grafana_download_dashboards_image_default = \<lparr>download_tag = ''''\<rparr>"

definition grafana_sidecar_default :: grafana_sidecar where
  "grafana_sidecar_default = \<lparr>sidecar_image = generic_image_default\<rparr>"

definition grafana_default :: grafana where
  "grafana_default = \<lparr>grafana_download = grafana_download_dashboards_image_default, grafana_image_of = generic_image_default, grafana_sidecar_of = grafana_sidecar_default\<rparr>"

definition logstash_default :: logstash where
  "logstash_default = \<lparr>logstash_tag = ''''\<rparr>"

definition loki_default :: loki where
  "loki_default = \<lparr>loki_image = generic_image_default\<rparr>"

definition prometheus_alertmanager_default :: prometheus_alertmanager where
  "prometheus_alertmanager_default = \<lparr>alertmanager_image = generic_image_default\<rparr>"

definition prometheus_node_exporter_default :: prometheus_node_exporter where
  "prometheus_node_exporter_default = \<lparr>node_exporter_image = generic_image_default\<rparr>"

definition prometheus_pushgateway_default :: prometheus_pushgateway where
  "prometheus_pushgateway_default = \<lparr>pushgateway_image = generic_image_default\<rparr>"

definition prometheus_server_default :: prometheus_server where
  "prometheus_server_default = \<lparr>server_image = generic_image_default\<rparr>"

definition prometheus_default :: prometheus where
  "prometheus_default = \<lparr>alertmanager = prometheus_alertmanager_default, node_exporter = prometheus_node_exporter_default, pushgateway = prometheus_pushgateway_default, server = prometheus_server_default\<rparr>"

definition promtail_config_snippets_default :: promtail_config_snippets where
  "promtail_config_snippets_default = \<lparr>deprecated_extra_client_configs = '''', scrape_configs = ''''\<rparr>"

definition promtail_config_default :: promtail_config where
  "promtail_config_default = \<lparr>deprecated_loki_address = '''', config_file = '''', config_snippets = promtail_config_snippets_default\<rparr>"

definition promtail_default :: promtail where
  "promtail_default = \<lparr>promtail_config_of = promtail_config_default, init_container_of = promtail_init_container_default, readiness_probe = None\<rparr>"

definition loki_stack_default :: loki_stack where
  "loki_stack_default = \<lparr>ls_filebeat = filebeat_default, ls_grafana = grafana_default, ls_logstash = logstash_default, ls_loki = loki_default, ls_prometheus = prometheus_default, ls_promtail = promtail_default\<rparr>"

definition localpv_provisioner_release_default :: localpv_provisioner_release where
  "localpv_provisioner_release_default = \<lparr>release_version_of = ''''\<rparr>"

definition localpv_provisioner_localpv_default :: localpv_provisioner_localpv where
  "localpv_provisioner_localpv_default = \<lparr>localpv_image = generic_image_default\<rparr>"

definition localpv_provisioner_helper_pod_default :: localpv_provisioner_helper_pod where
  "localpv_provisioner_helper_pod_default = \<lparr>helper_image = generic_image_default\<rparr>"

definition localpv_provisioner_default :: localpv_provisioner where
  "localpv_provisioner_default = \<lparr>lp_release = localpv_provisioner_release_default, lp_localpv = localpv_provisioner_localpv_default, lp_helper_pod = localpv_provisioner_helper_pod_default\<rparr>"

definition jaeger_operator_default :: jaeger_operator where
  "jaeger_operator_default = \<lparr>jaeger_image = generic_image_default\<rparr>"

section \<open>Decoding\<close>

text \<open>The decoders of the Kubernetes types.\<close>

record k8s_types =
  de_container :: "yaml decoder"
  de_probe :: "string option option decoder"

text \<open>An untagged enum: the first variant that fits; the empty struct variant fits every mapping.\<close>

definition de_promtail_init_container :: "k8s_types \<Rightarrow> promtail_init_container decoder" where
  "de_promtail_init_container k8s y =
     (case y of YMap _ \<Rightarrow> Inr DeprecatedInitContainer
      | _ \<Rightarrow> res_bind (de_seq (de_container k8s) y) (\<lambda>cs. Inr (InitContainer cs)))"

definition de_chart :: "(string \<Rightarrow> (string, 'v) res) \<Rightarrow> 'v chart decoder" where
  "de_chart parse_version y =
     res_bind (yaml_entries y) (\<lambda>kvs.
     res_bind (required_field ''name'' de_string kvs) (\<lambda>n.
     res_bind (required_field ''version'' (\<lambda>v. res_bind (de_string v) parse_version) kvs) (\<lambda>v.
     Inr \<lparr>chart_name = n, chart_version = v\<rparr>)))"

definition de_rebuild_partial :: "rebuild_partial decoder" where
  "de_rebuild_partial y =
     res_bind (yaml_entries y) (\<lambda>kvs.
     res_bind (required_field ''enabled'' de_bool kvs) (\<lambda>a.
     Inr \<lparr>partial_enabled = a\<rparr>))"

definition de_rebuild :: "rebuild decoder" where
  "de_rebuild y =
     res_bind (yaml_entries y) (\<lambda>kvs.
     res_bind (required_field ''partial'' de_rebuild_partial kvs) (\<lambda>a.
     Inr \<lparr>rebuild_partial_of = a\<rparr>))"

definition de_core :: "core decoder" where
  "de_core y =
     res_bind (yaml_entries y) (\<lambda>kvs.
     res_bind (default_field ''rebuild'' rebuild_default de_rebuild kvs) (\<lambda>a.
     Inr \<lparr>core_rebuild = a\<rparr>))"

definition de_ha :: "ha decoder" where
  "de_ha y =
     res_bind (yaml_entries y) (\<lambda>kvs.
     res_bind (required_field ''enabled'' de_bool kvs) (\<lambda>a.
     Inr \<lparr>ha_enabled = a\<rparr>))"

definition de_agents :: "agents decoder" where
  "de_agents y =
     res_bind (yaml_entries y) (\<lambda>kvs.
     res_bind (required_field ''core'' de_core kvs) (\<lambda>a.
     res_bind (required_field ''ha'' de_ha kvs) (\<lambda>b.
     Inr \<lparr>agents_core = a, agents_ha = b\<rparr>)))"

definition de_base :: "base decoder" where
  "de_base y =
     res_bind (yaml_entries y) (\<lambda>kvs.
     res_bind (default_field ''logSilenceLevel'' '''' de_string kvs) (\<lambda>a.
     Inr \<lparr>base_deprecated_log_silence_level = a\<rparr>))"

definition de_repo_tags :: "repo_tags decoder" where
  "de_repo_tags y =
     res_bind (yaml_entries y) (\<lambda>kvs.
     res_bind (required_field ''controlPlane'' de_string kvs) (\<lambda>a.
     res_bind (required_field ''dataPlane'' de_string kvs) (\<lambda>b.
     res_bind (required_field ''extensions'' de_string kvs) (\<lambda>c.
     Inr \<lparr>repo_control_plane = a, repo_data_plane = b, repo_extensions = c\<rparr>))))"

definition de_image :: "image decoder" where
  "de_image y =
     res_bind (yaml_entries y) (\<lambda>kvs.
     res_bind (required_field ''tag'' de_string kvs) (\<lambda>a.
     res_bind (default_field ''repoTags'' repo_tags_default de_repo_tags kvs) (\<lambda>b.
     Inr \<lparr>image_tag_of = a, image_repo_tags = b\<rparr>)))"

definition de_io_engine :: "io_engine decoder" where
  "de_io_engine y =
     res_bind (yaml_entries y) (\<lambda>kvs.
     res_bind (required_field ''logLevel'' de_string kvs) (\<lambda>a.
     Inr \<lparr>log_level = a\<rparr>))"

definition de_eventing :: "eventing decoder" where
  "de_eventing y =
     res_bind (yaml_entries y) (\<lambda>kvs.
     res_bind (required_field ''enabled'' de_bool kvs) (\<lambda>a.
     Inr \<lparr>eventing_enabled_of = a\<rparr>))"

definition de_csi_image :: "csi_image decoder" where
  "de_csi_image y =
     res_bind (yaml_entries y) (\<lambda>kvs.
     res_bind (required_field ''provisionerTag'' de_string kvs) (\<lambda>a.
     res_bind (required_field ''attacherTag'' de_string kvs) (\<lambda>b.
     res_bind (default_field ''snapshotterTag'' '''' de_string kvs) (\<lambda>c.
     res_bind (default_field ''snapshotControllerTag'' '''' de_string kvs) (\<lambda>d.
     res_bind (required_field ''registrarTag'' de_string kvs) (\<lambda>e.
     res_bind (default_field ''resizerTag'' '''' de_string kvs) (\<lambda>f.
     Inr \<lparr>provisioner_tag = a, attacher_tag = b, snapshotter_tag = c, snapshot_controller_tag = d, registrar_tag = e, resizer_tag = f\<rparr>)))))))"

definition de_csi_node_nvme :: "csi_node_nvme decoder" where
  "de_csi_node_nvme y =
     res_bind (yaml_entries y) (\<lambda>kvs.
     res_bind (required_field ''io_timeout'' de_string kvs) (\<lambda>a.
     Inr \<lparr>io_timeout = a\<rparr>))"

definition de_csi_node :: "csi_node decoder" where
  "de_csi_node y =
     res_bind (yaml_entries y) (\<lambda>kvs.
     res_bind (required_field ''nvme'' de_csi_node_nvme kvs) (\<lambda>a.
     res_bind (default_field ''pluginMounthPath'' '''' de_string kvs) (\<lambda>b.
     Inr \<lparr>node_nvme = a, deprecated_plugin_mount_path = b\<rparr>)))"

definition de_csi :: "csi decoder" where
  "de_csi y =
     res_bind (yaml_entries y) (\<lambda>kvs.
     res_bind (required_field ''image'' de_csi_image kvs) (\<lambda>a.
     res_bind (required_field ''node'' de_csi_node kvs) (\<lambda>b.
     Inr \<lparr>csi_image_of = a, csi_node_of = b\<rparr>)))"

definition de_generic_image :: "generic_image decoder" where
  "de_generic_image y =
     res_bind (yaml_entries y) (\<lambda>kvs.
     res_bind (default_field ''tag'' '''' de_string kvs) (\<lambda>a.
     Inr \<lparr>generic_tag = a\<rparr>))"

definition de_filebeat :: "filebeat decoder" where
  "de_filebeat y =
     res_bind (yaml_entries y) (\<lambda>kvs.
     res_bind (default_field ''imageTag'' '''' de_string kvs) (\<lambda>a.
     Inr \<lparr>filebeat_tag = a\<rparr>))"

definition de_grafana_download_dashboards_image :: "grafana_download_dashboards_image decoder" where
  "de_grafana_download_dashboards_image y =
     res_bind (yaml_entries y) (\<lambda>kvs.
     res_bind (default_field ''tag'' '''' de_string kvs) (\<lambda>a.
     Inr \<lparr>download_tag = a\<rparr>))"

definition de_grafana_sidecar :: "grafana_sidecar decoder" where
  "de_grafana_sidecar y =
     res_bind (yaml_entries y) (\<lambda>kvs.
     res_bind (default_field ''image'' generic_image_default de_generic_image kvs) (\<lambda>a.
     Inr \<lparr>sidecar_image = a\<rparr>))"

definition de_grafana :: "grafana decoder" where
  "de_grafana y =
     res_bind (yaml_entries y) (\<lambda>kvs.
     res_bind (default_field ''downloadDashboardsImage'' grafana_download_dashboards_image_default de_grafana_download_dashboards_image kvs) (\<lambda>a.
     res_bind (default_field ''image'' generic_image_default de_generic_image kvs) (\<lambda>b.
     res_bind (default_field ''sidecar'' grafana_sidecar_default de_grafana_sidecar kvs) (\<lambda>c.
     Inr \<lparr>grafana_download = a, grafana_image_of = b, grafana_sidecar_of = c\<rparr>))))"

definition de_logstash :: "logstash decoder" where
  "de_logstash y =
     res_bind (yaml_entries y) (\<lambda>kvs.
     res_bind (default_field ''imageTag'' '''' de_string kvs) (\<lambda>a.
     Inr \<lparr>logstash_tag = a\<rparr>))"

definition de_loki :: "loki decoder" where
  "de_loki y =
     res_bind (yaml_entries y) (\<lambda>kvs.
     res_bind (default_field ''image'' generic_image_default de_generic_image kvs) (\<lambda>a.
     Inr \<lparr>loki_image = a\<rparr>))"

definition de_prometheus_alertmanager :: "prometheus_alertmanager decoder" where
  "de_prometheus_alertmanager y =
     res_bind (yaml_entries y) (\<lambda>kvs.
     res_bind (default_field ''image'' generic_image_default de_generic_image kvs) (\<lambda>a.
     Inr \<lparr>alertmanager_image = a\<rparr>))"

definition de_prometheus_node_exporter :: "prometheus_node_exporter decoder" where
  "de_prometheus_node_exporter y =
     res_bind (yaml_entries y) (\<lambda>kvs.
     res_bind (default_field ''image'' generic_image_default de_generic_image kvs) (\<lambda>a.
     Inr \<lparr>node_exporter_image = a\<rparr>))"

definition de_prometheus_pushgateway :: "prometheus_pushgateway decoder" where
  "de_prometheus_pushgateway y =
     res_bind (yaml_entries y) (\<lambda>kvs.
     res_bind (default_field ''image'' generic_image_default de_generic_image kvs) (\<lambda>a.
     Inr \<lparr>pushgateway_image = a\<rparr>))"

definition de_prometheus_server :: "prometheus_server decoder" where
  "de_prometheus_server y =
     res_bind (yaml_entries y) (\<lambda>kvs.
     res_bind (default_field ''image'' generic_image_default de_generic_image kvs) (\<lambda>a.
     Inr \<lparr>server_image = a\<rparr>))"

definition de_prometheus :: "prometheus decoder" where
  "de_prometheus y =
     res_bind (yaml_entries y) (\<lambda>kvs.
     res_bind (default_field ''alertmanager'' prometheus_alertmanager_default de_prometheus_alertmanager kvs) (\<lambda>a.
     res_bind (default_field ''nodeExporter'' prometheus_node_exporter_default de_prometheus_node_exporter kvs) (\<lambda>b.
     res_bind (default_field ''pushgateway'' prometheus_pushgateway_default de_prometheus_pushgateway kvs) (\<lambda>c.
     res_bind (default_field ''server'' prometheus_server_default de_prometheus_server kvs) (\<lambda>d.
     Inr \<lparr>alertmanager = a, node_exporter = b, pushgateway = c, server = d\<rparr>)))))"

definition de_promtail_config_snippets :: "promtail_config_snippets decoder" where
  "de_promtail_config_snippets y =
     res_bind (yaml_entries y) (\<lambda>kvs.
     res_bind (default_field ''extraClientConfigs'' '''' de_string kvs) (\<lambda>a.
     res_bind (required_field ''scrapeConfigs'' de_string kvs) (\<lambda>b.
     Inr \<lparr>deprecated_extra_client_configs = a, scrape_configs = b\<rparr>)))"

definition de_promtail_config :: "promtail_config decoder" where
  "de_promtail_config y =
     res_bind (yaml_entries y) (\<lambda>kvs.
     res_bind (default_field ''lokiAddress'' '''' de_string kvs) (\<lambda>a.
     res_bind (default_field ''file'' '''' de_string kvs) (\<lambda>b.
     res_bind (default_field ''snippets'' promtail_config_snippets_default de_promtail_config_snippets kvs) (\<lambda>c.
     Inr \<lparr>deprecated_loki_address = a, config_file = b, config_snippets = c\<rparr>))))"

definition de_promtail :: "k8s_types \<Rightarrow> promtail decoder" where
  "de_promtail k8s y =
     res_bind (yaml_entries y) (\<lambda>kvs.
     res_bind (default_field ''config'' promtail_config_default de_promtail_config kvs) (\<lambda>a.
     res_bind (default_field ''initContainer'' promtail_init_container_default (de_promtail_init_container k8s) kvs) (\<lambda>b.
     res_bind (default_field ''readinessProbe'' None (de_probe k8s) kvs) (\<lambda>c.
     Inr \<lparr>promtail_config_of = a, init_container_of = b, readiness_probe = c\<rparr>))))"

definition de_loki_stack :: "k8s_types \<Rightarrow> loki_stack decoder" where
  "de_loki_stack k8s y =
     res_bind (yaml_entries y) (\<lambda>kvs.
     res_bind (default_field ''filebeat'' filebeat_default de_filebeat kvs) (\<lambda>a.
     res_bind (default_field ''grafana'' grafana_default de_grafana kvs) (\<lambda>b.
     res_bind (default_field ''logstash'' logstash_default de_logstash kvs) (\<lambda>c.
     res_bind (default_field ''loki'' loki_default de_loki kvs) (\<lambda>d.
     res_bind (default_field ''prometheus'' prometheus_default de_prometheus kvs) (\<lambda>e.
     res_bind (default_field ''promtail'' promtail_default (de_promtail k8s) kvs) (\<lambda>f.
     Inr \<lparr>ls_filebeat = a, ls_grafana = b, ls_logstash = c, ls_loki = d, ls_prometheus = e, ls_promtail = f\<rparr>)))))))"

definition de_localpv_provisioner_release :: "localpv_provisioner_release decoder" where
  "de_localpv_provisioner_release y =
     res_bind (yaml_entries y) (\<lambda>kvs.
     res_bind (default_field ''version'' '''' de_string kvs) (\<lambda>a.
     Inr \<lparr>release_version_of = a\<rparr>))"

definition de_localpv_provisioner_localpv :: "localpv_provisioner_localpv decoder" where
  "de_localpv_provisioner_localpv y =
     res_bind (yaml_entries y) (\<lambda>kvs.
     res_bind (default_field ''image'' generic_image_default de_generic_image kvs) (\<lambda>a.
     Inr \<lparr>localpv_image = a\<rparr>))"

definition de_localpv_provisioner_helper_pod :: "localpv_provisioner_helper_pod decoder" where
  "de_localpv_provisioner_helper_pod y =
     res_bind (yaml_entries y) (\<lambda>kvs.
     res_bind (default_field ''image'' generic_image_default de_generic_image kvs) (\<lambda>a.
     Inr \<lparr>helper_image = a\<rparr>))"

definition de_localpv_provisioner :: "localpv_provisioner decoder" where
  "de_localpv_provisioner y =
     res_bind (yaml_entries y) (\<lambda>kvs.
     res_bind (default_field ''release'' localpv_provisioner_release_default de_localpv_provisioner_release kvs) (\<lambda>a.
     res_bind (default_field ''localpv'' localpv_provisioner_localpv_default de_localpv_provisioner_localpv kvs) (\<lambda>b.
     res_bind (default_field ''helperPod'' localpv_provisioner_helper_pod_default de_localpv_provisioner_helper_pod kvs) (\<lambda>c.
     Inr \<lparr>lp_release = a, lp_localpv = b, lp_helper_pod = c\<rparr>))))"

definition de_jaeger_operator :: "jaeger_operator decoder" where
  "de_jaeger_operator y =
     res_bind (yaml_entries y) (\<lambda>kvs.
     res_bind (default_field ''image'' generic_image_default de_generic_image kvs) (\<lambda>a.
     Inr \<lparr>jaeger_image = a\<rparr>))"

definition de_core_values :: "k8s_types \<Rightarrow> core_values decoder" where
  "de_core_values k8s y =
     res_bind (yaml_entries y) (\<lambda>kvs.
     res_bind (required_field ''agents'' de_agents kvs) (\<lambda>a.
     res_bind (required_field ''base'' de_base kvs) (\<lambda>b.
     res_bind (required_field ''image'' de_image kvs) (\<lambda>c.
     res_bind (required_field ''io_engine'' de_io_engine kvs) (\<lambda>d.
     res_bind (default_field ''eventing'' eventing_default de_eventing kvs) (\<lambda>e.
     res_bind (required_field ''csi'' de_csi kvs) (\<lambda>f.
     res_bind (default_field ''jaeger-operator'' jaeger_operator_default de_jaeger_operator kvs) (\<lambda>g.
     res_bind (default_field ''loki-stack'' loki_stack_default (de_loki_stack k8s) kvs) (\<lambda>h.
     res_bind (default_field ''localpv-provisioner'' localpv_provisioner_default de_localpv_provisioner kvs) (\<lambda>i.
     Inr \<lparr>cv_agents = a, cv_base = b, cv_image = c, cv_io_engine = d, cv_eventing = e, cv_csi = f, cv_jaeger_operator = g, cv_loki_stack = h, cv_localpv_provisioner = i\<rparr>))))))))))"

definition de_umbrella_values :: "k8s_types \<Rightarrow> umbrella_values decoder" where
  "de_umbrella_values k8s y =
     res_bind (yaml_entries y) (\<lambda>kvs.
     res_bind (required_field ''mayastor'' (de_core_values k8s) kvs) (\<lambda>a.
     Inr \<lparr>um_core = a\<rparr>))"

section \<open>Getters\<close>

definition image_tag :: "core_values \<Rightarrow> string" where
  "image_tag v = image_tag_of (cv_image v)"

definition control_plane_repotag :: "core_values \<Rightarrow> string" where
  "control_plane_repotag v = repo_control_plane (image_repo_tags (cv_image v))"

definition data_plane_repotag :: "core_values \<Rightarrow> string" where
  "data_plane_repotag v = repo_data_plane (image_repo_tags (cv_image v))"

definition extensions_repotag :: "core_values \<Rightarrow> string" where
  "extensions_repotag v = repo_extensions (image_repo_tags (cv_image v))"

definition io_engine_log_level :: "core_values \<Rightarrow> string" where
  "io_engine_log_level v = log_level (cv_io_engine v)"

definition csi_provisioner_image_tag :: "core_values \<Rightarrow> string" where
  "csi_provisioner_image_tag v = provisioner_tag (csi_image_of (cv_csi v))"

definition csi_attacher_image_tag :: "core_values \<Rightarrow> string" where
  "csi_attacher_image_tag v = attacher_tag (csi_image_of (cv_csi v))"

definition csi_snapshotter_image_tag :: "core_values \<Rightarrow> string" where
  "csi_snapshotter_image_tag v = snapshotter_tag (csi_image_of (cv_csi v))"

definition csi_snapshot_controller_image_tag :: "core_values \<Rightarrow> string" where
  "csi_snapshot_controller_image_tag v = snapshot_controller_tag (csi_image_of (cv_csi v))"

definition csi_node_driver_registrar_image_tag :: "core_values \<Rightarrow> string" where
  "csi_node_driver_registrar_image_tag v = registrar_tag (csi_image_of (cv_csi v))"

definition csi_resizer_image_tag :: "core_values \<Rightarrow> string" where
  "csi_resizer_image_tag v = resizer_tag (csi_image_of (cv_csi v))"

definition csi_node_nvme_io_timeout :: "core_values \<Rightarrow> string" where
  "csi_node_nvme_io_timeout v = io_timeout (node_nvme (csi_node_of (cv_csi v)))"

definition deprecated_node_csi_mount_path :: "core_values \<Rightarrow> string" where
  "deprecated_node_csi_mount_path v = deprecated_plugin_mount_path (csi_node_of (cv_csi v))"

definition loki_stack_loki_image_tag :: "core_values \<Rightarrow> string" where
  "loki_stack_loki_image_tag v = generic_tag (loki_image (ls_loki (cv_loki_stack v)))"

definition loki_stack_promtail_scrape_configs :: "core_values \<Rightarrow> string" where
  "loki_stack_promtail_scrape_configs v = scrape_configs (config_snippets (promtail_config_of (ls_promtail (cv_loki_stack v))))"

definition loki_stack_promtail_config_file :: "core_values \<Rightarrow> string" where
  "loki_stack_promtail_config_file v = config_file (promtail_config_of (ls_promtail (cv_loki_stack v)))"

definition loki_stack_promtail_loki_address :: "core_values \<Rightarrow> string" where
  "loki_stack_promtail_loki_address v = deprecated_loki_address (promtail_config_of (ls_promtail (cv_loki_stack v)))"

definition promtail_extra_client_configs :: "core_values \<Rightarrow> string" where
  "promtail_extra_client_configs v = deprecated_extra_client_configs (config_snippets (promtail_config_of (ls_promtail (cv_loki_stack v))))"

definition promtail_readiness_probe_http_get_path :: "core_values \<Rightarrow> string" where
  "promtail_readiness_probe_http_get_path v = unwrap_or [] (unwrap_or None (readiness_probe (ls_promtail (cv_loki_stack v))))"

definition filebeat_image_tag :: "core_values \<Rightarrow> string" where
  "filebeat_image_tag v = filebeat_tag (ls_filebeat (cv_loki_stack v))"

definition logstash_image_tag :: "core_values \<Rightarrow> string" where
  "logstash_image_tag v = logstash_tag (ls_logstash (cv_loki_stack v))"

definition grafana_download_dashboards_image_tag :: "core_values \<Rightarrow> string" where
  "grafana_download_dashboards_image_tag v = download_tag (grafana_download (ls_grafana (cv_loki_stack v)))"

definition grafana_image_tag :: "core_values \<Rightarrow> string" where
  "grafana_image_tag v = generic_tag (grafana_image_of (ls_grafana (cv_loki_stack v)))"

definition grafana_sidecar_image_tag :: "core_values \<Rightarrow> string" where
  "grafana_sidecar_image_tag v = generic_tag (sidecar_image (grafana_sidecar_of (ls_grafana (cv_loki_stack v))))"

definition localpv_release_version :: "core_values \<Rightarrow> string" where
  "localpv_release_version v = release_version_of (lp_release (cv_localpv_provisioner v))"

definition localpv_provisioner_image_tag :: "core_values \<Rightarrow> string" where
  "localpv_provisioner_image_tag v = generic_tag (localpv_image (lp_localpv (cv_localpv_provisioner v)))"

definition localpv_helper_image_tag :: "core_values \<Rightarrow> string" where
  "localpv_helper_image_tag v = generic_tag (helper_image (lp_helper_pod (cv_localpv_provisioner v)))"

definition prometheus_alertmanager_image_tag :: "core_values \<Rightarrow> string" where
  "prometheus_alertmanager_image_tag v = generic_tag (alertmanager_image (alertmanager (ls_prometheus (cv_loki_stack v))))"

definition prometheus_node_exporter_image_tag :: "core_values \<Rightarrow> string" where
  "prometheus_node_exporter_image_tag v = generic_tag (node_exporter_image (node_exporter (ls_prometheus (cv_loki_stack v))))"

definition prometheus_pushgateway_image_tag :: "core_values \<Rightarrow> string" where
  "prometheus_pushgateway_image_tag v = generic_tag (pushgateway_image (pushgateway (ls_prometheus (cv_loki_stack v))))"

definition prometheus_server_image_tag :: "core_values \<Rightarrow> string" where
  "prometheus_server_image_tag v = generic_tag (server_image (server (ls_prometheus (cv_loki_stack v))))"

definition deprecated_log_silence_level :: "core_values \<Rightarrow> string" where
  "deprecated_log_silence_level v = base_deprecated_log_silence_level (cv_base v)"

definition jaeger_operator_image_tag :: "core_values \<Rightarrow> string" where
  "jaeger_operator_image_tag v = generic_tag (jaeger_image (cv_jaeger_operator v))"

definition eventing_enabled :: "core_values \<Rightarrow> bool" where
  "eventing_enabled v = eventing_enabled_of (cv_eventing v)"

definition promtail_init_containers :: "core_values \<Rightarrow> yaml list" where
  "promtail_init_containers v =
     (case init_container_of (ls_promtail (cv_loki_stack v)) of
        DeprecatedInitContainer \<Rightarrow> [] | InitContainer cs \<Rightarrow> cs)"

definition core_ha_is_enabled :: "core_values \<Rightarrow> bool" where
  "core_ha_is_enabled v = ha_enabled (agents_ha (cv_agents v))"

definition core_partial_rebuild_is_enabled :: "core_values \<Rightarrow> bool" where
  "core_partial_rebuild_is_enabled v = partial_enabled (rebuild_partial_of (core_rebuild (agents_core (cv_agents v))))"

definition umbrella_ha_is_enabled :: "umbrella_values \<Rightarrow> bool" where
  "umbrella_ha_is_enabled v = core_ha_is_enabled (um_core v)"

definition umbrella_partial_rebuild_is_enabled :: "umbrella_values \<Rightarrow> bool" where
  "umbrella_partial_rebuild_is_enabled v = core_partial_rebuild_is_enabled (um_core v)"

text \<open>
  The trait object \<open>Box<dyn HelmValuesCollection>\<close>: one of the two implementations.
\<close>

datatype helm_values = CoreHelmValues core_values | UmbrellaHelmValues umbrella_values

fun ha_is_enabled :: "helm_values \<Rightarrow> bool" where
  "ha_is_enabled (CoreHelmValues v) = core_ha_is_enabled v"
| "ha_is_enabled (UmbrellaHelmValues v) = umbrella_ha_is_enabled v"

fun partial_rebuild_is_enabled :: "helm_values \<Rightarrow> bool" where
  "partial_rebuild_is_enabled (CoreHelmValues v) = core_partial_rebuild_is_enabled v"
| "partial_rebuild_is_enabled (UmbrellaHelmValues v) = umbrella_partial_rebuild_is_enabled v"

section \<open>What the flags are read from\<close>

fun yaml_path :: "string list \<Rightarrow> yaml \<Rightarrow> yaml option" where
  "yaml_path [] y = Some y"
| "yaml_path (k # ks) (YMap kvs) = (case map_of kvs k of None \<Rightarrow> None | Some y \<Rightarrow> yaml_path ks y)"
| "yaml_path (k # ks) _ = None"

lemma yaml_path_Cons:
  "yaml_entries y = Inr kvs \<Longrightarrow>
     yaml_path (k # ks) y = (case map_of kvs k of None \<Rightarrow> None | Some z \<Rightarrow> yaml_path ks z)"
  by (cases y) auto

lemma required_field_Inr: "required_field k d kvs = Inr a \<longleftrightarrow> (\<exists>y. map_of kvs k = Some y \<and> d y = Inr a)"
  by (auto simp: required_field_def split: option.splits)

lemma default_field_Inr:
  "default_field k dflt d kvs = Inr a \<longleftrightarrow>
     (case map_of kvs k of None \<Rightarrow> a = dflt | Some y \<Rightarrow> d y = Inr a)"
  by (auto simp: default_field_def split: option.splits)

lemma de_bool_Inr: "de_bool y = Inr b \<longleftrightarrow> y = YBool b"
  by (cases y) auto

lemma de_agents_flags:
  assumes "de_agents y = Inr a"
  shows "yaml_path [''ha'', ''enabled''] y = Some (YBool (ha_enabled (agents_ha a)))"
    and "case yaml_path [''core'', ''rebuild''] y of
           None \<Rightarrow> partial_enabled (rebuild_partial_of (core_rebuild (agents_core a)))
         | Some r \<Rightarrow> yaml_path [''partial'', ''enabled''] r =
             Some (YBool (partial_enabled (rebuild_partial_of (core_rebuild (agents_core a)))))"
  using assms
  by (auto simp: de_agents_def de_ha_def de_core_def de_rebuild_def de_rebuild_partial_def res_bind_eq_Inr
      required_field_Inr default_field_Inr de_bool_Inr yaml_path_Cons rebuild_default_def
      rebuild_partial_default_def split: option.splits)

text \<open>
  Property C16.  The two flags that steer an upgrade are those of the values file: a set of
  values that can be read has \<open>agents.ha.enabled\<close>, a boolean, and it is the HA flag; and the
  partial-rebuild flag is \<open>agents.core.rebuild.partial.enabled\<close> when \<open>agents.core.rebuild\<close>
  is there at all, and true when it is not.
\<close>

theorem core_values_flags:
  assumes "de_core_values k8s y = Inr v"
  shows "yaml_path [''agents'', ''ha'', ''enabled''] y = Some (YBool (ha_is_enabled (CoreHelmValues v))) \<and>
    (case yaml_path [''agents'', ''core'', ''rebuild''] y of
       None \<Rightarrow> partial_rebuild_is_enabled (CoreHelmValues v)
     | Some r \<Rightarrow> yaml_path [''partial'', ''enabled''] r =
         Some (YBool (partial_rebuild_is_enabled (CoreHelmValues v))))"
proof -
  from assms obtain kvs agents z where y: "yaml_entries y = Inr kvs" and
    z: "map_of kvs ''agents'' = Some z" "de_agents z = Inr agents" and v: "cv_agents v = agents"
    by (auto simp: de_core_values_def res_bind_eq_Inr required_field_Inr)
  show ?thesis
    using de_agents_flags [OF z(2)] yaml_path_Cons [OF y] z(1) v
    by (simp add: core_ha_is_enabled_def core_partial_rebuild_is_enabled_def cong: option.case_cong)
qed

end
