(* ===== verification/Yq.thy ===== *)
theory Yq
  imports KubeRest Chart
begin

text \<open>
  Running \<open>yq\<close> (\<open>helm/yaml/yq.rs\<close>), temporary files (\<open>common/file.rs\<close>) and regular
  expressions (\<open>common/regex.rs\<close>).  The libraries used by the job are collected in the record
  \<open>libs\<close>: regular expressions, semantic versions, the YAML reader, the JSON writers and \<open>heck\<close>'s case conversion.
\<close>

record 'v libs =
  regex_new :: "string \<Rightarrow> (string, unit) res"
  regex_is_match :: "string \<Rightarrow> string \<Rightarrow> bool"
  version_parse :: "string \<Rightarrow> (string, 'v) res"
  version_new :: "nat \<Rightarrow> nat \<Rightarrow> nat \<Rightarrow> 'v"
  version_to_string :: "'v \<Rightarrow> string"
  yaml_read :: "string \<Rightarrow> (string, yaml) res"
  json_of_client_url :: "string \<Rightarrow> (string, string) res"
  json_of_yaml :: "yaml \<Rightarrow> (string, string) res"
  json_of_note :: "string \<Rightarrow> string \<Rightarrow> string \<Rightarrow> (string, string) res"
  k8s :: k8s_types
  to_train_case :: "string \<Rightarrow> string"

definition regex_match :: "'v libs \<Rightarrow> string \<Rightarrow> string \<Rightarrow> (upgrade_error, bool) res" where
  "regex_match lib expr haystack =
     res_bind (map_err (\<lambda>e. RegexCompile e expr) (regex_new lib expr)) (\<lambda>_.
     Inr (regex_is_match lib expr haystack))"

definition yaml_key :: "'v libs \<Rightarrow> string \<Rightarrow> (upgrade_error, string) res" where
  "yaml_key lib value =
     res_bind (regex_match lib (''^('' @ BACKSLASH @ ''..+)+$'') value) (\<lambda>ok.
     res_bind (ensure ok (NotAValidYamlKeyForStringValue value)) (\<lambda>_.
     Inr value))"

section \<open>Files\<close>

definition write_to_tempfile :: "'w host \<Rightarrow> string option \<Rightarrow> string \<Rightarrow> ('w, string) job" where
  "write_to_tempfile h file_dir buf =
     bindP (logged (tempfile_new_in h file_dir) (EvTempFile file_dir) TempFileCreation) (\<lambda>path.
     bindP (logged (file_write h path buf) (EvFileWrite path buf) (\<lambda>e. WriteToTempFile e path)) (\<lambda>_.
     retP path))"

section \<open>Commands\<close>

definition command_output ::
  "'w host \<Rightarrow> string list \<Rightarrow> (string \<times> string) list \<Rightarrow> ('w, cmd_output) job" where
  "command_output h args envs =
     logged (run_command h ''yq'' args envs) (EvCommand ''yq'' args envs) (\<lambda>e. YqCommandExec e ''yq'' args)"

text \<open>\<open>ensure!(output.status.success(), ..)\<close> with the standard error in the error value.\<close>

definition ensure_success :: "(string \<Rightarrow> upgrade_error) \<Rightarrow> cmd_output \<Rightarrow> (upgrade_error, unit) res" where
  "ensure_success err out =
     (if cmd_success out then Inr ()
      else res_bind (map_err U8VectorToString (from_utf8 (cmd_stderr out))) (\<lambda>std_err. Inl (err std_err)))"

definition YQ_VERSION_REGEX :: string where
  "YQ_VERSION_REGEX = ''^(.+4'' @ BACKSLASH @ ''.[0-9]+'' @ BACKSLASH @ ''.[0-9]+.*)$''"

definition yq_new :: "'v libs \<Rightarrow> 'w host \<Rightarrow> ('w, unit) job" where
  "yq_new lib h =
     bindP (command_output h [''-V''] []) (\<lambda>out.
     bindP (liftR (ensure_success (YqVersionCommand ''yq'' ''-V'') out)) (\<lambda>_.
     bindP (liftR (map_err (\<lambda>e. RegexCompile e YQ_VERSION_REGEX) (regex_new lib YQ_VERSION_REGEX))) (\<lambda>_.
     bindP (liftR (map_err U8VectorToString (from_utf8 (cmd_stdout out)))) (\<lambda>stdout.
     liftR (ensure (regex_is_match lib YQ_VERSION_REGEX (str_trim stdout)) NotYqV4)))))"

definition append_to_array :: "'w host \<Rightarrow> string \<Rightarrow> string \<Rightarrow> string \<Rightarrow> ('w, unit) job" where
  "append_to_array h key val filepath =
     (let args = [''-i'', key @ '' += ['' @ val @ '']'', filepath]
      in bindP (command_output h args []) (\<lambda>out.
         liftR (ensure_success (YqAppendToArrayCommand ''yq'' args) out)))"

definition append_to_object :: "'w host \<Rightarrow> string \<Rightarrow> string \<Rightarrow> string \<Rightarrow> ('w, unit) job" where
  "append_to_object h key val filepath =
     (let args = [''-i'', key @ '' += '' @ val, filepath]
      in bindP (command_output h args []) (\<lambda>out.
         liftR (ensure_success (YqAppendToObjectCommand ''yq'' args) out)))"

definition delete_object :: "'w host \<Rightarrow> string \<Rightarrow> string \<Rightarrow> ('w, unit) job" where
  "delete_object h key filepath =
     (let args = [''-i'', ''del('' @ key @ '')'', filepath]
      in bindP (command_output h args []) (\<lambda>out.
         liftR (ensure_success (YqDeleteObjectCommand ''yq'' args) out)))"

definition merge_files :: "'w host \<Rightarrow> string \<Rightarrow> string \<Rightarrow> ('w, string) job" where
  "merge_files h high_priority low_priority =
     (let args = [''ea'', ''. as $item ireduce ({}; . * $item )'', low_priority, high_priority]
      in bindP (command_output h args []) (\<lambda>out.
         bindP (liftR (ensure_success (YqMergeCommand ''yq'' args) out)) (\<lambda>_.
         retP (cmd_stdout out))))"

text \<open>
  A literal is written as it is when it is a boolean, null or an integer; any other text
  goes through the environment variable \<open>VAL\<close>.
\<close>

definition literal :: "string \<Rightarrow> string \<times> (string \<times> string) list" where
  "literal val =
     (if val = ''true'' \<or> val = ''false'' \<or> val = ''null'' then (val, [])
      else if is_i64 val then (val, [])
      else (''strenv(VAL)'', [(''VAL'', val)]))"

definition set_literal_value :: "'w host \<Rightarrow> string \<Rightarrow> string \<Rightarrow> string \<Rightarrow> ('w, unit) job" where
  "set_literal_value h key val filepath =
     (let (expr, envs) = literal val;
          args = [''-i'', key @ '' = '' @ expr, filepath]
      in bindP (command_output h args envs) (\<lambda>out.
         liftR (ensure_success (YqSetCommand ''yq'' args) out)))"

end
