(* ===== verification/HelmValues.thy ===== *)
theory HelmValues
  imports Yq
begin

text \<open>
  The values file for the helm upgrade (\<open>helm/values.rs\<close>): the values of the installed release
  are merged over those of the new chart, and a script of \<open>yq\<close> commands, which depends on the
  two versions and on some of the values, is run on the result.  Each block of the source
  that handles a range of versions is a definition of its own.
\<close>

definition TWO_DOT_O_RC_ONE :: string where "TWO_DOT_O_RC_ONE = ''2.0.0-rc.1''"
definition TWO_DOT_ONE :: string where "TWO_DOT_ONE = ''2.1.0''"
definition TWO_DOT_THREE :: string where "TWO_DOT_THREE = ''2.3.0''"
definition TWO_DOT_FOUR :: string where "TWO_DOT_FOUR = ''2.4.0''"
definition TWO_DOT_FIVE :: string where "TWO_DOT_FIVE = ''2.5.0''"
definition TWO_DOT_SIX :: string where "TWO_DOT_SIX = ''2.6.0''"

definition parse_const :: "'v libs \<Rightarrow> string \<Rightarrow> (upgrade_error, 'v) res" where
  "parse_const lib s = map_err (\<lambda>e. SemverParse e s) (version_parse lib s)"

text \<open>A key is vetted, then the command is run.\<close>

definition set_value :: "'v libs \<Rightarrow> 'w host \<Rightarrow> string \<Rightarrow> string \<Rightarrow> string \<Rightarrow> ('w, unit) job" where
  "set_value lib h key val file =
     bindP (liftR (yaml_key lib key)) (\<lambda>k. set_literal_value h k val file)"

definition delete_key :: "'v libs \<Rightarrow> 'w host \<Rightarrow> string \<Rightarrow> string \<Rightarrow> ('w, unit) job" where
  "delete_key lib h key file =
     bindP (liftR (yaml_key lib key)) (\<lambda>k. delete_object h k file)"

definition bool_to_string :: "bool \<Rightarrow> string" where
  "bool_to_string b = (if b then ''true'' else ''false'')"

section \<open>The blocks of special cases\<close>

definition log_level_to_replace :: string where "log_level_to_replace = ''info,io_engine=info''"

definition values_two_dot_o :: "'v libs \<Rightarrow> 'w host \<Rightarrow> core_values \<Rightarrow> core_values \<Rightarrow> string \<Rightarrow> ('w, unit) job" where
  "values_two_dot_o lib h src tgt file =
     (if io_engine_log_level src = log_level_to_replace \<and> io_engine_log_level tgt \<noteq> log_level_to_replace
      then set_value lib h ''.io_engine.logLevel'' (io_engine_log_level tgt) file
      else retP ())"

definition values_repo_tags :: "'v libs \<Rightarrow> 'w host \<Rightarrow> core_values \<Rightarrow> string \<Rightarrow> ('w, unit) job" where
  "values_repo_tags lib h tgt file =
     bindP (set_value lib h ''.image.repoTags.controlPlane'' (control_plane_repotag tgt) file) (\<lambda>_.
     bindP (set_value lib h ''.image.repoTags.dataPlane'' (data_plane_repotag tgt) file) (\<lambda>_.
     (set_value lib h ''.image.repoTags.extensions'' (extensions_repotag tgt) file)))"

definition NEWLINE :: string where "NEWLINE = [CHR 0x0A]"

definition scrape_configs_to_replace :: string where
  "scrape_configs_to_replace = concat (map (\<lambda>l. l @ NEWLINE)
     [''- job_name: {{ .Release.Name }}-pods-name'',
      ''  pipeline_stages:'',
      ''    - docker: {}'',
      ''  kubernetes_sd_configs:'',
      ''  - role: pod'',
      ''  relabel_configs:'',
      ''  - source_labels:'',
      ''    - __meta_kubernetes_pod_node_name'',
      ''    target_label: hostname'',
      ''    action: replace'',
      ''  - action: labelmap'',
      ''    regex: __meta_kubernetes_pod_label_(.+)'',
      ''  - action: keep'',
      ''    source_labels:'',
      ''    - __meta_kubernetes_pod_label_openebs_io_logging'',
      ''    regex: true'',
      ''    target_label: {{ .Release.Name }}_component'',
      ''  - action: replace'',
      ''    replacement: $1'',
      ''    separator: /'',
      ''    source_labels:'',
      ''    - __meta_kubernetes_namespace'',
      ''    target_label: job'',
      ''  - action: replace'',
      ''    source_labels:'',
      ''    - __meta_kubernetes_pod_name'',
      ''    target_label: pod'',
      ''  - action: replace'',
      ''    source_labels:'',
      ''    - __meta_kubernetes_pod_container_name'',
      ''    target_label: container'',
      ''  - replacement: /var/log/pods/*$1/*.log'',
      ''    separator: /'',
      ''    source_labels:'',
      ''    - __meta_kubernetes_pod_uid'',
      ''    - __meta_kubernetes_pod_container_name'',
      ''    target_label: __path__''])"

definition values_two_dot_five ::
  "'v libs \<Rightarrow> 'w host \<Rightarrow> core_values \<Rightarrow> core_values \<Rightarrow> string \<Rightarrow> ('w, unit) job" where
  "values_two_dot_five lib h src tgt file =
     bindP (if loki_stack_promtail_scrape_configs src = scrape_configs_to_replace \<and>
               loki_stack_promtail_scrape_configs tgt \<noteq> scrape_configs_to_replace
            then set_value lib h ''.loki-stack.promtail.config.snippets.scrapeConfigs''
                   (loki_stack_promtail_scrape_configs tgt) file
            else retP ()) (\<lambda>_.
     if csi_node_nvme_io_timeout src = ''30'' \<and> csi_node_nvme_io_timeout tgt \<noteq> ''30''
     then set_value lib h ''.csi.node.nvme.io_timeout'' (csi_node_nvme_io_timeout tgt) file
     else retP ())"

definition loki_address_to_clients :: "'v libs \<Rightarrow> 'w host \<Rightarrow> core_values \<Rightarrow> string \<Rightarrow> ('w, unit) job" where
  "loki_address_to_clients lib h src file =
     bindP (liftR (yaml_key lib ''.loki-stack.promtail.config.clients'')) (\<lambda>clients_key.
     bindP (delete_object h clients_key file) (\<lambda>_.
     bindP (liftR (map_err (\<lambda>e. SerializePromtailConfigClientToJson e (loki_stack_promtail_loki_address src))
              (json_of_client_url lib (loki_stack_promtail_loki_address src)))) (\<lambda>client.
     bindP (append_to_array h clients_key client file) (\<lambda>_.
     bindP (if promtail_extra_client_configs src \<noteq> []
            then bindP (liftR (map_err (\<lambda>e. DeserializePromtailExtraConfig e (promtail_extra_client_configs src))
                         (yaml_read lib (promtail_extra_client_configs src)))) (\<lambda>extra.
                 bindP (liftR (map_err (\<lambda>e. SerializePromtailExtraConfigToJson e (promtail_extra_client_configs src))
                         (json_of_yaml lib extra))) (\<lambda>json.
                 bindP (liftR (yaml_key lib ''.loki-stack.promtail.config.clients[0]'')) (\<lambda>k.
                 append_to_object h k json file)))
            else retP ()) (\<lambda>_.
     bindP (delete_key lib h ''.loki-stack.promtail.config.snippets.extraClientConfigs'' file) (\<lambda>_.
     delete_key lib h ''.loki-stack.promtail.config.lokiAddress'' file))))))"

definition values_localpv :: "'v libs \<Rightarrow> 'w host \<Rightarrow> core_values \<Rightarrow> core_values \<Rightarrow> string \<Rightarrow> ('w, unit) job" where
  "values_localpv lib h src tgt file =
     (if localpv_release_version src = ''3.4.0'' \<and> localpv_release_version tgt \<noteq> ''3.4.0''
      then
     bindP (set_value lib h ''.localpv-provisioner.release.version'' (localpv_release_version tgt) file) (\<lambda>_.
     bindP (set_value lib h ''.localpv-provisioner.localpv.image.tag'' (localpv_provisioner_image_tag tgt) file) (\<lambda>_.
     (set_value lib h ''.localpv-provisioner.helperPod.image.tag'' (localpv_helper_image_tag tgt) file)))
      else retP ())"

definition values_loki_tags :: "'v libs \<Rightarrow> 'w host \<Rightarrow> core_values \<Rightarrow> string \<Rightarrow> ('w, unit) job" where
  "values_loki_tags lib h tgt file =
     bindP (set_value lib h ''.loki-stack.loki.image.tag'' (loki_stack_loki_image_tag tgt) file) (\<lambda>_.
     bindP (set_value lib h ''.loki-stack.filebeat.imageTag'' (filebeat_image_tag tgt) file) (\<lambda>_.
     bindP (set_value lib h ''.loki-stack.logstash.imageTag'' (logstash_image_tag tgt) file) (\<lambda>_.
     bindP (set_value lib h ''.loki-stack.grafana.downloadDashboardsImage.tag'' (grafana_download_dashboards_image_tag tgt) file) (\<lambda>_.
     bindP (set_value lib h ''.loki-stack.grafana.image.tag'' (grafana_image_tag tgt) file) (\<lambda>_.
     bindP (set_value lib h ''.loki-stack.grafana.sidecar.image.tag'' (grafana_sidecar_image_tag tgt) file) (\<lambda>_.
     bindP (set_value lib h ''.loki-stack.prometheus.alertmanager.image.tag'' (prometheus_alertmanager_image_tag tgt) file) (\<lambda>_.
     bindP (set_value lib h ''.loki-stack.prometheus.nodeExporter.image.tag'' (prometheus_node_exporter_image_tag tgt) file) (\<lambda>_.
     bindP (set_value lib h ''.loki-stack.prometheus.pushgateway.image.tag'' (prometheus_pushgateway_image_tag tgt) file) (\<lambda>_.
     bindP (set_value lib h ''.loki-stack.prometheus.server.image.tag'' (prometheus_server_image_tag tgt) file) (\<lambda>_.
     bindP (delete_key lib h ''.loki-stack.loki.config.ingester.lifecycler.ring.kvstore'' file) (\<lambda>_.
     bindP (delete_key lib h ''.loki-stack.promtail.config.snippets.extraClientConfigs'' file) (\<lambda>_.
     (delete_key lib h ''.loki-stack.promtail.initContainer'' file)))))))))))))"

definition append_init_container :: "'v libs \<Rightarrow> 'w host \<Rightarrow> string \<Rightarrow> yaml \<Rightarrow> ('w, unit) job" where
  "append_init_container lib h file container =
     bindP (liftR (map_err (\<lambda>e. SerializePromtailInitContainerToJson e []) (json_of_yaml lib container))) (\<lambda>json.
     bindP (liftR (yaml_key lib ''.loki-stack.promtail.initContainer'')) (\<lambda>k.
     append_to_object h k json file))"

definition values_renamed_keys :: "'v libs \<Rightarrow> 'w host \<Rightarrow> core_values \<Rightarrow> string \<Rightarrow> ('w, unit) job" where
  "values_renamed_keys lib h src file =
     bindP (set_value lib h ''.base.logging.silenceLevel'' (deprecated_log_silence_level src) file) (\<lambda>_.
     bindP (delete_key lib h ''.base.logSilenceLevel'' file) (\<lambda>_.
     bindP (set_value lib h ''.csi.node.pluginMountPath'' (deprecated_node_csi_mount_path src) file) (\<lambda>_.
     bindP (delete_key lib h ''.csi.node.pluginMounthPath'' file) (\<lambda>_.
     (set_value lib h ''.jaeger-operator.image.tag'' (jaeger_operator_image_tag src) file)))))"

definition values_two_dot_six ::
  "'v libs \<Rightarrow> 'w host \<Rightarrow> core_values \<Rightarrow> core_values \<Rightarrow> string \<Rightarrow> ('w, unit) job" where
  "values_two_dot_six lib h src tgt file =
     bindP (values_localpv lib h src tgt file) (\<lambda>_.
     bindP (values_loki_tags lib h tgt file) (\<lambda>_.
     bindP (loki_address_to_clients lib h src file) (\<lambda>_.
     bindP (set_value lib h ''.loki-stack.promtail.config.file'' (loki_stack_promtail_config_file tgt) file) (\<lambda>_.
     bindP (forP (promtail_init_containers tgt) (append_init_container lib h file)) (\<lambda>_.
     bindP (set_value lib h ''.loki-stack.promtail.readinessProbe.httpGet.path''
              (promtail_readiness_probe_http_get_path tgt) file) (\<lambda>_.
     values_renamed_keys lib h src file))))))"

definition values_default :: "'v libs \<Rightarrow> 'w host \<Rightarrow> core_values \<Rightarrow> string \<Rightarrow> ('w, unit) job" where
  "values_default lib h tgt file =
     bindP (set_value lib h ''.image.tag'' (image_tag tgt) file) (\<lambda>_.
     bindP (set_value lib h ''.csi.image.provisionerTag'' (csi_provisioner_image_tag tgt) file) (\<lambda>_.
     bindP (set_value lib h ''.csi.image.attacherTag'' (csi_attacher_image_tag tgt) file) (\<lambda>_.
     bindP (set_value lib h ''.csi.image.snapshotterTag'' (csi_snapshotter_image_tag tgt) file) (\<lambda>_.
     bindP (set_value lib h ''.csi.image.snapshotControllerTag'' (csi_snapshot_controller_image_tag tgt) file) (\<lambda>_.
     bindP (set_value lib h ''.csi.image.registrarTag'' (csi_node_driver_registrar_image_tag tgt) file) (\<lambda>_.
     (set_value lib h ''.csi.image.resizerTag'' (csi_resizer_image_tag tgt) file)))))))"

section \<open>Custom resource definitions\<close>

definition crd_set_to_helm_toggle :: "(string list \<times> string) list" where
  "crd_set_to_helm_toggle =
     [([''volumesnapshotclasses.snapshot.storage.k8s.io'', ''volumesnapshotcontents.snapshot.storage.k8s.io'',
        ''volumesnapshots.snapshot.storage.k8s.io''], ''.crds.csi.volumeSnapshots.enabled''),
      ([''jaegers.jaegertracing.io''], ''.crds.jaeger.enabled'')]"

definition crds_page :: "'w host \<Rightarrow> string option \<Rightarrow> ('w, string list \<times> string option option) job" where
  "crds_page h token =
     bindP (logged (crds_list_metadata h (list_params_of None None token))
              (EvCrdsList (list_params_of None None token)) ListCrds) (\<lambda>(names, next).
     retP (names, map_option Some next))"

text \<open>\<open>order\<close> is the order in which the hash map is walked.\<close>

definition safe_crd_install ::
  "nat \<Rightarrow> 'v libs \<Rightarrow> 'w cluster \<Rightarrow> 'w host \<Rightarrow> ((string list \<times> string) list \<Rightarrow> (string list \<times> string) list)
     \<Rightarrow> string \<Rightarrow> ('w, unit) job" where
  "safe_crd_install fuel lib api h order file =
     bindP (forP crd_set_to_helm_toggle (\<lambda>t. bindP (liftR (yaml_key lib (snd t))) (\<lambda>_. retP ()))) (\<lambda>_.
     bindP (client api) (\<lambda>_.
     bindP (collect_pages fuel (crds_page h) None) (\<lambda>all_crd_names.
     forP (order crd_set_to_helm_toggle) (\<lambda>(crd_set, toggle).
       if list_ex (\<lambda>name. name \<in> set crd_set) all_crd_names
       then set_literal_value h toggle (bool_to_string False) file
       else retP ()))))"

section \<open>The values file\<close>

definition whenP :: "bool \<Rightarrow> ('w, unit) job \<Rightarrow> ('w, unit) job" where
  "whenP b m = (if b then m else retP ())"

definition generate_values_yaml_file ::
  "nat \<Rightarrow> ('v::linorder) libs \<Rightarrow> 'w cluster \<Rightarrow> 'w host \<Rightarrow> ((string list \<times> string) list \<Rightarrow> (string list \<times> string) list)
     \<Rightarrow> 'v \<Rightarrow> 'v \<Rightarrow> core_values \<Rightarrow> core_values \<Rightarrow> string \<Rightarrow> string \<Rightarrow> string \<Rightarrow> ('w, string) job" where
  "generate_values_yaml_file fuel lib api h order source_version target_version src tgt
     source_values_buf target_values_filepath chart_dir =
     bindP (write_to_tempfile h (Some chart_dir) source_values_buf) (\<lambda>source_values_file.
     bindP (yq_new lib h) (\<lambda>_.
     bindP (merge_files h source_values_file target_values_filepath) (\<lambda>upgrade_values_yaml.
     bindP (write_to_tempfile h (Some chart_dir) upgrade_values_yaml) (\<lambda>file.
     bindP (liftR (parse_const lib TWO_DOT_O_RC_ONE)) (\<lambda>two_dot_o_rc_zero.
     bindP (liftR (parse_const lib TWO_DOT_ONE)) (\<lambda>two_dot_one.
     bindP (whenP (two_dot_o_rc_zero \<le> source_version \<and> source_version < two_dot_one)
              (values_two_dot_o lib h src tgt file)) (\<lambda>_.
     bindP (whenP (two_dot_one \<le> target_version) (values_repo_tags lib h tgt file)) (\<lambda>_.
     bindP (liftR (parse_const lib TWO_DOT_THREE)) (\<lambda>two_dot_three.
     bindP (liftR (parse_const lib TWO_DOT_FOUR)) (\<lambda>two_dot_four.
     bindP (whenP (two_dot_three \<le> source_version \<and> source_version < two_dot_four \<and>
                  eventing_enabled src \<noteq> eventing_enabled tgt)
              (set_value lib h ''.eventing.enabled'' (bool_to_string (eventing_enabled tgt)) file)) (\<lambda>_.
     bindP (liftR (parse_const lib TWO_DOT_FIVE)) (\<lambda>two_dot_five.
     bindP (whenP (two_dot_o_rc_zero \<le> source_version \<and> source_version < two_dot_five)
              (values_two_dot_five lib h src tgt file)) (\<lambda>_.
     bindP (liftR (parse_const lib TWO_DOT_SIX)) (\<lambda>two_dot_six.
     bindP (whenP (two_dot_o_rc_zero \<le> source_version \<and> source_version < two_dot_six)
              (values_two_dot_six lib h src tgt file)) (\<lambda>_.
     bindP (values_default lib h tgt file) (\<lambda>_.
     bindP (safe_crd_install fuel lib api h order file) (\<lambda>_.
     retP file)))))))))))))))))"

section \<open>The script\<close>

text \<open>
  What is done to the merged values, as data: the edits in order, as a function of the
  versions, the two sets of values and the names of the installed custom resource definitions.
\<close>

datatype edit =
    ESet string string
  | EDel string
  | EAppendArray string string
  | EAppendObject string string

fun edit_key :: "edit \<Rightarrow> string" where
  "edit_key (ESet k v) = k"
| "edit_key (EDel k) = k"
| "edit_key (EAppendArray k v) = k"
| "edit_key (EAppendObject k v) = k"

fun edit_expr :: "edit \<Rightarrow> string \<times> (string \<times> string) list" where
  "edit_expr (ESet k v) = (k @ '' = '' @ fst (literal v), snd (literal v))"
| "edit_expr (EDel k) = (''del('' @ k @ '')'', [])"
| "edit_expr (EAppendArray k v) = (k @ '' += ['' @ v @ '']'', [])"
| "edit_expr (EAppendObject k v) = (k @ '' += '' @ v, [])"

definition edits_two_dot_o :: "core_values \<Rightarrow> core_values \<Rightarrow> edit list" where
  "edits_two_dot_o src tgt =
     (if io_engine_log_level src = log_level_to_replace \<and> io_engine_log_level tgt \<noteq> log_level_to_replace
      then [ESet ''.io_engine.logLevel'' (io_engine_log_level tgt)] else [])"

definition edits_repo_tags :: "core_values \<Rightarrow> edit list" where
  "edits_repo_tags tgt =
     [ESet ''.image.repoTags.controlPlane'' (control_plane_repotag tgt),
      ESet ''.image.repoTags.dataPlane'' (data_plane_repotag tgt),
      ESet ''.image.repoTags.extensions'' (extensions_repotag tgt)]"

definition edits_two_dot_five :: "core_values \<Rightarrow> core_values \<Rightarrow> edit list" where
  "edits_two_dot_five src tgt =
     (if loki_stack_promtail_scrape_configs src = scrape_configs_to_replace \<and>
         loki_stack_promtail_scrape_configs tgt \<noteq> scrape_configs_to_replace
      then [ESet ''.loki-stack.promtail.config.snippets.scrapeConfigs'' (loki_stack_promtail_scrape_configs tgt)]
      else []) @
     (if csi_node_nvme_io_timeout src = ''30'' \<and> csi_node_nvme_io_timeout tgt \<noteq> ''30''
      then [ESet ''.csi.node.nvme.io_timeout'' (csi_node_nvme_io_timeout tgt)] else [])"

definition edits_clients :: "'v libs \<Rightarrow> core_values \<Rightarrow> edit list" where
  "edits_clients lib src =
     [EDel ''.loki-stack.promtail.config.clients'',
      EAppendArray ''.loki-stack.promtail.config.clients''
        (projr (json_of_client_url lib (loki_stack_promtail_loki_address src)))] @
     (if promtail_extra_client_configs src \<noteq> []
      then [EAppendObject ''.loki-stack.promtail.config.clients[0]''
              (projr (json_of_yaml lib (projr (yaml_read lib (promtail_extra_client_configs src)))))]
      else []) @
     [EDel ''.loki-stack.promtail.config.snippets.extraClientConfigs'',
      EDel ''.loki-stack.promtail.config.lokiAddress'']"

definition edits_localpv :: "core_values \<Rightarrow> core_values \<Rightarrow> edit list" where
  "edits_localpv src tgt =
     (if localpv_release_version src = ''3.4.0'' \<and> localpv_release_version tgt \<noteq> ''3.4.0''
      then [ESet ''.localpv-provisioner.release.version'' (localpv_release_version tgt),
      ESet ''.localpv-provisioner.localpv.image.tag'' (localpv_provisioner_image_tag tgt),
      ESet ''.localpv-provisioner.helperPod.image.tag'' (localpv_helper_image_tag tgt)] else [])"

definition edits_loki_tags :: "core_values \<Rightarrow> edit list" where
  "edits_loki_tags tgt =
     [ESet ''.loki-stack.loki.image.tag'' (loki_stack_loki_image_tag tgt),
      ESet ''.loki-stack.filebeat.imageTag'' (filebeat_image_tag tgt),
      ESet ''.loki-stack.logstash.imageTag'' (logstash_image_tag tgt),
      ESet ''.loki-stack.grafana.downloadDashboardsImage.tag'' (grafana_download_dashboards_image_tag tgt),
      ESet ''.loki-stack.grafana.image.tag'' (grafana_image_tag tgt),
      ESet ''.loki-stack.grafana.sidecar.image.tag'' (grafana_sidecar_image_tag tgt),
      ESet ''.loki-stack.prometheus.alertmanager.image.tag'' (prometheus_alertmanager_image_tag tgt),
      ESet ''.loki-stack.prometheus.nodeExporter.image.tag'' (prometheus_node_exporter_image_tag tgt),
      ESet ''.loki-stack.prometheus.pushgateway.image.tag'' (prometheus_pushgateway_image_tag tgt),
      ESet ''.loki-stack.prometheus.server.image.tag'' (prometheus_server_image_tag tgt),
      EDel ''.loki-stack.loki.config.ingester.lifecycler.ring.kvstore'',
      EDel ''.loki-stack.promtail.config.snippets.extraClientConfigs'',
      EDel ''.loki-stack.promtail.initContainer'']"

definition edits_renamed_keys :: "core_values \<Rightarrow> edit list" where
  "edits_renamed_keys src =
     [ESet ''.base.logging.silenceLevel'' (deprecated_log_silence_level src),
      EDel ''.base.logSilenceLevel'',
      ESet ''.csi.node.pluginMountPath'' (deprecated_node_csi_mount_path src),
      EDel ''.csi.node.pluginMounthPath'',
      ESet ''.jaeger-operator.image.tag'' (jaeger_operator_image_tag src)]"

definition edits_two_dot_six :: "'v libs \<Rightarrow> core_values \<Rightarrow> core_values \<Rightarrow> edit list" where
  "edits_two_dot_six lib src tgt =
     edits_localpv src tgt @ edits_loki_tags tgt @ edits_clients lib src @
     [ESet ''.loki-stack.promtail.config.file'' (loki_stack_promtail_config_file tgt)] @
     map (\<lambda>c. EAppendObject ''.loki-stack.promtail.initContainer'' (projr (json_of_yaml lib c)))
       (promtail_init_containers tgt) @
     [ESet ''.loki-stack.promtail.readinessProbe.httpGet.path'' (promtail_readiness_probe_http_get_path tgt)] @
     edits_renamed_keys src"

definition edits_default :: "core_values \<Rightarrow> edit list" where
  "edits_default tgt =
     [ESet ''.image.tag'' (image_tag tgt),
      ESet ''.csi.image.provisionerTag'' (csi_provisioner_image_tag tgt),
      ESet ''.csi.image.attacherTag'' (csi_attacher_image_tag tgt),
      ESet ''.csi.image.snapshotterTag'' (csi_snapshotter_image_tag tgt),
      ESet ''.csi.image.snapshotControllerTag'' (csi_snapshot_controller_image_tag tgt),
      ESet ''.csi.image.registrarTag'' (csi_node_driver_registrar_image_tag tgt),
      ESet ''.csi.image.resizerTag'' (csi_resizer_image_tag tgt)]"

definition edits_crds ::
  "((string list \<times> string) list \<Rightarrow> (string list \<times> string) list) \<Rightarrow> string list \<Rightarrow> edit list" where
  "edits_crds order crds =
     map (\<lambda>t. ESet (snd t) ''false'')
       (filter (\<lambda>t. list_ex (\<lambda>name. name \<in> set (fst t)) crds) (order crd_set_to_helm_toggle))"

definition between :: "('v::linorder) libs \<Rightarrow> string \<Rightarrow> string \<Rightarrow> 'v \<Rightarrow> bool" where
  "between lib lo hi v \<longleftrightarrow> projr (version_parse lib lo) \<le> v \<and> v < projr (version_parse lib hi)"

definition value_edits :: "('v::linorder) libs \<Rightarrow> 'v \<Rightarrow> 'v \<Rightarrow> core_values \<Rightarrow> core_values \<Rightarrow> edit list" where
  "value_edits lib sv tv src tgt =
     (if between lib TWO_DOT_O_RC_ONE TWO_DOT_ONE sv then edits_two_dot_o src tgt else []) @
     (if projr (version_parse lib TWO_DOT_ONE) \<le> tv then edits_repo_tags tgt else []) @
     (if between lib TWO_DOT_THREE TWO_DOT_FOUR sv \<and> eventing_enabled src \<noteq> eventing_enabled tgt
      then [ESet ''.eventing.enabled'' (bool_to_string (eventing_enabled tgt))] else []) @
     (if between lib TWO_DOT_O_RC_ONE TWO_DOT_FIVE sv then edits_two_dot_five src tgt else []) @
     (if between lib TWO_DOT_O_RC_ONE TWO_DOT_SIX sv then edits_two_dot_six lib src tgt else []) @
     edits_default tgt"

text \<open>The trace of a script that was run on a file, every command successful.\<close>

definition edit_done :: "string \<Rightarrow> edit \<Rightarrow> event \<Rightarrow> bool" where
  "edit_done file e ev \<longleftrightarrow> (\<exists>out. cmd_success out \<and>
     ev = EvCommand ''yq'' [''-i'', fst (edit_expr e), file] (snd (edit_expr e)) (Inr out))"

definition script_run :: "string \<Rightarrow> edit list \<Rightarrow> event list \<Rightarrow> bool" where
  "script_run file es d \<longleftrightarrow> list_all2 (edit_done file) es d"

section \<open>Scripts\<close>

fun is_command :: "event \<Rightarrow> bool" where
  "is_command (EvCommand p _ _ _) = (p = ''yq'')"
| "is_command (EvTempFile _ _) = True"
| "is_command (EvFileWrite _ _ _) = True"
| "is_command (EvCrdsList _ _) = True"
| "is_command (EvClient _) = True"
| "is_command _ = False"

lemma script_run_append [intro]:
  "script_run file es d \<Longrightarrow> script_run file es' d' \<Longrightarrow> script_run file (es @ es') (d @ d')"
  by (simp add: script_run_def list_all2_appendI)

lemma script_run_Nil [simp]: "script_run file [] d \<longleftrightarrow> d = []"
  by (simp add: script_run_def)

lemma script_run_command: "script_run file es d \<Longrightarrow> list_all is_command d"
  unfolding script_run_def by (induction rule: list_all2_induct) (auto simp: edit_done_def)

text \<open>\<open>scripted m file es\<close>: a run of \<open>m\<close> that returns did the edits \<open>es\<close>, and only commands are run.\<close>

definition scripted :: "('w, unit) job \<Rightarrow> string \<Rightarrow> edit list \<Rightarrow> bool" where
  "scripted m file es \<longleftrightarrow> emits m (\<lambda>_. script_run file es) (list_all is_command)"

lemma emits_ensured:
  "emits (bindP (command_output h args envs) (\<lambda>out. liftR (ensure_success err out)))
     (\<lambda>_ d. \<exists>out. cmd_success out \<and> d = [EvCommand ''yq'' args envs (Inr out)]) (list_all is_command)"
  unfolding command_output_def
  by (rule emits_bindI [OF emits_logged [where Q = "\<lambda>out d. d = [EvCommand ''yq'' args envs (Inr out)]" and
        I = "list_all is_command"], where R = "\<lambda>out _ d. cmd_success out \<and> d = []" and J = "\<lambda>_ d. d = []"])
    (auto intro!: emits_liftR simp: ensure_success_def res_bind_def split: if_splits sum.splits)

lemma scripted_commands:
  "scripted (set_literal_value h key val file) file [ESet key val]"
  "scripted (delete_object h key file) file [EDel key]"
  "scripted (append_to_array h key val file) file [EAppendArray key val]"
  "scripted (append_to_object h key val file) file [EAppendObject key val]"
  unfolding scripted_def set_literal_value_def delete_object_def append_to_array_def append_to_object_def
    script_run_def Let_def case_prod_beta
  by (rule emits_conseq [OF emits_ensured]; auto simp: edit_done_def)+

lemma scripted_ret: "scripted (retP ()) file []"
  by (simp add: scripted_def emits_ret)

lemma scripted_bind:
  "scripted m file es \<Longrightarrow> scripted m' file es' \<Longrightarrow> scripted (bindP m (\<lambda>_. m')) file (es @ es')"
  unfolding scripted_def
  by (rule emits_conseq [OF emits_bind]) (auto dest: script_run_command)

lemma scripted_liftR: "(\<And>a. r = Inr a \<Longrightarrow> scripted (k a) file es) \<Longrightarrow> scripted (bindP (liftR r) k) file es"
  unfolding scripted_def by (rule emits_bind_pure) auto

lemma yaml_key_Inr: "yaml_key lib key = Inr k \<Longrightarrow> k = key"
  by (auto simp: yaml_key_def res_bind_eq_Inr)

lemma scripted_keys:
  "scripted (set_value lib h key val file) file [ESet key val]"
  "scripted (delete_key lib h key file) file [EDel key]"
  unfolding set_value_def delete_key_def
  by (auto intro!: scripted_liftR dest!: yaml_key_Inr intro: scripted_commands)

lemma scripted_if:
  "scripted m file es \<Longrightarrow> scripted m' file es' \<Longrightarrow> scripted (if b then m else m') file (if b then es else es')"
  by simp

lemma scripted_for: "(\<And>x. scripted (body x) file (f x)) \<Longrightarrow> scripted (forP xs body) file (concat (map f xs))"
  by (induction xs) (simp_all add: scripted_ret [simplified] scripted_bind scripted_ret)

lemmas scripted_rules = scripted_keys scripted_commands scripted_ret

lemma scripted_seq:
  "scripted m file [e] \<Longrightarrow> scripted m' file es \<Longrightarrow> scripted (bindP m (\<lambda>_. m')) file (e # es)"
  by (drule (1) scripted_bind) simp

lemma scripted_blocks:
  "scripted (values_two_dot_o lib h src tgt file) file (edits_two_dot_o src tgt)"
  "scripted (values_repo_tags lib h tgt file) file (edits_repo_tags tgt)"
  "scripted (values_two_dot_five lib h src tgt file) file (edits_two_dot_five src tgt)"
  "scripted (values_localpv lib h src tgt file) file (edits_localpv src tgt)"
  "scripted (values_loki_tags lib h tgt file) file (edits_loki_tags tgt)"
  "scripted (values_renamed_keys lib h src file) file (edits_renamed_keys src)"
  "scripted (values_default lib h tgt file) file (edits_default tgt)"
  unfolding values_two_dot_o_def edits_two_dot_o_def values_repo_tags_def edits_repo_tags_def
    values_two_dot_five_def edits_two_dot_five_def values_localpv_def edits_localpv_def
    values_loki_tags_def edits_loki_tags_def values_renamed_keys_def edits_renamed_keys_def
    values_default_def edits_default_def
  by (intro scripted_if scripted_bind scripted_seq scripted_rules)+

lemma scripted_clients: "scripted (loki_address_to_clients lib h src file) file (edits_clients lib src)"
  unfolding loki_address_to_clients_def edits_clients_def append_Cons append_Nil
proof (intro scripted_liftR)
  fix k
  assume k: "yaml_key lib ''.loki-stack.promtail.config.clients'' = Inr k"
  note key = yaml_key_Inr [OF k]
  show "scripted
      (bindP (delete_object h k file) (\<lambda>_.
       bindP (liftR (map_err (\<lambda>e. SerializePromtailConfigClientToJson e (loki_stack_promtail_loki_address src))
              (json_of_client_url lib (loki_stack_promtail_loki_address src)))) (\<lambda>client.
       bindP (append_to_array h k client file) (\<lambda>_.
       bindP (if promtail_extra_client_configs src \<noteq> []
            then bindP (liftR (map_err (\<lambda>e. DeserializePromtailExtraConfig e (promtail_extra_client_configs src))
                         (yaml_read lib (promtail_extra_client_configs src)))) (\<lambda>extra.
                 bindP (liftR (map_err (\<lambda>e. SerializePromtailExtraConfigToJson e (promtail_extra_client_configs src))
                         (json_of_yaml lib extra))) (\<lambda>json.
                 bindP (liftR (yaml_key lib ''.loki-stack.promtail.config.clients[0]'')) (\<lambda>k.
                 append_to_object h k json file)))
            else retP ()) (\<lambda>_.
       bindP (delete_key lib h ''.loki-stack.promtail.config.snippets.extraClientConfigs'' file) (\<lambda>_.
       delete_key lib h ''.loki-stack.promtail.config.lokiAddress'' file)))))) file
      (EDel ''.loki-stack.promtail.config.clients'' #
       EAppendArray ''.loki-stack.promtail.config.clients''
         (projr (json_of_client_url lib (loki_stack_promtail_loki_address src))) #
       (if promtail_extra_client_configs src \<noteq> []
        then [EAppendObject ''.loki-stack.promtail.config.clients[0]''
                (projr (json_of_yaml lib (projr (yaml_read lib (promtail_extra_client_configs src)))))]
        else []) @
       [EDel ''.loki-stack.promtail.config.snippets.extraClientConfigs'',
        EDel ''.loki-stack.promtail.config.lokiAddress''])"
    unfolding key
    by (intro scripted_seq scripted_rules scripted_liftR scripted_bind scripted_if)
      (auto simp: map_err_eq_Inr dest!: yaml_key_Inr intro: scripted_rules scripted_bind)
qed

lemma scripted_init_container:
  "scripted (append_init_container lib h file c) file
     [EAppendObject ''.loki-stack.promtail.initContainer'' (projr (json_of_yaml lib c))]"
  unfolding append_init_container_def
  by (intro scripted_liftR) (auto simp: map_err_eq_Inr dest!: yaml_key_Inr intro: scripted_rules)

lemma scripted_init_containers:
  "scripted (forP cs (append_init_container lib h file)) file
     (map (\<lambda>c. EAppendObject ''.loki-stack.promtail.initContainer'' (projr (json_of_yaml lib c))) cs)"
proof -
  have eq: "concat (map (\<lambda>c. [EAppendObject ''.loki-stack.promtail.initContainer'' (projr (json_of_yaml lib c))]) cs) =
      map (\<lambda>c. EAppendObject ''.loki-stack.promtail.initContainer'' (projr (json_of_yaml lib c))) cs"
    by (induction cs) auto
  show ?thesis
    using scripted_for [where body = "append_init_container lib h file", OF scripted_init_container, where xs = cs]
    unfolding eq .
qed

lemma scripted_two_dot_six:
  "scripted (values_two_dot_six lib h src tgt file) file (edits_two_dot_six lib src tgt)"
  unfolding values_two_dot_six_def edits_two_dot_six_def
  by (intro scripted_bind scripted_blocks scripted_clients scripted_rules scripted_init_containers)

lemma scripted_when: "scripted m file es \<Longrightarrow> scripted (whenP b m) file (if b then es else [])"
  by (simp add: whenP_def scripted_ret)

definition values_script ::
  "('v::linorder) libs \<Rightarrow> 'w host \<Rightarrow> 'v \<Rightarrow> 'v \<Rightarrow> core_values \<Rightarrow> core_values \<Rightarrow> string \<Rightarrow> ('w, unit) job" where
  "values_script lib h source_version target_version src tgt file =
     bindP (liftR (parse_const lib TWO_DOT_O_RC_ONE)) (\<lambda>two_dot_o_rc_zero.
     bindP (liftR (parse_const lib TWO_DOT_ONE)) (\<lambda>two_dot_one.
     bindP (whenP (two_dot_o_rc_zero \<le> source_version \<and> source_version < two_dot_one)
              (values_two_dot_o lib h src tgt file)) (\<lambda>_.
     bindP (whenP (two_dot_one \<le> target_version) (values_repo_tags lib h tgt file)) (\<lambda>_.
     bindP (liftR (parse_const lib TWO_DOT_THREE)) (\<lambda>two_dot_three.
     bindP (liftR (parse_const lib TWO_DOT_FOUR)) (\<lambda>two_dot_four.
     bindP (whenP (two_dot_three \<le> source_version \<and> source_version < two_dot_four \<and>
                  eventing_enabled src \<noteq> eventing_enabled tgt)
              (set_value lib h ''.eventing.enabled'' (bool_to_string (eventing_enabled tgt)) file)) (\<lambda>_.
     bindP (liftR (parse_const lib TWO_DOT_FIVE)) (\<lambda>two_dot_five.
     bindP (whenP (two_dot_o_rc_zero \<le> source_version \<and> source_version < two_dot_five)
              (values_two_dot_five lib h src tgt file)) (\<lambda>_.
     bindP (liftR (parse_const lib TWO_DOT_SIX)) (\<lambda>two_dot_six.
     bindP (whenP (two_dot_o_rc_zero \<le> source_version \<and> source_version < two_dot_six)
              (values_two_dot_six lib h src tgt file)) (\<lambda>_.
     values_default lib h tgt file)))))))))))"

lemma parse_const_Inr: "parse_const lib c = Inr v \<Longrightarrow> v = projr (version_parse lib c)"
  by (auto simp: parse_const_def map_err_eq_Inr)

lemma scripted_const:
  "scripted (k (projr (version_parse lib c))) file es \<Longrightarrow> scripted (bindP (liftR (parse_const lib c)) k) file es"
  by (rule scripted_liftR) (auto dest: parse_const_Inr)

lemma scripted_values: "scripted (values_script lib h sv tv src tgt file) file (value_edits lib sv tv src tgt)"
  unfolding values_script_def value_edits_def between_def conj_assoc
  by (intro scripted_const scripted_bind scripted_when scripted_blocks scripted_rules scripted_two_dot_six)

text \<open>The first steps: the source values are written down and merged over the target's.\<close>

definition merged_file :: "string \<Rightarrow> string \<Rightarrow> string \<Rightarrow> string \<Rightarrow> event list \<Rightarrow> bool" where
  "merged_file chart_dir buf target_file file d \<longleftrightarrow> (\<exists>f n v out n'. cmd_success v \<and> cmd_success out \<and>
     d = [EvTempFile (Some chart_dir) (Inr f), EvFileWrite f buf (Inr n), EvCommand ''yq'' [''-V''] [] (Inr v),
          EvCommand ''yq'' [''ea'', ''. as $item ireduce ({}; . * $item )'', target_file, f] [] (Inr out),
          EvTempFile (Some chart_dir) (Inr file), EvFileWrite file (cmd_stdout out) (Inr n')])"

lemma emits_write_to_tempfile:
  "emits (write_to_tempfile h dir buf)
     (\<lambda>f d. \<exists>n. d = [EvTempFile dir (Inr f), EvFileWrite f buf (Inr n)]) (list_all is_command)"
  by (auto simp: emits_def write_to_tempfile_def logged_def bindP_def split: prod.splits sum.splits)

lemma emits_yq_new:
  "emits (yq_new lib h) (\<lambda>_ d. \<exists>v. cmd_success v \<and> d = [EvCommand ''yq'' [''-V''] [] (Inr v)]) (list_all is_command)"
  by (auto simp: emits_def yq_new_def command_output_def logged_def bindP_def liftR_def ensure_success_def
      res_bind_def ensure_def map_err_def split: prod.splits sum.splits if_splits)

lemma emits_merge_files:
  "emits (merge_files h high low)
     (\<lambda>buf d. \<exists>out. cmd_success out \<and> buf = cmd_stdout out \<and>
        d = [EvCommand ''yq'' [''ea'', ''. as $item ireduce ({}; . * $item )'', low, high] [] (Inr out)]) (list_all is_command)"
  by (auto simp: emits_def merge_files_def command_output_def logged_def bindP_def liftR_def ensure_success_def
      res_bind_def map_err_def Let_def split: prod.splits sum.splits if_splits)

definition crds_listing :: "string list \<Rightarrow> event list \<Rightarrow> bool" where
  "crds_listing crds d \<longleftrightarrow> (\<exists>e. d = EvClient (Inr ()) # e \<and>
     paged (\<lambda>tok xs next d. \<exists>nxt. next = map_option Some nxt \<and>
       d = [EvCrdsList (list_params_of None None tok) (Inr (xs, nxt))]) None crds e)"

lemma emits_crds_page:
  "emits (crds_page h tok)
     (\<lambda>(xs, next) d. \<exists>nxt. next = map_option Some nxt \<and>
        d = [EvCrdsList (list_params_of None None tok) (Inr (xs, nxt))]) (list_all is_command)"
  by (auto simp: emits_def crds_page_def logged_def bindP_def split: prod.splits sum.splits)

lemma concat_map_filter: "concat (map (\<lambda>x. if P x then [f x] else []) xs) = map f (filter P xs)"
  by (induction xs) auto

lemma emits_safe_crd_install:
  "emits (safe_crd_install fuel lib api h order file)
     (\<lambda>_ d. \<exists>d1 d2 crds. d = d1 @ d2 \<and> list_all is_command d1 \<and> crds_listing crds d1 \<and>
        script_run file (edits_crds order crds) d2) (list_all is_command)"
proof -
  let ?keys = "forP crd_set_to_helm_toggle (\<lambda>t. bindP (liftR (yaml_key lib (snd t))) (\<lambda>_. retP ()))"
  have keys: "emits ?keys (\<lambda>_ d. d = []) (\<lambda>d. d = [])"
    by (rule emits_conseq [OF only_emits [OF only_for [where X = "\<lambda>_. False", OF only_bind [OF only_liftR only_ret]]]])
      (auto simp: list_all_iff)
  have client: "emits (client api) (\<lambda>_ d. d = [EvClient (Inr ())]) (list_all is_command)"
    unfolding client_def by (rule emits_logged) auto
  have list: "emits (collect_pages fuel (crds_page h) None)
      (\<lambda>xs d. list_all is_command d \<and> paged (\<lambda>tok xs next d. \<exists>nxt. next = map_option Some nxt \<and>
       d = [EvCrdsList (list_params_of None None tok) (Inr (xs, nxt))]) None xs d) (list_all is_command)"
    by (rule emits_collect_pages [where h = "\<lambda>xs. xs", simplified])
      (auto intro!: emits_conseq [OF emits_crds_page])
  have "scripted (forP (order crd_set_to_helm_toggle) (\<lambda>(crd_set, toggle).
       if list_ex (\<lambda>name. name \<in> set crd_set) crds
       then set_literal_value h toggle (bool_to_string False) file else retP ())) file
      (concat (map (\<lambda>t. if list_ex (\<lambda>name. name \<in> set (fst t)) crds then [ESet (snd t) ''false''] else [])
         (order crd_set_to_helm_toggle)))" for crds
    by (rule scripted_for) (auto simp: bool_to_string_def split: prod.splits intro: scripted_rules scripted_ret [unfolded retP_def [abs_def]])
  then have toggles: "emits (forP (order crd_set_to_helm_toggle) (\<lambda>(crd_set, toggle).
       if list_ex (\<lambda>name. name \<in> set crd_set) crds
       then set_literal_value h toggle (bool_to_string False) file else retP ()))
     (\<lambda>_. script_run file (edits_crds order crds)) (list_all is_command)" for crds
    by (simp add: scripted_def edits_crds_def concat_map_filter)
  have rest: "emits (bindP (client api) (\<lambda>_. bindP (collect_pages fuel (crds_page h) None) (\<lambda>crds.
       forP (order crd_set_to_helm_toggle) (\<lambda>(crd_set, toggle).
       if list_ex (\<lambda>name. name \<in> set crd_set) crds
       then set_literal_value h toggle (bool_to_string False) file else retP ()))))
     (\<lambda>_ d. \<exists>d1 d2 crds. d = d1 @ d2 \<and> list_all is_command d1 \<and> crds_listing crds d1 \<and>
        script_run file (edits_crds order crds) d2) (list_all is_command)"
  proof (rule emits_bindI [OF client emits_bind [OF list toggles]], goal_cases)
    case (1 a b d1 d2)
    then obtain crds e d3 where "d2 = e @ d3" "list_all is_command e" "crds_listing crds (d1 @ e)"
      "script_run file (edits_crds order crds) d3" unfolding crds_listing_def by auto
    with 1(1) show ?case by (intro exI [of _ "d1 @ e"] exI [of _ d3] exI [of _ crds]) simp
  qed auto
  show ?thesis unfolding safe_crd_install_def
    by (rule emits_bindI [OF keys rest]) simp_all
qed

section \<open>The program runs the script\<close>

lemma generate_values_split:
  "generate_values_yaml_file fuel lib api h order sv tv src tgt buf target_file dir =
     bindP (bindP (write_to_tempfile h (Some dir) buf) (\<lambda>f. bindP (yq_new lib h) (\<lambda>_.
       bindP (merge_files h f target_file) (\<lambda>y. write_to_tempfile h (Some dir) y)))) (\<lambda>file.
     bindP (values_script lib h sv tv src tgt file) (\<lambda>_.
     bindP (safe_crd_install fuel lib api h order file) (\<lambda>_. retP file)))"
  unfolding generate_values_yaml_file_def values_script_def bindP_assoc ..

definition generated ::
  "('v::linorder) libs \<Rightarrow> ((string list \<times> string) list \<Rightarrow> (string list \<times> string) list) \<Rightarrow> 'v \<Rightarrow> 'v
     \<Rightarrow> core_values \<Rightarrow> core_values \<Rightarrow> string \<Rightarrow> string \<Rightarrow> string \<Rightarrow> string \<Rightarrow> event list \<Rightarrow> bool" where
  "generated lib order sv tv src tgt buf target_file dir file d \<longleftrightarrow> (\<exists>d1 d2 d3 d4 crds.
     d = d1 @ d2 @ d3 @ d4 \<and> merged_file dir buf target_file file d1 \<and>
     script_run file (value_edits lib sv tv src tgt) d2 \<and> crds_listing crds d3 \<and>
     script_run file (edits_crds order crds) d4)"

lemma emits_merged:
  "emits (bindP (write_to_tempfile h (Some dir) buf) (\<lambda>f. bindP (yq_new lib h) (\<lambda>_.
       bindP (merge_files h f target_file) (\<lambda>y. write_to_tempfile h (Some dir) y))))
     (merged_file dir buf target_file) (list_all is_command)"
proof (rule emits_conseq [OF emits_bind [OF emits_write_to_tempfile emits_bind [OF emits_yq_new
        emits_bind [OF emits_merge_files emits_write_to_tempfile]]]], goal_cases)
  case (1 g d)
  then show ?case unfolding merged_file_def by fastforce
next
  case (2 d)
  then show ?case by auto
qed

lemma merged_file_command: "merged_file dir buf target_file file d \<Longrightarrow> list_all is_command d"
  by (auto simp: merged_file_def)

lemma crds_listing_command:
  assumes "crds_listing crds d"
  shows "list_all is_command d"
proof -
  have "list_all is_command e" if "paged (\<lambda>tok xs next d. \<exists>nxt. next = map_option Some nxt \<and>
       d = [EvCrdsList (list_params_of None None tok) (Inr (xs, nxt))]) tok crds e" for e tok
    using that by induction auto
  with assms show ?thesis by (auto simp: crds_listing_def)
qed

lemma generated_command: "generated lib order sv tv src tgt buf target_file dir file d \<Longrightarrow> list_all is_command d"
  by (auto simp: generated_def dest: merged_file_command script_run_command crds_listing_command)

lemma emits_generate_values:
  "emits (generate_values_yaml_file fuel lib api h order sv tv src tgt buf target_file dir)
     (generated lib order sv tv src tgt buf target_file dir) (list_all is_command)"
  unfolding generate_values_split
proof (rule emits_bindI [OF emits_merged emits_bind [OF scripted_values [unfolded scripted_def]
        emits_bind [OF emits_safe_crd_install emits_ret_exact]]], goal_cases)
  case (1 f g d1 d2)
  then obtain d2' d3 d4 crds where "d2 = d2' @ d3 @ d4" "script_run f (value_edits lib sv tv src tgt) d2'"
    "crds_listing crds d3" "script_run f (edits_crds order crds) d4" "g = f" by auto
  with 1(1) show ?case unfolding generated_def by blast
qed (auto dest: merged_file_command script_run_command)

text \<open>
  Property C11.  The program and its description agree: when the values file is made, the
  commands run are, in this order, the merge of the source values over the target's, the
  script for the two versions and values, the listing of all custom resource definitions, and
  the edits which switch off those that exist already.  This holds for every behaviour of \<open>yq\<close>
  and of the cluster.
\<close>

theorem generate_values_runs_script:
  assumes "generate_values_yaml_file fuel lib api h order sv tv src tgt buf target_file dir s = (Ok file, t)"
  shows "\<exists>d. rt_trace t = rt_trace s @ d \<and> generated lib order sv tv src tgt buf target_file dir file d"
  using emits_Ok [OF emits_generate_values assms] by blast

section \<open>Which keys are edited\<close>

definition version_tags :: "core_values \<Rightarrow> (string \<times> string) list" where
  "version_tags tgt =
     [(''.image.tag'', image_tag tgt),
      (''.csi.image.provisionerTag'', csi_provisioner_image_tag tgt),
      (''.csi.image.attacherTag'', csi_attacher_image_tag tgt),
      (''.csi.image.snapshotterTag'', csi_snapshotter_image_tag tgt),
      (''.csi.image.snapshotControllerTag'', csi_snapshot_controller_image_tag tgt),
      (''.csi.image.registrarTag'', csi_node_driver_registrar_image_tag tgt),
      (''.csi.image.resizerTag'', csi_resizer_image_tag tgt)]"

definition repo_tag_keys :: "string list" where
  "repo_tag_keys = [''.image.repoTags.controlPlane'', ''.image.repoTags.dataPlane'', ''.image.repoTags.extensions'']"

definition old_version_keys :: "string list" where
  "old_version_keys =
     [''.io_engine.logLevel'', ''.eventing.enabled'', ''.loki-stack.promtail.config.snippets.scrapeConfigs'',
      ''.csi.node.nvme.io_timeout'', ''.localpv-provisioner.release.version'',
      ''.localpv-provisioner.localpv.image.tag'', ''.localpv-provisioner.helperPod.image.tag'',
      ''.loki-stack.loki.image.tag'', ''.loki-stack.filebeat.imageTag'', ''.loki-stack.logstash.imageTag'',
      ''.loki-stack.grafana.downloadDashboardsImage.tag'', ''.loki-stack.grafana.image.tag'',
      ''.loki-stack.grafana.sidecar.image.tag'', ''.loki-stack.prometheus.alertmanager.image.tag'',
      ''.loki-stack.prometheus.nodeExporter.image.tag'', ''.loki-stack.prometheus.pushgateway.image.tag'',
      ''.loki-stack.prometheus.server.image.tag'', ''.loki-stack.loki.config.ingester.lifecycler.ring.kvstore'',
      ''.loki-stack.promtail.config.snippets.extraClientConfigs'', ''.loki-stack.promtail.initContainer'',
      ''.loki-stack.promtail.config.clients'', ''.loki-stack.promtail.config.clients[0]'',
      ''.loki-stack.promtail.config.lokiAddress'', ''.loki-stack.promtail.config.file'',
      ''.loki-stack.promtail.readinessProbe.httpGet.path'', ''.base.logging.silenceLevel'',
      ''.base.logSilenceLevel'', ''.csi.node.pluginMountPath'', ''.csi.node.pluginMounthPath'',
      ''.jaeger-operator.image.tag'']"

definition crd_toggle_keys :: "string list" where
  "crd_toggle_keys = [''.crds.csi.volumeSnapshots.enabled'', ''.crds.jaeger.enabled'']"

text \<open>An edit of one key can be seen under another only if one path begins with the other.\<close>

definition overlaps :: "string \<Rightarrow> string \<Rightarrow> bool" where
  "overlaps k k' \<longleftrightarrow> starts_with k k' \<or> starts_with k' k"

lemma overlaps_refl: "overlaps k k"
proof -
  have "starts_with k k" by (induction k) simp_all
  then show ?thesis by (simp add: overlaps_def)
qed

lemma edits_default_tags: "edits_default tgt = map (\<lambda>(k, v). ESet k v) (version_tags tgt)"
  by (simp add: edits_default_def version_tags_def)

lemma keys_if: "edit_key ` set es \<subseteq> A \<Longrightarrow> edit_key ` set (if b then es else []) \<subseteq> A"
  by (cases b) simp_all

lemma keys_append:
  "edit_key ` set es \<subseteq> A \<Longrightarrow> edit_key ` set es' \<subseteq> A \<Longrightarrow> edit_key ` set (es @ es') \<subseteq> A"
  by auto

lemma edits_old_keys:
  "edit_key ` set (edits_two_dot_o src tgt) \<subseteq> set old_version_keys"
  "edit_key ` set (edits_two_dot_five src tgt) \<subseteq> set old_version_keys"
  "edit_key ` set (edits_localpv src tgt) \<subseteq> set old_version_keys"
  "edit_key ` set (edits_loki_tags tgt) \<subseteq> set old_version_keys"
  "edit_key ` set (edits_clients lib src) \<subseteq> set old_version_keys"
  "edit_key ` set (edits_renamed_keys src) \<subseteq> set old_version_keys"
  "edit_key ` set (edits_repo_tags tgt) \<subseteq> set repo_tag_keys"
  unfolding old_version_keys_def repo_tag_keys_def edits_two_dot_o_def edits_two_dot_five_def edits_localpv_def
    edits_loki_tags_def edits_clients_def edits_renamed_keys_def edits_repo_tags_def
  by (rule keys_append keys_if | simp)+

lemma edits_two_dot_six_keys: "edit_key ` set (edits_two_dot_six lib src tgt) \<subseteq> set old_version_keys"
proof -
  have new: "''.loki-stack.promtail.config.file'' \<in> set old_version_keys"
    "''.loki-stack.promtail.initContainer'' \<in> set old_version_keys"
    "''.loki-stack.promtail.readinessProbe.httpGet.path'' \<in> set old_version_keys"
    unfolding old_version_keys_def by simp_all
  show ?thesis unfolding edits_two_dot_six_def set_append image_Un Un_subset_iff
    by (intro conjI edits_old_keys) (use new in auto)
qed

text \<open>The keys of the script: the version tags come last, after keys of other paths.\<close>

lemma value_edits_split:
  obtains es where "value_edits lib sv tv src tgt = es @ edits_default tgt"
    "edit_key ` set es \<subseteq> set old_version_keys \<union> set repo_tag_keys"
proof -
  have "''.eventing.enabled'' \<in> set old_version_keys" unfolding old_version_keys_def by simp
  then show ?thesis
    by (intro that [OF value_edits_def [unfolded append_assoc [symmetric]]])
      (auto dest: edits_old_keys [THEN subsetD, OF imageI] edits_two_dot_six_keys [THEN subsetD, OF imageI]
        split: if_splits)
qed

lemma edits_crds_keys:
  assumes "set (order crd_set_to_helm_toggle) = set crd_set_to_helm_toggle"
  shows "edit_key ` set (edits_crds order crds) \<subseteq> set crd_toggle_keys"
proof -
  have "\<forall>t \<in> set crd_set_to_helm_toggle. snd t \<in> set crd_toggle_keys"
    unfolding crd_set_to_helm_toggle_def crd_toggle_keys_def by simp
  then show ?thesis by (auto simp: edits_crds_def assms)
qed

lemma filter_key_unique:
  "distinct (map fst ps) \<Longrightarrow> (k, v) \<in> set ps \<Longrightarrow> filter (\<lambda>p. k = fst p) ps = [(k, v)]"
  by (induction ps) (force simp: filter_empty_conv)+

definition version_tag_keys :: "string list" where
  "version_tag_keys = map fst (version_tags undefined)"

lemma version_tag_keys: "map fst (version_tags tgt) = version_tag_keys"
  by (simp add: version_tag_keys_def version_tags_def)

lemma keys_disjoint:
  "list_all (\<lambda>k. list_all (\<lambda>k'. \<not> overlaps k k') (old_version_keys @ repo_tag_keys @ crd_toggle_keys)) version_tag_keys"
  "distinct version_tag_keys"
  "list_all (\<lambda>k. list_all (\<lambda>k'. k = k' \<or> \<not> overlaps k k') version_tag_keys) version_tag_keys"
  unfolding version_tag_keys_def version_tags_def list.map fst_conv
    old_version_keys_def repo_tag_keys_def crd_toggle_keys_def
  by (simp_all add: overlaps_def)


lemma tag_edit_unique:
  assumes kv: "(k, v) \<in> set (version_tags tgt)"
  shows "filter (\<lambda>e. overlaps k (edit_key e)) (edits_default tgt) = [ESet k v]"
proof -
  have k: "k \<in> set version_tag_keys" using kv unfolding version_tag_keys [of tgt, symmetric] by force
  have eq: "overlaps k k' \<longleftrightarrow> k = k'" if "k' \<in> set version_tag_keys" for k'
    using keys_disjoint(3) k that overlaps_refl unfolding list_all_iff by metis
  have "filter (\<lambda>e. overlaps k (edit_key e)) (edits_default tgt) =
      map (\<lambda>(k, v). ESet k v) (filter (\<lambda>p. overlaps k (fst p)) (version_tags tgt))"
    unfolding edits_default_tags by (simp add: filter_map comp_def case_prod_beta)
  also have "filter (\<lambda>p. overlaps k (fst p)) (version_tags tgt) = filter (\<lambda>p. k = fst p) (version_tags tgt)"
  proof (rule filter_cong [OF refl])
    fix p
    assume "p \<in> set (version_tags tgt)"
    then have "fst p \<in> set version_tag_keys" unfolding version_tag_keys [of tgt, symmetric] by simp
    then show "overlaps k (fst p) = (k = fst p)" by (rule eq)
  qed
  also have "\<dots> = [(k, v)]"
    using keys_disjoint(2) kv unfolding version_tag_keys [of tgt, symmetric]
    by (rule filter_key_unique)
  finally show ?thesis by simp
qed

text \<open>The commands of a trace that change the values file.\<close>

fun is_edit :: "string \<Rightarrow> event \<Rightarrow> bool" where
  "is_edit file (EvCommand p args envs r) \<longleftrightarrow> p = ''yq'' \<and> hd args = ''-i'' \<and> last args = file"
| "is_edit file _ = False"

lemma filter_script_run: "script_run file es d \<Longrightarrow> filter (is_edit file) d = d"
  unfolding script_run_def by (induction rule: list_all2_induct) (auto simp: edit_done_def)

lemma filter_merged_file: "merged_file dir buf target_file file d \<Longrightarrow> filter (is_edit file) d = []"
  by (auto simp: merged_file_def)

lemma filter_crds_listing:
  assumes "crds_listing crds d"
  shows "filter (is_edit file) d = []"
proof -
  have "filter (is_edit file) e = []" if "paged (\<lambda>tok xs next d. \<exists>nxt. next = map_option Some nxt \<and>
       d = [EvCrdsList (list_params_of None None tok) (Inr (xs, nxt))]) tok crds e" for e tok
    using that by induction auto
  with assms show ?thesis by (auto simp: crds_listing_def)
qed

lemma generated_edits:
  assumes "generated lib order sv tv src tgt buf target_file dir file d"
  obtains crds where
    "script_run file (value_edits lib sv tv src tgt @ edits_crds order crds) (filter (is_edit file) d)"
proof -
  from assms obtain d1 d2 d3 d4 crds where d: "d = d1 @ d2 @ d3 @ d4" "merged_file dir buf target_file file d1"
    "script_run file (value_edits lib sv tv src tgt) d2" "crds_listing crds d3"
    "script_run file (edits_crds order crds) d4" unfolding generated_def by blast
  then show ?thesis
    by (intro that [of crds])
      (simp add: filter_merged_file filter_crds_listing filter_script_run script_run_append)
qed

lemma version_tag_edits:
  assumes order: "set (order crd_set_to_helm_toggle) = set crd_set_to_helm_toggle"
    and kv: "(k, v) \<in> set (version_tags tgt)"
  shows "filter (\<lambda>e. overlaps k (edit_key e)) (value_edits lib sv tv src tgt @ edits_crds order crds) = [ESet k v]"
proof -
  have k: "k \<in> set version_tag_keys" using kv unfolding version_tag_keys [of tgt, symmetric] by force
  then have other: "\<not> overlaps k k'"
    if "k' \<in> set old_version_keys \<union> set repo_tag_keys \<union> set crd_toggle_keys" for k'
    using keys_disjoint(1) that unfolding list_all_iff set_append by blast
  obtain es where es: "value_edits lib sv tv src tgt = es @ edits_default tgt"
    "edit_key ` set es \<subseteq> set old_version_keys \<union> set repo_tag_keys" by (rule value_edits_split)
  have "filter (\<lambda>e. overlaps k (edit_key e)) es = []" using es(2) other unfolding filter_empty_conv by blast
  moreover have "filter (\<lambda>e. overlaps k (edit_key e)) (edits_crds order crds) = []"
    using edits_crds_keys [of order crds, OF order] other unfolding filter_empty_conv by blast
  ultimately show ?thesis by (simp add: es(1) tag_edit_unique [OF kv])
qed

text \<open>
  Property C12.  Whatever the versions, the two sets of values and the custom resource
  definitions in the cluster: in the commands that edit a successfully made values file, the
  image tag of the product and the six tags of the CSI images are each touched exactly once,
  neither before nor after through an enclosing or a nested key, and are set to the tag of the
  target chart, so that the values of the old release never decide which images are run.
  (\<open>order\<close>, the order in which a hash map is walked, is arbitrary.)
\<close>

theorem generate_values_sets_version_tags:
  assumes "set (order crd_set_to_helm_toggle) = set crd_set_to_helm_toggle"
    and "generate_values_yaml_file fuel lib api h order sv tv src tgt buf target_file dir s = (Ok file, t)"
  shows "\<exists>d es. rt_trace t = rt_trace s @ d \<and> script_run file es (filter (is_edit file) d) \<and>
     (\<forall>(k, v) \<in> set (version_tags tgt). filter (\<lambda>e. overlaps k (edit_key e)) es = [ESet k v])"
proof -
  obtain d where d: "rt_trace t = rt_trace s @ d" "generated lib order sv tv src tgt buf target_file dir file d"
    using emits_Ok [OF emits_generate_values assms(2)] by blast
  from d(2) obtain crds where
    "script_run file (value_edits lib sv tv src tgt @ edits_crds order crds) (filter (is_edit file) d)"
    by (rule generated_edits)
  with d(1) version_tag_edits [of order, OF assms(1)] show ?thesis by blast
qed

lemma value_edits_recent:
  assumes "projr (version_parse lib TWO_DOT_SIX) \<le> sv"
    and "\<forall>c \<in> {TWO_DOT_ONE, TWO_DOT_FOUR, TWO_DOT_FIVE}. projr (version_parse lib c) \<le> projr (version_parse lib TWO_DOT_SIX)"
  shows "edit_key ` set (value_edits lib sv tv src tgt) \<subseteq> set repo_tag_keys \<union> set version_tag_keys"
proof -
  have off: "\<not> between lib lo hi sv" if "hi \<in> {TWO_DOT_ONE, TWO_DOT_FOUR, TWO_DOT_FIVE, TWO_DOT_SIX}" for lo hi
    using that assms unfolding between_def by (auto dest: order.trans simp: not_less)
  have "edit_key ` set (edits_default tgt) = set version_tag_keys"
    unfolding edits_default_tags version_tag_keys [of tgt, symmetric] by force
  then show ?thesis
    using off edits_old_keys(7) [of tgt] by (auto simp: value_edits_def image_Un split: if_splits)
qed


end
