(* ===== verification/HelmUpgrade.thy ===== *)
theory HelmUpgrade
  imports HelmValues
begin

text \<open>
  The helm side of the upgrade job: the helm client (\<open>helm/client.rs\<close>), the checks of the
  upgrade path (\<open>upgrade/path.rs\<close>), the builder and the two kinds of upgrader
  (\<open>helm/upgrade.rs\<close>).  \<open>dry_run\<close> returns, as in the source, a program that is run later.
\<close>

section \<open>Constants and paths\<close>

definition UMBRELLA_CHART_NAME :: string where "UMBRELLA_CHART_NAME = ''openebs''"

definition CORE_CHART_NAME :: "product \<Rightarrow> string" where "CORE_CHART_NAME p = PRODUCT_NAME p"

definition umbrella_regex :: string where
  "umbrella_regex = ''^('' @ UMBRELLA_CHART_NAME @ ''-[0-9]+'' @ BACKSLASH @ ''.[0-9]+'' @ BACKSLASH @ ''.[0-9]+)$''"

definition core_regex :: "product \<Rightarrow> string" where
  "core_regex p = ''^('' @ CORE_CHART_NAME p @ ''-[0-9]+'' @ BACKSLASH @ ''.[0-9]+'' @ BACKSLASH @
     ''.[0-9]+(-[a-zA-Z0-9]+('' @ BACKSLASH @ ''.[0-9]+)?)*)$''"

text \<open>\<open>Path::join\<close> with a relative path.\<close>

definition path_join :: "string \<Rightarrow> string \<Rightarrow> string" where
  "path_join dir name =
     (if dir = [] then name else if last dir = CHR ''/'' then dir @ name else dir @ ''/'' @ name)"

text \<open>\<open>serde_yaml::from_slice\<close>.\<close>

definition yaml_de :: "'v libs \<Rightarrow> 'a decoder \<Rightarrow> string \<Rightarrow> (string, 'a) res" where
  "yaml_de lib d buf = res_bind (yaml_read lib buf) d"

section \<open>The helm client\<close>

record helm_release_element =
  release_name_of :: string
  release_chart :: string

definition de_helm_release_element :: "helm_release_element decoder" where
  "de_helm_release_element y =
     res_bind (yaml_entries y) (\<lambda>kvs.
     res_bind (required_field ''name'' de_string kvs) (\<lambda>n.
     res_bind (required_field ''chart'' de_string kvs) (\<lambda>c.
     Inr \<lparr>release_name_of = n, release_chart = c\<rparr>)))"

definition helm_output :: "'w host \<Rightarrow> string list \<Rightarrow> ('w, cmd_output) job" where
  "helm_output h args =
     logged (run_command h ''helm'' args []) (EvCommand ''helm'' args []) (\<lambda>e. HelmCommand e ''helm'' args)"

definition extra_args :: "string list option \<Rightarrow> string list" where
  "extra_args maybe = (case maybe of Some args \<Rightarrow> args | None \<Rightarrow> [])"

definition get_values_as_yaml :: "'w host \<Rightarrow> string \<Rightarrow> string \<Rightarrow> string list option \<Rightarrow> ('w, string) job" where
  "get_values_as_yaml h ns release maybe_extra_args =
     (let args = [''get'', ''values'', release, ''-n'', ns, ''-a''] @ extra_args maybe_extra_args @ [''-o'', ''yaml'']
      in bindP (helm_output h args) (\<lambda>out.
         bindP (liftR (ensure_success (HelmGetValuesCommand ''helm'' args) out)) (\<lambda>_.
         retP (cmd_stdout out))))"

definition list_as_yaml ::
  "'v libs \<Rightarrow> 'w host \<Rightarrow> string \<Rightarrow> string list option \<Rightarrow> ('w, helm_release_element list) job" where
  "list_as_yaml lib h ns maybe_extra_args =
     (let args = [''list'', ''-n'', ns, ''--deployed''] @ extra_args maybe_extra_args @ [''-o'', ''yaml'']
      in bindP (helm_output h args) (\<lambda>out.
         bindP (liftR (map_err U8VectorToString (from_utf8 (cmd_stdout out)))) (\<lambda>stdout_str.
         bindP (liftR (ensure_success (HelmListCommand ''helm'' args) out)) (\<lambda>_.
         liftR (map_err (\<lambda>e. YamlParseFromSlice e stdout_str)
           (yaml_de lib (de_seq de_helm_release_element) (cmd_stdout out)))))))"

definition helm_upgrade_args :: "string \<Rightarrow> string \<Rightarrow> string \<Rightarrow> string list \<Rightarrow> string list" where
  "helm_upgrade_args ns release chart_dir extra =
     [''upgrade'', release, chart_dir, ''-n'', ns, ''--timeout'', ''15m''] @ extra"

definition helm_upgrade :: "'w host \<Rightarrow> string \<Rightarrow> string \<Rightarrow> string \<Rightarrow> string list option \<Rightarrow> ('w, unit) job" where
  "helm_upgrade h ns release chart_dir maybe_extra_args =
     (let args = helm_upgrade_args ns release chart_dir (extra_args maybe_extra_args)
      in bindP (helm_output h args) (\<lambda>out.
         bindP (liftR (map_err U8VectorToString (from_utf8 (cmd_stdout out)))) (\<lambda>_.
         liftR (ensure_success (HelmUpgradeCommand ''helm'' args) out))))"

definition release_info :: "'v libs \<Rightarrow> 'w host \<Rightarrow> string \<Rightarrow> string \<Rightarrow> ('w, helm_release_element) job" where
  "release_info lib h ns release =
     bindP (list_as_yaml lib h ns None) (\<lambda>release_list.
     liftR (ok_or (HelmRelease release ns) (List.find (\<lambda>r. release_name_of r = release) release_list)))"

section \<open>Upgrade paths\<close>

text \<open>The bytes of \<open>config/unsupported_versions.yaml\<close>, which the source includes at compile time.\<close>

definition UNSUPPORTED_VERSIONS_YAML :: string where
  "UNSUPPORTED_VERSIONS_YAML = ''unsupported_versions:'' @ NEWLINE @
     ''  # add the list of unsupported versions as shown below'' @ NEWLINE @ ''  - 0.0.0'' @ NEWLINE"

definition de_version :: "'v libs \<Rightarrow> 'v decoder" where
  "de_version lib y = res_bind (de_string y) (version_parse lib)"

definition de_unsupported_versions :: "'v libs \<Rightarrow> 'v list decoder" where
  "de_unsupported_versions lib y =
     res_bind (yaml_entries y) (\<lambda>kvs. required_field ''unsupported_versions'' (de_seq (de_version lib)) kvs)"

definition is_valid_for_core_chart :: "'v libs \<Rightarrow> 'v \<Rightarrow> (upgrade_error, bool) res" where
  "is_valid_for_core_chart lib from =
     res_bind (map_err YamlParseBufferForUnsupportedVersion
       (yaml_de lib (de_unsupported_versions lib) UNSUPPORTED_VERSIONS_YAML)) (\<lambda>unsupported.
     Inr (from \<notin> set unsupported))"

definition version_from_chart_yaml_file :: "'v libs \<Rightarrow> 'w host \<Rightarrow> string \<Rightarrow> ('w, 'v) job" where
  "version_from_chart_yaml_file lib h path =
     bindP (logged (read_file h path) (EvReadFile path) (\<lambda>e. ReadingFile e path)) (\<lambda>values_yaml.
     bindP (liftR (map_err (\<lambda>e. YamlParseFromFile e path) (yaml_de lib (de_chart (version_parse lib)) values_yaml))) (\<lambda>chart.
     retP (chart_version chart)))"

definition version_from_release_chart :: "'v libs \<Rightarrow> string \<Rightarrow> (upgrade_error, 'v) res" where
  "version_from_release_chart lib chart_str =
     res_bind (ok_or (HelmChartNameSplit chart_str CHR ''-'') (split_once CHR ''-'' chart_str)) (\<lambda>(_, version).
     map_err (\<lambda>e. SemverParse e version) (version_parse lib version))"

section \<open>Reading values\<close>

definition core_values_from_file :: "'v libs \<Rightarrow> 'w host \<Rightarrow> string \<Rightarrow> ('w, core_values) job" where
  "core_values_from_file lib h path =
     bindP (logged (read_file h path) (EvReadFile path) (\<lambda>e. ReadingFile e path)) (\<lambda>buf.
     liftR (map_err (\<lambda>e. YamlParseFromFile e path) (yaml_de lib (de_core_values (k8s lib)) buf)))"

definition values_from_slice :: "'v libs \<Rightarrow> 'a decoder \<Rightarrow> string \<Rightarrow> (upgrade_error, 'a) res" where
  "values_from_slice lib d buf =
     res_bind (map_err U8VectorToString (from_utf8 buf)) (\<lambda>s.
     map_err (\<lambda>e. YamlParseFromSlice e s) (yaml_de lib d buf))"

section \<open>The upgraders\<close>

record helm_upgrader_builder =
  b_release_name :: "string option"
  b_namespace :: "string option"
  b_core_chart_dir :: "string option"
  b_skip_upgrade_path_validation :: bool
  b_helm_args_set :: "string option"
  b_helm_args_set_file :: "string option"

definition helm_upgrader_builder_default :: helm_upgrader_builder where
  "helm_upgrader_builder_default = \<lparr>b_release_name = None, b_namespace = None, b_core_chart_dir = None,
     b_skip_upgrade_path_validation = False, b_helm_args_set = None, b_helm_args_set_file = None\<rparr>"

record 'v core_helm_upgrader =
  already_upgraded :: bool
  cu_chart_dir :: string
  cu_release_name :: string
  cu_namespace :: string
  helm_upgrade_extra_args :: "string list"
  cu_source_version :: 'v
  cu_target_version :: 'v
  cu_source_values :: core_values
  upgrade_values_file :: string

record 'v umbrella_helm_upgrader =
  uu_release_name :: string
  uu_namespace :: string
  uu_source_version :: 'v
  uu_target_version :: 'v

datatype 'v helm_upgrader =
    CoreHelmUpgrader "'v core_helm_upgrader"
  | UmbrellaHelmUpgrader "'v umbrella_helm_upgrader"

fun source_version :: "'v helm_upgrader \<Rightarrow> 'v" where
  "source_version (CoreHelmUpgrader u) = cu_source_version u"
| "source_version (UmbrellaHelmUpgrader u) = uu_source_version u"

fun target_version :: "'v helm_upgrader \<Rightarrow> 'v" where
  "target_version (CoreHelmUpgrader u) = cu_target_version u"
| "target_version (UmbrellaHelmUpgrader u) = uu_target_version u"

definition upgrade_extra_args :: "string \<Rightarrow> string \<Rightarrow> string \<Rightarrow> string list" where
  "upgrade_extra_args file helm_args_set helm_args_set_file =
     [''-f'', file, ''--set'', helm_args_set, ''--set-file'', helm_args_set_file, ''--atomic'']"

definition validate_core_path :: "('v::linorder) libs \<Rightarrow> bool \<Rightarrow> 'v \<Rightarrow> 'v \<Rightarrow> (upgrade_error, unit) res" where
  "validate_core_path lib skip source target =
     (if skip then Inr ()
      else res_bind (ensure (target \<ge> source) (RollbackForbidden (version_to_string lib source) (version_to_string lib target))) (\<lambda>_.
           res_bind (is_valid_for_core_chart lib source) (\<lambda>valid.
           ensure valid InvalidUpgradePath)))"

definition build_upgrader ::
  "nat \<Rightarrow> ('v::linorder) libs \<Rightarrow> 'w cluster \<Rightarrow> 'w host \<Rightarrow> product \<Rightarrow> ((string list \<times> string) list \<Rightarrow> (string list \<times> string) list)
     \<Rightarrow> helm_upgrader_builder \<Rightarrow> ('w, 'v helm_upgrader) job" where
  "build_upgrader fuel lib api h p order b =
     bindP (liftR (ok_or HelmUpgradeOptionReleaseNameAbsent (b_release_name b))) (\<lambda>release.
     bindP (liftR (ok_or HelmUpgradeOptionNamespaceAbsent (b_namespace b))) (\<lambda>ns.
     bindP (liftR (ok_or (NoInputHelmChartDir (CORE_CHART_NAME p)) (b_core_chart_dir b))) (\<lambda>chart_dir.
     bindP (release_info lib h ns release) (\<lambda>helm_release.
     bindP (liftR (version_from_release_chart lib (release_chart helm_release))) (\<lambda>source.
     bindP (get_values_as_yaml h ns release None) (\<lambda>source_values_buf.
     bindP (version_from_chart_yaml_file lib h (path_join chart_dir ''Chart.yaml'')) (\<lambda>target.
     bindP (liftR (regex_match lib umbrella_regex (release_chart helm_release))) (\<lambda>is_umbrella.
     if is_umbrella
     then bindP (liftR (ensure (target = source) UmbrellaChartNotUpgraded)) (\<lambda>_.
          retP (UmbrellaHelmUpgrader \<lparr>uu_release_name = release, uu_namespace = ns,
                  uu_source_version = source, uu_target_version = target\<rparr>))
     else
     bindP (liftR (regex_match lib (core_regex p) (release_chart helm_release))) (\<lambda>is_core.
     if is_core
     then
       bindP (liftR (validate_core_path lib (b_skip_upgrade_path_validation b) source target)) (\<lambda>_.
       bindP (core_values_from_file lib h (path_join chart_dir ''values.yaml'')) (\<lambda>target_values.
       bindP (liftR (values_from_slice lib (de_core_values (k8s lib)) source_values_buf)) (\<lambda>source_values.
       bindP (generate_values_yaml_file fuel lib api h order source target source_values target_values
                source_values_buf (path_join chart_dir ''values.yaml'') chart_dir) (\<lambda>file.
       retP (CoreHelmUpgrader \<lparr>already_upgraded = (target = source), cu_chart_dir = chart_dir,
               cu_release_name = release, cu_namespace = ns,
               helm_upgrade_extra_args = upgrade_extra_args file
                 (case b_helm_args_set b of Some a \<Rightarrow> a | None \<Rightarrow> [])
                 (case b_helm_args_set_file b of Some a \<Rightarrow> a | None \<Rightarrow> []),
               cu_source_version = source, cu_target_version = target,
               cu_source_values = source_values, upgrade_values_file = file\<rparr>)))))
     else failP (NotAKnownHelmChart (release_chart helm_release)))))))))))"

text \<open>The two implementations of \<open>dry_run\<close>, and the runners they return.\<close>

definition umbrella_runner :: "'v libs \<Rightarrow> 'w host \<Rightarrow> 'v umbrella_helm_upgrader \<Rightarrow> ('w, helm_values) job" where
  "umbrella_runner lib h u =
     bindP (get_values_as_yaml h (uu_namespace u) (uu_release_name u) None) (\<lambda>buf.
     bindP (liftR (values_from_slice lib (de_umbrella_values (k8s lib)) buf)) (\<lambda>final_values.
     retP (UmbrellaHelmValues final_values)))"

definition core_runner :: "'v libs \<Rightarrow> 'w host \<Rightarrow> 'v core_helm_upgrader \<Rightarrow> ('w, helm_values) job" where
  "core_runner lib h u =
     bindP (helm_upgrade h (cu_namespace u) (cu_release_name u) (cu_chart_dir u) (Some (helm_upgrade_extra_args u))) (\<lambda>_.
     bindP (get_values_as_yaml h (cu_namespace u) (cu_release_name u) None) (\<lambda>buf.
     bindP (liftR (values_from_slice lib (de_core_values (k8s lib)) buf)) (\<lambda>final_values.
     retP (CoreHelmValues final_values))))"

definition core_dry_run :: "'v libs \<Rightarrow> 'w host \<Rightarrow> 'v core_helm_upgrader \<Rightarrow> ('w, ('w, helm_values) job) job" where
  "core_dry_run lib h u =
     (if already_upgraded u then retP (retP (CoreHelmValues (cu_source_values u)))
      else bindP (helm_upgrade h (cu_namespace u) (cu_release_name u) (cu_chart_dir u)
                    (Some (helm_upgrade_extra_args u @ [''--dry-run'']))) (\<lambda>_.
           retP (core_runner lib h u)))"

fun dry_run :: "'v libs \<Rightarrow> 'w host \<Rightarrow> 'v helm_upgrader \<Rightarrow> ('w, ('w, helm_values) job) job" where
  "dry_run lib h (CoreHelmUpgrader u) = core_dry_run lib h u"
| "dry_run lib h (UmbrellaHelmUpgrader u) = retP (umbrella_runner lib h u)"

section \<open>Which requests are made\<close>

text \<open>
  Requests that prepare an upgrade and change nothing in the cluster: reads, local files, \<open>yq\<close>,
  and the helm commands \<open>get\<close> and \<open>list\<close>.
\<close>

fun prepares :: "event \<Rightarrow> bool" where
  "prepares (EvCommand p args envs r) \<longleftrightarrow> p = ''yq'' \<or> args \<noteq> [] \<and> (hd args = ''get'' \<or> hd args = ''list'')"
| "prepares (EvTempFile _ _) = True"
| "prepares (EvFileWrite _ _ _) = True"
| "prepares e = is_read e"

lemma is_command_prepares: "is_command e \<Longrightarrow> prepares e"
  by (cases e) auto

lemma is_read_prepares: "is_read e \<Longrightarrow> prepares e"
  by (cases e) auto

lemma only_prepares_generate [only_rules]:
  "only prepares (generate_values_yaml_file fuel lib api h order sv tv src tgt buf target_file dir)"
  unfolding only_def
  by (rule emits_conseq [OF emits_generate_values])
    (auto dest!: generated_command simp: list_all_iff intro: is_command_prepares)

lemma only_prepares_get [only_rules]: "only prepares (get_values_as_yaml h ns release extra)"
  by (auto simp: get_values_as_yaml_def helm_output_def Let_def intro!: only_rules)

lemma only_prepares_info [only_rules]: "only prepares (release_info lib h ns release)"
  by (auto simp: release_info_def list_as_yaml_def helm_output_def Let_def intro!: only_rules)

lemma only_prepares_files [only_rules]:
  "only prepares (version_from_chart_yaml_file lib h path)"
  "only prepares (core_values_from_file lib h path)"
  by (auto simp: version_from_chart_yaml_file_def core_values_from_file_def intro!: only_rules)

lemma only_if [only_rules]: "only X m \<Longrightarrow> only X m' \<Longrightarrow> only X (if b then m else m')"
  by simp

lemma only_prepares_build: "only prepares (build_upgrader fuel lib api h p order b)"
  unfolding build_upgrader_def by (intro only_rules)

text \<open>The command line of the real upgrade; the dry run has one more argument.\<close>

definition core_args :: "'v core_helm_upgrader \<Rightarrow> string list" where
  "core_args u = helm_upgrade_args (cu_namespace u) (cu_release_name u) (cu_chart_dir u) (helm_upgrade_extra_args u)"

lemma emits_helm_upgrade:
  "emits (helm_upgrade h ns release dir (Some extra))
     (\<lambda>_ d. \<exists>out. cmd_success out \<and> d = [EvCommand ''helm'' (helm_upgrade_args ns release dir extra) [] (Inr out)])
     (\<lambda>d. \<exists>r. d = [EvCommand ''helm'' (helm_upgrade_args ns release dir extra) [] r])"
  by (auto simp: emits_def helm_upgrade_def helm_output_def extra_args_def Let_def logged_def bindP_def liftR_def
      ensure_success_def res_bind_def map_err_def split: prod.splits sum.splits if_splits)

definition dry_run_done :: "'v libs \<Rightarrow> 'w host \<Rightarrow> 'v helm_upgrader \<Rightarrow> ('w, helm_values) job \<Rightarrow> event list \<Rightarrow> bool" where
  "dry_run_done lib h up runner d \<longleftrightarrow> (case up of
     UmbrellaHelmUpgrader u \<Rightarrow> d = [] \<and> runner = umbrella_runner lib h u
   | CoreHelmUpgrader u \<Rightarrow>
       if already_upgraded u then d = [] \<and> runner = retP (CoreHelmValues (cu_source_values u))
       else runner = core_runner lib h u \<and>
         (\<exists>out. cmd_success out \<and> d = [EvCommand ''helm'' (core_args u @ [''--dry-run'']) [] (Inr out)]))"

lemma emits_dry_run:
  "emits (dry_run lib h up) (dry_run_done lib h up)
     (\<lambda>d. \<exists>u r. up = CoreHelmUpgrader u \<and> d = [EvCommand ''helm'' (core_args u @ [''--dry-run'']) [] r])"
proof (cases up)
  case (UmbrellaHelmUpgrader u)
  then show ?thesis by (simp add: emits_def dry_run_done_def)
next
  case (CoreHelmUpgrader u)
  show ?thesis
  proof (cases "already_upgraded u")
    case True
    with CoreHelmUpgrader show ?thesis by (simp add: core_dry_run_def emits_def dry_run_done_def)
  next
    case False
    have "emits (bindP (helm_upgrade h (cu_namespace u) (cu_release_name u) (cu_chart_dir u)
        (Some (helm_upgrade_extra_args u @ [''--dry-run'']))) (\<lambda>_. retP (core_runner lib h u)))
      (dry_run_done lib h up)
      (\<lambda>d. \<exists>u r. up = CoreHelmUpgrader u \<and> d = [EvCommand ''helm'' (core_args u @ [''--dry-run'']) [] r])"
      by (rule emits_bindI [OF emits_helm_upgrade emits_ret_exact])
        (use False CoreHelmUpgrader in \<open>auto simp: dry_run_done_def core_args_def helm_upgrade_args_def\<close>)
    with False CoreHelmUpgrader show ?thesis by (simp add: core_dry_run_def)
  qed
qed

text \<open>What the runner does, by kind of upgrader.\<close>

definition control_plane_done :: "'v helm_upgrader \<Rightarrow> event list \<Rightarrow> bool" where
  "control_plane_done up d \<longleftrightarrow> (case up of
     CoreHelmUpgrader u \<Rightarrow>
       if already_upgraded u then d = []
       else \<exists>out d'. cmd_success out \<and> d = EvCommand ''helm'' (core_args u) [] (Inr out) # d' \<and> list_all prepares d'
   | UmbrellaHelmUpgrader u \<Rightarrow> list_all prepares d)"

definition control_plane_cut :: "'v helm_upgrader \<Rightarrow> event list \<Rightarrow> bool" where
  "control_plane_cut up d \<longleftrightarrow> list_all prepares d \<or>
     (\<exists>u r d'. up = CoreHelmUpgrader u \<and> \<not> already_upgraded u \<and> d = EvCommand ''helm'' (core_args u) [] r # d' \<and> list_all prepares d')"

lemma emits_runner:
  assumes "dry_run_done lib h up runner d"
  shows "emits runner (\<lambda>_. control_plane_done up) (control_plane_cut up)"
proof (cases up)
  case (UmbrellaHelmUpgrader u)
  have "only prepares (umbrella_runner lib h u)" unfolding umbrella_runner_def by (intro only_rules)
  from only_emits [OF this] show ?thesis using assms UmbrellaHelmUpgrader
    by (auto simp: dry_run_done_def control_plane_done_def control_plane_cut_def elim!: emits_conseq)
next
  case (CoreHelmUpgrader u)
  show ?thesis
  proof (cases "already_upgraded u")
    case True
    with assms CoreHelmUpgrader show ?thesis by (simp add: dry_run_done_def control_plane_done_def emits_def)
  next
    case False
    let ?rest = "bindP (get_values_as_yaml h (cu_namespace u) (cu_release_name u) None) (\<lambda>buf.
     bindP (liftR (values_from_slice lib (de_core_values (k8s lib)) buf)) (\<lambda>final_values.
     retP (CoreHelmValues final_values)))"
    have "only prepares ?rest" by (intro only_rules)
    then have rest: "emits ?rest (\<lambda>_. list_all prepares) (list_all prepares)" by (rule only_emits)
    have "emits (core_runner lib h u) (\<lambda>_. control_plane_done up) (control_plane_cut up)"
      unfolding core_runner_def
      by (rule emits_bindI [OF emits_helm_upgrade rest])
        (use False CoreHelmUpgrader in \<open>auto simp: control_plane_done_def control_plane_cut_def core_args_def\<close>)
    with assms False CoreHelmUpgrader show ?thesis by (simp add: dry_run_done_def)
  qed
qed

section \<open>The checks before an upgrade\<close>


end
