(* ===== verification/EventRecorder.thy ===== *)
theory EventRecorder
  imports Yq
begin

text \<open>
  The recorder of upgrade events (\<open>events/event_recorder.rs\<close>): the builder, which finds the
  job that owns this pod; the functions that put an event on the channel; and the worker task
  that takes events off the channel and publishes them, as a step relation.
\<close>

section \<open>Building a recorder\<close>

datatype event_action =
    EA_Failed | EA_ValidationFailed | EA_UpgradingCP | EA_UpgradedCP | EA_UpgradingDP | EA_UpgradedDP | EA_Successful

fun event_action_to_string :: "event_action \<Rightarrow> string" where
  "event_action_to_string EA_Failed = ''Failed''"
| "event_action_to_string EA_ValidationFailed = ''Validation Failed''"
| "event_action_to_string EA_UpgradingCP = ''Upgrading control-plane''"
| "event_action_to_string EA_UpgradedCP = ''Upgraded control-plane''"
| "event_action_to_string EA_UpgradingDP = ''Upgrading data-plane''"
| "event_action_to_string EA_UpgradedDP = ''Upgraded data-plane''"
| "event_action_to_string EA_Successful = ''Successful''"

record event_recorder_builder =
  eb_pod_name :: "string option"
  eb_namespace :: "string option"
  eb_source_version :: "string option"
  eb_target_version :: "string option"

text \<open>\<open>event_sender\<close> tells whether the recorder still holds the sending end of the channel.\<close>

record event_recorder =
  event_sender :: bool
  er_source_version :: string
  er_target_version :: string

record object_reference =
  or_api_version :: string
  or_kind :: string
  or_name :: string
  or_namespace :: string
  or_uid :: string

definition pod_owner :: "string \<Rightarrow> string \<Rightarrow> owner_reference list option \<Rightarrow> (upgrade_error, owner_reference) res" where
  "pod_owner pod_name ns references =
     (case references of
        Some refs \<Rightarrow>
          if length refs = 1 \<and> owner_kind (refs ! 0) = ''Job'' then Inr (refs ! 0)
          else if length refs = 1 then Inl (JobPodOwnerIsNotJob pod_name ns)
          else if refs = [] then Inl (JobPodOwnerNotFound pod_name ns)
          else Inl (JobPodHasTooManyOwners pod_name ns)
      | None \<Rightarrow> Inl (JobPodOwnerNotFound pod_name ns))"

text \<open>The second part of the result is what the worker task is started with.\<close>

definition build_recorder ::
  "'w cluster \<Rightarrow> event_recorder_builder \<Rightarrow> ('w, event_recorder \<times> string \<times> object_reference) job" where
  "build_recorder api b =
     bindP (liftR (case (eb_pod_name b, eb_namespace b) of
              (Some pod_name, Some ns) \<Rightarrow> Inr (pod_name, ns) | _ \<Rightarrow> Inl EventRecorderOptionsAbsent)) (\<lambda>(pod_name, ns).
     bindP (client api) (\<lambda>_.
     bindP (logged (pods_get api ns pod_name) (EvPodGet ns pod_name) (\<lambda>e. GetPod e pod_name ns)) (\<lambda>pod.
     bindP (liftR (pod_owner pod_name ns (owner_references pod))) (\<lambda>owner.
     bindP (client api) (\<lambda>_.
     retP (\<lparr>event_sender = True,
             er_source_version = (case eb_source_version b of Some v \<Rightarrow> v | None \<Rightarrow> ''--''),
             er_target_version = (case eb_target_version b of Some v \<Rightarrow> v | None \<Rightarrow> ''--'')\<rparr>,
           owner_name owner,
           \<lparr>or_api_version = owner_api_version owner, or_kind = owner_kind owner, or_name = owner_name owner,
            or_namespace = ns, or_uid = owner_uid owner\<rparr>))))))"

definition set_source_version :: "string \<Rightarrow> event_recorder \<Rightarrow> event_recorder" where
  "set_source_version v er = er\<lparr>er_source_version := v\<rparr>"

definition set_target_version :: "string \<Rightarrow> event_recorder \<Rightarrow> event_recorder" where
  "set_target_version v er = er\<lparr>er_target_version := v\<rparr>"

section \<open>Putting events on the channel\<close>

definition product_train :: "'v libs \<Rightarrow> product \<Rightarrow> string" where
  "product_train lib p = to_train_case lib (PRODUCT_NAME p)"

definition upgrade_event_reason :: "'v libs \<Rightarrow> product \<Rightarrow> string" where
  "upgrade_event_reason lib p = product_train lib p @ ''Upgrade''"

definition publish :: "'w host \<Rightarrow> event_recorder \<Rightarrow> kube_event \<Rightarrow> ('w, unit) job" where
  "publish h er ev =
     (if event_sender er then logged (channel_send h ev) (EvSend ev) (\<lambda>_. EventChannelSend) else retP ())"

definition publish_typed ::
  "event_type \<Rightarrow> 'v libs \<Rightarrow> product \<Rightarrow> 'w host \<Rightarrow> event_recorder \<Rightarrow> string \<Rightarrow> event_action \<Rightarrow> ('w, unit) job" where
  "publish_typed ty lib p h er note action =
     bindP (liftR (map_err (\<lambda>e. SerializeEventNote e note)
              (json_of_note lib (er_source_version er) (er_target_version er) note))) (\<lambda>note_s.
     publish h er \<lparr>ev_type = ty, ev_reason = upgrade_event_reason lib p, ev_note = Some note_s,
                   ev_action = event_action_to_string action\<rparr>)"

definition publish_normal ::
  "'v libs \<Rightarrow> product \<Rightarrow> 'w host \<Rightarrow> event_recorder \<Rightarrow> string \<Rightarrow> event_action \<Rightarrow> ('w, unit) job" where
  "publish_normal = publish_typed Normal"

definition publish_warning ::
  "'v libs \<Rightarrow> product \<Rightarrow> 'w host \<Rightarrow> event_recorder \<Rightarrow> string \<Rightarrow> event_action \<Rightarrow> ('w, unit) job" where
  "publish_warning = publish_typed Warning"

text \<open>An error of the publication itself is only logged.\<close>

definition publish_unrecoverable ::
  "'v libs \<Rightarrow> product \<Rightarrow> 'w host \<Rightarrow> event_recorder \<Rightarrow> string \<Rightarrow> bool \<Rightarrow> ('w, unit) job" where
  "publish_unrecoverable lib p h er err validation_error =
     bindP (tryP (publish_warning lib p h er (''Failed to upgrade: '' @ err)
              (if validation_error then EA_ValidationFailed else EA_Failed))) (\<lambda>_.
     retP ())"

section \<open>The worker\<close>

text \<open>
  Where the worker is: before the first \<open>recv\<close>, publishing an event, in the \<open>select!\<close> after
  publishing it, or finished.
\<close>

datatype worker_at = Receiving | Publishing kube_event | Selecting kube_event | Finished

record worker =
  w_at :: worker_at
  w_channel :: "kube_event list"
  w_closed :: bool
  w_sent :: "kube_event list"
  w_published :: "kube_event list"

definition worker_init :: worker where
  "worker_init = \<lparr>w_at = Receiving, w_channel = [], w_closed = False, w_sent = [], w_published = []\<rparr>"

text \<open>
  \<open>recv\<close> yields the oldest event of the channel, and nothing for ever once the channel is
  empty and its sender was dropped; the recorder sends until it is shut down.
\<close>

inductive worker_step :: "worker \<Rightarrow> worker \<Rightarrow> bool" where
  send: "\<not> w_closed s \<Longrightarrow>
    worker_step s (s\<lparr>w_channel := w_channel s @ [e], w_sent := w_sent s @ [e]\<rparr>)"
| close: "\<not> w_closed s \<Longrightarrow> worker_step s (s\<lparr>w_closed := True\<rparr>)"
| first_event: "w_at s = Receiving \<Longrightarrow> w_channel s = e # q \<Longrightarrow>
    worker_step s (s\<lparr>w_at := Publishing e, w_channel := q\<rparr>)"
| no_event: "w_at s = Receiving \<Longrightarrow> w_channel s = [] \<Longrightarrow> w_closed s \<Longrightarrow>
    worker_step s (s\<lparr>w_at := Finished\<rparr>)"
| published: "w_at s = Publishing e \<Longrightarrow>
    worker_step s (s\<lparr>w_at := Selecting e, w_published := w_published s @ [e]\<rparr>)"
| timeout: "w_at s = Selecting e \<Longrightarrow> worker_step s (s\<lparr>w_at := Publishing e\<rparr>)"
| next_event: "w_at s = Selecting e \<Longrightarrow> w_channel s = e' # q \<Longrightarrow>
    worker_step s (s\<lparr>w_at := Publishing e', w_channel := q\<rparr>)"
| last_event: "w_at s = Selecting e \<Longrightarrow> w_channel s = [] \<Longrightarrow> w_closed s \<Longrightarrow>
    worker_step s (s\<lparr>w_at := Finished\<rparr>)"

inductive_cases worker_stepE: "worker_step s t"

abbreviation worker_reachable :: "worker \<Rightarrow> bool" where
  "worker_reachable s \<equiv> worker_step\<^sup>*\<^sup>* worker_init s"

text \<open>\<open>repeats xs ys\<close>: \<open>ys\<close> is \<open>xs\<close> with every entry repeated one or more times in place.\<close>

definition repeats :: "'a list \<Rightarrow> 'a list \<Rightarrow> bool" where
  "repeats xs ys \<longleftrightarrow> (\<exists>ns. length ns = length xs \<and> (\<forall>n \<in> set ns. 0 < n) \<and> ys = concat (map2 replicate ns xs))"

lemma repeats_Nil [simp]: "repeats [] ys \<longleftrightarrow> ys = []"
  by (simp add: repeats_def)

lemma repeats_snoc: "repeats xs ys \<Longrightarrow> 0 < n \<Longrightarrow> repeats (xs @ [x]) (ys @ replicate n x)"
proof -
  assume "repeats xs ys" "0 < n"
  then obtain ns where "length ns = length xs" "\<forall>n \<in> set ns. 0 < n" "ys = concat (map2 replicate ns xs)"
    by (auto simp: repeats_def)
  with \<open>0 < n\<close> show ?thesis unfolding repeats_def by (intro exI [of _ "ns @ [n]"]) simp
qed

text \<open>The events taken off the channel, and what was published of them.\<close>

definition worker_inv :: "worker \<Rightarrow> bool" where
  "worker_inv s \<longleftrightarrow> (case w_at s of
     Receiving \<Rightarrow> w_sent s = w_channel s \<and> w_published s = []
   | Publishing e \<Rightarrow> (\<exists>done m ys. w_sent s = done @ e # w_channel s \<and> repeats done ys \<and> w_published s = ys @ replicate m e)
   | Selecting e \<Rightarrow> (\<exists>done m ys. w_sent s = done @ e # w_channel s \<and> repeats done ys \<and> w_published s = ys @ replicate (Suc m) e)
   | Finished \<Rightarrow> w_closed s \<and> w_channel s = [] \<and> repeats (w_sent s) (w_published s))"

lemma worker_inv_step:
  assumes "worker_step s t" "worker_inv s"
  shows "worker_inv t"
  using assms
proof (cases rule: worker_step.cases)
  case (send e)
  with assms(2) show ?thesis by (cases "w_at s") (auto simp: worker_inv_def)
next
  case close
  with assms(2) show ?thesis by (auto simp: worker_inv_def split: worker_at.splits)
next
  case (first_event e q)
  with assms(2) show ?thesis by (auto simp: worker_inv_def intro!: exI [of _ "[]"] exI [of _ 0])
next
  case no_event
  with assms(2) show ?thesis by (auto simp: worker_inv_def)
next
  case (published e)
  with assms(2) obtain xs m ys where "w_sent s = xs @ e # w_channel s" "repeats xs ys"
    "w_published s = ys @ replicate m e" by (auto simp: worker_inv_def)
  with published show ?thesis
    by (auto simp: worker_inv_def replicate_append_same intro!: exI [of _ xs] exI [of _ m] exI [of _ ys])
next
  case (timeout e)
  with assms(2) obtain xs m ys where "w_sent s = xs @ e # w_channel s" "repeats xs ys"
    "w_published s = ys @ replicate (Suc m) e" by (auto simp: worker_inv_def)
  with timeout show ?thesis by (auto simp: worker_inv_def intro!: exI [of _ xs] exI [of _ "Suc m"] exI [of _ ys])
next
  case (next_event e e' q)
  with assms(2) obtain xs m ys where *: "w_sent s = xs @ e # w_channel s" "repeats xs ys"
    "w_published s = ys @ replicate (Suc m) e" by (auto simp: worker_inv_def)
  have "repeats (xs @ [e]) (ys @ replicate (Suc m) e)" using *(2) by (rule repeats_snoc) simp
  with next_event * show ?thesis
    by (auto simp: worker_inv_def intro!: exI [of _ "xs @ [e]"] exI [of _ "0 :: nat"] exI [of _ "ys @ replicate (Suc m) e"])
next
  case (last_event e)
  with assms(2) obtain xs m ys where *: "w_sent s = xs @ [e]" "repeats xs ys"
    "w_published s = ys @ replicate (Suc m) e" by (auto simp: worker_inv_def)
  with repeats_snoc [OF *(2), of "Suc m" e] last_event show ?thesis by (simp add: worker_inv_def)
qed

lemma worker_inv_reachable: "worker_reachable s \<Longrightarrow> worker_inv s"
proof (induction rule: rtranclp_induct)
  case base
  show ?case by (simp add: worker_inv_def worker_init_def)
next
  case (step s t)
  then show ?case by (blast intro: worker_inv_step)
qed


text \<open>The events published so far are, up to repetition, the first of those sent.\<close>

lemma repeats_set: "repeats xs ys \<Longrightarrow> set ys = set xs"
proof -
  assume "repeats xs ys"
  then obtain ns where ns: "length ns = length xs" "\<forall>n \<in> set ns. 0 < n" "ys = concat (map2 replicate ns xs)"
    by (auto simp: repeats_def)
  have "set (concat (map2 replicate ns xs)) = set xs" using ns(1,2)
    by (induction ns xs rule: list_induct2) auto
  with ns(3) show ?thesis by simp
qed

section \<open>Shutting down\<close>

text \<open>The steps of the worker itself, other than the twenty-minute reminder.\<close>

definition worker_busy :: "worker \<Rightarrow> nat" where
  "worker_busy s = 2 * length (w_channel s) +
     (case w_at s of Receiving \<Rightarrow> 1 | Publishing e \<Rightarrow> 2 | Selecting e \<Rightarrow> 1 | Finished \<Rightarrow> 0)"

lemma worker_progress:
  assumes "w_closed s" "w_at s \<noteq> Finished"
  shows "\<exists>t. worker_step s t \<and> w_closed t \<and> w_sent t = w_sent s \<and> worker_busy t < worker_busy s"
proof (cases "w_at s")
  case Receiving
  show ?thesis
  proof (cases "w_channel s")
    case Nil
    with Receiving assms show ?thesis
      by (intro exI [of _ "s\<lparr>w_at := Finished\<rparr>"] conjI worker_step.no_event) (simp_all add: worker_busy_def)
  next
    case (Cons e q)
    with Receiving assms show ?thesis
      by (intro exI [of _ "s\<lparr>w_at := Publishing e, w_channel := q\<rparr>"] conjI worker_step.first_event) (simp_all add: worker_busy_def)
  qed
next
  case (Publishing e)
  with assms show ?thesis
    by (intro exI [of _ "s\<lparr>w_at := Selecting e, w_published := w_published s @ [e]\<rparr>"] conjI worker_step.published) (simp_all add: worker_busy_def)
next
  case (Selecting e)
  show ?thesis
  proof (cases "w_channel s")
    case Nil
    with Selecting assms show ?thesis
      by (intro exI [of _ "s\<lparr>w_at := Finished\<rparr>"] conjI worker_step.last_event) (simp_all add: worker_busy_def)
  next
    case (Cons e' q)
    with Selecting assms show ?thesis
      by (intro exI [of _ "s\<lparr>w_at := Publishing e', w_channel := q\<rparr>"] conjI worker_step.next_event) (simp_all add: worker_busy_def)
  qed
qed (use assms in simp)


end
