(* ===== verification/UpgradeJob.thy ===== *)
theory UpgradeJob
  imports DataPlane HelmUpgrade EventRecorder
begin

text \<open>
  The upgrade job itself (\<open>upgrade.rs\<close>): validate and dry-run the helm upgrade, upgrade the
  control plane with helm, then restart the data plane, with an event at each stage.
  \<open>display\<close> is the text of an error (\<open>upgrade_error_display\<close> when the job is started), \<open>order\<close> and \<open>sort_revs\<close> stand for the orders that the
  standard library leaves open.
\<close>

record cli_args =
  rest_endpoint :: string
  namespace :: string
  release_name :: string
  core_chart_dir :: string
  skip_data_plane_restart :: bool
  skip_upgrade_path_validation :: bool
  pod_name :: string
  helm_args_set :: string
  helm_args_set_file :: string

definition PARTIAL_REBUILD_DISABLE_EXTENTS :: "'v libs \<Rightarrow> 'v \<times> 'v" where
  "PARTIAL_REBUILD_DISABLE_EXTENTS lib = (version_new lib 2 2 0, version_new lib 2 5 0)"

definition partial_rebuild_check :: "('v::linorder) libs \<Rightarrow> product \<Rightarrow> 'v \<Rightarrow> bool \<Rightarrow> (upgrade_error, unit) res" where
  "partial_rebuild_check lib p source enabled =
     (let (lower, upper) = PARTIAL_REBUILD_DISABLE_EXTENTS lib;
          partial_rebuild_disable_required = (lower \<le> source \<and> source \<le> upper)
      in if partial_rebuild_disable_required \<and> enabled
         then Inl (PartialRebuildNotAllowed (CORE_CHART_NAME p) (version_to_string lib lower) (version_to_string lib upper))
         else Inr ())"

definition upgrader_options :: "cli_args \<Rightarrow> helm_upgrader_builder" where
  "upgrader_options opts = helm_upgrader_builder_default
     \<lparr>b_namespace := Some (namespace opts), b_release_name := Some (release_name opts),
      b_core_chart_dir := Some (core_chart_dir opts),
      b_skip_upgrade_path_validation := skip_upgrade_path_validation opts,
      b_helm_args_set := Some (helm_args_set opts), b_helm_args_set_file := Some (helm_args_set_file opts)\<rparr>"

definition yet_to_upgrade_label :: "string \<Rightarrow> string" where
  "yet_to_upgrade_label hash = IO_ENGINE_LABEL @ '','' @ DS_CONTROLLER_REVISION_HASH_LABEL_KEY @ ''!='' @ hash"

text \<open>\<open>match .. { Err(error) => { publish_unrecoverable(..); Err(error) } .. }\<close>\<close>

definition or_publish ::
  "('w, 'a) job \<Rightarrow> (upgrade_error \<Rightarrow> ('w, unit) job) \<Rightarrow> ('w, 'a) job" where
  "or_publish m report =
     bindP (tryP m) (\<lambda>r. case r of Inl error \<Rightarrow> bindP (report error) (\<lambda>_. failP error) | Inr a \<Rightarrow> retP a)"

definition upgrade_data_plane_stage ::
  "nat \<Rightarrow> ('v::linorder) libs \<Rightarrow> 'w cluster \<Rightarrow> 'w host \<Rightarrow> product \<Rightarrow> (controller_revision list \<Rightarrow> controller_revision list)
     \<Rightarrow> (upgrade_error \<Rightarrow> string) \<Rightarrow> cli_args \<Rightarrow> event_recorder \<Rightarrow> 'v \<Rightarrow> helm_values \<Rightarrow> ('w, unit) job" where
  "upgrade_data_plane_stage fuel lib api h p sort_revs display opts er source final_values =
     bindP (liftR (partial_rebuild_check lib p source (partial_rebuild_is_enabled final_values))) (\<lambda>_.
     bindP (latest_controller_revision_hash fuel api sort_revs (namespace opts) (Some IO_ENGINE_LABEL) None
              DS_CONTROLLER_REVISION_HASH_LABEL_KEY) (\<lambda>hash.
     bindP (list_pods fuel api (namespace opts) (Some (yet_to_upgrade_label hash)) None) (\<lambda>pods.
     bindP (publish_normal lib p h er (''Upgrading '' @ product_train lib p @ '' data-plane'') EA_UpgradingDP) (\<lambda>_.
     bindP (or_publish (upgrade_data_plane fuel api p (namespace opts) (rest_endpoint opts) hash
              (ha_is_enabled final_values) (yet_to_upgrade_label hash) pods)
              (\<lambda>error. publish_unrecoverable lib p h er (display error) False)) (\<lambda>_.
     publish_normal lib p h er (''Upgraded '' @ product_train lib p @ '' data-plane'') EA_UpgradedDP)))))"

definition upgrade_product ::
  "nat \<Rightarrow> ('v::linorder) libs \<Rightarrow> 'w cluster \<Rightarrow> 'w host \<Rightarrow> product \<Rightarrow> ((string list \<times> string) list \<Rightarrow> (string list \<times> string) list)
     \<Rightarrow> (controller_revision list \<Rightarrow> controller_revision list) \<Rightarrow> (upgrade_error \<Rightarrow> string) \<Rightarrow> cli_args
     \<Rightarrow> event_recorder \<Rightarrow> ('w, unit) job" where
  "upgrade_product fuel lib api h p order sort_revs display opts er0 =
     bindP (build_upgrader fuel lib api h p order (upgrader_options opts)) (\<lambda>helm_upgrader.
     let er = set_target_version (version_to_string lib (target_version helm_upgrader))
                (set_source_version (version_to_string lib (source_version helm_upgrader)) er0)
     in
     bindP (or_publish (dry_run lib h helm_upgrader)
              (\<lambda>error. publish_unrecoverable lib p h er (display error) True)) (\<lambda>run_helm_upgrade.
     bindP (publish_normal lib p h er (''Starting '' @ product_train lib p @ '' upgrade...'') EA_UpgradingCP) (\<lambda>_.
     bindP (publish_normal lib p h er (''Upgrading '' @ product_train lib p @ '' control-plane'') EA_UpgradingCP) (\<lambda>_.
     bindP (or_publish run_helm_upgrade
              (\<lambda>error. publish_unrecoverable lib p h er (display error) False)) (\<lambda>final_values.
     bindP (publish_normal lib p h er (''Upgraded '' @ product_train lib p @ '' control-plane'') EA_UpgradedCP) (\<lambda>_.
     bindP (if \<not> skip_data_plane_restart opts
            then upgrade_data_plane_stage fuel lib api h p sort_revs display opts er
                   (source_version helm_upgrader) final_values
            else retP ()) (\<lambda>_.
     publish_normal lib p h er (''Successfully upgraded '' @ product_train lib p) EA_Successful)))))))"

text \<open>
  The whole job: without a recorder nothing is done; afterwards the worker is shut down, which
  returns nothing and does not change the result.
\<close>

definition upgrade ::
  "nat \<Rightarrow> ('v::linorder) libs \<Rightarrow> 'w cluster \<Rightarrow> 'w host \<Rightarrow> product \<Rightarrow> ((string list \<times> string) list \<Rightarrow> (string list \<times> string) list)
     \<Rightarrow> (controller_revision list \<Rightarrow> controller_revision list) \<Rightarrow> (upgrade_error \<Rightarrow> string) \<Rightarrow> ('w \<Rightarrow> 'w) \<Rightarrow> cli_args
     \<Rightarrow> ('w, unit) job" where
  "upgrade fuel lib api h p order sort_revs display shutdown_worker opts =
     bindP (build_recorder api \<lparr>eb_pod_name = Some (pod_name opts), eb_namespace = Some (namespace opts),
              eb_source_version = None, eb_target_version = None\<rparr>) (\<lambda>(er, _).
     bindP (tryP (upgrade_product fuel lib api h p order sort_revs display opts er)) (\<lambda>result.
     bindP (modifyP (\<lambda>s. s\<lparr>rt_world := shutdown_worker (rt_world s)\<rparr>)) (\<lambda>_.
     liftR result)))"

section \<open>Orders of events\<close>

fun real_upgrade :: "event \<Rightarrow> bool" where
  "real_upgrade (EvCommand p args envs r) \<longleftrightarrow>
     p = ''helm'' \<and> args \<noteq> [] \<and> hd args = ''upgrade'' \<and> last args \<noteq> ''--dry-run''"
| "real_upgrade _ = False"

fun touches_data_plane :: "event \<Rightarrow> bool" where
  "touches_data_plane (EvPodDelete _ _ _) = True"
| "touches_data_plane (EvPutDrain _ _ _) = True"
| "touches_data_plane (EvPutCordon _ _ _) = True"
| "touches_data_plane (EvDelCordon _ _ _) = True"
| "touches_data_plane _ = False"

fun succeeded :: "event \<Rightarrow> bool" where
  "succeeded (EvCommand p args envs (Inr out)) = cmd_success out"
| "succeeded _ = False"

fun act :: "event \<Rightarrow> string list" where
  "act (EvSend ke (Inr _)) = [ev_action ke]"
| "act _ = []"

definition acts :: "event list \<Rightarrow> string list" where
  "acts d = concat (map act d)"

text \<open>
  What may come after the events \<open>pre\<close>: the real helm upgrade only after its successful dry run
  and before anything else that changes the cluster; a change of the data plane only after
  the control plane was reported as upgraded, and never after a failed helm upgrade.
\<close>

definition allowed :: "event list \<Rightarrow> event \<Rightarrow> bool" where
  "allowed pre e \<longleftrightarrow>
     (real_upgrade e \<longrightarrow>
        (\<exists>args r out. e = EvCommand ''helm'' args [] r \<and> cmd_success out \<and>
           EvCommand ''helm'' (args @ [''--dry-run'']) [] (Inr out) \<in> set pre) \<and>
        (\<forall>x \<in> set pre. \<not> touches_data_plane x \<and> \<not> real_upgrade x)) \<and>
     (touches_data_plane e \<longrightarrow>
        {event_action_to_string EA_UpgradedCP, event_action_to_string EA_UpgradingDP} \<subseteq> set (acts pre) \<and>
        (\<forall>x \<in> set pre. real_upgrade x \<longrightarrow> succeeded x))"

fun ordered :: "event list \<Rightarrow> event list \<Rightarrow> bool" where
  "ordered pre [] = True"
| "ordered pre (e # d) \<longleftrightarrow> allowed pre e \<and> ordered (pre @ [e]) d"

definition harmless :: "event \<Rightarrow> bool" where
  "harmless e \<longleftrightarrow> \<not> real_upgrade e \<and> \<not> touches_data_plane e"

lemma acts_append [simp]: "acts (d @ e) = acts d @ acts e"
  by (simp add: acts_def)

lemma acts_Nil [simp]: "acts [] = []"
  by (simp add: acts_def)

lemma acts_Cons [simp]: "acts (x # d) = act x @ acts d"
  by (simp add: acts_def)

lemma ordered_append: "ordered pre (d @ e) \<longleftrightarrow> ordered pre d \<and> ordered (pre @ d) e"
  by (induction d arbitrary: pre) auto

lemma ordered_iff: "ordered pre d \<longleftrightarrow> (\<forall>d1 e d2. d = d1 @ e # d2 \<longrightarrow> allowed (pre @ d1) e)"
proof (induction d arbitrary: pre)
  case (Cons x d)
  have "(\<forall>d1 e d2. x # d = d1 @ e # d2 \<longrightarrow> allowed (pre @ d1) e) \<longleftrightarrow>
      allowed pre x \<and> (\<forall>d1 e d2. d = d1 @ e # d2 \<longrightarrow> allowed (pre @ x # d1) e)"
    by (simp add: Cons_eq_append_conv) blast
  with Cons.IH [of "pre @ [x]"] show ?case by simp
qed simp

lemma ordered_harmless: "list_all harmless d \<Longrightarrow> ordered pre d"
  by (induction d arbitrary: pre) (simp_all add: allowed_def harmless_def)

lemma ordered_data_plane:
  assumes "list_all (\<lambda>e. \<not> real_upgrade e) d"
    and "{event_action_to_string EA_UpgradedCP, event_action_to_string EA_UpgradingDP} \<subseteq> set (acts pre)"
    and "\<forall>x \<in> set pre. real_upgrade x \<longrightarrow> succeeded x"
  shows "ordered pre d"
  using assms
proof (induction d arbitrary: pre)
  case (Cons x d)
  then have "ordered (pre @ [x]) d" by (intro Cons.IH) auto
  with Cons.prems show ?case by (auto simp: allowed_def)
qed simp

section \<open>The events of the stages\<close>

definition quiet :: "event \<Rightarrow> bool" where
  "quiet e \<longleftrightarrow> harmless e \<and> act e = []"

lemma prepares_quiet: "prepares e \<Longrightarrow> quiet e"
  by (cases e) (auto simp: quiet_def harmless_def)

lemma is_read_quiet: "is_read e \<Longrightarrow> quiet e"
  by (rule prepares_quiet) (rule is_read_prepares)

lemma quiet_ordered: "list_all quiet d \<Longrightarrow> ordered pre d"
  by (rule ordered_harmless) (auto simp: list_all_iff quiet_def)

lemma quiet_acts: "list_all quiet d \<Longrightarrow> acts d = []"
  by (induction d) (auto simp: quiet_def)

lemma list_all_prepares_quiet: "list_all prepares d \<Longrightarrow> list_all quiet d"
  by (auto simp: list_all_iff prepares_quiet)

lemma list_all_read_quiet: "list_all is_read d \<Longrightarrow> list_all quiet d"
  by (auto simp: list_all_iff is_read_quiet)

lemma emits_publish:
  assumes "event_sender er"
  shows "emits (publish_typed ty lib p h er note a)
     (\<lambda>_ d. \<exists>ke. d = [EvSend ke (Inr ())] \<and> ev_action ke = event_action_to_string a \<and> ev_type ke = ty)
     (\<lambda>d. d = [] \<or> (\<exists>ke e. d = [EvSend ke (Inl e)]))"
  using assms
  by (auto simp: publish_typed_def publish_def emits_def bindP_def liftR_def map_err_def logged_def
      split: prod.splits sum.splits)

lemmas emits_publish_normal = emits_publish [where ty = Normal, folded publish_normal_def]

definition reported :: "bool \<Rightarrow> event list \<Rightarrow> bool" where
  "reported validation d \<longleftrightarrow> list_all harmless d \<and>
     (acts d = [] \<or> acts d = [event_action_to_string (if validation then EA_ValidationFailed else EA_Failed)])"

lemma emits_unrecoverable:
  assumes "event_sender er"
  shows "emits (publish_unrecoverable lib p h er msg v) (\<lambda>_. reported v) (reported v)"
proof -
  have "emits (publish_warning lib p h er m (if v then EA_ValidationFailed else EA_Failed)) (\<lambda>_. reported v) (reported v)" for m
    unfolding publish_warning_def
    by (rule emits_conseq [OF emits_publish [OF assms]]) (auto simp: reported_def harmless_def)
  from emits_try [OF this] show ?thesis unfolding publish_unrecoverable_def
    by (rule emits_bindI [OF _ emits_ret_exact]) (auto split: sum.splits)
qed

lemma reported_Nil: "reported v []"
  by (simp add: reported_def)

lemma emits_or_publish:
  assumes "emits m Q I" "\<And>e. emits (report e) (\<lambda>_. R) R" "R []"
  shows "emits (or_publish m report) Q (\<lambda>d. \<exists>d1 d2. d = d1 @ d2 \<and> I d1 \<and> R d2)"
proof -
  have "emits (case r of Inl error \<Rightarrow> bindP (report error) (\<lambda>_. failP error) | Inr a \<Rightarrow> retP a)
      (\<lambda>b d. r = Inr b \<and> d = []) (\<lambda>d. \<exists>e. r = Inl e \<and> R d)" for r
  proof (cases r)
    case (Inl e)
    then show ?thesis
      by (auto intro!: emits_bindI [OF assms(2) emits_fail [where I = "\<lambda>d. d = []" and Q = "\<lambda>_ _. False"]])
  qed (simp add: emits_def)
  then show ?thesis unfolding or_publish_def
    by (rule emits_bindI [OF emits_try [OF assms(1)]]) (use assms(3) in \<open>force split: sum.splits\<close>)+
qed

text \<open>Data-plane events, with no helm command and no event among them.\<close>

fun data_plane_event :: "event \<Rightarrow> bool" where
  "data_plane_event (EvPodDelete _ _ _) = True"
| "data_plane_event (EvPutDrain _ _ _) = True"
| "data_plane_event (EvPutCordon _ _ _) = True"
| "data_plane_event (EvDelCordon _ _ _) = True"
| "data_plane_event e = is_read e"

lemma is_read_data_plane: "is_read e \<Longrightarrow> data_plane_event e"
  by (cases e) auto

lemma only_data_plane_read: "only is_read m \<Longrightarrow> only data_plane_event m"
  by (erule only_mono) (rule is_read_data_plane)

lemma data_plane_acts: "list_all data_plane_event d \<Longrightarrow> acts d = [] \<and> list_all (\<lambda>e. \<not> real_upgrade e) d"
proof (induction d)
  case (Cons e d)
  then show ?case by (cases e) auto
qed simp

lemma only_data_plane_reads [only_rules]:
  "only data_plane_event (fetch_node api node)"
  "only data_plane_event (sleep api n)"
  "only data_plane_event (client api)"
  "only data_plane_event (list_pods fuel api ns l f)"
  "only data_plane_event (list_nodes_metadata fuel api l f)"
  "only data_plane_event (list_all_volumes fuel api)"
  "only data_plane_event (rebuild_result_of fuel api ds node)"
  by (rule only_data_plane_read, rule only_read_fetch only_read_basic only_read_lists only_read_rebuild_result)+

lemma only_data_plane_steps [only_rules]:
  "only data_plane_event (uncordon_drained_storage_node fuel api pc node)"
  "only data_plane_event (delete_data_plane_pod api node pod ns)"
  "only data_plane_event (verify_data_plane_pod_is_running fuel api node ns hash)"
  "only data_plane_event (wait_for_rebuild fuel api node)"
  "only data_plane_event (drain_storage_node fuel api pc node)"
  "only data_plane_event (verify_control_plane_is_running fuel api pc ns)"
  "only data_plane_event (frontend_nodes_ana_check fuel api node nodes)"
  "only data_plane_event (cordon_storage_node api node l)"
  "only data_plane_event (uncordon_storage_node api node l)"
  by (auto simp: uncordon_drained_storage_node_def delete_data_plane_pod_def verify_data_plane_pod_is_running_def
      data_plane_pod_is_running_def wait_for_rebuild_def drain_storage_node_def verify_control_plane_is_running_def
      control_plane_is_running_def frontend_nodes_ana_check_def cordon_storage_node_def uncordon_storage_node_def Let_def
      intro!: only_rules split: option.splits cordon_drain_state.splits sum.splits)

lemma only_data_plane: "only data_plane_event (upgrade_data_plane fuel api pc ns url hash ha label pods)"
  unfolding upgrade_data_plane_def upgrade_pod_def is_node_drainable_def
  by (intro only_rules) simp_all

section \<open>The whole job\<close>

definition plan :: "bool \<Rightarrow> event_action list" where
  "plan skip = [EA_UpgradingCP, EA_UpgradingCP, EA_UpgradedCP] @
     (if skip then [] else [EA_UpgradingDP, EA_UpgradedDP]) @ [EA_Successful]"

text \<open>
  The events of a run that stopped early: a part of the plan from its beginning, and after it
  at most one event of failure.
\<close>

definition stopped_events :: "bool \<Rightarrow> string list \<Rightarrow> bool" where
  "stopped_events skip as \<longleftrightarrow> (\<exists>k fs. as = map event_action_to_string (take k (plan skip) @ fs) \<and>
     (fs = [] \<or> fs = [EA_ValidationFailed] \<and> k = 0 \<or> fs = [EA_Failed] \<and> k \<in> {2, 4}))"

definition stopped :: "bool \<Rightarrow> event list \<Rightarrow> bool" where
  "stopped skip d \<longleftrightarrow> ordered [] d \<and> stopped_events skip (acts d)"

text \<open>A state in which the first \<open>k\<close> events of the plan were sent.\<close>

definition at_stage :: "bool \<Rightarrow> nat \<Rightarrow> event list \<Rightarrow> bool" where
  "at_stage skip k d \<longleftrightarrow> ordered [] d \<and> acts d = map event_action_to_string (take k (plan skip))"

lemma at_stage_stopped: "at_stage skip k d \<Longrightarrow> stopped skip d"
  by (auto simp: at_stage_def stopped_def stopped_events_def)

lemma at_stage_quiet: "at_stage skip k d \<Longrightarrow> list_all quiet e \<Longrightarrow> at_stage skip k (d @ e)"
  by (simp add: at_stage_def ordered_append quiet_ordered quiet_acts)

lemma at_stage_report:
  assumes "at_stage skip k d" "reported v e" "if v then k = 0 else k \<in> {2, 4}"
  shows "stopped skip (d @ e)"
proof -
  have "ordered [] (d @ e)"
    using assms(1,2) by (simp add: at_stage_def reported_def ordered_append ordered_harmless)
  moreover have "stopped_events skip (acts (d @ e))"
    unfolding stopped_events_def
    by (rule exI [of _ k], rule exI [of _ "if acts e = [] then [] else [if v then EA_ValidationFailed else EA_Failed]"])
      (use assms in \<open>auto simp: at_stage_def reported_def split: if_splits\<close>)
  ultimately show ?thesis by (simp add: stopped_def)
qed

text \<open>Sending the next event of the plan.\<close>

lemma emits_stage:
  assumes er: "event_sender er" and d: "at_stage skip k d" and a: "k < length (plan skip)" "plan skip ! k = a"
  shows "emits (publish_normal lib p h er msg a)
     (\<lambda>_ d2. at_stage skip (Suc k) (d @ d2) \<and> (\<exists>ke. d2 = [EvSend ke (Inr ())])) (\<lambda>d2. stopped skip (d @ d2))"
proof (rule emits_conseq [OF emits_publish_normal [OF er]])
  fix u d1
  assume "\<exists>ke. d1 = [EvSend ke (Inr ())] \<and> ev_action ke = event_action_to_string a \<and> ev_type ke = Normal"
  with d a show "at_stage skip (Suc k) (d @ d1) \<and> (\<exists>ke. d1 = [EvSend ke (Inr ())])"
    by (auto simp: at_stage_def ordered_append allowed_def take_Suc_conv_app_nth)
next
  fix e
  assume "e = [] \<or> (\<exists>ke x. e = [EvSend ke (Inl x)])"
  then have "list_all quiet e" by (auto simp: quiet_def harmless_def)
  with d show "stopped skip (d @ e)" by (blast intro: at_stage_quiet at_stage_stopped)
qed

text \<open>No data-plane pod of an older revision was left when the last listing was made.\<close>

definition rolled_out ::
  "(controller_revision list \<Rightarrow> controller_revision list) \<Rightarrow> string \<Rightarrow> event list \<Rightarrow> bool" where
  "rolled_out sort_revs ns d \<longleftrightarrow> (\<exists>pre dr revs hash mid fin post. d = pre @ dr @ mid @ fin @ post \<and>
     revs_listing ns (Some IO_ENGINE_LABEL) None revs dr \<and> revs \<noteq> [] \<and>
     rev_labels (hd (sort_revs revs)) DS_CONTROLLER_REVISION_HASH_LABEL_KEY = Some hash \<and>
     pods_listing ns (Some (yet_to_upgrade_label hash)) None [] fin \<and> list_all keeps_pods post)"

lemma emits_data_plane:
  "emits (upgrade_data_plane fuel api pc ns url hash ha label pods)
     (\<lambda>_ d. list_all data_plane_event d \<and>
        (if pods = [] then d = [] else \<exists>mid fin. d = mid @ fin \<and> pods_listing ns (Some label) None [] fin))
     (list_all data_plane_event)"
proof (cases "pods = []")
  case True
  then show ?thesis by (simp add: upgrade_data_plane_def emits_def)
next
  case False
  show ?thesis
    by (rule emits_conseq [OF emits_conj [OF emits_upgrade_data_plane [OF False] only_emits [OF only_data_plane]]])
      (use False in \<open>auto simp: rolling_run_def\<close>, metis append_assoc)
qed

text \<open>The second half of the job, from the report on the control plane.\<close>

definition control_plane_ok :: "event list \<Rightarrow> bool" where
  "control_plane_ok d \<longleftrightarrow> (\<forall>x \<in> set d. real_upgrade x \<longrightarrow> succeeded x)"

lemma at_stage_data_plane:
  assumes "at_stage False 4 d" "list_all data_plane_event e" "control_plane_ok d"
  shows "at_stage False 4 (d @ e)"
  using assms data_plane_acts [OF assms(2)]
  by (auto simp: at_stage_def ordered_append plan_def control_plane_ok_def intro!: ordered_data_plane)

lemma emits_roll_out:
  assumes er: "event_sender er" and d: "at_stage False 3 d" "control_plane_ok d"
    and pre: "d = pre @ dr @ dl" "revs_listing (namespace opts) (Some IO_ENGINE_LABEL) None revs dr" "revs \<noteq> []"
      "rev_labels (hd (sort_revs revs)) DS_CONTROLLER_REVISION_HASH_LABEL_KEY = Some hash"
      "pods_listing (namespace opts) (Some (yet_to_upgrade_label hash)) None pods dl"
  shows "emits (bindP (publish_normal lib p h er msg EA_UpgradingDP) (\<lambda>_.
     bindP (or_publish (upgrade_data_plane fuel api p (namespace opts) url hash ha (yet_to_upgrade_label hash) pods)
              (\<lambda>error. publish_unrecoverable lib p h er (display error) False)) (\<lambda>_.
     publish_normal lib p h er msg' EA_UpgradedDP)))
     (\<lambda>_ d2. at_stage False 5 (d @ d2) \<and> rolled_out sort_revs (namespace opts) (d @ d2))
     (\<lambda>d2. stopped False (d @ d2))"
proof (rule emits_seq [OF emits_stage [OF er d(1)]])
  fix u s1
  assume "at_stage False (Suc 3) (d @ s1) \<and> (\<exists>ke. s1 = [EvSend ke (Inr ())])"
  then obtain ke where s1: "at_stage False 4 (d @ s1)" "s1 = [EvSend ke (Inr ())]" by auto
  have ok: "control_plane_ok (d @ s1)" using d(2) s1(2) by (simp add: control_plane_ok_def)
  show "emits (bindP (or_publish (upgrade_data_plane fuel api p (namespace opts) url hash ha (yet_to_upgrade_label hash) pods)
              (\<lambda>error. publish_unrecoverable lib p h er (display error) False)) (\<lambda>_.
     publish_normal lib p h er msg' EA_UpgradedDP))
     (\<lambda>_ d2. at_stage False 5 (d @ s1 @ d2) \<and> rolled_out sort_revs (namespace opts) (d @ s1 @ d2))
     (\<lambda>d2. stopped False (d @ s1 @ d2))"
  proof (rule emits_seq [OF emits_or_publish [OF emits_data_plane emits_unrecoverable [OF er] reported_Nil]])
    fix v dp
    assume dp: "list_all data_plane_event dp \<and> (if pods = [] then dp = []
      else \<exists>mid fin. dp = mid @ fin \<and> pods_listing (namespace opts) (Some (yet_to_upgrade_label hash)) None [] fin)"
    have at4: "at_stage False 4 (d @ s1 @ dp)" using at_stage_data_plane [OF s1(1) _ ok] dp by simp
    have out: "rolled_out sort_revs (namespace opts) (d @ s1 @ dp @ [EvSend ke' (Inr ())])" for ke'
    proof (cases "pods = []")
      case True
      with dp have "d @ s1 @ dp @ [EvSend ke' (Inr ())] = pre @ dr @ [] @ dl @ s1 @ [EvSend ke' (Inr ())]"
        by (simp add: pre(1))
      moreover have "list_all keeps_pods (s1 @ [EvSend ke' (Inr ())])" by (simp add: s1(2))
      ultimately show ?thesis using pre True unfolding rolled_out_def by blast
    next
      case False
      with dp obtain mid fin where fin: "dp = mid @ fin"
        "pods_listing (namespace opts) (Some (yet_to_upgrade_label hash)) None [] fin" by auto
      have "d @ s1 @ dp @ [EvSend ke' (Inr ())] = pre @ dr @ (dl @ s1 @ mid) @ fin @ [EvSend ke' (Inr ())]"
        by (simp add: pre(1) fin(1))
      moreover have "list_all keeps_pods [EvSend ke' (Inr ())]" by simp
      ultimately show ?thesis using pre fin(2) unfolding rolled_out_def by blast
    qed
    show "emits (publish_normal lib p h er msg' EA_UpgradedDP)
       (\<lambda>_ d2. at_stage False 5 (d @ s1 @ dp @ d2) \<and> rolled_out sort_revs (namespace opts) (d @ s1 @ dp @ d2))
       (\<lambda>d2. stopped False (d @ s1 @ dp @ d2))"
      by (rule emits_conseq [OF emits_stage [OF er at4]]) (use out in \<open>auto simp: plan_def\<close>)
  next
    fix e
    assume "\<exists>d1 d2. e = d1 @ d2 \<and> list_all data_plane_event d1 \<and> reported False d2"
    then obtain d1 d2 where e: "e = d1 @ d2" "list_all data_plane_event d1" "reported False d2" by blast
    from at_stage_report [OF at_stage_data_plane [OF s1(1) e(2) ok] e(3)] e(1)
    show "stopped False (d @ s1 @ e)" by simp
  qed
qed (simp_all add: plan_def)

lemma emits_data_plane_stage:
  assumes er: "event_sender er" and d: "at_stage False 3 d" "control_plane_ok d"
  shows "emits (upgrade_data_plane_stage fuel lib api h p sort_revs display opts er source vals)
     (\<lambda>_ d2. at_stage False 5 (d @ d2) \<and> rolled_out sort_revs (namespace opts) (d @ d2))
     (\<lambda>d2. stopped False (d @ d2))"
  unfolding upgrade_data_plane_stage_def
proof (rule emits_bind_pure)
  show "stopped False (d @ [])" using at_stage_stopped [OF d(1)] by simp
  have stay: "at_stage False 3 (d @ e) \<and> control_plane_ok (d @ e)" if "list_all is_read e" for e
    using at_stage_quiet [OF d(1) list_all_read_quiet [OF that]] d(2) list_all_read_quiet [OF that]
    by (auto simp: control_plane_ok_def list_all_iff quiet_def harmless_def)
  let ?after = "\<lambda>hash pods. bindP (publish_normal lib p h er (''Upgrading '' @ product_train lib p @ '' data-plane'') EA_UpgradingDP) (\<lambda>_.
     bindP (or_publish (upgrade_data_plane fuel api p (namespace opts) (rest_endpoint opts) hash
              (ha_is_enabled vals) (yet_to_upgrade_label hash) pods)
              (\<lambda>error. publish_unrecoverable lib p h er (display error) False)) (\<lambda>_.
     publish_normal lib p h er (''Upgraded '' @ product_train lib p @ '' data-plane'') EA_UpgradedDP))"
  show "emits (bindP (latest_controller_revision_hash fuel api sort_revs (namespace opts) (Some IO_ENGINE_LABEL) None
              DS_CONTROLLER_REVISION_HASH_LABEL_KEY) (\<lambda>hash.
     bindP (list_pods fuel api (namespace opts) (Some (yet_to_upgrade_label hash)) None) (?after hash)))
     (\<lambda>_ d2. at_stage False 5 (d @ d2) \<and> rolled_out sort_revs (namespace opts) (d @ d2))
     (\<lambda>d2. stopped False (d @ d2))"
  proof (rule emits_seq [OF emits_latest_hash])
    fix hash dr
    assume "list_all is_read dr \<and> (\<exists>rs. revs_listing (namespace opts) (Some IO_ENGINE_LABEL) None rs dr \<and>
      rs \<noteq> [] \<and> rev_labels (hd (sort_revs rs)) DS_CONTROLLER_REVISION_HASH_LABEL_KEY = Some hash)"
    then obtain rs where dr: "list_all is_read dr" "revs_listing (namespace opts) (Some IO_ENGINE_LABEL) None rs dr"
      "rs \<noteq> []" "rev_labels (hd (sort_revs rs)) DS_CONTROLLER_REVISION_HASH_LABEL_KEY = Some hash" by blast
    show "emits (bindP (list_pods fuel api (namespace opts) (Some (yet_to_upgrade_label hash)) None) (?after hash))
     (\<lambda>b d2. at_stage False 5 (d @ dr @ d2) \<and> rolled_out sort_revs (namespace opts) (d @ dr @ d2))
     (\<lambda>d2. stopped False (d @ dr @ d2))"
    proof (rule emits_seq [OF emits_list_pods])
      fix pods dl
      assume dl: "list_all is_read dl \<and> pods_listing (namespace opts) (Some (yet_to_upgrade_label hash)) None pods dl"
      with dr(1) have "list_all is_read (dr @ dl)" by simp
      note here = stay [OF this]
      from dl have "pods_listing (namespace opts) (Some (yet_to_upgrade_label hash)) None pods dl" ..
      from emits_roll_out [where sort_revs = sort_revs, OF er conjunct1 [OF here] conjunct2 [OF here] refl dr(2-4) this]
      show "emits (?after hash pods)
       (\<lambda>b d2. at_stage False 5 (d @ dr @ dl @ d2) \<and> rolled_out sort_revs (namespace opts) (d @ dr @ dl @ d2))
       (\<lambda>d2. stopped False (d @ dr @ dl @ d2))" by simp
    next
      fix e
      assume "list_all is_read e"
      with dr(1) stay [of "dr @ e"] show "stopped False (d @ dr @ e)" by (auto intro: at_stage_stopped)
    qed
  qed (use stay at_stage_stopped in blast)
qed

lemma control_plane_done_cut: "control_plane_done up c \<Longrightarrow> control_plane_cut up c"
  by (auto simp: control_plane_done_def control_plane_cut_def split: helm_upgrader.splits if_splits)

lemma at_stage_control_plane:
  assumes d: "at_stage skip k d" and calm: "\<forall>x \<in> set d. \<not> touches_data_plane x \<and> \<not> real_upgrade x"
    and dry: "set y \<subseteq> set d" "dry_run_done lib h up runner y"
  shows "control_plane_cut up c \<Longrightarrow> at_stage skip k (d @ c)"
    and "control_plane_done up c \<Longrightarrow> control_plane_ok (d @ c)"
proof -
  have quiet_ok: "control_plane_ok (d @ c)" if "list_all prepares c" for c
    using calm list_all_prepares_quiet [OF that] by (auto simp: control_plane_ok_def list_all_iff quiet_def harmless_def)
  show "control_plane_ok (d @ c)" if cpd: "control_plane_done up c"
  proof (cases "list_all prepares c")
    case False
    with cpd obtain u out c' where "up = CoreHelmUpgrader u" "c = EvCommand ''helm'' (core_args u) [] (Inr out) # c'" "cmd_success out"
      "list_all prepares c'" by (auto simp: control_plane_done_def split: helm_upgrader.splits if_splits)
    with calm list_all_prepares_quiet [of c'] show ?thesis
      by (auto simp: control_plane_ok_def list_all_iff quiet_def harmless_def)
  qed (rule quiet_ok)
  show "at_stage skip k (d @ c)" if cut: "control_plane_cut up c"
  proof (cases "list_all prepares c")
    case True
    with d show ?thesis by (simp add: at_stage_quiet list_all_prepares_quiet)
  next
    case False
    with cut obtain u r c' where c: "up = CoreHelmUpgrader u" "\<not> already_upgraded u"
      "c = EvCommand ''helm'' (core_args u) [] r # c'" "list_all prepares c'"
      by (auto simp: control_plane_cut_def)
    with dry obtain out where "cmd_success out" "EvCommand ''helm'' (core_args u @ [''--dry-run'']) [] (Inr out) \<in> set d"
      by (auto simp: dry_run_done_def)
    with calm have "allowed d (EvCommand ''helm'' (core_args u) [] r)" by (auto simp: allowed_def)
    with d c(3) quiet_ordered [OF list_all_prepares_quiet [OF c(4)]] quiet_acts [OF list_all_prepares_quiet [OF c(4)]]
    show ?thesis by (simp add: at_stage_def ordered_append)
  qed
qed

lemma emits_runner_stage:
  assumes er: "event_sender er" and at2: "at_stage skip 2 d"
    and calm: "\<forall>x \<in> set d. \<not> touches_data_plane x \<and> \<not> real_upgrade x"
    and dry: "set y \<subseteq> set d" "dry_run_done lib h up run_helm_upgrade y"
    and next_stage: "\<And>vals d3. at_stage skip 3 d3 \<Longrightarrow> control_plane_ok d3 \<Longrightarrow>
      emits (next_step vals) (\<lambda>b d2. Q b (d3 @ d2)) (\<lambda>d2. stopped skip (d3 @ d2))"
  shows "emits (bindP (or_publish run_helm_upgrade (\<lambda>error. publish_unrecoverable lib p h er (display error) False)) (\<lambda>final_values.
     bindP (publish_normal lib p h er m3 EA_UpgradedCP) (\<lambda>_. next_step final_values)))
     (\<lambda>b d2. Q b (d @ d2)) (\<lambda>d2. stopped skip (d @ d2))"
proof -
  note step = at_stage_control_plane [OF at2 calm dry]
  show ?thesis
  proof (rule emits_seq [OF emits_or_publish [OF emits_runner [OF dry(2)] emits_unrecoverable [OF er] reported_Nil]], goal_cases)
    case (1 vals c)
    have at: "at_stage skip 2 (d @ c)" by (rule step(1)) (rule control_plane_done_cut [OF 1])
    have ok: "control_plane_ok (d @ c)" by (rule step(2) [OF 1])
    show ?case
    proof (rule emits_seq [OF emits_stage [OF er at]], goal_cases)
      case (3 u s3)
      then have "at_stage skip 3 (d @ c @ s3)" by (auto simp: numeral_3_eq_3 numeral_2_eq_2)
      moreover from 3 ok have "control_plane_ok (d @ c @ s3)" by (auto simp: control_plane_ok_def)
      ultimately show ?case using next_stage [of "d @ c @ s3"] by simp
    next
      case (4 e)
      then show ?case by simp
    qed (simp_all add: plan_def)
  next
    case (2 e)
    then obtain c r where e: "e = c @ r" "control_plane_cut up c" "reported False r" by blast
    from at_stage_report [OF step(1) [OF e(2)] e(3)] e(1) show ?case by simp
  qed
qed

lemma emits_control_plane_stage:
  assumes er: "event_sender er" and d: "list_all quiet d" and dry: "dry_run_done lib h up run_helm_upgrade y"
    and next_stage: "\<And>vals d3. at_stage skip 3 d3 \<Longrightarrow> control_plane_ok d3 \<Longrightarrow>
      emits (next_step vals) (\<lambda>b d2. Q b (d3 @ d2)) (\<lambda>d2. stopped skip (d3 @ d2))"
  shows "emits (bindP (publish_normal lib p h er m1 EA_UpgradingCP) (\<lambda>_.
     bindP (publish_normal lib p h er m2 EA_UpgradingCP) (\<lambda>_.
     bindP (or_publish run_helm_upgrade (\<lambda>error. publish_unrecoverable lib p h er (display error) False)) (\<lambda>final_values.
     bindP (publish_normal lib p h er m3 EA_UpgradedCP) (\<lambda>_. next_step final_values)))))
     (\<lambda>b d2. Q b ((d @ y) @ d2)) (\<lambda>d2. stopped skip ((d @ y) @ d2))"
proof -
  have y: "list_all quiet y" using dry
    by (auto simp: dry_run_done_def quiet_def harmless_def split: helm_upgrader.splits if_splits)
  have at0: "at_stage skip 0 (d @ y)"
    using d y by (simp add: at_stage_def quiet_ordered quiet_acts)
  show ?thesis
  proof (rule emits_seq [OF emits_stage [OF er at0]], goal_cases)
    case (3 u s1)
    then obtain k1 where s1: "at_stage skip (Suc 0) ((d @ y) @ s1)" "s1 = [EvSend k1 (Inr ())]" by auto
    show ?case
    proof (rule emits_seq [OF emits_stage [OF er s1(1)]], goal_cases)
      case (3 u s2)
      then obtain k2 where s2: "at_stage skip 2 (d @ y @ s1 @ s2)" "s2 = [EvSend k2 (Inr ())]"
        by (auto simp: numeral_2_eq_2)
      let ?d = "d @ y @ s1 @ s2"
      have calm: "\<forall>x \<in> set ?d. \<not> touches_data_plane x \<and> \<not> real_upgrade x"
        using d y s1(2) s2(2) by (auto simp: list_all_iff quiet_def harmless_def)
      have "set y \<subseteq> set ?d" by auto
      from emits_runner_stage [OF er s2(1) calm this dry next_stage] show ?case by simp
    next
      case (4 e)
      then show ?case by simp
    qed (simp_all add: plan_def)
  qed (simp_all add: plan_def)
qed

text \<open>Everything about a run at once: \<open>finished_run\<close> for success, \<open>stopped\<close> otherwise.\<close>

definition finished_run :: "(controller_revision list \<Rightarrow> controller_revision list) \<Rightarrow> cli_args \<Rightarrow> event list \<Rightarrow> bool" where
  "finished_run sort_revs opts d \<longleftrightarrow>
     at_stage (skip_data_plane_restart opts) (length (plan (skip_data_plane_restart opts))) d \<and>
     (\<not> skip_data_plane_restart opts \<longrightarrow> rolled_out sort_revs (namespace opts) d)"

lemma rolled_out_send: "rolled_out sort_revs ns d \<Longrightarrow> rolled_out sort_revs ns (d @ [EvSend ke r])"
proof -
  assume "rolled_out sort_revs ns d"
  then obtain pre dr revs hash mid fin post where d: "d = pre @ dr @ mid @ fin @ post"
    "revs_listing ns (Some IO_ENGINE_LABEL) None revs dr" "revs \<noteq> []"
    "rev_labels (hd (sort_revs revs)) DS_CONTROLLER_REVISION_HASH_LABEL_KEY = Some hash"
    "pods_listing ns (Some (yet_to_upgrade_label hash)) None [] fin" "list_all keeps_pods post"
    unfolding rolled_out_def by blast
  have "d @ [EvSend ke r] = pre @ dr @ mid @ fin @ (post @ [EvSend ke r])" by (simp add: d(1))
  moreover have "list_all keeps_pods (post @ [EvSend ke r])" using d(6) by simp
  ultimately show ?thesis using d(2-5) unfolding rolled_out_def by blast
qed

lemma emits_last_stages:
  assumes er: "event_sender er" and d: "at_stage (skip_data_plane_restart opts) 3 d" "control_plane_ok d"
  shows "emits (bindP (if \<not> skip_data_plane_restart opts
            then upgrade_data_plane_stage fuel lib api h p sort_revs display opts er source vals
            else retP ()) (\<lambda>_. publish_normal lib p h er msg EA_Successful))
     (\<lambda>_ d2. finished_run sort_revs opts (d @ d2)) (\<lambda>d2. stopped (skip_data_plane_restart opts) (d @ d2))"
proof (cases "skip_data_plane_restart opts")
  case True
  with emits_stage [OF er d(1), where lib = lib and p = p and h = h and msg = msg and a = EA_Successful]
  show ?thesis by (simp add: finished_run_def plan_def emits_conseq numeral_eq_Suc)
next
  case False
  with d have d3: "at_stage False 3 d" by simp
  have "emits (bindP (upgrade_data_plane_stage fuel lib api h p sort_revs display opts er source vals)
      (\<lambda>_. publish_normal lib p h er msg EA_Successful))
     (\<lambda>_ d2. finished_run sort_revs opts (d @ d2)) (\<lambda>d2. stopped False (d @ d2))"
  proof (rule emits_seq [OF emits_data_plane_stage [OF er d3 d(2)]])
    fix u d1
    assume d1: "at_stage False 5 (d @ d1) \<and> rolled_out sort_revs (namespace opts) (d @ d1)"
    show "emits (publish_normal lib p h er msg EA_Successful)
        (\<lambda>_ d2. finished_run sort_revs opts (d @ d1 @ d2)) (\<lambda>d2. stopped False (d @ d1 @ d2))"
      by (rule emits_conseq [OF emits_stage [OF er conjunct1 [OF d1]]])
        (use False conjunct2 [OF d1] in \<open>auto simp: plan_def finished_run_def eval_nat_numeral dest: rolled_out_send\<close>)
  qed
  with False show ?thesis by simp
qed

lemma emits_upgrade_product:
  assumes "event_sender er0"
  shows "emits (upgrade_product fuel lib api h p order sort_revs display opts er0)
     (\<lambda>_. finished_run sort_revs opts) (stopped (skip_data_plane_restart opts))"
  unfolding upgrade_product_def Let_def
proof (rule emits_seq [OF only_emits [OF only_prepares_build]], goal_cases)
  case (1 up b)
  let ?er = "set_target_version (version_to_string lib (target_version up))
    (set_source_version (version_to_string lib (source_version up)) er0)"
  have er: "event_sender ?er" using assms by (simp add: set_target_version_def set_source_version_def)
  have b: "list_all quiet b" using 1 by (rule list_all_prepares_quiet)
  show ?case
  proof (rule emits_seq [OF emits_or_publish [OF emits_dry_run emits_unrecoverable [OF er] reported_Nil]], goal_cases)
    case (1 runner y)
    from emits_control_plane_stage [OF er b 1, where Q = "\<lambda>_. finished_run sort_revs opts" and
        skip = "skip_data_plane_restart opts", OF emits_last_stages [OF er]]
    show ?case by simp
  next
    case (2 e)
    then obtain y r where e: "e = y @ r" "reported True r"
      "\<exists>u r. up = CoreHelmUpgrader u \<and> y = [EvCommand ''helm'' (core_args u @ [''--dry-run'']) [] r]" by blast
    then have "list_all quiet (b @ y)" using b by (auto simp: quiet_def harmless_def)
    then have "at_stage (skip_data_plane_restart opts) 0 (b @ y)" by (simp add: at_stage_def quiet_ordered quiet_acts)
    from at_stage_report [OF this e(2)] e(1) show ?case by simp
  qed
next
  case (2 d)
  then have "list_all quiet d" by (rule list_all_prepares_quiet)
  then have "at_stage (skip_data_plane_restart opts) 0 d" by (simp add: at_stage_def quiet_ordered quiet_acts)
  then show ?case by (rule at_stage_stopped)
qed

lemma emits_finally:
  assumes "emits m Q I"
  shows "emits (bindP (tryP m) (\<lambda>r. bindP (modifyP (\<lambda>s. s\<lparr>rt_world := f (rt_world s)\<rparr>)) (\<lambda>_. liftR r))) Q I"
  unfolding emits_def
proof (intro allI impI)
  fix s r t
  assume run: "bindP (tryP m) (\<lambda>r. bindP (modifyP (\<lambda>s. s\<lparr>rt_world := f (rt_world s)\<rparr>)) (\<lambda>_. liftR r)) s = (r, t)"
  obtain r1 u where m1: "m s = (r1, u)" by (cases "m s") auto
  obtain d where "rt_trace u = rt_trace s @ d" "case r1 of Ok a \<Rightarrow> Q a d | Err e \<Rightarrow> I d | OutOfFuel \<Rightarrow> I d"
    using emitsD [OF assms m1] .
  with run m1 show "\<exists>d. rt_trace t = rt_trace s @ d \<and> (case r of Ok a \<Rightarrow> Q a d | Err e \<Rightarrow> I d | OutOfFuel \<Rightarrow> I d)"
    by (intro exI [of _ d]) (cases r1; auto simp: tryP_def bindP_def)
qed

lemma emits_build_recorder:
  "emits (build_recorder api b) (\<lambda>(er, _) d. event_sender er \<and> list_all is_read d) (list_all is_read)"
  by (auto simp: emits_def build_recorder_def client_def logged_def bindP_def liftR_def split: prod.splits sum.splits option.splits)

lemma finished_run_prefix:
  assumes "list_all is_read b"
  shows "finished_run sort_revs opts d \<Longrightarrow> finished_run sort_revs opts (b @ d)"
    and "stopped skip d \<Longrightarrow> stopped skip (b @ d)"
proof -
  have quiet: "list_all quiet b" using assms by (rule list_all_read_quiet)
  have mono: "ordered (b @ pre) d" if "ordered pre d" for pre
    using that
  proof (induction d arbitrary: pre)
    case (Cons e d)
    have "allowed (b @ pre) e" using Cons.prems quiet
      by (auto simp: allowed_def quiet_acts list_all_iff quiet_def harmless_def)
    with Cons show ?case by simp
  qed simp
  have at: "at_stage skip k (b @ d)" if "at_stage skip k d" for skip k
    using that mono [of "[]"] quiet by (simp add: at_stage_def ordered_append quiet_ordered quiet_acts)
  show "stopped skip (b @ d)" if "stopped skip d"
    using that mono [of "[]"] quiet by (simp add: stopped_def ordered_append quiet_ordered quiet_acts)
  have "rolled_out sort_revs ns (b @ d)" if "rolled_out sort_revs ns d" for ns
    using that unfolding rolled_out_def by (metis append_assoc)
  with at show "finished_run sort_revs opts (b @ d)" if "finished_run sort_revs opts d"
    using that by (simp add: finished_run_def)
qed

lemma emits_upgrade:
  "emits (upgrade fuel lib api h p order sort_revs display shutdown opts)
     (\<lambda>_. finished_run sort_revs opts) (stopped (skip_data_plane_restart opts))"
  unfolding upgrade_def
proof (rule emits_seq [OF emits_build_recorder], goal_cases)
  case (1 r b)
  obtain er x where r: "r = (er, x)" by (cases r) auto
  with 1 have er: "event_sender er" and b: "list_all is_read b" by auto
  show ?case unfolding r prod.case
    by (rule emits_conseq [OF emits_finally [OF emits_upgrade_product [OF er]]])
      (auto intro: finished_run_prefix [OF b])
next
  case (2 d)
  then have "list_all quiet d" by (rule list_all_read_quiet)
  then show ?case by (intro at_stage_stopped [of _ 0]) (simp add: at_stage_def quiet_ordered quiet_acts)
qed

section \<open>Properties of the upgrade job\<close>

lemma stopped_finished:
  assumes "upgrade fuel lib api h p order sort_revs display shutdown opts s = (r, t)"
  obtains d where "rt_trace t = rt_trace s @ d" "r = Ok () \<longrightarrow> finished_run sort_revs opts d"
    "stopped (skip_data_plane_restart opts) d"
proof -
  obtain d where d: "rt_trace t = rt_trace s @ d" "case r of Ok a \<Rightarrow> finished_run sort_revs opts d
      | Err e \<Rightarrow> stopped (skip_data_plane_restart opts) d | OutOfFuel \<Rightarrow> stopped (skip_data_plane_restart opts) d"
    using emitsD [OF emits_upgrade assms] .
  then show ?thesis
    by (intro that) (auto simp: finished_run_def at_stage_stopped split: outcome.splits)
qed

text \<open>
  Property C1.  The order of an upgrade, for every cluster, helm, file system, outcome and amount
  of fuel: the helm upgrade is run at most once, only after a successful dry run of the same
  command, and before any change of the data plane; and no pod is deleted and no storage
  node cordoned, uncordoned or drained unless the events that the control plane is
  upgraded and that the data-plane upgrade begins were sent and no helm upgrade failed.
\<close>

theorem upgrade_ordered:
  assumes "upgrade fuel lib api h p order sort_revs display shutdown opts s = (r, t)"
  shows "\<exists>d. rt_trace t = rt_trace s @ d \<and> (\<forall>pre e post. d = pre @ e # post \<longrightarrow> allowed pre e)"
proof -
  from assms obtain d where "rt_trace t = rt_trace s @ d" "stopped (skip_data_plane_restart opts) d"
    by (rule stopped_finished)
  then show ?thesis using ordered_iff [of "[]" d] by (auto simp: stopped_def)
qed

text \<open>
  Property C3.  The events that tell the story of an upgrade: a successful job has sent exactly
  the events of the plan, in order, ending with \<open>Successful\<close>; any other run has sent a part
  of the plan from its beginning, then at most one event of failure: \<open>Validation Failed\<close> only
  before anything else, \<open>Failed\<close> only while the control plane or the data plane is being
  upgraded.  In particular \<open>Successful\<close> is sent only as the last event.
\<close>

theorem upgrade_events:
  assumes "upgrade fuel lib api h p order sort_revs display shutdown opts s = (r, t)"
  shows "\<exists>d. rt_trace t = rt_trace s @ d \<and>
    (if r = Ok () then acts d = map event_action_to_string (plan (skip_data_plane_restart opts))
     else stopped_events (skip_data_plane_restart opts) (acts d))"
proof -
  from assms obtain d where "rt_trace t = rt_trace s @ d" "r = Ok () \<longrightarrow> finished_run sort_revs opts d"
    "stopped (skip_data_plane_restart opts) d" by (rule stopped_finished)
  then show ?thesis by (auto simp: stopped_def finished_run_def at_stage_def)
qed


end
