(* ===== verification/PluginRbac.thy ===== *)
theory PluginRbac
  imports PluginObjects UpgradeJob
begin

text \<open>
  Two halves of the upgrade meet in the cluster role: the plugin writes its rules
  (\<open>plugin/objects.rs\<close>), and the upgrade job sends its requests to Kubernetes under
  them.  This theory compares the rules with the requests of the job's model.
\<close>

section \<open>Rules and requests\<close>

text \<open>A request, as Kubernetes authorizes it: API group, resource and verb.\<close>

type_synonym k8s_request = "string \<times> string \<times> string"

definition role_allows :: "policy_rule list \<Rightarrow> k8s_request \<Rightarrow> bool" where
  "role_allows rules request =
     (case request of (api_group, resource, verb) \<Rightarrow>
        list_ex (\<lambda>rule. api_group \<in> set (api_groups rule) \<and> resource \<in> set (resources rule) \<and> verb \<in> set (verbs rule)) rules)"

text \<open>The request behind an event of the job's trace, if it is one to Kubernetes.\<close>

fun request_of :: "event \<Rightarrow> k8s_request option" where
  "request_of (EvPodsList _ _ _) = Some ('''', ''pods'', ''list'')"
| "request_of (EvPodGet _ _ _) = Some ('''', ''pods'', ''get'')"
| "request_of (EvPodDelete _ _ _) = Some ('''', ''pods'', ''delete'')"
| "request_of (EvNodesList _ _) = Some ('''', ''nodes'', ''list'')"
| "request_of (EvRevsList _ _ _) = Some (''apps'', ''controllerrevisions'', ''list'')"
| "request_of (EvNamespace _ _) = Some ('''', ''namespaces'', ''get'')"
| "request_of (EvCrdsList _ _) = Some (''apiextensions.k8s.io'', ''customresourcedefinitions'', ''list'')"
| "request_of (EvSend _ _) = Some (''events.k8s.io'', ''events'', ''create'')"
| "request_of _ = None"

fun is_revs_list :: "event \<Rightarrow> bool" where
  "is_revs_list (EvRevsList _ _ _) = True"
| "is_revs_list _ = False"

lemma upgrade_role_allows:
  "role_allows upgrade_role_rules ('''', ''pods'', ''list'')" "role_allows upgrade_role_rules ('''', ''pods'', ''get'')"
  "role_allows upgrade_role_rules ('''', ''pods'', ''delete'')" "role_allows upgrade_role_rules ('''', ''nodes'', ''list'')"
  "role_allows upgrade_role_rules ('''', ''namespaces'', ''get'')"
  "role_allows upgrade_role_rules (''apiextensions.k8s.io'', ''customresourcedefinitions'', ''list'')"
  "role_allows upgrade_role_rules (''events.k8s.io'', ''events'', ''create'')"
  "\<not> role_allows upgrade_role_rules (''apps'', ''controllerrevisions'', ''list'')"
  by code_simp+

lemma request_allowed:
  "request_of ev = Some request \<Longrightarrow> role_allows upgrade_role_rules request \<longleftrightarrow> \<not> is_revs_list ev"
  by (cases ev) (auto simp: upgrade_role_allows)

text \<open>
  Authorization by a role: a request of the client is answered only if a rule allows it.
\<close>

definition authorizes :: "policy_rule list \<Rightarrow> 'w cluster \<Rightarrow> bool" where
  "authorizes rules api \<longleftrightarrow>
     (\<forall>ns params w a w'. pods_list api ns params w = (Inr a, w') \<longrightarrow> role_allows rules ('''', ''pods'', ''list'')) \<and>
     (\<forall>ns pod w a w'. pods_get api ns pod w = (Inr a, w') \<longrightarrow> role_allows rules ('''', ''pods'', ''get'')) \<and>
     (\<forall>ns pod w a w'. pods_delete api ns pod w = (Inr a, w') \<longrightarrow> role_allows rules ('''', ''pods'', ''delete'')) \<and>
     (\<forall>params w a w'. nodes_list_metadata api params w = (Inr a, w') \<longrightarrow> role_allows rules ('''', ''nodes'', ''list'')) \<and>
     (\<forall>ns params w a w'. ctrl_revs_list api ns params w = (Inr a, w') \<longrightarrow>
        role_allows rules (''apps'', ''controllerrevisions'', ''list''))"

section \<open>The job under the plugin's role\<close>

definition never_ok :: "('s, 'e, 'a) prog \<Rightarrow> bool" where
  "never_ok m \<longleftrightarrow> (\<forall>s a t. m s \<noteq> (Ok a, t))"

lemma never_ok_bind1: "never_ok m \<Longrightarrow> never_ok (bindP m k)"
  by (simp add: never_ok_def bindP_eq_Ok)

lemma never_ok_bind2: "(\<And>a. never_ok (k a)) \<Longrightarrow> never_ok (bindP m k)"
  by (simp add: never_ok_def bindP_eq_Ok)

lemma never_ok_loop: "(\<And>b. never_ok (body b)) \<Longrightarrow> never_ok (loopP n body b)"
  by (cases n) (simp add: never_ok_def, simp add: never_ok_bind1)

lemma never_ok_logged: "(\<And>w a w'. f w \<noteq> (Inr a, w')) \<Longrightarrow> never_ok (logged f ev ctx)"
  unfolding never_ok_def logged_def by (auto split: prod.splits sum.splits)

lemma never_ok_finally: "never_ok m \<Longrightarrow> never_ok (bindP (tryP m) (\<lambda>r. bindP (modifyP f) (\<lambda>_. liftR r)))"
  unfolding never_ok_def bindP_def tryP_def by (auto split: prod.splits outcome.splits sum.splits)

lemma never_ok_latest_hash:
  assumes "authorizes upgrade_role_rules api"
  shows "never_ok (latest_controller_revision_hash fuel api sort_revs ns label field_sel key)"
proof -
  have "ctrl_revs_list api ns params w \<noteq> (Inr a, w')" for params w a w'
  proof
    assume "ctrl_revs_list api ns params w = (Inr a, w')"
    with assms have "role_allows upgrade_role_rules (''apps'', ''controllerrevisions'', ''list'')"
      unfolding authorizes_def by blast
    then show False by (simp add: upgrade_role_allows)
  qed
  then have "never_ok (ctrl_revs_page api ns label field_sel token)" for token
    unfolding ctrl_revs_page_def by (intro never_ok_bind2 never_ok_bind1 never_ok_logged) simp
  then show ?thesis
    unfolding latest_controller_revision_hash_def list_controller_revisions_def collect_pages_def
    by (intro never_ok_bind1 never_ok_loop) (auto intro!: never_ok_bind1)
qed

lemma never_ok_upgrade:
  assumes "authorizes upgrade_role_rules api" "\<not> skip_data_plane_restart opts"
  shows "never_ok (upgrade_product fuel lib api h p order sort_revs display opts er)"
proof -
  have "never_ok (upgrade_data_plane_stage fuel lib api h p sort_revs display opts er' source vals)" for er' source vals
    unfolding upgrade_data_plane_stage_def
    by (rule never_ok_bind2, rule never_ok_bind1) (rule never_ok_latest_hash [OF assms(1)])
  note stage = this
  show ?thesis unfolding upgrade_product_def Let_def
    by (rule never_ok_bind2, rule never_ok_bind2, rule never_ok_bind2, rule never_ok_bind2, rule never_ok_bind2,
        rule never_ok_bind2, rule never_ok_bind1) (simp add: assms(2) stage)
qed

text \<open>
  Property C27.  The role that the plugin gives to the upgrade job allows every request to Kubernetes
  that the job's own code makes, except one: listing controller revisions.  So wherever the
  role is enforced, a job that is to restart the data plane never returns successfully,
  whatever the cluster, helm and the options.
\<close>

theorem upgrade_role_lacks_revisions:
  assumes "authorizes upgrade_role_rules api" "\<not> skip_data_plane_restart opts"
  shows "(\<forall>ev request. request_of ev = Some request \<longrightarrow> (role_allows upgrade_role_rules request \<longleftrightarrow> \<not> is_revs_list ev)) \<and>
    fst (upgrade fuel lib api h p order sort_revs display shutdown opts s) \<noteq> Ok ()"
proof (intro conjI allI impI)
  have "never_ok (upgrade fuel lib api h p order sort_revs display shutdown opts)"
    unfolding upgrade_def by (rule never_ok_bind2) (auto intro: never_ok_finally never_ok_upgrade [OF assms])
  then show "fst (upgrade fuel lib api h p order sort_revs display shutdown opts s) \<noteq> Ok ()"
    unfolding never_ok_def by (metis prod.collapse)
qed (rule request_allowed)

end
