(* ===== verification/ErrorText.thy ===== *)
theory ErrorText
  imports HelmUpgrade EventRecorder
begin

text \<open>
  The text of the errors of the upgrade job (\<open>common/error.rs\<close>): it is what the job prints and
  what it publishes as an event when the upgrade fails.
\<close>

definition TO_UMBRELLA_SEMVER :: string where "TO_UMBRELLA_SEMVER = ''4.0.1''"

definition UMBRELLA_CHART_UPGRADE_DOCS_URL :: string where
  "UMBRELLA_CHART_UPGRADE_DOCS_URL = ''https://openebs.io/docs/user-guides/upgrade''"

primrec upgrade_error_display :: "'v libs \<Rightarrow> product \<Rightarrow> upgrade_error \<Rightarrow> string" where
  "upgrade_error_display lib p (RestUrlParse src rest_endpoint) =
     ''Failed to parse '' @ product_train lib p @ '' REST API URL '' @ rest_endpoint @ '': '' @ src"
| "upgrade_error_display lib p (K8sClientGeneration src) = ''Failed to generate kubernetes client: '' @ src"
| "upgrade_error_display lib p (GetNamespace src ns) = ''Failed to GET Kubernetes namespace '' @ ns @ '': '' @ src"
| "upgrade_error_display lib p (RestClientConfiguration src rest_endpoint) =
     ''Failed to configure '' @ product_train lib p @ '' REST API client with endpoint '' @ rest_endpoint @ '': '' @ src"
| "upgrade_error_display lib p (HelmCommand src command args) =
     ''Failed to run Helm command,'' @ EOL @ ''command: '' @ command @ '','' @ EOL @ ''args: '' @ debug_strings args @
     '','' @ EOL @ ''command_error: '' @ src"
| "upgrade_error_display lib p (RegexCompile src expression) = ''Failed to compile regex '' @ expression @ '': '' @ src"
| "upgrade_error_display lib p (HelmVersion version) =
     ''Helm version '' @ version @ '' does not start with '' @ QUOTE @ ''v3.x.y'' @ QUOTE"
| "upgrade_error_display lib p (HelmRelease nm ns) =
     QUOTE @ ''deployed'' @ QUOTE @ '' Helm release '' @ nm @ '' not found in Namespace '' @ ns"
| "upgrade_error_display lib p (NoInputHelmChartDir chart_nm) =
     ''No input for '' @ chart_nm @ '' helm chart'' @ QUOTE @ ''s directory path''"
| "upgrade_error_display lib p (JobPodOwnerNotFound pod_nm pod_ns) =
     ''.metadata.ownerReferences empty for Pod '' @ pod_nm @ '' in '' @ pod_ns @
     '' namespace, while trying to find Pod'' @ QUOTE @ ''s Job owner''"
| "upgrade_error_display lib p (JobPodHasTooManyOwners pod_nm pod_ns) =
     ''Pod '' @ pod_nm @ '' in '' @ pod_ns @ '' namespace has too many owners, while trying to find Pod'' @ QUOTE @
     ''s Job owner''"
| "upgrade_error_display lib p (JobPodOwnerIsNotJob pod_nm pod_ns) =
     ''Pod '' @ pod_nm @ '' in '' @ pod_ns @
     '' namespace has an owner which is not a Job, while trying to find Pod'' @ QUOTE @ ''s Job owner''"
| "upgrade_error_display lib p (YamlParseFromSlice src input_yaml) =
     ''Failed to parse YAML '' @ input_yaml @ '': '' @ src"
| "upgrade_error_display lib p (YamlParseFromFile src filepath) = ''Failed to parse YAML at '' @ filepath @ '': '' @ src"
| "upgrade_error_display lib p (YamlParseBufferForUnsupportedVersion src) =
     ''Failed to parse unsupported versions yaml: '' @ src"
| "upgrade_error_display lib p (DetermineChartVariant rel_name ns chart_nm) =
     ''Helm chart release '' @ rel_name @ '' in Namespace '' @ ns @ '' has an unsupported chart variant: '' @ chart_nm"
| "upgrade_error_display lib p (ValidateDirPath src path) = ''Failed to validate directory path '' @ path @ '': '' @ src"
| "upgrade_error_display lib p (ValidateFilePath src path) = ''Failed to validate filepath '' @ path @ '': '' @ src"
| "upgrade_error_display lib p (NotADirectory path) = path @ '' is not a directory''"
| "upgrade_error_display lib p (NotAFile path) = path @ '' is not a file''"
| "upgrade_error_display lib p (ReadingFile src filepath) = ''Failed to read from file '' @ filepath @ '': '' @ src"
| "upgrade_error_display lib p (FindingHelmChart path) = ''Failed to find valid Helm chart in path '' @ path"
| "upgrade_error_display lib p (GetPod src pod_nm pod_ns) =
     ''Failed to GET Kubernetes Pod '' @ pod_nm @ '' in namespace '' @ pod_ns @ '': '' @ src"
| "upgrade_error_display lib p (ListPodsWithLabelAndField src label field ns) =
     ''Failed to list Pods with label '' @ QUOTE @ label @ QUOTE @ '', and field '' @ QUOTE @ field @ QUOTE @
     '' in namespace '' @ ns @ '': '' @ src"
| "upgrade_error_display lib p (ListCtrlRevsWithLabelAndField src label field ns) =
     ''Failed to list ControllerRevisions with label '' @ QUOTE @ label @ QUOTE @ '', and field '' @ QUOTE @ field @ QUOTE @
     '' in namespace '' @ ns @ '': '' @ src"
| "upgrade_error_display lib p (ListNodesWithLabelAndField src label field) =
     ''Failed to list Kubernetes Nodes with label '' @ QUOTE @ label @ QUOTE @ '', and field '' @ QUOTE @ field @ QUOTE @
     '': '' @ src"
| "upgrade_error_display lib p (EmptyPodSpec nm ns) = ''Failed get .spec from Pod '' @ nm @ '' in Namespace '' @ ns"
| "upgrade_error_display lib p (EmptyPodNodeName nm ns) =
     ''Failed get .spec.nodeName from Pod '' @ nm @ '' in Namespace '' @ ns"
| "upgrade_error_display lib p (EmptyPodUid nm ns) =
     ''Failed to get .metadata.uid from Pod '' @ nm @ '' in Namespace '' @ ns"
| "upgrade_error_display lib p (StorageNodeUncordon src node_id) =
     ''Failed to uncordon '' @ product_train lib p @ '' Node '' @ node_id @ '': '' @ src"
| "upgrade_error_display lib p (PodDelete src nm node) =
     ''Failed get delete Pod '' @ nm @ '' from Node '' @ node @ '': '' @ src"
| "upgrade_error_display lib p (ListStorageNodes src) = ''Failed to list '' @ product_train lib p @ '' Nodes: '' @ src"
| "upgrade_error_display lib p (GetStorageNode src node_id) =
     ''Failed to list '' @ product_train lib p @ '' Node '' @ node_id @ '': '' @ src"
| "upgrade_error_display lib p (EmptyStorageNodeSpec node_id) =
     ''Failed to get '' @ product_train lib p @ '' Node '' @ node_id"
| "upgrade_error_display lib p (ListStorageVolumes src) =
     ''Failed to list '' @ product_train lib p @ '' Volumes: '' @ src"
| "upgrade_error_display lib p (DrainStorageNode src node_id) =
     ''Failed to drain '' @ product_train lib p @ '' Node '' @ node_id @ '': '' @ src"
| "upgrade_error_display lib p (CordonStorageNode src node_id) =
     ''Failed to cordon '' @ product_train lib p @ '' Node '' @ node_id @ '': '' @ src"
| "upgrade_error_display lib p (YamlStructure yaml_at) = ''Failed to parse YAML path '' @ yaml_at"
| "upgrade_error_display lib p (U8VectorToString src) = ''Failed to convert Vec<u8> to UTF-8 formatted String: '' @ src"
| "upgrade_error_display lib p (EventPublish src) = ''Failed to publish Event: '' @ src"
| "upgrade_error_display lib p (HelmChartNameSplit chart_nm delimiter) =
     ''Failed to split helm chart name '' @ QUOTE @ chart_nm @ QUOTE @ '', at the first occurrence of '' @ QUOTE @
     [delimiter] @ QUOTE"
| "upgrade_error_display lib p (HelmListCommand command args std_err) =
     ''`helm list` command return an error,'' @ EOL @ ''command: '' @ command @ '','' @ EOL @ ''args: '' @
     debug_strings args @ '','' @ EOL @ ''std_err: '' @ std_err"
| "upgrade_error_display lib p (HelmVersionCommand command args std_err) =
     ''`helm version` command return an error,'' @ EOL @ ''command: '' @ command @ '','' @ EOL @ ''args: '' @
     debug_strings args @ '','' @ EOL @ ''std_err: '' @ std_err"
| "upgrade_error_display lib p (HelmUpgradeCommand command args std_err) =
     ''`helm upgrade` command return an error,'' @ EOL @ ''command: '' @ command @ '','' @ EOL @ ''args: '' @
     debug_strings args @ '','' @ EOL @ ''std_err: '' @ std_err"
| "upgrade_error_display lib p (HelmGetValuesCommand command args std_err) =
     ''`helm get values` command return an error,'' @ EOL @ ''command: '' @ command @ '','' @ EOL @ ''args: '' @
     debug_strings args @ '','' @ EOL @ ''std_err: '' @ std_err"
| "upgrade_error_display lib p (NotAKnownHelmChart chart_nm) =
     QUOTE @ chart_nm @ QUOTE @ '' is not a known '' @ product_train lib p @ '' helm chart, only helm charts '' @ QUOTE @
     CORE_CHART_NAME p @ ''-<version-tag>'' @ QUOTE @ '' and '' @ QUOTE @ UMBRELLA_CHART_NAME @ ''-<version-tag>'' @ QUOTE @
     '' are supported''"
| "upgrade_error_display lib p EventRecorderOptionsAbsent = ''Mandatory options for EventRecorder were not given''"
| "upgrade_error_display lib p PodUidIsNone = ''Pod Uid is None''"
| "upgrade_error_display lib p HelmClientNs = ''Setting namespace is mandatory for HelmClient''"
| "upgrade_error_display lib p HelmUpgradeOptionReleaseNameAbsent =
     ''A mandatory options for helm upgrade was not given: no release name''"
| "upgrade_error_display lib p HelmUpgradeOptionNamespaceAbsent =
     ''A mandatory options for helm upgrade was not given: no helm release namespace''"
| "upgrade_error_display lib p (SemverParse src version_string) =
     ''Failed to parse '' @ version_string @ '' as a valid semver: '' @ src"
| "upgrade_error_display lib p InvalidUpgradePath = ''The upgrade path is invalid''"
| "upgrade_error_display lib p (SerializeEventNote src event_note) =
     ''Failed to serialize event note '' @ event_note @ '': '' @ src"
| "upgrade_error_display lib p (SerializePromtailConfigClientToJson src obj) =
     ''Failed to serialize .loki-stack.promtail.config.client '' @ obj @ '': '' @ src"
| "upgrade_error_display lib p (SerializePromtailInitContainerToJson src obj) =
     ''Failed to serialize .loki-stack.promtail.initContainer '' @ obj @ '': '' @ src"
| "upgrade_error_display lib p (DeserializePromtailExtraConfig src cfg) =
     ''Failed to deserialize .loki-stack.promtail.config.snippets.extraClientConfig to a serde_json::Value '' @ cfg @
     '': '' @ src"
| "upgrade_error_display lib p (SerializePromtailExtraConfigToJson src cfg) =
     ''Failed to serialize to JSON '' @ cfg @ '': '' @ src"
| "upgrade_error_display lib p (SerializePromtailExtraClientConfigToJson src obj) =
     ''Failed to serialize object to a serde_json::Value '' @ obj @ '': '' @ src"
| "upgrade_error_display lib p (TooManyIoEnginePods node_nm) =
     ''Too many io-engine Pods in Node '' @ QUOTE @ node_nm @ QUOTE"
| "upgrade_error_display lib p ThinProvisioningOptionsAbsent =
     ''The agents.core.capacity yaml object is absent amongst the helm values''"
| "upgrade_error_display lib p EventChannelSend = ''Failed to send Event over the channel''"
| "upgrade_error_display lib p UmbrellaChartNotUpgraded =
     ''The '' @ UMBRELLA_CHART_NAME @ '' helm chart is not upgraded to version '' @ TO_UMBRELLA_SEMVER @
     '': Upgrade for helm chart '' @ UMBRELLA_CHART_NAME @ '' is not supported, refer to the instructions at '' @
     UMBRELLA_CHART_UPGRADE_DOCS_URL @ '' to upgrade your release of the '' @ UMBRELLA_CHART_NAME @
     '' helm chart to version '' @ TO_UMBRELLA_SEMVER"
| "upgrade_error_display lib p CoreChartUpgradeNoneChartDir =
     ''The '' @ CORE_CHART_NAME p @ '' helm chart could not be upgraded as input chart directory is absent''"
| "upgrade_error_display lib p InvalidHelmUpgrade = ''Invalid helm upgrade request''"
| "upgrade_error_display lib p (RollbackForbidden source_ver target_ver) =
     ''Failed to upgrade from '' @ source_ver @ '' to '' @ target_ver @
     '': upgrade to an earlier-released version is forbidden''"
| "upgrade_error_display lib p (YqCommandExec src command args) =
     ''Failed to run yq command,'' @ EOL @ ''command: '' @ command @ '','' @ EOL @ ''args: '' @ debug_strings args @ '','' @
     EOL @ ''command_error: '' @ src"
| "upgrade_error_display lib p (YqVersionCommand command arg std_err) =
     ''`yq -V` command return an error,'' @ EOL @ ''command: '' @ command @ '','' @ EOL @ ''arg: '' @ arg @ '','' @ EOL @
     ''std_err: '' @ std_err"
| "upgrade_error_display lib p (YqMergeCommand command args std_err) =
     ''`yq ea` command return an error,'' @ EOL @ ''command: '' @ command @ '','' @ EOL @ ''args: '' @ debug_strings args @
     '','' @ EOL @ ''std_err: '' @ std_err"
| "upgrade_error_display lib p NotYqV4 = ''yq version is not v4''"
| "upgrade_error_display lib p (TempFileCreation src) = ''Failed to create temporary file: '' @ src"
| "upgrade_error_display lib p (WriteToTempFile src filepath) =
     ''Failed to write to temporary file '' @ filepath @ '': '' @ src"
| "upgrade_error_display lib p (NotAValidYamlKeyForStringValue ky) =
     ky @ '' is not a valid yaml key for a string value''"
| "upgrade_error_display lib p (YqSetCommand command args std_err) =
     ''`yq` set-value-command returned an error,'' @ EOL @ ''command: '' @ command @ '','' @ EOL @ ''args: '' @
     debug_strings args @ '','' @ EOL @ ''std_err: '' @ std_err"
| "upgrade_error_display lib p (YqDeleteObjectCommand command args std_err) =
     ''`yq` delete-object-command returned an error,'' @ EOL @ ''command: '' @ command @ '','' @ EOL @ ''args: '' @
     debug_strings args @ '','' @ EOL @ ''std_err: '' @ std_err"
| "upgrade_error_display lib p (YqAppendToArrayCommand command args std_err) =
     ''`yq` append-to-array-command returned an error,'' @ EOL @ ''command: '' @ command @ '','' @ EOL @ ''args: '' @
     debug_strings args @ '','' @ EOL @ ''std_err: '' @ std_err"
| "upgrade_error_display lib p (YqAppendToObjectCommand command args std_err) =
     ''`yq` append-to-object-command returned an error,'' @ EOL @ ''command: '' @ command @ '','' @ EOL @ ''args: '' @
     debug_strings args @ '','' @ EOL @ ''std_err: '' @ std_err"
| "upgrade_error_display lib p (ListCrds src) = ''failed to list CustomResourceDefinitions: '' @ src"
| "upgrade_error_display lib p (PartialRebuildNotAllowed chart_nm lower_extent upper_extent) =
     ''Partial rebuild must be disabled for upgrades from '' @ chart_nm @ '' chart versions >= '' @ lower_extent @
     '', <= '' @ upper_extent"
| "upgrade_error_display lib p (ControllerRevisionListEmpty ns label_selector field_selector) =
     ''No ControllerRevisions found in namespace '' @ QUOTE @ ns @ QUOTE @ '' with label selector '' @ QUOTE @
     label_selector @ QUOTE @ '' and field selector '' @ QUOTE @ field_selector @ QUOTE"
| "upgrade_error_display lib p (ControllerRevisionDoesntHaveHashLabel nm ns hash_label_key) =
     ''ControllerRevisions '' @ QUOTE @ nm @ QUOTE @ '' in namespace '' @ QUOTE @ ns @ QUOTE @ '' doesn'' @ QUOTE @
     ''t have label key '' @ QUOTE @ hash_label_key @ QUOTE"

end
