(* ===== verification/Validators.thy ===== *)
theory Validators
  imports UpgradeJob ErrorText
begin

text \<open>
  The start of the upgrade job: the validation of its arguments (\<open>opts/validators.rs\<close>) and
  \<open>main.rs\<close>, which validates and then upgrades.  Parsing the command line is the business of
  \<open>clap\<close>; its result is the parameter \<open>opts\<close>.
\<close>

section \<open>The checks\<close>

definition LINE_FEED_OPT :: string where "LINE_FEED_OPT = ''('' @ BACKSLASH @ ''n)?''"

definition release_regex :: "string \<Rightarrow> string" where
  "release_regex name = LINE_FEED_OPT @ name @ LINE_FEED_OPT"

definition helmv3_regex :: string where
  "helmv3_regex = ''^(v3'' @ BACKSLASH @ ''.[0-9]+'' @ BACKSLASH @ ''.[0-9])''"

definition list_short_args :: "string \<Rightarrow> string list" where
  "list_short_args ns = [''list'', ''-n'', ns, ''--deployed'', ''--short'']"

definition version_short_args :: "string list" where
  "version_short_args = [''version'', ''--short'']"

definition validate_helm_release :: "'v libs \<Rightarrow> 'w host \<Rightarrow> string \<Rightarrow> string \<Rightarrow> ('w, unit) job" where
  "validate_helm_release lib h name ns =
     bindP (helm_output h (list_short_args ns)) (\<lambda>out.
     bindP (liftR (map_err U8VectorToString (from_utf8 (cmd_stdout out)))) (\<lambda>_.
     bindP (liftR (ensure_success (HelmListCommand ''helm'' (list_short_args ns)) out)) (\<lambda>_.
     bindP (liftR (regex_match lib (release_regex name) (cmd_stdout out))) (\<lambda>matched.
     liftR (ensure matched (HelmRelease name ns))))))"

definition validate_helmv3_in_path :: "'v libs \<Rightarrow> 'w host \<Rightarrow> ('w, unit) job" where
  "validate_helmv3_in_path lib h =
     bindP (helm_output h version_short_args) (\<lambda>out.
     bindP (liftR (map_err U8VectorToString (from_utf8 (cmd_stdout out)))) (\<lambda>stdout_str.
     bindP (liftR (ensure_success (HelmVersionCommand ''helm'' version_short_args) out)) (\<lambda>_.
     bindP (liftR (regex_match lib helmv3_regex (cmd_stdout out))) (\<lambda>matched.
     liftR (ensure matched (HelmVersion stdout_str))))))"

definition ensure_dir :: "'w host \<Rightarrow> string \<Rightarrow> ('w, unit) job" where
  "ensure_dir h path =
     bindP (logged (path_is_dir h path) (EvIsDir path) (\<lambda>e. ValidateDirPath e path)) (\<lambda>is_dir.
     liftR (ensure is_dir (NotADirectory path)))"

definition ensure_file :: "'w host \<Rightarrow> string \<Rightarrow> ('w, unit) job" where
  "ensure_file h path =
     bindP (logged (path_is_file h path) (EvIsFile path) (\<lambda>e. ValidateFilePath e path)) (\<lambda>is_file.
     liftR (ensure is_file (NotAFile path)))"

definition validate_core_helm_chart_variant_in_dir :: "'v libs \<Rightarrow> 'w host \<Rightarrow> product \<Rightarrow> string \<Rightarrow> ('w, unit) job" where
  "validate_core_helm_chart_variant_in_dir lib h p dir_path =
     bindP (ensure_dir h dir_path) (\<lambda>_.
     let chart_yaml_path = path_join dir_path ''Chart.yaml'' in
     bindP (ensure_file h chart_yaml_path) (\<lambda>_.
     bindP (logged (read_file h chart_yaml_path) (EvReadFile chart_yaml_path) (\<lambda>e. ReadingFile e chart_yaml_path)) (\<lambda>chart_yaml_file.
     bindP (liftR (map_err (\<lambda>e. YamlParseFromFile e chart_yaml_path)
              (yaml_de lib (de_chart (version_parse lib)) chart_yaml_file))) (\<lambda>chart_yaml.
     bindP (liftR (ensure (chart_name chart_yaml = CORE_CHART_NAME p) (FindingHelmChart dir_path))) (\<lambda>_.
     bindP (ensure_dir h (path_join dir_path ''charts'')) (\<lambda>_.
     bindP (ensure_file h (path_join dir_path ''values.yaml'')) (\<lambda>_.
     bindP (ensure_file h (path_join dir_path ''README.md'')) (\<lambda>_.
     bindP (ensure_dir h (path_join dir_path ''charts/crds'')) (\<lambda>_.
     ensure_dir h (path_join dir_path ''templates''))))))))))"

definition validate_helm_chart_dir :: "'v libs \<Rightarrow> 'w host \<Rightarrow> product \<Rightarrow> string \<Rightarrow> ('w, unit) job" where
  "validate_helm_chart_dir lib h p core_dir = validate_core_helm_chart_variant_in_dir lib h p core_dir"

definition validate_namespace :: "'w cluster \<Rightarrow> 'w host \<Rightarrow> string \<Rightarrow> ('w, unit) job" where
  "validate_namespace api h ns =
     bindP (client api) (\<lambda>_.
     logged (namespaces_get h ns) (EvNamespace ns) (\<lambda>e. GetNamespace e ns))"

definition validate_rest_endpoint :: "'w cluster \<Rightarrow> string \<Rightarrow> ('w, unit) job" where
  "validate_rest_endpoint api endpoint =
     bindP (liftR (new_with_url api endpoint)) (\<lambda>_.
     bindP (logged (get_nodes api) EvGetNodes ListStorageNodes) (\<lambda>_.
     retP ()))"

definition parse_cli_args :: "'v libs \<Rightarrow> 'w cluster \<Rightarrow> 'w host \<Rightarrow> product \<Rightarrow> cli_args \<Rightarrow> ('w, cli_args) job" where
  "parse_cli_args lib api h p opts =
     bindP (validate_namespace api h (namespace opts)) (\<lambda>_.
     bindP (validate_rest_endpoint api (rest_endpoint opts)) (\<lambda>_.
     bindP (validate_helmv3_in_path lib h) (\<lambda>_.
     bindP (validate_helm_release lib h (release_name opts) (namespace opts)) (\<lambda>_.
     bindP (validate_helm_chart_dir lib h p (core_chart_dir opts)) (\<lambda>_.
     retP opts)))))"

definition job_main ::
  "nat \<Rightarrow> ('v::linorder) libs \<Rightarrow> 'w cluster \<Rightarrow> 'w host \<Rightarrow> product \<Rightarrow> ((string list \<times> string) list \<Rightarrow> (string list \<times> string) list)
     \<Rightarrow> (controller_revision list \<Rightarrow> controller_revision list) \<Rightarrow> ('w \<Rightarrow> 'w) \<Rightarrow> cli_args \<Rightarrow> ('w, unit) job" where
  "job_main fuel lib api h p order sort_revs shutdown_worker args =
     bindP (parse_cli_args lib api h p args) (\<lambda>opts.
     upgrade fuel lib api h p order sort_revs (upgrade_error_display lib p) shutdown_worker opts)"

section \<open>What a successful validation has seen\<close>

text \<open>Requests that only look: reads, and \<open>helm list\<close> and \<open>helm version\<close>.\<close>

fun looks :: "event \<Rightarrow> bool" where
  "looks (EvCommand prog args envs r) \<longleftrightarrow> prog = ''helm'' \<and> args \<noteq> [] \<and> (hd args = ''list'' \<or> hd args = ''version'')"
| "looks e = is_read e"

text \<open>Everything the validation asks, in its order, with the answers it insists on.\<close>

definition validated :: "'v libs \<Rightarrow> product \<Rightarrow> cli_args \<Rightarrow> event list \<Rightarrow> bool" where
  "validated lib p opts d \<longleftrightarrow>
     (\<exists>nodes version releases chart_file chart.
        let dir = core_chart_dir opts in
        d = [EvClient (Inr ()), EvNamespace (namespace opts) (Inr ()), EvGetNodes (Inr nodes),
             EvCommand ''helm'' [''version'', ''--short''] [] (Inr version),
             EvCommand ''helm'' [''list'', ''-n'', namespace opts, ''--deployed'', ''--short''] [] (Inr releases),
             EvIsDir dir (Inr True), EvIsFile (path_join dir ''Chart.yaml'') (Inr True),
             EvReadFile (path_join dir ''Chart.yaml'') (Inr chart_file),
             EvIsDir (path_join dir ''charts'') (Inr True), EvIsFile (path_join dir ''values.yaml'') (Inr True),
             EvIsFile (path_join dir ''README.md'') (Inr True), EvIsDir (path_join dir ''charts/crds'') (Inr True),
             EvIsDir (path_join dir ''templates'') (Inr True)] \<and>
        cmd_success version \<and> regex_is_match lib helmv3_regex (cmd_stdout version) \<and>
        cmd_success releases \<and> regex_is_match lib (release_regex (release_name opts)) (cmd_stdout releases) \<and>
        yaml_de lib (de_chart (version_parse lib)) chart_file = Inr chart \<and> chart_name chart = CORE_CHART_NAME p)"

lemma emits_client_exact: "emits (client api) (\<lambda>_ d. d = [EvClient (Inr ())]) (\<lambda>d. \<exists>r. d = [EvClient r])"
  unfolding client_def by (rule emits_logged) auto

lemma emits_ensure_dir:
  "emits (ensure_dir h path) (\<lambda>_ d. d = [EvIsDir path (Inr True)]) (\<lambda>d. \<exists>r. d = [EvIsDir path r])"
  unfolding ensure_dir_def by (rule emits_bindI [OF emits_logged_exact emits_liftR_exact]) (auto simp: ensure_eq_Inr)

lemma emits_ensure_file:
  "emits (ensure_file h path) (\<lambda>_ d. d = [EvIsFile path (Inr True)]) (\<lambda>d. \<exists>r. d = [EvIsFile path r])"
  unfolding ensure_file_def by (rule emits_bindI [OF emits_logged_exact emits_liftR_exact]) (auto simp: ensure_eq_Inr)

lemma emits_helmv3:
  "emits (validate_helmv3_in_path lib h)
     (\<lambda>_ d. \<exists>out. d = [EvCommand ''helm'' [''version'', ''--short''] [] (Inr out)] \<and> cmd_success out \<and>
        regex_is_match lib helmv3_regex (cmd_stdout out))
     (\<lambda>d. \<exists>r. d = [EvCommand ''helm'' [''version'', ''--short''] [] r])"
  unfolding validate_helmv3_in_path_def helm_output_def version_short_args_def
  by (rule emits_seq [OF emits_logged_exact], rule emits_bind_pure, rule emits_bind_pure, rule emits_bind_pure, rule emits_liftR)
     (auto simp: ensure_eq_Inr regex_match_def ensure_success_def res_bind_eq_Inr map_err_eq_Inr split: if_splits)

lemma emits_helm_release:
  "emits (validate_helm_release lib h name ns)
     (\<lambda>_ d. \<exists>out. d = [EvCommand ''helm'' [''list'', ''-n'', ns, ''--deployed'', ''--short''] [] (Inr out)] \<and>
        cmd_success out \<and> regex_is_match lib (release_regex name) (cmd_stdout out))
     (\<lambda>d. \<exists>r. d = [EvCommand ''helm'' [''list'', ''-n'', ns, ''--deployed'', ''--short''] [] r])"
  unfolding validate_helm_release_def helm_output_def list_short_args_def
  by (rule emits_seq [OF emits_logged_exact], rule emits_bind_pure, rule emits_bind_pure, rule emits_bind_pure, rule emits_liftR)
     (auto simp: ensure_eq_Inr regex_match_def ensure_success_def res_bind_eq_Inr map_err_eq_Inr split: if_splits)

text \<open>The part of the trace on the chart directory.\<close>

definition chart_dir_seen :: "'v libs \<Rightarrow> product \<Rightarrow> string \<Rightarrow> event list \<Rightarrow> bool" where
  "chart_dir_seen lib p dir d \<longleftrightarrow>
     (\<exists>chart_file chart.
        d = [EvIsDir dir (Inr True), EvIsFile (path_join dir ''Chart.yaml'') (Inr True),
             EvReadFile (path_join dir ''Chart.yaml'') (Inr chart_file),
             EvIsDir (path_join dir ''charts'') (Inr True), EvIsFile (path_join dir ''values.yaml'') (Inr True),
             EvIsFile (path_join dir ''README.md'') (Inr True), EvIsDir (path_join dir ''charts/crds'') (Inr True),
             EvIsDir (path_join dir ''templates'') (Inr True)] \<and>
        yaml_de lib (de_chart (version_parse lib)) chart_file = Inr chart \<and> chart_name chart = CORE_CHART_NAME p)"

lemma emits_chart_dir:
  "emits (validate_helm_chart_dir lib h p dir) (\<lambda>_. chart_dir_seen lib p dir) (list_all looks)"
  unfolding validate_helm_chart_dir_def validate_core_helm_chart_variant_in_dir_def Let_def
  apply (rule emits_seq [OF emits_ensure_dir], rule emits_seq [OF emits_ensure_file],
      rule emits_seq [OF emits_logged_exact], rule emits_bind_pure, rule emits_bind_pure,
      rule emits_seq [OF emits_ensure_dir], rule emits_seq [OF emits_ensure_file], rule emits_seq [OF emits_ensure_file],
      rule emits_seq [OF emits_ensure_dir], rule emits_conseq [OF emits_ensure_dir])
  by (auto simp: chart_dir_seen_def map_err_eq_Inr ensure_eq_Inr)

lemma emits_namespace:
  "emits (validate_namespace api h ns) (\<lambda>_ d. d = [EvClient (Inr ()), EvNamespace ns (Inr ())]) (list_all looks)"
  unfolding validate_namespace_def by (rule emits_bindI [OF emits_client_exact emits_logged_exact]) auto

lemma emits_rest_endpoint:
  "emits (validate_rest_endpoint api endpoint) (\<lambda>_ d. \<exists>nodes. d = [EvGetNodes (Inr nodes)]) (list_all looks)"
  unfolding validate_rest_endpoint_def
  by (rule emits_bind_pure, rule emits_bindI [OF emits_logged_exact emits_ret_exact]) auto

lemma emits_parse_cli_args:
  "emits (parse_cli_args lib api h p opts) (\<lambda>r d. r = opts \<and> validated lib p opts d) (list_all looks)"
  unfolding parse_cli_args_def
  apply (rule emits_seq [OF emits_namespace], rule emits_seq [OF emits_rest_endpoint],
      rule emits_seq [OF emits_helmv3], rule emits_seq [OF emits_helm_release],
      rule emits_bindI [OF emits_chart_dir emits_ret_exact])
  by (auto simp: validated_def chart_dir_seen_def)

lemma validated_looks: "validated lib p opts d \<Longrightarrow> list_all looks d"
  by (auto simp: validated_def Let_def)

lemma finished_bindP: "(\<And>s. finished (m s)) \<Longrightarrow> (\<And>a s. finished (k a s)) \<Longrightarrow> finished (bindP m k s)"
  by (cases "fst (m s)"; cases "m s") (auto simp: finished_def bindP_def split: outcome.splits dest: meta_spec [of _ s])

lemma finished_basic:
  "finished (logged f ev ctx s)" "finished (liftR r s)" "finished (retP a s)"
  by (auto simp: finished_def logged_def liftR_def split: prod.splits sum.splits)

lemma parse_cli_args_finishes: "finished (parse_cli_args lib api h p opts s)"
  unfolding parse_cli_args_def validate_namespace_def validate_rest_endpoint_def validate_helmv3_in_path_def
    validate_helm_release_def validate_helm_chart_dir_def validate_core_helm_chart_variant_in_dir_def ensure_dir_def
    ensure_file_def helm_output_def client_def Let_def
  by (intro finished_bindP finished_basic)

text \<open>
  Property C17. The upgrade job only looks until its arguments are validated: every run consists
  of the validation, in which every request reads, and, only if each of the checks had the
  answer it insists on, of the upgrade; a validation that fails ends the job with nothing else done.
\<close>

theorem job_main_validates_first:
  assumes "job_main fuel lib api h p order sort_revs shutdown_worker opts s = (x, t)"
  shows "\<exists>u d. rt_trace u = rt_trace s @ d \<and> list_all looks d \<and>
     (if validated lib p opts d \<and> parse_cli_args lib api h p opts s = (Ok opts, u)
      then upgrade fuel lib api h p order sort_revs (upgrade_error_display lib p) shutdown_worker opts u = (x, t)
      else u = t \<and> (\<exists>e. x = Err e))"
proof -
  obtain r u where r: "parse_cli_args lib api h p opts s = (r, u)" by (cases "parse_cli_args lib api h p opts s")
  obtain d where d: "rt_trace u = rt_trace s @ d"
    and v: "case r of Ok a \<Rightarrow> a = opts \<and> validated lib p opts d | Err e \<Rightarrow> list_all looks d | OutOfFuel \<Rightarrow> list_all looks d"
    using emitsD [OF emits_parse_cli_args r] .
  have run: "bindP (parse_cli_args lib api h p opts) (\<lambda>opts. upgrade fuel lib api h p order sort_revs (upgrade_error_display lib p) shutdown_worker opts) s = (x, t)"
    using assms by (simp add: job_main_def)
  have "r \<noteq> OutOfFuel" using parse_cli_args_finishes [of lib api h p opts s] r by (simp add: finished_def)
  then show ?thesis
    using d v run r by (intro exI [of _ u] exI [of _ d]) (cases r; auto simp: bindP_def validated_looks)
qed

end
