(* ===== verification/ClusterInstance.thy ===== *)
theory ClusterInstance
  imports DataPlane
begin

text \<open>
  A small cluster on which the upgrade job can be run: one io-engine pod on the node \<open>n1\<close>
  that is replaced when it is deleted, a storage node that drains within one wait, and a
  fixed list of volumes.  The hypotheses of the properties of the data-plane upgrade are
  shown to hold on it.
\<close>

record sim =
  sim_old :: bool
  sim_drain :: "cordon_drain_state option"
  sim_volumes :: "volume list"

definition sim_product :: product where
  "sim_product = \<lparr>PRODUCT_NAME = ''p'', API_REST_LABEL = ''app=api-rest'', ETCD_LABEL = ''app=etcd'',
     csi_node_nvme_ana = ''ana''\<rparr>"

definition sim_pod :: "string \<Rightarrow> pod" where
  "sim_pod n = \<lparr>name_any = n, pod_node_name = Some (Some ''n1''),
     pod_conditions = Some (Some [\<lparr>cond_type = ''Ready'', cond_status = ''True''\<rparr>]), owner_references = None\<rparr>"

definition sim_label :: string where "sim_label = ''old''"

definition sim_pods :: "sim \<Rightarrow> string option \<Rightarrow> pod list" where
  "sim_pods w labels =
     (if labels = Some sim_label then if sim_old w then [sim_pod ''a''] else []
      else if labels = Some (running_label ''h2'') then if sim_old w then [] else [sim_pod ''b'']
      else [])"

definition sim_cluster :: "sim cluster" where
  "sim_cluster =
     \<lparr>try_default = (\<lambda>w. (Inr (), w)),
      pods_list = (\<lambda>ns params w. (Inr (sim_pods w (lp_labels params), None), w)),
      pods_get = (\<lambda>ns n w. (Inl ''not found'', w)),
      pods_delete = (\<lambda>ns n w. (Inr (), w\<lparr>sim_old := False\<rparr>)),
      nodes_list_metadata = (\<lambda>params w. (Inr ([], None), w)),
      ctrl_revs_list = (\<lambda>ns params w. (Inr ([], None), w)),
      url_parse = Inr,
      rest_build_url = (\<lambda>u. Inr ()),
      get_nodes = (\<lambda>w. (Inr [\<lparr>storage_node_id = ''n1'', node_spec = Some (sim_drain w)\<rparr>], w)),
      get_node = (\<lambda>n w. (Inr \<lparr>storage_node_id = n, node_spec = Some (sim_drain w)\<rparr>, w)),
      put_node_drain = (\<lambda>n l w. (Inr (), w\<lparr>sim_drain := Some (drainingstate [l])\<rparr>)),
      put_node_cordon = (\<lambda>n l w. (Inr (), w\<lparr>sim_drain := Some (cordonedstate [l])\<rparr>)),
      delete_node_cordon = (\<lambda>n l w. (Inr (), w\<lparr>sim_drain := None\<rparr>)),
      get_volumes = (\<lambda>k tok w. (Inr (take k (drop (nat tok) (sim_volumes w)),
         if nat tok + k < length (sim_volumes w) then Some (tok + int k) else None), w)),
      sleep_secs = (\<lambda>d w. case sim_drain w of
         Some (drainingstate ls) \<Rightarrow> w\<lparr>sim_drain := Some (drainedstate ls)\<rparr> | _ \<Rightarrow> w)\<rparr>"

definition sim_start :: "volume list \<Rightarrow> (sim, event) rt" where
  "sim_start vs = \<lparr>rt_world = \<lparr>sim_old = True, sim_drain = None, sim_volumes = vs\<rparr>, rt_trace = []\<rparr>"

lemmas sim_defs = sim_cluster_def sim_start_def sim_pods_def sim_pod_def sim_label_def sim_product_def

lemmas run_defs = upgrade_data_plane_def upgrade_pod_def pod_node_def is_node_drainable_def
  drain_storage_node_def uncordon_drained_storage_node_def delete_data_plane_pod_def
  verify_data_plane_pod_is_running_def data_plane_pod_is_running_def
  verify_control_plane_is_running_def control_plane_is_running_def wait_for_rebuild_def
  rebuild_result_default_def rebuild_result_of_def rebuild_pass_def list_unhealthy_volumes_def
  unhealthy_page_def volumes_page_def list_all_volumes_def list_pods_def pods_page_def
  list_nodes_metadata_def nodes_page_def collect_pages_def client_def sleep_def tick_def logged_def
  fetch_node_def new_with_url_def list_params_of_def has_label_def bindP_def loopP_numeral
  running_label_def IO_ENGINE_LABEL_def DS_CONTROLLER_REVISION_HASH_LABEL_KEY_def AGENT_CORE_LABEL_def
  drain_for_upgrade_def

definition sim_volume :: "string \<Rightarrow> volume" where
  "sim_volume n = \<lparr>volume_uuid = ''v'', spec_target = None, volume_status = VolDegraded,
     state_target = Some \<lparr>nexus_node = n, nexus_children = [None]\<rparr>, replica_topology = [], volume_other = ''x''\<rparr>"

section \<open>The services\<close>

lemma sim_volumes_served: "volumes_served sim_cluster (\<lambda>w. sim_volumes w = vs) vs"
  by (simp add: volumes_served_def sim_cluster_def)

lemma sim_patient: "patient sim_cluster (\<lambda>w. sim_volumes w = vs)"
  by (auto simp: patient_def sim_cluster_def split: option.splits cordon_drain_state.splits)

theorem list_all_volumes_complete_witness:
  "\<exists>t. sim_volumes (rt_world t) = replicate 201 (sim_volume ''n1'') \<and>
     list_all_volumes 202 sim_cluster (sim_start (replicate 201 (sim_volume ''n1''))) =
       (Ok (replicate 201 (sim_volume ''n1'')), t)"
  by (rule list_all_volumes_complete [OF sim_volumes_served]) (simp_all add: sim_start_def)

theorem list_pods_complete_witness:
  "\<exists>t. sim_old (rt_world t) \<and>
     list_pods 2 sim_cluster ''ns'' (Some sim_label) None (sim_start []) = (Ok [sim_pod ''a''], t)"
  by (rule list_pods_complete [where at = "\<lambda>tok k. tok = None \<and> k = 0"])
    (auto simp: pods_served_def sim_cluster_def sim_pods_def sim_start_def list_params_of_def KUBE_API_PAGE_SIZE_def)

theorem all_pods_are_ready_iff_witness:
  "all_pods_are_ready [sim_pod ''a'' \<lparr>pod_conditions := Some (Some [\<lparr>cond_type = ''Initialized'', cond_status = ''False''\<rparr>])\<rparr>]"
  by (subst all_pods_are_ready_iff) (simp add: sim_pod_def)

theorem rebuild_result_endless_witness:
  "\<not> finished (rebuild_result_of 1000 sim_cluster [] ''n1'' (sim_start [sim_volume ''n2'']))"
  by (rule rebuild_result_endless [OF sim_volumes_served sim_patient, of _ "[sim_volume ''n2'']"])
    (simp_all add: sim_start_def sim_volume_def unhealthy_def idle_def replica_rebuild_count_def volume_nodes_def)


section \<open>The upgrade\<close>

lemma sim_run:
  "fst (upgrade_data_plane 4 sim_cluster sim_product ''ns'' ''url'' ''h2'' True sim_label [sim_pod ''a''] (sim_start [])) = Ok ()"
  by (simp add: run_defs sim_defs)

theorem upgrade_data_plane_rolling_witness:
  "\<exists>d fin. rt_trace (snd (upgrade_data_plane 4 sim_cluster sim_product ''ns'' ''url'' ''h2'' True sim_label
       [sim_pod ''a''] (sim_start []))) = d \<and>
     rolling_run sim_product ''ns'' ''h2'' True sim_label fin d \<and> pods_listing ''ns'' (Some sim_label) None [] fin"
proof -
  let ?run = "upgrade_data_plane 4 sim_cluster sim_product ''ns'' ''url'' ''h2'' True sim_label [sim_pod ''a''] (sim_start [])"
  have "?run = (Ok (), snd ?run)" using sim_run by (metis prod.collapse)
  from upgrade_data_plane_rolling [OF _ this] show ?thesis by (simp add: sim_start_def)
qed

lemma sim_wait: "wait_for_rebuild 3 sim_cluster ''n1'' (sim_start []) =
   (Ok (), \<lparr>rt_world = \<lparr>sim_old = True, sim_drain = None, sim_volumes = []\<rparr>,
     rt_trace = [EvSleep 60, EvGetVolumes 200 0 (Inr ([], None))]\<rparr>)"
  by (simp add: run_defs sim_defs)

theorem wait_for_rebuild_settled_witness:
  "\<exists>d1 d2 vs. [EvSleep 60, EvGetVolumes 200 0 (Inr ([], None))] = d1 @ d2 \<and> list_all is_read (d1 @ d2) \<and>
     volumes_listing vs d2 \<and> (\<forall>v \<in> set vs. unhealthy v \<longrightarrow> replica_rebuild_count v = 0)"
  using wait_for_rebuild_settled [OF sim_wait] by (simp add: sim_start_def)

lemma sim_drainable: "is_node_drainable 3 sim_cluster sim_product True ''n1'' (sim_start []) =
   (Ok True, \<lparr>rt_world = \<lparr>sim_old = True, sim_drain = None, sim_volumes = []\<rparr>,
     rt_trace = [EvClient (Inr ()), EvNodesList (list_params_of (Some ''ana=false'') None None) (Inr ([], None))]\<rparr>)"
  by (simp add: run_defs sim_defs ana_disabled_label_def)

theorem is_node_drainable_iff_witness:
  "\<exists>d1 d2 nodes. [EvClient (Inr ()), EvNodesList (list_params_of (Some ''ana=false'') None None) (Inr ([], None))] = d1 @ d2 \<and>
     nodes_listing (Some (ana_disabled_label sim_product)) None nodes d1"
  using is_node_drainable_iff [OF sim_drainable] by (auto simp: sim_start_def)

lemma sim_drains: "drains sim_cluster l ''n1'' sim_drain (\<lambda>_. 0) 0"
  by (auto simp: drains_def sim_cluster_def drain_label_of_def is_drained_def
      split: option.splits cordon_drain_state.splits)

theorem drain_storage_node_returns_witness:
  "\<exists>t. drain_storage_node 4 sim_cluster sim_product ''n1'' (sim_start []) = (Ok (), t) \<and>
     is_drained (sim_drain (rt_world t)) \<and> drain_label_of (drain_for_upgrade sim_product) (sim_drain (rt_world t))"
  by (rule drain_storage_node_returns [OF sim_drains]) simp

end
