(* ===== verification/HelmInstance.thy ===== *)
theory HelmInstance
  imports HelmUpgrade ClusterInstance
begin

text \<open>
  A small host on which the helm part of the upgrade can be run: every command succeeds, and
  two sets of values, read from YAML trees.  Versions are numbered by minor version.
\<close>

definition sim_version_table :: "(string \<times> nat) list" where
  "sim_version_table = [(''2.0.0-rc.1'', 0), (''2.1.0'', 1), (''2.2.0'', 2), (''2.3.0'', 3), (''2.4.0'', 4), (''2.5.0'', 5),
     (''2.6.0'', 6), (''2.7.0'', 7)]"

definition sim_version_parse :: "string \<Rightarrow> (string, nat) res" where
  "sim_version_parse s = (case map_of sim_version_table s of None \<Rightarrow> Inl ''bad version'' | Some v \<Rightarrow> Inr v)"

definition sim_values_yaml :: "string \<Rightarrow> yaml" where
  "sim_values_yaml tag = YMap
     [(''agents'', YMap [(''core'', YMap []), (''ha'', YMap [(''enabled'', YBool True)])]),
      (''base'', YMap []),
      (''image'', YMap [(''tag'', YString tag)]),
      (''io_engine'', YMap [(''logLevel'', YString ''info'')]),
      (''csi'', YMap
        [(''image'', YMap [(''provisionerTag'', YString tag), (''attacherTag'', YString tag),
           (''snapshotterTag'', YString tag), (''snapshotControllerTag'', YString tag), (''registrarTag'', YString tag), (''resizerTag'', YString tag)]),
         (''node'', YMap [(''nvme'', YMap [(''io_timeout'', YString ''30'')])])])]"

definition sim_k8s :: k8s_types where
  "sim_k8s = \<lparr>de_container = Inr, de_probe = (\<lambda>_. Inr None)\<rparr>"

definition sim_values :: "string \<Rightarrow> core_values" where
  "sim_values tag =
     \<lparr>cv_agents = \<lparr>agents_core = \<lparr>core_rebuild = rebuild_default\<rparr>, agents_ha = \<lparr>ha_enabled = True\<rparr>\<rparr>,
      cv_base = \<lparr>base_deprecated_log_silence_level = []\<rparr>,
      cv_image = \<lparr>image_tag_of = tag, image_repo_tags = repo_tags_default\<rparr>,
      cv_io_engine = \<lparr>log_level = ''info''\<rparr>, cv_eventing = eventing_default,
      cv_csi = \<lparr>csi_image_of = \<lparr>provisioner_tag = tag, attacher_tag = tag, snapshotter_tag = tag,
          snapshot_controller_tag = tag, registrar_tag = tag, resizer_tag = tag\<rparr>,
        csi_node_of = \<lparr>node_nvme = \<lparr>io_timeout = ''30''\<rparr>, deprecated_plugin_mount_path = []\<rparr>\<rparr>,
      cv_jaeger_operator = jaeger_operator_default, cv_loki_stack = loki_stack_default,
      cv_localpv_provisioner = localpv_provisioner_default\<rparr>"

lemma sim_values_read: "de_core_values sim_k8s (sim_values_yaml tag) = Inr (sim_values tag)"
  by (simp add: de_core_values_def sim_values_yaml_def sim_values_def required_field_def default_field_def
      de_agents_def de_core_def de_ha_def de_base_def de_image_def de_io_engine_def de_csi_def de_csi_image_def
      de_csi_node_def de_csi_node_nvme_def res_bind_def)

theorem core_values_flags_witness:
  "yaml_path [''agents'', ''ha'', ''enabled''] (sim_values_yaml ''v2'') = Some (YBool True) \<and>
     partial_rebuild_is_enabled (CoreHelmValues (sim_values ''v2''))"
  using core_values_flags [OF sim_values_read, of "''v2''"] by (simp add: sim_values_yaml_def)

definition sim_yaml :: "string \<Rightarrow> yaml" where
  "sim_yaml s =
     (if s = ''list'' then YSeq [YMap [(''name'', YString ''rel''), (''chart'', YString ''p-2.6.0'')]]
      else if s = ''chart'' then YMap [(''name'', YString ''p''), (''version'', YString ''2.7.0'')]
      else if s = UNSUPPORTED_VERSIONS_YAML then YMap [(''unsupported_versions'', YSeq [YString ''2.0.0-rc.1''])]
      else sim_values_yaml s)"

definition sim_libs :: "nat libs" where
  "sim_libs =
     \<lparr>regex_new = (\<lambda>_. Inr ()), regex_is_match = (\<lambda>re _. re \<noteq> umbrella_regex), version_parse = sim_version_parse,
      version_new = (\<lambda>major minor patch. minor), version_to_string = nat_to_string,
      yaml_read = (\<lambda>s. Inr (sim_yaml s)), json_of_client_url = Inr, json_of_yaml = (\<lambda>_. Inr ''json''),
      json_of_note = (\<lambda>from_v to_v msg. Inr msg), k8s = sim_k8s, to_train_case = id\<rparr>"

definition sim_out :: "string \<Rightarrow> cmd_output" where
  "sim_out s = \<lparr>cmd_success = True, cmd_stdout = s, cmd_stderr = []\<rparr>"

definition sim_text :: "string list \<Rightarrow> string" where
  "sim_text args = (if hd args = ''list'' then ''list'' else ''v2'')"

lemma sim_text_utf8 [simp]: "from_utf8 (sim_text args) = Inr (sim_text args)"
  by (simp add: sim_text_def from_utf8_def)

definition sim_host :: "sim host" where
  "sim_host =
     \<lparr>run_command = (\<lambda>p args envs w. (Inr (sim_out (sim_text args)), w)),
      read_file = (\<lambda>f w. (Inr (if f = ''dir/Chart.yaml'' then ''chart'' else ''v2''), w)), path_is_dir = (\<lambda>f w. (Inr True, w)), path_is_file = (\<lambda>f w. (Inr True, w)),
      tempfile_new_in = (\<lambda>dir w. (Inr ''f'', w)), file_write = (\<lambda>f buf w. (Inr (length buf), w)),
      channel_send = (\<lambda>e w. (Inr (), w)), namespaces_get = (\<lambda>n w. (Inr (), w)),
      crds_list_metadata = (\<lambda>p w. (Inr ([''jaegers.jaegertracing.io''], None), w))\<rparr>"

lemma sim_command:
  "command_output sim_host args envs s =
     (Ok (sim_out (sim_text args)), s\<lparr>rt_trace := rt_trace s @ [EvCommand ''yq'' args envs (Inr (sim_out (sim_text args)))]\<rparr>)"
  "helm_output sim_host args s =
     (Ok (sim_out (sim_text args)), s\<lparr>rt_trace := rt_trace s @ [EvCommand ''helm'' args [] (Inr (sim_out (sim_text args)))]\<rparr>)"
  by (simp_all add: command_output_def helm_output_def logged_def sim_host_def)

lemma sim_regexes: "''^('' @ BACKSLASH @ ''..+)+$'' \<noteq> umbrella_regex" "YQ_VERSION_REGEX \<noteq> umbrella_regex"
  "core_regex q \<noteq> umbrella_regex" if "PRODUCT_NAME q = ''p''"
  using that by (simp_all add: umbrella_regex_def UMBRELLA_CHART_NAME_def YQ_VERSION_REGEX_def BACKSLASH_def
      core_regex_def CORE_CHART_NAME_def)

lemma sim_yaml_key: "yaml_key sim_libs k = Inr k"
  by (simp add: yaml_key_def regex_match_def sim_libs_def res_bind_def map_err_def ensure_def sim_regexes(1) [of sim_product, unfolded append_Cons append_Nil] sim_product_def)

lemma sim_versions: "version_parse sim_libs = sim_version_parse"
  by (simp add: sim_libs_def)

lemma sim_ok_command: "always_ok (bindP (command_output sim_host args envs) (\<lambda>out. liftR (ensure_success err out)))"
  by (simp add: always_ok_def sim_command bindP_def ensure_success_def sim_out_def)

lemma sim_ok_edits [ok_rules]:
  "always_ok (set_literal_value sim_host k v f)"
  "always_ok (delete_object sim_host k f)"
  "always_ok (append_to_array sim_host k v f)"
  "always_ok (append_to_object sim_host k v f)"
  by (simp_all add: set_literal_value_def delete_object_def append_to_array_def append_to_object_def Let_def
      case_prod_beta sim_ok_command)

lemma sim_ok_keys [ok_rules]:
  "always_ok (set_value sim_libs sim_host k v f)"
  "always_ok (delete_key sim_libs sim_host k f)"
  unfolding set_value_def delete_key_def sim_yaml_key by (intro ok_rules)+

lemma sim_consts:
  "parse_const sim_libs TWO_DOT_O_RC_ONE = Inr 0" "parse_const sim_libs TWO_DOT_ONE = Inr 1"
  "parse_const sim_libs TWO_DOT_THREE = Inr 3" "parse_const sim_libs TWO_DOT_FOUR = Inr 4"
  "parse_const sim_libs TWO_DOT_FIVE = Inr 5" "parse_const sim_libs TWO_DOT_SIX = Inr 6"
  by (simp_all add: parse_const_def sim_libs_def sim_version_parse_def sim_version_table_def TWO_DOT_O_RC_ONE_def
      TWO_DOT_ONE_def TWO_DOT_THREE_def TWO_DOT_FOUR_def TWO_DOT_FIVE_def TWO_DOT_SIX_def)

lemma sim_libs_simps:
  "json_of_client_url sim_libs = Inr" "json_of_yaml sim_libs y = Inr ''json''"
  "yaml_read sim_libs b = Inr (sim_yaml b)"
  by (simp_all add: sim_libs_def)

lemma sim_ok_blocks [ok_rules]:
  "always_ok (values_two_dot_o sim_libs sim_host src tgt f)"
  "always_ok (values_repo_tags sim_libs sim_host tgt f)"
  "always_ok (values_two_dot_five sim_libs sim_host src tgt f)"
  "always_ok (values_localpv sim_libs sim_host src tgt f)"
  "always_ok (values_loki_tags sim_libs sim_host tgt f)"
  "always_ok (values_renamed_keys sim_libs sim_host src f)"
  "always_ok (values_default sim_libs sim_host tgt f)"
  unfolding values_two_dot_o_def values_repo_tags_def values_two_dot_five_def values_localpv_def
    values_loki_tags_def values_renamed_keys_def values_default_def
  by (intro ok_rules)+

lemma sim_ok_six [ok_rules]:
  "always_ok (loki_address_to_clients sim_libs sim_host src f)"
  "always_ok (append_init_container sim_libs sim_host f c)"
  unfolding loki_address_to_clients_def append_init_container_def sim_yaml_key sim_libs_simps map_err_simps
  by (intro ok_rules)+

lemma sim_ok_two_dot_six [ok_rules]: "always_ok (values_two_dot_six sim_libs sim_host src tgt f)"
  unfolding values_two_dot_six_def by (intro ok_rules)

lemma sim_ok_when [ok_rules]: "always_ok m \<Longrightarrow> always_ok (whenP b m)"
  by (simp add: whenP_def always_ok_ret)

lemma sim_ok_script: "always_ok (values_script sim_libs sim_host sv tv src tgt f)"
  unfolding values_script_def sim_consts by (intro ok_rules)

lemma sim_ok_client: "always_ok (client sim_cluster)"
  by (simp add: always_ok_def client_def logged_def sim_cluster_def)

lemma sim_ok_crds:
  assumes "always_ok (client api)"
  shows "always_ok (safe_crd_install (Suc n) sim_libs api sim_host order f)"
proof -
  have pages: "always_ok (collect_pages (Suc n) (crds_page sim_host) None)"
    by (simp add: always_ok_def collect_pages_def crds_page_def logged_def sim_host_def bindP_def)
  show ?thesis unfolding safe_crd_install_def sim_yaml_key
    by (intro ok_rules assms pages)
qed

lemma sim_ok_file: "always_ok (write_to_tempfile sim_host (Some dir) b)"
  by (simp add: always_ok_def write_to_tempfile_def logged_def sim_host_def bindP_def)

lemma sim_ok_merge: "always_ok (merge_files sim_host a b)"
  by (simp add: always_ok_def merge_files_def Let_def sim_command bindP_def ensure_success_def sim_out_def)

lemma sim_ok_yq: "always_ok (yq_new sim_libs sim_host)"
  by (simp add: always_ok_def yq_new_def sim_command bindP_def ensure_success_def sim_out_def sim_libs_def
      map_err_def ensure_def sim_regexes(2) [of sim_product] sim_product_def)

lemma sim_ok_generate:
  assumes "always_ok (client api)"
  shows "always_ok (generate_values_yaml_file (Suc n) sim_libs api sim_host order sv tv src tgt buf target_file dir)"
  unfolding generate_values_split
  by (intro ok_rules sim_ok_file sim_ok_merge sim_ok_yq sim_ok_script sim_ok_crds assms)

lemma sim_generated:
  obtains f t where "generate_values_yaml_file 1 sim_libs sim_cluster sim_host id 6 7 (sim_values ''v1'') (sim_values ''v2'')
     ''v1'' ''values.yaml'' ''dir'' (sim_start []) = (Ok f, t)"
  using always_okD [OF sim_ok_generate [of _ 0, OF sim_ok_client]] by (metis One_nat_def)

theorem generate_values_runs_script_witness:
  "\<exists>f d. generated sim_libs id 6 7 (sim_values ''v1'') (sim_values ''v2'') ''v1'' ''values.yaml'' ''dir'' f d"
proof -
  obtain f t where "generate_values_yaml_file 1 sim_libs sim_cluster sim_host id 6 7 (sim_values ''v1'') (sim_values ''v2'')
     ''v1'' ''values.yaml'' ''dir'' (sim_start []) = (Ok f, t)" by (rule sim_generated)
  from generate_values_runs_script [OF this] show ?thesis by blast
qed

theorem generate_values_sets_version_tags_witness:
  "\<exists>f d es. script_run f es (filter (is_edit f) d) \<and>
     filter (\<lambda>e. overlaps ''.image.tag'' (edit_key e)) es = [ESet ''.image.tag'' ''v2'']"
proof -
  obtain f t where "generate_values_yaml_file 1 sim_libs sim_cluster sim_host id 6 7 (sim_values ''v1'') (sim_values ''v2'')
     ''v1'' ''values.yaml'' ''dir'' (sim_start []) = (Ok f, t)" by (rule sim_generated)
  from generate_values_sets_version_tags [OF _ this] obtain d es where
    *: "script_run f es (filter (is_edit f) d)"
    "\<forall>(k, v) \<in> set (version_tags (sim_values ''v2'')). filter (\<lambda>e. overlaps k (edit_key e)) es = [ESet k v]"
    by auto
  have "(''.image.tag'', ''v2'') \<in> set (version_tags (sim_values ''v2''))"
    by (simp add: version_tags_def image_tag_def sim_values_def)
  with * show ?thesis by blast
qed


end
