(* ===== verification/JobInstance.thy ===== *)
theory JobInstance
  imports Validators HelmInstance
begin

text \<open>
  A run of the whole upgrade job: the host of \<open>HelmInstance\<close>, and a cluster whose io-engine
  pods are all of the newest revision already.  The hypotheses of the properties of the helm
  upgrade, the event recorder and the job are shown to hold there.
\<close>

definition job_cluster :: "sim cluster" where
  "job_cluster = sim_cluster
     \<lparr>pods_get := (\<lambda>ns n w. (Inr ((sim_pod n)\<lparr>owner_references :=
         Some [\<lparr>owner_api_version = ''v1'', owner_kind = ''Job'', owner_name = ''job'', owner_uid = ''u''\<rparr>]\<rparr>), w)),
      pods_list := (\<lambda>ns params w. (Inr ([], None), w)),
      ctrl_revs_list := (\<lambda>ns params w. (Inr ([\<lparr>rev_name = ''r'', revision = 2,
         rev_labels = [DS_CONTROLLER_REVISION_HASH_LABEL_KEY \<mapsto> ''h2'']\<rparr>], None), w))\<rparr>"

definition sim_opts :: "bool \<Rightarrow> cli_args" where
  "sim_opts skip = \<lparr>rest_endpoint = ''url'', namespace = ''ns'', release_name = ''rel'', core_chart_dir = ''dir'',
     skip_data_plane_restart = skip, skip_upgrade_path_validation = False, pod_name = ''pod'',
     helm_args_set = [], helm_args_set_file = []\<rparr>"

section \<open>Helm\<close>

lemma job_ok_client: "always_ok (client job_cluster)"
  by (simp add: always_ok_def client_def logged_def job_cluster_def sim_cluster_def)

text \<open>Programs that return a value of a known kind.\<close>

definition yields :: "('s, 'e, 'a) prog \<Rightarrow> ('a \<Rightarrow> bool) \<Rightarrow> bool" where
  "yields m Q \<longleftrightarrow> (\<forall>s. \<exists>a t. m s = (Ok a, t) \<and> Q a)"

lemma yields_bind: "yields m Q \<Longrightarrow> (\<And>a. Q a \<Longrightarrow> yields (k a) R) \<Longrightarrow> yields (bindP m k) R"
  unfolding yields_def by (metis bindP_apply(1))

lemma yields_liftR: "r = Inr a \<Longrightarrow> yields (liftR r) (\<lambda>b. b = a)"
  by (simp add: yields_def)

lemma yields_ret: "Q a \<Longrightarrow> yields (retP a) Q"
  by (simp add: yields_def)

lemma yields_always_ok: "yields m (\<lambda>_. True) \<longleftrightarrow> always_ok m"
  by (simp add: yields_def always_ok_def)

lemma sim_get_values: "yields (get_values_as_yaml sim_host ns rel None) (\<lambda>b. b = ''v2'')"
  by (simp add: yields_def get_values_as_yaml_def Let_def sim_command bindP_def ensure_success_def sim_out_def sim_text_def)

lemma sim_values_slice: "values_from_slice sim_libs (de_core_values (k8s sim_libs)) ''v2'' = Inr (sim_values ''v2'')"
  by (simp add: values_from_slice_def yaml_de_def sim_libs_def sim_yaml_def from_utf8_def res_bind_def map_err_def
      UNSUPPORTED_VERSIONS_YAML_def sim_values_read)

lemma sim_file: "yields (core_values_from_file sim_libs sim_host ''dir/values.yaml'') (\<lambda>v. v = sim_values ''v2'')"
  by (simp add: yields_def core_values_from_file_def logged_def sim_host_def bindP_def yaml_de_def sim_libs_def sim_yaml_def
      UNSUPPORTED_VERSIONS_YAML_def sim_values_read res_bind_def)

lemma sim_release: "yields (release_info sim_libs sim_host ns ''rel'')
    (\<lambda>r. r = \<lparr>release_name_of = ''rel'', release_chart = ''p-2.6.0''\<rparr>)"
  by (simp add: yields_def release_info_def list_as_yaml_def Let_def sim_command bindP_def ensure_success_def sim_out_def sim_text_def
      from_utf8_def yaml_de_def sim_libs_def sim_yaml_def de_helm_release_element_def required_field_def res_bind_def extra_args_def)

lemma sim_chart: "yields (version_from_chart_yaml_file sim_libs sim_host ''dir/Chart.yaml'') (\<lambda>v. v = 7)"
  by (simp add: yields_def version_from_chart_yaml_file_def logged_def sim_host_def bindP_def yaml_de_def sim_libs_def sim_yaml_def
      de_chart_def required_field_def res_bind_def sim_version_parse_def sim_version_table_def)

lemma sim_source: "version_from_release_chart sim_libs ''p-2.6.0'' = Inr 6"
  by (simp add: version_from_release_chart_def sim_libs_def sim_version_parse_def sim_version_table_def res_bind_def)

lemma sim_valid: "validate_core_path sim_libs False 6 7 = Inr ()"
  by (simp add: validate_core_path_def is_valid_for_core_chart_def yaml_de_def sim_libs_def sim_yaml_def
      UNSUPPORTED_VERSIONS_YAML_def de_unsupported_versions_def required_field_def de_version_def sim_version_parse_def
      sim_version_table_def res_bind_def ensure_def)

lemma sim_regex_kinds:
  "regex_match sim_libs umbrella_regex x = Inr False" "regex_match sim_libs (core_regex sim_product) x = Inr True"
  using sim_regexes(3) [of sim_product]
  by (simp_all add: regex_match_def sim_libs_def res_bind_def map_err_def sim_product_def)

lemma yields_value: "yields m (\<lambda>b. b = a) \<Longrightarrow> \<exists>t. m s = (Ok a, t)"
  by (auto simp: yields_def)

lemma sim_build:
  "yields (build_upgrader (Suc n) sim_libs job_cluster sim_host sim_product order (upgrader_options (sim_opts skip)))
     (\<lambda>up. \<exists>u. up = CoreHelmUpgrader u \<and> cu_source_version u = 6)"
  unfolding yields_def
proof
  fix s
  obtain t1 where t1: "release_info sim_libs sim_host ''ns'' ''rel'' s =
    (Ok \<lparr>release_name_of = ''rel'', release_chart = ''p-2.6.0''\<rparr>, t1)" using yields_value [OF sim_release] by blast
  obtain t2 where t2: "get_values_as_yaml sim_host ''ns'' ''rel'' None t1 = (Ok ''v2'', t2)"
    using yields_value [OF sim_get_values] by blast
  obtain t3 where t3: "version_from_chart_yaml_file sim_libs sim_host ''dir/Chart.yaml'' t2 = (Ok 7, t3)"
    using yields_value [OF sim_chart] by blast
  obtain t4 where t4: "core_values_from_file sim_libs sim_host ''dir/values.yaml'' t3 = (Ok (sim_values ''v2''), t4)"
    using yields_value [OF sim_file] by blast
  obtain f t5 where t5: "generate_values_yaml_file (Suc n) sim_libs job_cluster sim_host order 6 7 (sim_values ''v2'')
      (sim_values ''v2'') ''v2'' ''dir/values.yaml'' ''dir'' t4 = (Ok f, t5)"
    using always_okD [OF sim_ok_generate [OF job_ok_client]] by blast
  show "\<exists>up t. build_upgrader (Suc n) sim_libs job_cluster sim_host sim_product order (upgrader_options (sim_opts skip)) s =
      (Ok up, t) \<and> (\<exists>u. up = CoreHelmUpgrader u \<and> cu_source_version u = 6)"
    by (simp add: build_upgrader_def upgrader_options_def helm_upgrader_builder_default_def sim_opts_def bindP_def
        t1 t2 t3 t4 t5 sim_source sim_regex_kinds sim_valid sim_values_slice path_join_def)
qed


section \<open>The job\<close>

lemma sim_ok_publish [ok_rules]:
  "always_ok (publish_normal sim_libs sim_product sim_host er msg a)"
  by (simp add: always_ok_def publish_normal_def publish_typed_def publish_def sim_libs_def logged_def sim_host_def bindP_def)

lemma yields_or_publish:
  assumes "yields m Q"
  shows "yields (or_publish m report) Q"
  unfolding yields_def
proof
  fix s
  obtain a t where "m s = (Ok a, t)" "Q a" using assms unfolding yields_def by blast
  then show "\<exists>a t. or_publish m report s = (Ok a, t) \<and> Q a" by (simp add: or_publish_def bindP_def tryP_def)
qed

lemma sim_upgrade_ok: "always_ok (helm_upgrade sim_host ns rel dir extra)"
  by (simp add: always_ok_def helm_upgrade_def Let_def sim_command bindP_def ensure_success_def sim_out_def)

lemma sim_runner:
  "yields (dry_run sim_libs sim_host (CoreHelmUpgrader u)) (\<lambda>runner. yields runner (\<lambda>_. True))"
proof -
  have "yields (core_runner sim_libs sim_host u) (\<lambda>_. True)"
    unfolding core_runner_def
    by (rule yields_bind [OF sim_upgrade_ok [folded yields_always_ok] yields_bind [OF sim_get_values]])
      (simp add: sim_values_slice yields_def bindP_def)
  then show ?thesis
    by (auto simp: core_dry_run_def yields_ret
        intro!: yields_bind [OF sim_upgrade_ok [folded yields_always_ok]])
qed

lemma always_ok_yields: "yields m Q \<Longrightarrow> (\<And>a. Q a \<Longrightarrow> always_ok (k a)) \<Longrightarrow> always_ok (bindP m k)"
  unfolding yields_always_ok [symmetric] by (rule yields_bind)

lemma always_ok_or_publish: "always_ok m \<Longrightarrow> always_ok (or_publish m report)"
  unfolding yields_always_ok [symmetric] by (rule yields_or_publish)

lemma job_hash:
  "yields (latest_controller_revision_hash (Suc n) job_cluster id ns l f DS_CONTROLLER_REVISION_HASH_LABEL_KEY) (\<lambda>x. x = ''h2'')"
  by (simp add: yields_def latest_controller_revision_hash_def list_controller_revisions_def collect_pages_def
      ctrl_revs_page_def client_def logged_def job_cluster_def sim_cluster_def bindP_def ensure_def Let_def ok_or_def)

lemma job_pods: "yields (list_pods (Suc n) job_cluster ns l f) (\<lambda>ps. ps = [])"
  by (simp add: yields_def list_pods_def collect_pages_def pods_page_def client_def logged_def job_cluster_def
      sim_cluster_def bindP_def)

lemma sim_rebuild: "partial_rebuild_check sim_libs p 6 b = Inr ()"
  by (simp add: partial_rebuild_check_def PARTIAL_REBUILD_DISABLE_EXTENTS_def sim_libs_def)

lemma job_ok_data_plane:
  "always_ok (upgrade_data_plane_stage (Suc n) sim_libs job_cluster sim_host sim_product id disp opts er 6 vals)"
  unfolding upgrade_data_plane_stage_def sim_rebuild
  by (intro ok_rules always_ok_yields [OF job_hash] always_ok_yields [OF job_pods] always_ok_or_publish)
    (simp add: upgrade_data_plane_def always_ok_ret)

lemma job_ok_product:
  "always_ok (upgrade_product (Suc n) sim_libs job_cluster sim_host sim_product order id disp (sim_opts skip) er)"
  unfolding upgrade_product_def Let_def
proof (rule always_ok_yields [OF sim_build], elim exE conjE, hypsubst, goal_cases)
  case (1 up u)
  then show ?case unfolding dry_run.simps [symmetric] source_version.simps
    by (intro always_ok_yields [OF yields_or_publish [OF sim_runner]] ok_rules
        always_ok_or_publish) (auto simp: yields_always_ok intro: job_ok_data_plane)
qed

lemma always_ok_try: "always_ok m \<Longrightarrow> yields (tryP m) (\<lambda>r. \<exists>a. r = Inr a)"
  unfolding always_ok_def yields_def by (metis tryP_apply(1))

lemma job_ok_recorder: "always_ok (build_recorder job_cluster \<lparr>eb_pod_name = Some a, eb_namespace = Some b,
    eb_source_version = None, eb_target_version = None\<rparr>)"
  by (simp add: always_ok_def build_recorder_def client_def logged_def job_cluster_def sim_cluster_def bindP_def
      pod_owner_def)

lemma job_ok_upgrade:
  "always_ok (upgrade (Suc 0) sim_libs job_cluster sim_host sim_product id id (upgrade_error_display sim_libs sim_product) id (sim_opts skip))"
proof -
  have modify: "always_ok (modifyP f)" for f :: "'a \<Rightarrow> 'a" by (simp add: always_ok_def)
  show ?thesis
    unfolding upgrade_def
    by (intro ok_rules job_ok_recorder always_ok_yields [OF always_ok_try [OF job_ok_product]] modify)
      (auto intro: ok_rules)
qed

lemma job_runs:
  obtains t where "upgrade 1 sim_libs job_cluster sim_host sim_product id id (upgrade_error_display sim_libs sim_product) id (sim_opts skip) (sim_start []) = (Ok (), t)"
  using job_ok_upgrade [of skip] that unfolding always_ok_def by (metis One_nat_def old.unit.exhaust)

theorem upgrade_ordered_witness:
  "\<exists>t d. upgrade 1 sim_libs job_cluster sim_host sim_product id id (upgrade_error_display sim_libs sim_product) id (sim_opts False) (sim_start []) = (Ok (), t) \<and>
     rt_trace t = rt_trace (sim_start []) @ d \<and> (\<forall>pre e post. d = pre @ e # post \<longrightarrow> allowed pre e)"
proof -
  obtain t where run: "upgrade 1 sim_libs job_cluster sim_host sim_product id id (upgrade_error_display sim_libs sim_product) id (sim_opts False) (sim_start []) = (Ok (), t)"
    by (rule job_runs)
  from upgrade_ordered [OF run] run show ?thesis by blast
qed

theorem upgrade_events_witness:
  "\<exists>t. acts (rt_trace t) = [''Upgrading control-plane'', ''Upgrading control-plane'', ''Upgraded control-plane'', ''Successful''] \<and>
     upgrade 1 sim_libs job_cluster sim_host sim_product id id (upgrade_error_display sim_libs sim_product) id (sim_opts True) (sim_start []) = (Ok (), t)"
proof -
  obtain t where run: "upgrade 1 sim_libs job_cluster sim_host sim_product id id (upgrade_error_display sim_libs sim_product) id (sim_opts True) (sim_start []) = (Ok (), t)"
    by (rule job_runs)
  from upgrade_events [OF run] run show ?thesis by (auto simp: sim_opts_def plan_def sim_start_def)
qed


section \<open>The worker\<close>

definition sim_event :: "string \<Rightarrow> kube_event" where
  "sim_event a = \<lparr>ev_type = Normal, ev_reason = ''r'', ev_note = None, ev_action = a\<rparr>"

definition worker_sent :: "kube_event \<Rightarrow> worker" where
  "worker_sent e = \<lparr>w_at = Receiving, w_channel = [e], w_closed = True, w_sent = [e], w_published = []\<rparr>"

definition worker_end :: "kube_event \<Rightarrow> worker" where
  "worker_end e = \<lparr>w_at = Finished, w_channel = [], w_closed = True, w_sent = [e],
     w_published = [e, e]\<rparr>"

lemma worker_sent_reachable: "worker_reachable (worker_sent e)"
proof -
  have "worker_step worker_init (worker_init\<lparr>w_channel := [e], w_sent := [e]\<rparr>)"
    using worker_step.send [of worker_init e] by (simp add: worker_init_def)
  moreover have "worker_step (worker_init\<lparr>w_channel := [e], w_sent := [e]\<rparr>) (worker_sent e)"
    using worker_step.close [of "worker_init\<lparr>w_channel := [e], w_sent := [e]\<rparr>"]
    by (simp add: worker_init_def worker_sent_def)
  ultimately show ?thesis by (metis r_into_rtranclp rtranclp.rtrancl_into_rtrancl)
qed

lemma worker_end_reachable: "worker_reachable (worker_end e)"
proof -
  let ?s = "\<lambda>at pub. (worker_sent e)\<lparr>w_at := at, w_channel := [], w_published := pub\<rparr>"
  have "worker_step (worker_sent e) (?s (Publishing e) [])"
    using worker_step.first_event [of "worker_sent e" e "[]"] by (simp add: worker_sent_def)
  moreover have "worker_step (?s (Publishing e) []) (?s (Selecting e) [e])"
    using worker_step.published [of "?s (Publishing e) []" e] by (simp add: worker_sent_def)
  moreover have "worker_step (?s (Selecting e) [e]) (?s (Publishing e) [e])"
    using worker_step.timeout [of "?s (Selecting e) [e]" e] by (simp add: worker_sent_def)
  moreover have "worker_step (?s (Publishing e) [e]) (?s (Selecting e) [e, e])"
    using worker_step.published [of "?s (Publishing e) [e]" e] by (simp add: worker_sent_def)
  moreover have "worker_step (?s (Selecting e) [e, e]) (worker_end e)"
    using worker_step.last_event [of "?s (Selecting e) [e, e]" e] by (simp add: worker_sent_def worker_end_def)
  ultimately show ?thesis using worker_sent_reachable by (meson rtranclp.rtrancl_into_rtrancl)
qed



section \<open>Validation\<close>

lemma sim_ok_paths:
  "always_ok (ensure_dir sim_host path)"
  "always_ok (ensure_file sim_host path)"
  by (simp_all add: always_ok_def ensure_dir_def ensure_file_def bindP_def logged_def sim_host_def)

lemma sim_chart_yaml:
  "yields (logged (read_file sim_host ''dir/Chart.yaml'') ev ctx) (\<lambda>c. c = ''chart'')"
  by (simp add: yields_def logged_def sim_host_def)

lemma sim_chart_decoded:
  "yaml_de sim_libs (de_chart (version_parse sim_libs)) ''chart'' = Inr \<lparr>chart_name = ''p'', chart_version = 7\<rparr>"
  by (simp add: yaml_de_def sim_libs_def sim_yaml_def de_chart_def required_field_def res_bind_def
      sim_version_parse_def sim_version_table_def)

lemma sim_ok_chart_dir: "always_ok (validate_helm_chart_dir sim_libs sim_host sim_product ''dir'')"
proof -
  have path: "path_join ''dir'' name = ''dir/'' @ name" for name by (simp add: path_join_def)
  have name: "CORE_CHART_NAME sim_product = ''p''" by (simp add: CORE_CHART_NAME_def sim_product_def)
  have chart: "always_ok (bindP (logged (read_file sim_host ''dir/Chart.yaml'') ev ctx) (\<lambda>c.
      bindP (liftR (map_err err (yaml_de sim_libs (de_chart (version_parse sim_libs)) c))) (\<lambda>y.
      bindP (liftR (ensure (chart_name y = ''p'') e)) (\<lambda>_. k))))"
    if "always_ok k" for ev ctx err e and k :: "(sim, unit) job"
    unfolding yields_always_ok [symmetric]
    by (rule yields_bind [OF sim_chart_yaml]) (simp add: sim_chart_decoded bindP_liftR_Inr that yields_always_ok)
  show ?thesis
    unfolding validate_helm_chart_dir_def validate_core_helm_chart_variant_in_dir_def Let_def path name append.simps
    by (intro ok_rules sim_ok_paths chart)
qed

lemma sim_ok_helm:
  "always_ok (validate_helmv3_in_path sim_libs sim_host)"
  "always_ok (validate_helm_release sim_libs sim_host ''rel'' ns)"
proof -
  have re: "helmv3_regex \<noteq> umbrella_regex" "release_regex ''rel'' \<noteq> umbrella_regex"
    by (simp_all add: helmv3_regex_def release_regex_def LINE_FEED_OPT_def umbrella_regex_def BACKSLASH_def UMBRELLA_CHART_NAME_def)
  show "always_ok (validate_helmv3_in_path sim_libs sim_host)" "always_ok (validate_helm_release sim_libs sim_host ''rel'' ns)"
    using re by (simp_all add: always_ok_def validate_helmv3_in_path_def validate_helm_release_def bindP_def sim_command
        ensure_success_def sim_out_def regex_match_def sim_libs_def res_bind_def map_err_def ensure_def)
qed

lemma sim_parse_cli_args: "always_ok (parse_cli_args sim_libs job_cluster sim_host sim_product (sim_opts skip))"
proof -
  have "always_ok (validate_namespace job_cluster sim_host ns)" for ns
    unfolding validate_namespace_def
    by (intro ok_rules job_ok_client) (simp add: always_ok_def logged_def sim_host_def)
  moreover have "always_ok (validate_rest_endpoint job_cluster ''url'')"
    by (simp add: always_ok_def validate_rest_endpoint_def bindP_def logged_def job_cluster_def sim_cluster_def new_with_url_def)
  ultimately show ?thesis
    using sim_ok_helm sim_ok_chart_dir unfolding parse_cli_args_def by (intro ok_rules) (simp_all add: sim_opts_def)
qed

lemma sim_parse_value:
  "yields (parse_cli_args sim_libs job_cluster sim_host sim_product (sim_opts skip)) (\<lambda>opts. opts = sim_opts skip)"
  unfolding yields_def
proof
  fix s
  obtain a t where run: "parse_cli_args sim_libs job_cluster sim_host sim_product (sim_opts skip) s = (Ok a, t)"
    using sim_parse_cli_args unfolding always_ok_def by blast
  moreover have "a = sim_opts skip" using emits_Ok [OF emits_parse_cli_args run] by blast
  ultimately show "\<exists>a t. parse_cli_args sim_libs job_cluster sim_host sim_product (sim_opts skip) s = (Ok a, t) \<and> a = sim_opts skip"
    by blast
qed

theorem job_main_validates_first_witness:
  "\<exists>u d. rt_trace u = rt_trace (sim_start []) @ d \<and> validated sim_libs sim_product (sim_opts False) d \<and>
     upgrade 1 sim_libs job_cluster sim_host sim_product id id (upgrade_error_display sim_libs sim_product) id (sim_opts False) u =
     job_main 1 sim_libs job_cluster sim_host sim_product id id id (sim_opts False) (sim_start [])"
proof -
  let ?run = "job_main 1 sim_libs job_cluster sim_host sim_product id id id (sim_opts False) (sim_start [])"
  obtain x t where run: "?run = (x, t)" by (cases ?run)
  have "always_ok (job_main (Suc 0) sim_libs job_cluster sim_host sim_product id id id (sim_opts False))"
    unfolding job_main_def yields_always_ok [symmetric]
    by (rule yields_bind [OF sim_parse_value]) (simp add: yields_always_ok job_ok_upgrade)
  from always_okD [OF this, of "sim_start []"] run have ok: "\<nexists>e. x = Err e" by auto
  from job_main_validates_first [OF run] show ?thesis
    using ok run by (metis (no_types, lifting))
qed

end
