(* ===== verification/ProxyInstance.thy ===== *)
theory ProxyInstance
  imports Proxy
begin

text \<open>A cluster in which every connection is made, for the instances of the theorems.\<close>

definition demo_proxy :: "'w proxy_api" where
  "demo_proxy =
     \<lparr>px_API_REST_LABEL = ''app=api-rest'', px_API_REST_HTTP_PORT = 8081, px_ETCD_LABEL = ''app=etcd'', px_ETCD_PORT = 2379,
      px_LOKI_LABEL = ''app=loki'', px_LOKI_PORT = 3100, px_DEFAULT_NAMESPACE = ''mayastor'',
      px_env_var = (\<lambda>v. Pair (Inr v)), px_path_exists = (\<lambda>p. Pair True),
      px_read_kubeconfig = (\<lambda>p. Pair (Inr p)), px_custom_config = (\<lambda>c. Pair (Inr c)),
      px_kube_client = (\<lambda>c. Pair (Inr c)), px_http_forward = (\<lambda>t s. Pair (Inr ''forward'')),
      px_http_forward_uri = (\<lambda>f. Pair (Inr ''http://loki'')), px_port_forward_new = (\<lambda>t. Pair (Inr ''forward'')),
      px_port_forward = (\<lambda>f. Pair (Inr 4000)), px_url_parse = Inr, px_uri_try_from = Inr,
      px_build_configuration = (\<lambda>c. Inr ())\<rparr>"

lemmas proxy_defs = http_forward_def tcp_forward_def config_from_kubeconfig_def kubeconfig_path_def build_configuration_def
  api_rest_build_def api_rest_build_http_def api_rest_build_tcp_def etcd_build_def loki_build_def loki_build_http_def
  loki_build_tcp_def path_exists_def

text \<open>What is built in it.\<close>

definition demo_config :: "config_builder \<Rightarrow> rest_configuration" where
  "demo_config b =
     \<lparr>rc_timeout = cb_timeout b, rc_bearer_token = cb_jwt b, rc_tracing = True, rc_certificate = None,
      rc_address = ''http://loki'', rc_proxy = Some (unwrap_or ''KUBECONFIG'' (cb_kube_config b))\<rparr>"

lemma demo_proxy_builds:
  "cb_method b = ForwardHTTP \<Longrightarrow> api_rest_build demo_proxy b w = (Ok (demo_config b), w)"
  "etcd_build demo_proxy b w = (Ok (fst (scheme_parts (cb_scheme b)) @ ''://localhost:'' @ nat_to_string 4000), w)"
  "cb_method b = ForwardHTTP \<Longrightarrow>
     loki_build demo_proxy b w = (Ok (''http://loki'', LokiProxied (unwrap_or ''KUBECONFIG'' (cb_kube_config b)) (cb_timeout b)), w)"
  by (auto simp: proxy_defs demo_proxy_def demo_config_def bindP_def callP_def tryP_def map_err_def
      split: option.splits)

lemma default_methods [simp]:
  "cb_method (with_target_mod f (with_timeout t (with_kube_config k (default_api_rest px)))) = ForwardHTTP"
  "cb_method (with_target_mod f (with_kube_config k (default_loki px))) = ForwardHTTP"
  by (simp_all add: builder_defs)

text \<open>Two kubeconfig files in the cluster above: other clients, the same address.\<close>

definition demo_loki :: "string \<Rightarrow> config_builder" where
  "demo_loki k = with_kube_config (Some k) (default_loki (demo_proxy :: unit proxy_api))"

lemma demo_loki_forward: "http_forward demo_proxy (demo_loki k) () = (Ok (''http://loki'', k), ())"
  by (simp add: proxy_defs demo_proxy_def demo_loki_def builder_defs bindP_def callP_def)

theorem forwarding_ignores_kube_config_witness:
  "http_forward demo_proxy (demo_loki ''a'') () = (Ok (''http://loki'', ''a''), ()) \<and>
   http_forward demo_proxy (demo_loki ''b'') () = (Ok (''http://loki'', ''b''), ()) \<and>
   etcd_build (demo_proxy :: unit proxy_api) (demo_loki ''a'') = etcd_build demo_proxy (default_loki (demo_proxy :: unit proxy_api))"
  using forwarding_ignores_kube_config [where px = demo_proxy and k = "Some ''a''" and k' = "Some ''b''" and w = "()"
      and b = "default_loki (demo_proxy :: unit proxy_api)", folded demo_loki_def] demo_loki_forward
  by (metis (no_types))

end
