(* ===== verification/PluginInstance.thy ===== *)
theory PluginInstance
  imports PluginStore PluginRbac JobInstance ProxyInstance
begin

text \<open>
  Concrete surroundings for the plugin: a cluster with one REST deployment and no stored
  objects but perhaps a job, and one that stores objects.  The hypotheses of the properties of the plugin
  are shown to hold there.
\<close>

definition demo_consts :: plugin_consts where
  "demo_consts = \<lparr>pc_product_name = ''m'', pc_product_domain = ''d'', pc_to_train_case = id, pc_version_tag = Some ''2''\<rparr>"

definition demo_dep :: deployment where
  "demo_dep = \<lparr>dep_labels = Some [''d/release'' \<mapsto> ''r'', ''d/version'' \<mapsto> ''1''],
     dep_spec = Some (Some \<lparr>pt_containers = [\<lparr>dc_image = Some ''o/i'', dc_image_pull_policy = None\<rparr>], pt_image_pull_secrets = None\<rparr>)\<rparr>"

definition demo_node :: "plugin_cordon option \<Rightarrow> plugin_node" where
  "demo_node cordon = \<lparr>pn_id = ''n'', pn_spec = Some cordon\<rparr>"

definition demo_volume :: plugin_volume where
  "demo_volume = \<lparr>pv_uuid = ''v'', pv_num_replicas = 2, pv_target_children = Some [None]\<rparr>"

definition demo_api :: "upgrade_object option \<Rightarrow> unit plugin_api" where
  "demo_api job =
     \<lparr>pl_client = (\<lambda>w. (Inr (), w)),
      pl_pods_list = (\<lambda>ns label w. (Inr [Some ''p''], w)),
      pl_deployments_list = (\<lambda>ns label w. (Inr [demo_dep], w)),
      pl_events_list = (\<lambda>ns sel w. (Inr [], w)),
      pl_events_delete = (\<lambda>ns sel w. (Inr (), w)),
      pl_get_opt = (\<lambda>k ns n w. (Inr (if k = KJob then job else None), w)),
      pl_create = (\<lambda>k ns obj w. (Inr obj, w)),
      pl_delete = (\<lambda>k ns n w. (Inr (), w)),
      pl_pvc_list = (\<lambda>w. (Inr [], w)),
      pl_proxy = demo_proxy,
      pl_get_nodes = (\<lambda>w. (Inr [demo_node None], w)),
      pl_get_volumes = (\<lambda>k tok w. (Inr ([demo_volume], None), w)),
      pl_read_to_string = (\<lambda>path w. (Inr (''in '' @ path), w)),
      pl_sleep = (\<lambda>n w. w)\<rparr>"

definition demo_lib :: "nat plugin_lib" where
  "demo_lib = \<lparr>pb_version_parse = (\<lambda>s. Inr (length s)), pb_version_pre_is_empty = (\<lambda>v. True), pb_version_to_string = nat_to_string,
     pb_unsupported_versions = (\<lambda>s. Inr []), pb_upgrade_event_from_str = (\<lambda>s. Inl s)\<rparr>"

definition demo_start :: "(unit, plugin_trace) rt" where
  "demo_start = \<lparr>rt_world = (), rt_trace = []\<rparr>"

definition demo_args :: "string list \<Rightarrow> upgrade_args" where
  "demo_args files = upgrade_args_new\<lparr>ua_set_file := files\<rparr>"

definition demo_job :: upgrade_object where
  "demo_job = JobObj \<lparr>om_name = Some ''j'', om_namespace = Some ''ns'', om_labels = None\<rparr>
     \<lparr>js_backoff_limit = 6, js_pod_labels = Map.empty, js_image_pull_secrets = None, js_restart_policy = ''OnFailure'',
      js_containers = [], js_service_account_name = ''s'', js_config_map_volume = (''a'', ''b'')\<rparr> (Some (Some 1))"

lemmas demo_defs = demo_api_def demo_start_def demo_consts_def demo_lib_def demo_dep_def

section \<open>Files\<close>

lemmas plugin_run_defs = upgrade_resources_new_def get_release_name_def get_deployment_for_rest_def action_defs Let_def plugin_defs
  bindP_def liftR_def logged_def tick_def unwrap_name_def unwrap_namespace_def ok_or_def

lemma demo_create_run:
  "\<exists>job answer. PgCreate KJob ''ns'' job answer \<in>
     set (rt_trace (snd (create_upgrade_resources demo_consts (demo_api None) ''ns'' (demo_args [''k=f'', ''l=f'']) demo_start)))"
  by (simp add: create_upgrade_resources_def plugin_run_defs demo_defs create_config_map_data_def create_helm_set_file_args_def demo_args_def
     upgrade_args_new_def image_properties_try_from_def upgrade_job_service_account_def upgrade_job_cluster_role_def
     upgrade_job_cluster_role_binding_def upgrade_configmap_def upgrade_job_def)

theorem job_files_resolve_witness:
  "\<exists>pre dm outs. list_all2 (\<lambda>arg out. \<exists>key path n content. arg = key @ ''='' @ path \<and>
     out = key @ ''=/upgrade-config-map/'' @ n \<and> dm n = Some content \<and> PgReadFile path (Inr content) \<in> set pre)
     [''k=f'', ''l=f''] outs"
proof -
  let ?run = "create_upgrade_resources demo_consts (demo_api None) ''ns'' (demo_args [''k=f'', ''l=f'']) demo_start"
  obtain job answer pre post where "rt_trace (snd ?run) = pre @ PgCreate KJob ''ns'' job answer # post"
    using demo_create_run by (metis split_list)
  then have run: "rt_trace (snd ?run) = rt_trace demo_start @ pre @ PgCreate KJob ''ns'' job answer # post"
    by (simp add: demo_start_def)
  have files: "ua_set_file (demo_args [''k=f'', ''l=f'']) = [''k=f'', ''l=f'']" by (simp add: demo_args_def)
  from job_files_resolve [OF prod.collapse [of ?run, symmetric] run] show ?thesis unfolding files by blast
qed

section \<open>Checks and commands\<close>

lemmas check_defs = preflight_check_def upgrade_path_validation_def get_source_version_def rebuild_in_progress_validation_def
  is_rebuild_in_progress_def volumes_request_def already_cordoned_nodes_validation_def single_volume_replica_validation_def
  single_replica_volumes_def embedded_def demo_proxy_builds plugin_run_defs

lemma demo_preflight:
  "fst (preflight_check 2 demo_lib demo_consts (demo_api None) ''ns'' None 0 (demo_args []) demo_start) = Ok ()"
  by (simp add: check_defs demo_defs demo_args_def upgrade_args_new_def demo_node_def demo_volume_def loopP_numeral map_err_def
      helm_release_version_key_def self_version_def get_image_version_tag_def UPGRADE_TO_DEVELOP_BRANCH_def volume_rebuilding_def
      SINGLE_REPLICA_VOLUME_def strip_v_prefix_def strip_prefix_def)

theorem preflight_check_sound_witness:
  "preflight_passed demo_lib demo_consts ''ns'' (demo_args [])
     (rt_trace (snd (preflight_check 2 demo_lib demo_consts (demo_api None) ''ns'' None 0 (demo_args []) demo_start)))"
proof -
  let ?run = "preflight_check 2 demo_lib demo_consts (demo_api None) ''ns'' None 0 (demo_args []) demo_start"
  from preflight_check_sound [OF prod.collapse [of ?run, symmetric]] demo_preflight show ?thesis
    by (auto simp: demo_start_def)
qed

lemma demo_delete_run:
  "\<exists>ns n answer. PgDelete KJob ns n answer \<in>
     set (rt_trace (snd (execute_operation 1 demo_lib demo_consts (demo_api (Some demo_job)) ''ns'' None 0 (DeleteUpgrade False) demo_start)))"
  by (simp add: delete_upgrade_def is_upgrade_job_completed_def delete_upgrade_resources_def plugin_run_defs demo_defs demo_job_def
      create_config_map_data_def upgrade_args_new_def)

section \<open>A store of objects\<close>

text \<open>
  The world is the map of the stored objects itself; what is there under a wrong name is not
  seen.
\<close>

fun with_meta :: "object_meta \<Rightarrow> upgrade_object \<Rightarrow> upgrade_object" where
  "with_meta m (ServiceAccountObj _) = ServiceAccountObj m"
| "with_meta m (ClusterRoleObj _ rules) = ClusterRoleObj m rules"
| "with_meta m (ClusterRoleBindingObj _ role subjects) = ClusterRoleBindingObj m role subjects"
| "with_meta m (ConfigMapObj _ data imm) = ConfigMapObj m data imm"
| "with_meta m (JobObj _ spec status) = JobObj m spec status"

definition store_view :: "(obj_key \<Rightarrow> upgrade_object option) obj_view" where
  "store_view w key = Option.bind (w key) (\<lambda>obj. if named_obj key obj then Some obj else None)"

definition store_api :: "(obj_key \<Rightarrow> upgrade_object option) plugin_api" where
  "store_api =
     \<lparr>pl_client = (\<lambda>w. (Inr (), w)),
      pl_pods_list = (\<lambda>ns label w. (Inr [], w)),
      pl_deployments_list = (\<lambda>ns label w. (Inr [demo_dep], w)),
      pl_events_list = (\<lambda>ns sel w. (Inr [], w)),
      pl_events_delete = (\<lambda>ns sel w. (Inr (), w)),
      pl_get_opt = (\<lambda>k ns n w. (Inr (store_view w (k, ns, n)), w)),
      pl_create = (\<lambda>k ns obj w. case om_name (object_meta_of obj) of None \<Rightarrow> (Inl ''no name'', w) | Some n \<Rightarrow>
         let obj' = with_meta \<lparr>om_name = Some n, om_namespace = Some ns, om_labels = None\<rparr> obj in (Inr obj', w((k, ns, n) \<mapsto> obj'))),
      pl_delete = (\<lambda>k ns n w. (Inr (), w((k, ns, n) := None))),
      pl_pvc_list = (\<lambda>w. (Inr [], w)),
      pl_proxy = demo_proxy,
      pl_get_nodes = (\<lambda>w. (Inr [], w)),
      pl_get_volumes = (\<lambda>k tok w. (Inr ([], None), w)),
      pl_read_to_string = (\<lambda>path w. (Inr (''in '' @ path), w)),
      pl_sleep = (\<lambda>n w. w)\<rparr>"


lemma with_meta_stored: "stored_as obj (with_meta m obj)" "object_meta_of (with_meta m obj) = m"
  by (cases obj; simp)+

lemma store_view_put: "named_obj key obj \<Longrightarrow> store_view (w(key \<mapsto> obj)) = (store_view w)(key \<mapsto> obj)"
  by (rule ext) (simp add: store_view_def)

lemma store_view_remove: "store_view (w(key := None)) = (store_view w)(key := None)"
  by (rule ext) (simp add: store_view_def)

lemma store_is_store: "object_store store_api store_view"
  unfolding object_store_def
proof (intro conjI allI impI)
  fix k ns obj name w
  assume "om_name (object_meta_of obj) = Some name"
  let ?obj = "with_meta \<lparr>om_name = Some name, om_namespace = Some ns, om_labels = None\<rparr> obj"
  have "named_obj (k, ns, name) ?obj" by (simp add: named_obj_def with_meta_stored)
  then show "\<exists>obj' w'. pl_create store_api k ns obj w = (Inr obj', w') \<and> stored_as obj obj' \<and>
      store_view w' = (store_view w)((k, ns, name) \<mapsto> obj')"
    using \<open>om_name (object_meta_of obj) = Some name\<close>
    by (simp add: store_api_def store_view_put with_meta_stored(1) Let_def)
next
  fix w key obj
  show "store_view w key = Some obj \<Longrightarrow> named_obj key obj"
    by (auto simp: store_view_def bind_eq_Some_conv split: if_splits)
qed (simp_all add: store_api_def store_view_remove)

theorem upgrade_resources_life_witness:
  "\<exists>t u. create_upgrade_resources demo_consts store_api ''ns'' (demo_args [''k=f'']) \<lparr>rt_world = Map.empty, rt_trace = []\<rparr> = (Ok (), t) \<and>
     created demo_consts ''ns'' ''r'' (demo_args [''k=f'']) (store_view Map.empty) (store_view (rt_world t)) \<and>
     delete_upgrade_resources demo_consts store_api ''ns'' t = (Ok (), u) \<and>
     store_view (rt_world u) = (\<lambda>key. if key \<in> range (key_of demo_consts ''ns'' ''r'') then None else store_view Map.empty key)"
proof -
  have dep: "rest_deployed store_api store_view ''ns'' demo_dep" by (simp add: rest_deployed_def store_api_def)
  have rel: "release_of demo_consts demo_dep = ''r''"
    by (simp add: release_of_def demo_dep_def demo_consts_def helm_release_name_key_def)
  have img: "image_properties_try_from demo_dep =
      Inr \<lparr>ip_pull_secrets = None, ip_registry = DEFAULT_IMAGE_REGISTRY, ip_pull_policy = None\<rparr>"
    by (simp add: image_properties_try_from_def demo_dep_def ok_or_def)
  have files: "files_readable store_api store_view (ua_set_file (demo_args [''k=f'']))"
    by (simp add: files_readable_def demo_args_def store_api_def) (intro exI [of _ "''k''"] exI [of _ "''f''"], simp)
  from upgrade_resources_life [OF store_is_store _ dep img files, where c = demo_consts and s = "\<lparr>rt_world = Map.empty, rt_trace = []\<rparr>"]
  show ?thesis unfolding rel rt.select_convs by simp
qed

section \<open>The role\<close>

definition role_cluster :: "sim cluster" where
  "role_cluster = job_cluster\<lparr>ctrl_revs_list := (\<lambda>ns params w. (Inl ''forbidden'', w))\<rparr>"

theorem upgrade_role_lacks_revisions_witness:
  "fst (upgrade 5 sim_libs role_cluster sim_host sim_product id id (\<lambda>_. '''') id (sim_opts False)
     (sim_start [])) \<noteq> Ok ()"
proof -
  have "authorizes upgrade_role_rules role_cluster"
    by (simp add: authorizes_def role_cluster_def upgrade_role_allows)
  moreover have "\<not> skip_data_plane_restart (sim_opts False)" by (simp add: sim_opts_def)
  ultimately show ?thesis by (rule conjunct2 [OF upgrade_role_lacks_revisions])
qed

end
