(* ===== verification/DumpQuiet.thy ===== *)
theory DumpQuiet
  imports DumpSystem
begin

text \<open>
  Which parts of a dump leave every directory in place: all but the deletion of the temporary one.
\<close>

definition stays :: "dump_trace \<Rightarrow> bool" where
  "stays ev \<longleftrightarrow> (case ev of DRemoveDir _ _ \<Rightarrow> False | _ \<Rightarrow> True)"

lemma stays_simps [simp]:
  "stays (DPrint t)" "stays DDate" "stays (DCreateDir p r)" "stays (DMetadata p b)" "stays (DCreate p r)"
  "stays (DWrite p t r)" "stays (DFlush p r)" "stays (DRemoveFile p r)" "stays (DArchive p q r)" "stays (DFinish p r)"
  "stays (DRequest t)" "stays (DLoki t l)" "stays (DEtcd p k)" "\<not> stays (DRemoveDir p r)"
  by (simp_all add: stays_def)

lemma only_for_set: "(\<And>x. x \<in> set xs \<Longrightarrow> only X (body x)) \<Longrightarrow> only X (forP xs body)"
  by (induction xs) (auto intro: only_rules)

lemma stays_tool_log [only_rules]: "only stays (tool_log)"
  unfolding tool_log_def by (auto intro!: only_rules simp: Let_def split: sum.splits option.splits prod.splits)

lemma stays_set_tool_log [only_rules]: "only stays (set_tool_log v)"
  unfolding set_tool_log_def by (auto intro!: only_rules simp: Let_def split: sum.splits option.splits prod.splits)

lemma stays_write_all [only_rules]: "only stays (write_all api path content)"
  unfolding write_all_def by (auto intro!: only_rules simp: Let_def split: sum.splits option.splits prod.splits)

lemma stays_file_create [only_rules]: "only stays (file_create api path)"
  unfolding file_create_def by (auto intro!: only_rules simp: Let_def split: sum.splits option.splits prod.splits)

lemma stays_file_flush [only_rules]: "only stays (file_flush api path)"
  unfolding file_flush_def by (auto intro!: only_rules simp: Let_def split: sum.splits option.splits prod.splits)

lemma stays_write_to_log_file [only_rules]: "only stays (write_to_log_file api content)"
  unfolding write_to_log_file_def by (auto intro!: only_rules simp: Let_def split: sum.splits option.splits prod.splits)

lemma stays_dlog [only_rules]: "only stays (dlog api content)"
  unfolding dlog_def by (auto intro!: only_rules simp: Let_def split: sum.splits option.splits prod.splits)

lemma stays_init_tool_log_file [only_rules]: "only stays (init_tool_log_file api path)"
  unfolding init_tool_log_file_def by (auto intro!: only_rules simp: Let_def split: sum.splits option.splits prod.splits)

lemma stays_init_no_log_file [only_rules]: "only stays (init_no_log_file)"
  unfolding init_no_log_file_def by (auto intro!: only_rules simp: Let_def split: sum.splits option.splits prod.splits)

lemma stays_flush_tool_log_file [only_rules]: "only stays (flush_tool_log_file api)"
  unfolding flush_tool_log_file_def by (auto intro!: only_rules simp: Let_def split: sum.splits option.splits prod.splits)

lemma stays_create_dir_all [only_rules]: "only stays (create_dir_all api path)"
  unfolding create_dir_all_def by (auto intro!: only_rules simp: Let_def split: sum.splits option.splits prod.splits)

lemma stays_create_directory_if_not_exist [only_rules]: "only stays (create_directory_if_not_exist api path)"
  unfolding create_directory_if_not_exist_def by (auto intro!: only_rules simp: Let_def split: sum.splits option.splits prod.splits)

lemma stays_create_and_get_tmp_directory [only_rules]: "only stays (create_and_get_tmp_directory api path)"
  unfolding create_and_get_tmp_directory_def by (auto intro!: only_rules simp: Let_def split: sum.splits option.splits prod.splits)

lemma stays_archive_new [only_rules]: "only stays (archive_new api path)"
  unfolding archive_new_def by (auto intro!: only_rules simp: Let_def split: sum.splits option.splits prod.splits)

lemma stays_copy_to_archive [only_rules]: "only stays (copy_to_archive api ar src dest)"
  unfolding copy_to_archive_def by (auto intro!: only_rules simp: Let_def split: sum.splits option.splits prod.splits)

lemma stays_dump_one_topology [only_rules]: "only stays (dump_one_topology api lib t path)"
  unfolding dump_one_topology_def by (auto intro!: only_rules simp: Let_def split: sum.splits option.splits prod.splits)

lemma stays_dump_topology_info [only_rules]: "only stays (dump_topology_info api lib t path)"
  by (induction api lib t path rule: dump_topology_info.induct) (auto intro!: only_rules only_for_set)

lemma stays_list_nodes [only_rules]: "only stays (list_nodes api)"
  unfolding list_nodes_def by (auto intro!: only_rules simp: Let_def split: sum.splits option.splits prod.splits)

lemma stays_get_node [only_rules]: "only stays (get_node api i)"
  unfolding get_node_def by (auto intro!: only_rules simp: Let_def split: sum.splits option.splits prod.splits)

lemma stays_list_node_block_devices [only_rules]: "only stays (list_node_block_devices api i)"
  unfolding list_node_block_devices_def by (auto intro!: only_rules simp: Let_def split: sum.splits option.splits prod.splits)

lemma stays_node_devices [only_rules]: "only stays (node_devices api i n)"
  unfolding node_devices_def by (auto intro!: only_rules simp: Let_def split: sum.splits option.splits prod.splits d_node_status.splits)

lemma stays_node_get_topologer [only_rules]: "only stays (node_get_topologer api i)"
  unfolding node_get_topologer_def by (auto intro!: only_rules simp: Let_def split: sum.splits option.splits prod.splits)

lemma stays_list_pools [only_rules]: "only stays (list_pools api)"
  unfolding list_pools_def by (auto intro!: only_rules simp: Let_def split: sum.splits option.splits prod.splits)

lemma stays_get_pool [only_rules]: "only stays (get_pool api i)"
  unfolding get_pool_def by (auto intro!: only_rules simp: Let_def split: sum.splits option.splits prod.splits)

lemma stays_get_pool_node_info [only_rules]: "only stays (get_pool_node_info api p)"
  unfolding get_pool_node_info_def by (auto intro!: only_rules simp: Let_def split: sum.splits option.splits prod.splits)

lemma stays_get_pool_disks_info [only_rules]: "only stays (get_pool_disks_info api p)"
  unfolding get_pool_disks_info_def by (auto intro!: only_rules simp: Let_def split: sum.splits option.splits prod.splits)

lemma stays_pool_topology_of [only_rules]: "only stays (pool_topology_of api lib w p)"
  unfolding pool_topology_of_def by (auto intro!: only_rules simp: Let_def split: sum.splits option.splits prod.splits)

lemma stays_pool_get_topologer [only_rules]: "only stays (pool_get_topologer api lib i)"
  unfolding pool_get_topologer_def by (auto intro!: only_rules simp: Let_def split: sum.splits option.splits prod.splits)

lemma stays_get_replica [only_rules]: "only stays (get_replica api i)"
  unfolding get_replica_def by (auto intro!: only_rules simp: Let_def split: sum.splits option.splits prod.splits)

lemma stays_get_replica_topology [only_rules]: "only stays (get_replica_topology api lib i)"
  unfolding get_replica_topology_def by (auto intro!: only_rules simp: Let_def split: sum.splits option.splits prod.splits topologer.splits)

lemma stays_list_volumes [only_rules]: "only stays (list_volumes fuel api)"
  unfolding list_volumes_def by (auto intro!: only_rules simp: Let_def split: sum.splits option.splits prod.splits)

lemma stays_get_volume [only_rules]: "only stays (get_volume api i)"
  unfolding get_volume_def by (auto intro!: only_rules simp: Let_def split: sum.splits option.splits prod.splits)

lemma stays_get_rebuild_history [only_rules]: "only stays (get_rebuild_history api i)"
  unfolding get_rebuild_history_def by (auto intro!: only_rules simp: Let_def split: sum.splits option.splits prod.splits)

lemma stays_replicas_topology_of [only_rules]: "(\<And>x. only stays (parse x)) \<Longrightarrow> only stays (replicas_topology_of api lib parse v)"
  unfolding replicas_topology_of_def by (auto intro!: only_rules simp: Let_def split: sum.splits option.splits prod.splits)

lemma stays_volume_topology_of [only_rules]: "(\<And>x. only stays (parse x)) \<Longrightarrow> only stays (volume_topology_of api lib parse i v)"
  unfolding volume_topology_of_def by (auto intro!: only_rules simp: Let_def split: sum.splits option.splits prod.splits)

lemma stays_volume_get_topologer [only_rules]: "only stays (volume_get_topologer fuel api lib i)"
  unfolding volume_get_topologer_def by (auto intro!: only_rules simp: Let_def split: sum.splits option.splits prod.splits)

lemma stays_list_snapshots [only_rules]: "only stays (list_snapshots fuel api)"
  unfolding list_snapshots_def by (auto intro!: only_rules simp: Let_def split: sum.splits option.splits prod.splits)

lemma stays_get_snapshot [only_rules]: "only stays (get_snapshot api i)"
  unfolding get_snapshot_def by (auto intro!: only_rules simp: Let_def split: sum.splits option.splits prod.splits)

lemma stays_snapshot_get_topologer [only_rules]: "only stays (snapshot_get_topologer fuel api i)"
  unfolding snapshot_get_topologer_def by (auto intro!: only_rules simp: Let_def split: sum.splits option.splits prod.splits)

lemma stays_client_set_new [only_rules]: "only stays (client_set_new api p ns)"
  unfolding client_set_new_def by (auto intro!: only_rules simp: Let_def split: sum.splits option.splits prod.splits)

lemma stays_dynamic_object_api [only_rules]: "only stays (dynamic_object_api api ns g v k)"
  unfolding dynamic_object_api_def by (auto intro!: only_rules simp: Let_def split: sum.splits option.splits prod.splits list.splits)

lemma stays_get_nodes_map [only_rules]: "only stays (get_nodes_map api)"
  unfolding get_nodes_map_def by (auto intro!: only_rules simp: Let_def split: sum.splits option.splits prod.splits)

lemma stays_get_pods [only_rules]: "only stays (get_pods fuel api cs l f)"
  unfolding get_pods_def by (auto intro!: only_rules simp: Let_def split: sum.splits option.splits prod.splits)

lemma stays_get_events [only_rules]: "only stays (get_events fuel api cs l f)"
  unfolding get_events_def by (auto intro!: only_rules simp: Let_def split: sum.splits option.splits prod.splits)

lemma stays_or_not_found [only_rules]: "only stays m \<Longrightarrow> only stays (or_not_found m)"
  unfolding or_not_found_def by (auto intro!: only_rules simp: Let_def split: sum.splits option.splits prod.splits kube_error.splits)

lemma stays_list_disk_pools [only_rules]: "only stays (list_disk_pools api cs l f)"
  unfolding list_disk_pools_def by (auto intro!: only_rules simp: Let_def split: sum.splits option.splits prod.splits)

lemma stays_list_volumesnapshot_classes [only_rules]: "only stays (list_volumesnapshot_classes api d l f)"
  unfolding list_volumesnapshot_classes_def by (auto intro!: only_rules simp: Let_def split: sum.splits option.splits prod.splits)

lemma stays_list_volumesnapshotcontents [only_rules]: "only stays (list_volumesnapshotcontents fuel api d l f)"
  unfolding list_volumesnapshotcontents_def by (auto intro!: only_rules simp: Let_def split: sum.splits option.splits prod.splits)

lemma stays_get_apps [only_rules]: "only stays (get_apps api k cs l f)"
  unfolding get_apps_def by (auto intro!: only_rules simp: Let_def split: sum.splits option.splits prod.splits)

lemma stays_get_deployments [only_rules]: "only stays (get_deployments api cs l f)"
  unfolding get_deployments_def by (auto intro!: only_rules simp: Let_def split: sum.splits option.splits prod.splits)

lemma stays_get_daemonsets [only_rules]: "only stays (get_daemonsets api cs l f)"
  unfolding get_daemonsets_def by (auto intro!: only_rules simp: Let_def split: sum.splits option.splits prod.splits)

lemma stays_get_statefulsets [only_rules]: "only stays (get_statefulsets api cs l f)"
  unfolding get_statefulsets_def by (auto intro!: only_rules simp: Let_def split: sum.splits option.splits prod.splits)

lemma stays_get_hostname [only_rules]: "only stays (get_hostname api n)"
  unfolding get_hostname_def by (auto intro!: only_rules simp: Let_def split: sum.splits option.splits prod.splits)

lemma stays_get_nodename [only_rules]: "only stays (get_nodename api n)"
  unfolding get_nodename_def by (auto intro!: only_rules simp: Let_def split: sum.splits option.splits prod.splits list.splits)

lemma stays_create_file_and_write [only_rules]: "only stays (create_file_and_write api dir f c)"
  unfolding create_file_and_write_def by (auto intro!: only_rules simp: Let_def split: sum.splits option.splits prod.splits)

lemma stays_app_name [only_rules]: "only stays (app_name a)"
  unfolding app_name_def by (auto intro!: only_rules simp: Let_def split: sum.splits option.splits prod.splits)

lemma stays_create_app_configurations [only_rules]: "only stays (create_app_configurations api lib k apps dir)"
  unfolding create_app_configurations_def by (auto intro!: only_rules simp: Let_def split: sum.splits option.splits prod.splits)

lemma stays_write_yaml [only_rules]: "only stays (write_yaml api lib dir f c)"
  unfolding write_yaml_def by (auto intro!: only_rules simp: Let_def split: sum.splits option.splits prod.splits)

lemma stays_get_k8s_daemonsets [only_rules]: "only stays (get_k8s_daemonsets api lib cs dir)"
  unfolding get_k8s_daemonsets_def by (auto intro!: only_rules simp: Let_def split: sum.splits option.splits prod.splits)

lemma stays_get_k8s_deployments [only_rules]: "only stays (get_k8s_deployments api lib cs dir)"
  unfolding get_k8s_deployments_def by (auto intro!: only_rules simp: Let_def split: sum.splits option.splits prod.splits)

lemma stays_get_k8s_statefulsets [only_rules]: "only stays (get_k8s_statefulsets api lib cs dir)"
  unfolding get_k8s_statefulsets_def by (auto intro!: only_rules simp: Let_def split: sum.splits option.splits prod.splits)

lemma stays_get_k8s_diskpools [only_rules]: "only stays (get_k8s_diskpools api lib cs dir pools)"
  unfolding get_k8s_diskpools_def by (auto intro!: only_rules simp: Let_def split: sum.splits option.splits prod.splits)

lemma stays_get_k8s_vs_classes [only_rules]: "only stays (get_k8s_vs_classes api lib dir)"
  unfolding get_k8s_vs_classes_def by (auto intro!: only_rules simp: Let_def split: sum.splits option.splits prod.splits)

lemma stays_get_k8s_vsnapshot_contents [only_rules]: "only stays (get_k8s_vsnapshot_contents fuel api lib dir)"
  unfolding get_k8s_vsnapshot_contents_def by (auto intro!: only_rules simp: Let_def split: sum.splits option.splits prod.splits)

lemma stays_get_k8s_pod_configurations [only_rules]: "only stays (get_k8s_pod_configurations fuel api lib cs dir)"
  unfolding get_k8s_pod_configurations_def by (auto intro!: only_rules simp: Let_def split: sum.splits option.splits prod.splits)

lemma stays_get_k8s_events [only_rules]: "only stays (get_k8s_events fuel api lib cs dir)"
  unfolding get_k8s_events_def by (auto intro!: only_rules simp: Let_def split: sum.splits option.splits prod.splits)

lemma stays_push_err [only_rules]: "only stays m \<Longrightarrow> only stays (push_err es m)"
  unfolding push_err_def by (auto intro!: only_rules simp: Let_def split: sum.splits option.splits prod.splits)

lemma stays_dump_k8s_resources [only_rules]: "only stays (dump_k8s_resources fuel api lib cs dir pools)"
  unfolding dump_k8s_resources_def by (auto intro!: only_rules simp: Let_def split: sum.splits option.splits prod.splits)

lemma stays_get_epoch_unix_time [only_rules]: "only stays (get_epoch_unix_time api since)"
  unfolding get_epoch_unix_time_def by (auto intro!: only_rules simp: Let_def split: sum.splits option.splits prod.splits)

lemma stays_loki_client_new [only_rules]: "only stays (loki_client_new api lib uri k ns since)"
  unfolding loki_client_new_def by (auto intro!: only_rules simp: Let_def split: sum.splits option.splits prod.splits)

lemma stays_poll_next [only_rules]: "only stays (poll_next api lib p)"
  unfolding poll_next_def by (auto intro!: only_rules simp: Let_def split: sum.splits option.splits prod.splits)

lemma stays_loki_round [only_rules]: "only stays (loki_round api lib path b)"
  unfolding loki_round_def by (auto intro!: only_rules simp: Let_def split: sum.splits option.splits prod.splits)

lemma stays_loki_fetch_and_dump_logs [only_rules]: "only stays (loki_fetch_and_dump_logs fuel api lib c l n h dir)"
  unfolding loki_fetch_and_dump_logs_def by (auto intro!: only_rules simp: Let_def split: sum.splits option.splits prod.splits)

lemma stays_write_line [only_rules]: "only stays (write_line api path l)"
  unfolding write_line_def by (auto intro!: only_rules simp: Let_def split: sum.splits option.splits prod.splits)

lemma stays_log_line [only_rules]: "only stays (log_line api path r n)"
  unfolding log_line_def by (auto intro!: only_rules simp: Let_def split: sum.splits option.splits prod.splits)

lemma stays_write_logs_stream [only_rules]: "only stays (write_logs_stream api cs p c path b)"
  unfolding write_logs_stream_def by (auto intro!: only_rules simp: Let_def split: sum.splits option.splits prod.splits)

lemma stays_create_container_log_file [only_rules]: "only stays (create_container_log_file api cs b p c dir)"
  unfolding create_container_log_file_def by (auto intro!: only_rules simp: Let_def split: sum.splits option.splits prod.splits)

lemma stays_create_pod_logs [only_rules]: "only stays (create_pod_logs api cs p cn dir)"
  unfolding create_pod_logs_def by (auto intro!: only_rules simp: Let_def split: sum.splits option.splits prod.splits)

lemma stays_dump_pod_logs [only_rules]: "only stays (dump_pod_logs fuel api lib cs l dir h cn)"
  unfolding dump_pod_logs_def by (auto intro!: only_rules simp: Let_def split: sum.splits option.splits prod.splits)

lemma stays_new_logger [only_rules]: "only stays (new_logger api lib k ns u since)"
  unfolding new_logger_def by (auto intro!: only_rules simp: Let_def split: sum.splits option.splits prod.splits)

lemma stays_get_logging_resources [only_rules]: "only stays (get_logging_resources api lib pods)"
  unfolding get_logging_resources_def by (auto intro!: only_rules simp: Let_def split: sum.splits option.splits prod.splits)

lemma stays_get_logging_services [only_rules]: "only stays (get_logging_services ss fuel api lib lc)"
  unfolding get_logging_services_def by (auto intro!: only_rules simp: Let_def split: sum.splits option.splits prod.splits)

lemma stays_get_control_plane_logging_services [only_rules]: "only stays (get_control_plane_logging_services fuel api lib lc)"
  unfolding get_control_plane_logging_services_def by (auto intro!: only_rules simp: Let_def split: sum.splits option.splits prod.splits)

lemma stays_get_data_plane_logging_services [only_rules]: "only stays (get_data_plane_logging_services fuel api lib lc)"
  unfolding get_data_plane_logging_services_def by (auto intro!: only_rules simp: Let_def split: sum.splits option.splits prod.splits)

lemma stays_get_upgrade_logging_services [only_rules]: "only stays (get_upgrade_logging_services fuel api lib lc)"
  unfolding get_upgrade_logging_services_def by (auto intro!: only_rules simp: Let_def split: sum.splits option.splits prod.splits)

lemma stays_get_callhome_logging_services [only_rules]: "only stays (get_callhome_logging_services fuel api lib lc)"
  unfolding get_callhome_logging_services_def by (auto intro!: only_rules simp: Let_def split: sum.splits option.splits prod.splits)

lemma stays_get_nats_logging_services [only_rules]: "only stays (get_nats_logging_services fuel api lib lc)"
  unfolding get_nats_logging_services_def by (auto intro!: only_rules simp: Let_def split: sum.splits option.splits prod.splits)

lemma stays_collect_resource_logs [only_rules]: "only stays (collect_resource_logs fuel api lib lc dir r es)"
  unfolding collect_resource_logs_def by (auto intro!: only_rules simp: Let_def split: sum.splits option.splits prod.splits)

lemma stays_fetch_and_dump_logs [only_rules]: "only stays (fetch_and_dump_logs fuel api lib lc rs dir)"
  unfolding fetch_and_dump_logs_def by (auto intro!: only_rules simp: Let_def split: sum.splits option.splits prod.splits)

lemma stays_etcd_store_new [only_rules]: "only stays (etcd_store_new api lib k e ns)"
  unfolding etcd_store_new_def by (auto intro!: only_rules simp: Let_def split: sum.splits option.splits prod.splits)

lemma stays_etcd_get [only_rules]: "only stays (etcd_get api p)"
  unfolding etcd_get_def by (auto intro!: only_rules simp: Let_def split: sum.splits option.splits prod.splits)

lemma stays_etcd_write [only_rules]: "only stays (etcd_write api lib f kv)"
  unfolding etcd_write_def by (auto intro!: only_rules simp: Let_def split: sum.splits option.splits prod.splits)

lemma stays_etcd_round [only_rules]: "only stays (etcd_round api lib f b)"
  unfolding etcd_round_def by (auto intro!: only_rules simp: Let_def split: sum.splits option.splits prod.splits)

lemma stays_etcd_dump [only_rules]: "only stays (etcd_dump fuel api lib st dir b)"
  unfolding etcd_dump_def by (auto intro!: only_rules simp: Let_def split: sum.splits option.splits prod.splits)

lemma stays_or_exit [only_rules]: "(\<And>e. only stays (complain e)) \<Longrightarrow> only stays m \<Longrightarrow> only stays (or_exit complain m)"
  unfolding or_exit_def by (auto intro!: only_rules simp: Let_def split: sum.splits option.splits prod.splits)

lemma stays_etcd_dumper_of [only_rules]: "only stays (etcd_dumper_of api lib c)"
  unfolding etcd_dumper_of_def by (auto intro!: only_rules simp: Let_def split: sum.splits option.splits prod.splits)

lemma stays_logger_of [only_rules]: "only stays (logger_of api lib c)"
  unfolding logger_of_def by (auto intro!: only_rules simp: Let_def split: sum.splits option.splits prod.splits)

lemma stays_k8s_dumper_of [only_rules]: "only stays (k8s_dumper_of api lib c)"
  unfolding k8s_dumper_of_def by (auto intro!: only_rules simp: Let_def split: sum.splits option.splits prod.splits)

lemma stays_get_or_panic_resource_dumper [only_rules]: "only stays (get_or_panic_resource_dumper api lib c)"
  unfolding get_or_panic_resource_dumper_def by (auto intro!: only_rules simp: Let_def split: sum.splits option.splits prod.splits output_format.splits)

lemma stays_noting [only_rules]: "(\<And>e. only stays (complain e)) \<Longrightarrow> only stays m \<Longrightarrow> only stays (noting ctx complain m es)"
  unfolding noting_def by (auto intro!: only_rules simp: Let_def split: sum.splits option.splits prod.splits)

lemma stays_complaining [only_rules]: "(\<And>e. only stays (complain e)) \<Longrightarrow> only stays m \<Longrightarrow> only stays (complaining complain ctx m)"
  unfolding complaining_def by (auto intro!: only_rules simp: Let_def split: sum.splits option.splits prod.splits)

lemma stays_dump_etcd_if_any [only_rules]: "only stays (dump_etcd_if_any fuel api lib st dir)"
  unfolding dump_etcd_if_any_def by (auto intro!: only_rules simp: Let_def split: sum.splits option.splits prod.splits)

lemma stays_get_or_panic_system_dumper [only_rules]: "only stays (get_or_panic_system_dumper api lib c b)"
  unfolding get_or_panic_system_dumper_def by (auto intro!: only_rules simp: Let_def split: sum.splits option.splits prod.splits)

lemma stays_collect_and_dump_loki_logs [only_rules]: "only stays (collect_and_dump_loki_logs fuel api lib d t)"
  unfolding collect_and_dump_loki_logs_def by (auto intro!: only_rules simp: Let_def split: sum.splits option.splits prod.splits)

lemma stays_dump_kind [only_rules]: "only stays m \<Longrightarrow> only stays (dump_kind api lib dir k m es)"
  unfolding dump_kind_def by (auto intro!: only_rules simp: Let_def split: sum.splits option.splits prod.splits)

lemma stays_dump_system [only_rules]: "only stays (dump_system fuel api lib d)"
  unfolding dump_system_def by (auto intro!: only_rules simp: Let_def split: sum.splits option.splits prod.splits)

end
