(* ===== verification/DumpSafety.thy ===== *)
theory DumpSafety
  imports DumpQuiet
begin

text \<open>
  What a dump reports and what it deletes: the dump of the system reports no error but a failure
  to fill the archive; the temporary directory is removed only after it was copied; and the
  commands that dump single resources, which archive and remove the directory twice.
\<close>

section \<open>Errors\<close>

lemma gives_dlog [gives_rules]: "Q () \<Longrightarrow> gives Q F (dlog api content)"
  unfolding dlog_def by (auto intro!: gives_rules split: sum.splits)

lemma gives_dpure [gives_rules]: "(\<And>a. Q a) \<Longrightarrow> gives Q F (dpure f ev)"
  by (rule givesI) (auto simp: dpure_def logged_def split: prod.splits sum.splits)

lemma gives_noting:
  assumes "gives (\<lambda>_. True) F m" "\<And>e. gives (\<lambda>_. True) (\<lambda>_. False) (complain e)"
  shows "gives (\<lambda>es. es = errors \<or> (\<exists>e. F e \<and> es = errors @ [ctx e])) (\<lambda>_. False) (noting ctx complain m errors)"
  unfolding noting_def
  by (rule gives_bind [OF gives_tryF [OF assms(1)]]) (auto intro!: gives_rules assms(2) split: sum.splits)

lemma gives_noting_any [gives_rules]:
  "(\<And>e. gives (\<lambda>_. True) (\<lambda>_. False) (complain e)) \<Longrightarrow> gives (\<lambda>_. True) (\<lambda>_. False) (noting ctx complain m errors)"
  unfolding noting_def by (auto intro!: gives_rules split: sum.splits)

lemma gives_or_exit [gives_rules]:
  "(\<And>a. Q a) \<Longrightarrow> (\<And>e. gives (\<lambda>_. True) (\<lambda>_. False) (complain e)) \<Longrightarrow> gives Q (\<lambda>_. False) (or_exit complain m)"
  unfolding or_exit_def by (auto intro!: gives_rules split: sum.splits)

lemma gives_dump_kind [gives_rules]: "gives (\<lambda>_. True) (\<lambda>_. False) (dump_kind api lib dir_path kind m errors)"
  unfolding dump_kind_def by (auto intro!: gives_rules split: sum.splits)

lemma dump_system_no_error: "gives (\<lambda>_. True) (\<lambda>_. False) (dump_system fuel api lib d)"
  unfolding dump_system_def by (auto intro!: gives_rules)

lemma system_dumper_no_error: "gives (\<lambda>_. True) (\<lambda>_. False) (get_or_panic_system_dumper api lib config b)"
  unfolding get_or_panic_system_dumper_def logger_of_def k8s_dumper_of_def etcd_dumper_of_def
  by (auto intro!: gives_rules split: sum.splits)

lemma gives_complaining:
  assumes "gives (\<lambda>_. True) F m" "\<And>e. gives (\<lambda>_. True) (\<lambda>_. False) (complain e)" "\<And>e. F e \<Longrightarrow> G (ctx e)"
  shows "gives (\<lambda>_. True) G (complaining complain ctx m)"
  unfolding complaining_def
  by (rule gives_bind [OF gives_tryF [OF assms(1)]])
    (auto intro!: gives_rules gives_mono [OF assms(2)] assms(3) split: sum.splits)

lemma gives_True: "gives (\<lambda>_. True) (\<lambda>_. True) m"
  by (rule givesI) auto

definition archive_error :: "dump_error \<Rightarrow> bool" where
  "archive_error e \<longleftrightarrow> (\<exists>io. e = ArchiveError io)"

lemma fill_archive_errors: "gives (\<lambda>_. True) archive_error (fill_archive_and_delete_tmp api lib ar dir_path)"
  unfolding fill_archive_and_delete_tmp_def delete_temporary_directory_def archive_error_def
  by (intro gives_rules gives_conv gives_complaining [OF gives_True] gives_complaining [where F = archive_error])
    (auto intro!: gives_rules gives_conv simp: archive_error_def)

lemma run_system_errors:
  "gives (\<lambda>errors. errors = [] \<or> (\<exists>io. errors = [ArchiveError io])) (\<lambda>_. False) (run_resource fuel api lib config (RSystem b))"
  unfolding run_resource_def resource.case attempt_def
  by (rule gives_bind [OF system_dumper_no_error],
      rule gives_bind [OF gives_noting [OF dump_system_no_error]],
      auto intro!: gives_rules gives_mono [OF gives_noting [OF fill_archive_errors]] simp: archive_error_def)


section \<open>The temporary directory\<close>

text \<open>A directory is removed only after it was appended to an archive and the archive was finished.\<close>

definition archived_first :: "dump_trace list \<Rightarrow> bool" where
  "archived_first d \<longleftrightarrow>
     (\<forall>pre dir r post. d = pre @ DRemoveDir dir r # post \<longrightarrow>
        (\<exists>a tar b. pre = a @ DArchive tar dir (Inr ()) # DFinish tar (Inr ()) # b))"

lemma archived_first_append:
  assumes "archived_first d" "archived_first e"
  shows "archived_first (d @ e)"
  unfolding archived_first_def
proof (intro allI impI)
  fix pre dir r post
  assume de: "d @ e = pre @ DRemoveDir dir r # post"
  then consider (left) post' where "d = pre @ DRemoveDir dir r # post'" | (right) pre' where "pre = d @ pre'" "e = pre' @ DRemoveDir dir r # post"
    by (auto simp: append_eq_append_conv2 append_eq_Cons_conv)
  then show "\<exists>a tar b. pre = a @ DArchive tar dir (Inr ()) # DFinish tar (Inr ()) # b"
  proof cases
    case left
    with assms(1) show ?thesis unfolding archived_first_def by blast
  next
    case right
    with assms(2) obtain a tar b where "pre' = a @ DArchive tar dir (Inr ()) # DFinish tar (Inr ()) # b"
      unfolding archived_first_def by blast
    with right show ?thesis by (intro exI [of _ "d @ a"]) auto
  qed
qed

lemma stays_archived_first: "list_all stays d \<Longrightarrow> archived_first d"
  by (auto simp: archived_first_def list_all_iff)

lemma archived_first_remove:
  "archived_first ([DArchive tar dir (Inr ()), DFinish tar (Inr ())] @ [DRemoveDir dir r])"
  unfolding archived_first_def
proof (intro allI impI)
  fix pre dir' r' post
  assume "[DArchive tar dir (Inr ()), DFinish tar (Inr ())] @ [DRemoveDir dir r] = pre @ DRemoveDir dir' r' # post"
  then have "pre = [DArchive tar dir (Inr ()), DFinish tar (Inr ())]" "dir' = dir"
    by (auto simp: append_eq_Cons_conv Cons_eq_append_conv)
  then show "\<exists>a tar b. pre = a @ DArchive tar dir' (Inr ()) # DFinish tar (Inr ()) # b"
    by (intro exI [of _ "[]"] exI [of _ tar]) auto
qed

definition careful :: "('w, 'e, 'a) dump \<Rightarrow> bool" where
  "careful m \<longleftrightarrow> emits m (\<lambda>_. archived_first) archived_first"

lemma careful_only: "only stays m \<Longrightarrow> careful m"
  unfolding careful_def only_def by (erule emits_conseq) (auto intro: stays_archived_first)

lemma careful_bind: "careful m \<Longrightarrow> (\<And>a. careful (k a)) \<Longrightarrow> careful (bindP m k)"
  unfolding careful_def
  by (rule emits_bindI [where ?Q0.0 = "\<lambda>_. archived_first" and ?I0.0 = archived_first
        and R = "\<lambda>_ _. archived_first" and J = "\<lambda>_. archived_first"])
    (auto intro: archived_first_append)

lemma careful_bind_gives:
  assumes "careful m" "gives P F m" "\<And>a. P a \<Longrightarrow> careful (k a)"
  shows "careful (bindP m k)"
  unfolding careful_def
proof (rule emits_seq [OF emits_gives [OF assms(1) [unfolded careful_def] assms(2)]])
  show "emits (k a) (\<lambda>b d2. archived_first (d1 @ d2)) (\<lambda>d2. archived_first (d1 @ d2))" if "P a \<and> archived_first d1" for a d1
    using assms(3) [of a] that unfolding careful_def by (auto intro: emits_conseq archived_first_append)
qed

lemma careful_tryF: "careful m \<Longrightarrow> careful (tryF m)"
  unfolding careful_def by (drule emits_tryF, erule emits_conseq) (simp_all split: sum.splits)

lemma careful_noting: "careful m \<Longrightarrow> (\<And>e. only stays (complain e)) \<Longrightarrow> careful (noting ctx complain m errors)"
  unfolding noting_def
  by (intro careful_bind careful_tryF) (auto intro!: careful_only only_rules split: sum.splits)

lemma emits_copy_to_archive:
  assumes "tar_writer ar = Some tar"
  shows "emits (copy_to_archive api ar src dest)
    (\<lambda>_ d. d = [DArchive tar src (Inr ()), DFinish tar (Inr ())]) (list_all stays)"
  unfolding copy_to_archive_def assms option.case dcall_def
  by (rule emits_seq [OF emits_logged_exact], rule emits_conseq [OF emits_logged_exact]) auto

lemma emits_complaining:
  assumes "emits m Q (list_all stays)" "\<And>e. only stays (complain e)"
  shows "emits (complaining complain ctx m) Q (list_all stays)"
  unfolding complaining_def
proof (rule emits_seq [OF emits_tryF [OF assms(1)]], goal_cases)
  case (1 r d1)
  show ?case
  proof (cases r)
    case (Inl e)
    have "emits (bindP (complain e) (\<lambda>_. fault_of (ctx e))) (\<lambda>_ _. False) (list_all stays)"
      by (rule emits_seq [OF only_emits [OF assms(2)]]) (auto simp: fault_of_def emits_def)
    from emits_conseq [OF this] 1 Inl show ?thesis by fastforce
  next
    case (Inr a)
    with 1 show ?thesis by (simp add: emits_ret_iff)
  qed
qed auto

lemma emits_delete_tmp: "emits (delete_temporary_directory api dir) (\<lambda>_ d. \<exists>r. d = [DRemoveDir dir r]) (\<lambda>d. \<exists>r. d = [DRemoveDir dir r])"
  unfolding delete_temporary_directory_def remove_dir_all_def dcall_def conv_def
proof (rule emits_seq [OF emits_tryF [OF emits_logged_exact]], goal_cases)
  case (1 r d1)
  then show ?case by (auto simp: emits_ret_iff fault_of_def emits_def split: sum.splits)
qed auto

text \<open>The copy followed by whatever begins with the deletion.\<close>

lemma careful_copy_delete:
  assumes "tar_writer ar = Some tar" "\<And>e. only stays (complain e)" "\<And>r. only stays (k r)"
  shows "careful (bindP (complaining complain ctx (copy_to_archive api ar dir dest)) (\<lambda>_.
     bindP (tryF (delete_temporary_directory api dir)) k))"
  unfolding careful_def
proof (rule emits_seq [OF emits_complaining [OF emits_copy_to_archive [OF assms(1)] assms(2)]], goal_cases)
  case (1 a d1)
  show ?case unfolding 1
  proof (rule emits_seq [OF emits_tryF [OF emits_delete_tmp]], goal_cases)
    case (1 r d2)
    then obtain x where d2: "d2 = [DRemoveDir dir x]" by (auto split: sum.splits)
    have "archived_first ([DArchive tar dir (Inr ()), DFinish tar (Inr ())] @ d2 @ d3)" if "list_all stays d3" for d3
      using archived_first_append [OF archived_first_remove [of tar dir x] stays_archived_first [OF that]] d2 by simp
    then show ?case by (auto intro: emits_conseq [OF only_emits [OF assms(3)]])
  qed (use archived_first_remove [of tar dir] in auto)
qed (auto intro: stays_archived_first)

lemma complaining_tryF: "complaining complain ctx m =
  bindP (tryF m) (\<lambda>r. case r of Inl e \<Rightarrow> bindP (complain e) (\<lambda>_. fault_of (ctx e)) | Inr a \<Rightarrow> retP a)"
  by (simp add: complaining_def)

lemma careful_fill:
  assumes "tar_writer ar \<noteq> None"
  shows "careful (fill_archive_and_delete_tmp api lib ar dir)"
proof -
  from assms obtain tar where tar: "tar_writer ar = Some tar" by blast
  show ?thesis unfolding fill_archive_and_delete_tmp_def complaining_tryF [of _ id]
    by (intro careful_bind [OF careful_only] careful_copy_delete [OF tar]) (auto intro!: only_rules split: sum.splits)
qed

lemma gives_or_exit_of:
  assumes "gives Q F m" "\<And>e. gives (\<lambda>_. True) (\<lambda>_. False) (complain e)"
  shows "gives Q (\<lambda>_. False) (or_exit complain m)"
  unfolding or_exit_def
proof (rule gives_bind [OF gives_tryF [OF assms(1)]])
  fix r
  assume "case r of Inl e \<Rightarrow> F e | Inr a \<Rightarrow> Q a"
  then show "gives Q (\<lambda>_. False) (case r of Inl e \<Rightarrow> bindP (complain e) (\<lambda>_. failP Exit) | Inr a \<Rightarrow> retP a)"
    by (cases r) (simp_all add: gives_ret gives_bind [OF assms(2)] gives_stop)
qed

lemma archive_new_open: "gives (\<lambda>ar. tar_writer ar \<noteq> None) (\<lambda>_. True) (archive_new api (Some dir))"
  unfolding archive_new_def option.case Let_def by (auto intro!: gives_rules gives_conv)

lemma system_dumper_open: "gives (\<lambda>d. tar_writer (sd_archive d) \<noteq> None) (\<lambda>_. False) (get_or_panic_system_dumper api lib config b)"
  unfolding get_or_panic_system_dumper_def logger_of_def k8s_dumper_of_def etcd_dumper_of_def
  by (intro gives_bind_any gives_bind [OF gives_or_exit_of [OF archive_new_open]])
    (auto intro!: gives_rules split: sum.splits)

lemma resource_dumper_open:
  "gives (\<lambda>d. rd_output_format d = Tar \<longrightarrow> tar_writer (rd_archive d) \<noteq> None) (\<lambda>_. False) (get_or_panic_resource_dumper api lib config)"
proof (cases "dc_output_format config")
  case Tar
  show ?thesis
    unfolding get_or_panic_resource_dumper_def Tar output_format.case bindP_assoc bindP_retP prod.case
      logger_of_def k8s_dumper_of_def etcd_dumper_of_def
    by (intro gives_bind_any gives_bind [OF gives_or_exit_of [OF archive_new_open]])
      (auto intro!: gives_rules split: sum.splits)
next
  case Stdout
  show ?thesis
    unfolding get_or_panic_resource_dumper_def Stdout init_no_log_file_def set_tool_log_def tool_log_def
      logger_of_def k8s_dumper_of_def etcd_dumper_of_def
    by (auto intro!: gives_rules split: sum.splits option.splits)
qed

lemma careful_dump_etcd:
  assumes "rd_output_format d = Tar \<longrightarrow> tar_writer (rd_archive d) \<noteq> None"
  shows "careful (dump_etcd fuel api lib d)"
proof (cases "rd_output_format d")
  case Tar
  with assms obtain tar where tar: "tar_writer (rd_archive d) = Some tar" by blast
  show ?thesis unfolding dump_etcd_def Tar
    by (simp, intro careful_bind [OF careful_only] careful_copy_delete [OF tar]) (auto intro!: only_rules split: sum.splits)
next
  case Stdout
  then show ?thesis unfolding dump_etcd_def by (auto intro!: careful_only only_rules)
qed

lemma run_careful:
  assumes "r = RLoki \<or> (\<exists>b. r = RSystem b) \<or> (\<exists>b. r = REtcd b)"
  shows "careful (run_resource fuel api lib config r)"
  using assms
proof (elim disjE exE)
  assume r: "r = RLoki"
  show ?thesis unfolding r run_resource_def resource.case attempt_def Let_def
    by (rule careful_bind_gives [OF careful_only system_dumper_open], intro only_rules,
        intro careful_bind [OF careful_only] careful_noting careful_fill) (auto intro!: only_rules)
next
  fix b
  assume r: "r = RSystem b"
  show ?thesis unfolding r run_resource_def resource.case attempt_def Let_def
    by (rule careful_bind_gives [OF careful_only system_dumper_open], intro only_rules,
        intro careful_bind [OF careful_only] careful_noting careful_fill) (auto intro!: only_rules)
next
  fix b
  assume r: "r = REtcd b"
  show ?thesis unfolding r run_resource_def resource.case attempt_def Let_def
    by (rule careful_bind_gives [OF careful_only resource_dumper_open], intro only_rules,
        intro careful_noting careful_dump_etcd) (auto intro!: only_rules)
qed


end
