(* ===== verification/DumpComplete.thy ===== *)
theory DumpComplete
  imports DumpSystem
begin

text \<open>
  The two loops that a dump depends on, run against a store that does not change meanwhile: the dump
  of etcd writes every key once, and the dump of the logs from Loki writes every line once.
\<close>

section \<open>A file system without failures\<close>

definition files_ok :: "'w dump_api \<Rightarrow> bool" where
  "files_ok api \<longleftrightarrow>
     (\<forall>path w. fst (da_file_create api path w) = Inr ()) \<and>
     (\<forall>path content w. fst (da_write_all api path content w) = Inr ()) \<and>
     (\<forall>path w. fst (da_flush api path w) = Inr ())"

lemma does_file_create: "files_ok api \<Longrightarrow> does (file_create api path) () [DCreate path (Inr ())]"
  unfolding file_create_def files_ok_def by (rule does_dcall) simp

lemma does_write_all: "files_ok api \<Longrightarrow> does (write_all api path content) () [DWrite path content (Inr ())]"
  unfolding write_all_def files_ok_def by (rule does_dcall) simp

lemma does_file_flush: "files_ok api \<Longrightarrow> does (file_flush api path) () [DFlush path (Inr ())]"
  unfolding file_flush_def files_ok_def by (rule does_dcall) simp

text \<open>What was successfully written to files, in order.\<close>

primrec written :: "dump_trace list \<Rightarrow> (string \<times> string) list" where
  "written [] = []"
| "written (ev # d) = (case ev of DWrite path content (Inr _) \<Rightarrow> [(path, content)] | _ \<Rightarrow> []) @ written d"

lemma written_append [simp]: "written (d @ e) = written d @ written e"
  by (induction d) auto

lemma written_map [simp]: "written (map (\<lambda>x. DWrite (f x) (g x) (Inr ())) xs) = map (\<lambda>x. (f x, g x)) xs"
  by (induction xs) auto

section \<open>etcd\<close>

text \<open>The order of keys: bytewise, a prefix first.\<close>

fun key_less :: "string \<Rightarrow> string \<Rightarrow> bool" where
  "key_less xs [] = False"
| "key_less [] (y # ys) = True"
| "key_less (x # xs) (y # ys) = ((of_char x :: nat) < of_char y \<or> x = y \<and> key_less xs ys)"

lemma key_less_asym: "key_less a b \<Longrightarrow> \<not> key_less b a"
  by (induction a b rule: key_less.induct) auto

lemma key_less_irrefl [simp]: "\<not> key_less a a"
  using key_less_asym by blast

lemma key_less_prefix: "starts_with a b \<Longrightarrow> b \<noteq> a \<Longrightarrow> key_less a b"
  by (induction a b rule: key_less.induct) (auto simp: starts_with_iff neq_Nil_conv)

lemma starts_with_trans: "starts_with a b \<Longrightarrow> starts_with b c \<Longrightarrow> starts_with a c"
  by (auto simp: starts_with_iff)

definition etcd_serves :: "'w dump_api \<Rightarrow> (string \<times> string) list \<Rightarrow> bool" where
  "etcd_serves api kvs \<longleftrightarrow>
     sorted_wrt (\<lambda>a b. key_less (fst a) (fst b)) kvs \<and>
     (\<forall>prefix w. fst (da_etcd_get_all api prefix ETCD_PAGED_LIMIT w) = Inr (filter (\<lambda>kv. starts_with prefix (fst kv)) kvs))"

lemma filter_last_key:
  assumes sorted: "sorted_wrt (\<lambda>a b. key_less (fst a) (fst b)) kvs"
    and batch: "filter (\<lambda>kv. starts_with prefix (fst kv)) kvs = batch" "batch \<noteq> []"
  shows "filter (\<lambda>kv. starts_with (fst (last batch)) (fst kv)) kvs = [last batch]"
proof -
  let ?l = "last batch"
  from batch have "?l \<in> set (filter (\<lambda>kv. starts_with prefix (fst kv)) kvs)" by simp
  then have l: "?l \<in> set kvs" "starts_with prefix (fst ?l)" unfolding set_filter by auto
  from sorted batch(1) have sb: "sorted_wrt (\<lambda>a b. key_less (fst a) (fst b)) batch"
    using sorted_wrt_filter by blast
  have only_last: "kv = ?l" if kv: "kv \<in> set kvs" "starts_with (fst ?l) (fst kv)" for kv
  proof (rule ccontr)
    assume neq: "kv \<noteq> ?l"
    from starts_with_trans [OF l(2) kv(2)] kv(1) batch(1) have "kv \<in> set batch" by auto
    with neq batch(2) sb have "key_less (fst kv) (fst ?l)"
      by (cases batch rule: rev_cases) (auto simp: sorted_wrt_append)
    with kv(2) key_less_prefix key_less_asym show False by (metis key_less_irrefl)
  qed
  from l(1) obtain xs ys where kvs: "kvs = xs @ ?l # ys" by (meson split_list)
  have "\<not> starts_with (fst ?l) (fst kv)" if "kv \<in> set xs \<union> set ys" for kv
    using only_last [of kv] that kvs sorted by (auto simp: sorted_wrt_append)
  then have "filter (\<lambda>kv. starts_with (fst ?l) (fst kv)) xs = []" "filter (\<lambda>kv. starts_with (fst ?l) (fst kv)) ys = []"
    by (auto simp: filter_empty_conv)
  then show ?thesis by (subst kvs) (simp add: starts_with_iff)
qed

lemma does_etcd_round:
  assumes files: "files_ok api" and store: "etcd_serves api kvs"
    and batch: "filter (\<lambda>kv. starts_with prefix (fst kv)) kvs = all" "batch = (if \<not> first \<and> all \<noteq> [] then tl all else all)"
  shows "does (etcd_round api lib (Some path) (prefix, first))
     (if batch = [] then Inr () else Inl (fst (last batch), False))
     ([DEtcd prefix (Inr all)] @ map (\<lambda>kv. DWrite path (etcd_entry lib kv @ EOL @ EOL) (Inr ())) batch @ [DFlush path (Inr ())])"
proof -
  have get: "does (etcd_get api prefix) all [DEtcd prefix (Inr all)]"
    unfolding etcd_get_def by (rule does_dcall) (use store batch(1) in \<open>simp add: etcd_serves_def\<close>)
  have "does (etcd_write api lib (Some path) kv) () [DWrite path (etcd_entry lib kv @ EOL @ EOL) (Inr ())]" for kv
    unfolding etcd_write_def option.case by (intro does_conv does_write_all files)
  from does_for [OF this] have written: "does (forP batch (etcd_write api lib (Some path))) ()
      (map (\<lambda>kv. DWrite path (etcd_entry lib kv @ EOL @ EOL) (Inr ())) batch)"
    by (simp add: concat_map_singleton)
  show ?thesis unfolding etcd_round_def prod.case Let_def option.case batch(2) [symmetric]
    by (rule does_bind [OF get], unfold batch(2) [symmetric], rule does_bind [OF written],
        rule does_bind [OF does_conv [OF does_file_flush [OF files]], of _ _ "[]", simplified]) (simp add: does_ret)
qed

text \<open>
  Property C32.  On a store whose keys come in bytewise order and do not change during the dump, and
  a file system without failures, the dump of etcd returns after at most two rounds, and has
  written each entry below the prefix exactly once, in order.
\<close>

theorem etcd_dump_complete:
  assumes "files_ok api" "etcd_serves api kvs"
    and "batch = filter (\<lambda>kv. starts_with (es_key_prefix store) (fst kv)) kvs"
    and "path = path_join dir ''etcd_dump''"
  shows "\<exists>t. etcd_dump (Suc (Suc n)) api lib store dir False s = (Ok (), t) \<and>
     written (rt_trace t) = written (rt_trace s) @ map (\<lambda>kv. (path, etcd_entry lib kv @ EOL @ EOL)) batch"
proof -
  let ?w = "map (\<lambda>kv. DWrite path (etcd_entry lib kv @ EOL @ EOL) (Inr ())) batch"
  note round1 = does_etcd_round [OF assms(1,2) assms(3) [symmetric], where first = True and path = path and lib = lib, simplified]
  have "\<exists>d. does (loopP (Suc (Suc n)) (etcd_round api lib (Some path)) (es_key_prefix store, True)) () d \<and> written d = map (\<lambda>kv. (path, etcd_entry lib kv @ EOL @ EOL)) batch"
  proof (cases "batch = []")
    case True
    with round1 have "does (loopP (Suc (Suc n)) (etcd_round api lib (Some path)) (es_key_prefix store, True)) ()
        [DEtcd (es_key_prefix store) (Inr []), DFlush path (Inr ())]"
      by (intro does_loop_end) simp
    with True show ?thesis by (intro exI conjI) auto
  next
    case False
    have "does (etcd_round api lib (Some path) (fst (last batch), False)) (Inr ())
        [DEtcd (fst (last batch)) (Inr [last batch]), DFlush path (Inr ())]"
      using does_etcd_round [OF assms(1,2) filter_last_key [OF _ assms(3) [symmetric] False],
          where first = False and path = path and lib = lib and batch = "[]"] assms(2)
      by (simp add: etcd_serves_def)
    then have "does (loopP (Suc n) (etcd_round api lib (Some path)) (fst (last batch), False)) ()
        [DEtcd (fst (last batch)) (Inr [last batch]), DFlush path (Inr ())]"
      by (rule does_loop_end)
    then have "does (loopP (Suc (Suc n)) (etcd_round api lib (Some path)) (es_key_prefix store, True)) ()
        (([DEtcd (es_key_prefix store) (Inr batch)] @ ?w @ [DFlush path (Inr ())]) @
         [DEtcd (fst (last batch)) (Inr [last batch]), DFlush path (Inr ())])"
      using round1 False by (intro does_loop_step) auto
    then show ?thesis by (intro exI conjI) auto
  qed
  then obtain d where d: "does (loopP (Suc (Suc n)) (etcd_round api lib (Some path)) (es_key_prefix store, True)) () d"
    "written d = map (\<lambda>kv. (path, etcd_entry lib kv @ EOL @ EOL)) batch" by blast
  have "does (etcd_dump (Suc (Suc n)) api lib store dir False) () ([DCreate path (Inr ())] @ d)"
    unfolding etcd_dump_def Let_def assms(4) [symmetric]
    by (simp only: if_False bindP_assoc bindP_retP, rule does_bind [OF does_conv [OF does_file_create [OF assms(1)]] d(1)])
  then obtain t where "etcd_dump (Suc (Suc n)) api lib store dir False s = (Ok (), t)"
    "rt_trace t = rt_trace s @ [DCreate path (Inr ())] @ d" by (rule doesD)
  with d(2) show ?thesis by simp
qed

section \<open>Loki\<close>

text \<open>
  A Loki service with one stream of log lines, each with its time: a request is answered by at
  most \<open>limit\<close> lines from the start time on, in order.
\<close>

definition loki_answer :: "nat \<Rightarrow> (nat \<times> string) list \<Rightarrow> nat \<Rightarrow> loki_response" where
  "loki_answer limit entries start =
     (let page = take limit (filter (\<lambda>e. start \<le> fst e) entries) in
      \<lparr>lr_status = ''success'',
       lr_result = (if page = [] then [] else [\<lparr>ls_values = map (\<lambda>(t, line). [nat_to_string t, line]) page\<rparr>])\<rparr>)"

definition loki_serves ::
  "'w dump_api \<Rightarrow> dump_lib \<Rightarrow> loki_poll \<Rightarrow> nat \<Rightarrow> (nat \<times> string) list \<Rightarrow> (nat \<Rightarrow> string) \<Rightarrow> bool" where
  "loki_serves api lib p limit entries body \<longleftrightarrow>
     (\<forall>start w. dl_http_request lib (request_str (p\<lparr>lp_since := start\<rparr>)) = Inr () \<and>
        fst (da_loki_call api (request_str (p\<lparr>lp_since := start\<rparr>)) w) = Inr (True, Inr (body start)) \<and>
        dl_loki_decode lib (body start) = Inr (loki_answer limit entries start))"

text \<open>The lines are at least one millisecond apart, and their times are representable.\<close>

definition spaced :: "(nat \<times> string) list \<Rightarrow> bool" where
  "spaced entries \<longleftrightarrow>
     sorted_wrt (\<lambda>a b. fst a + 1000000 \<le> fst b) entries \<and> (\<forall>e \<in> set entries. 0 < fst e \<and> fst e + 1000000 < 2 ^ 128)"

lemma remaining_after_page:
  assumes "spaced entries" "rest = filter (\<lambda>e. start \<le> fst e) entries" "page = take limit rest" "page \<noteq> []"
  shows "filter (\<lambda>e. fst (last page) + 1000000 \<le> fst e) entries = drop limit rest"
proof -
  let ?next = "fst (last page) + 1000000"
  have split: "rest = page @ drop limit rest" using assms(3) by simp
  have sorted: "sorted_wrt (\<lambda>a b. fst a + 1000000 \<le> fst b) (page @ drop limit rest)"
    using assms(1,2) split unfolding spaced_def by (metis sorted_wrt_filter)
  have "last page \<in> set rest" using assms(3,4) by (metis in_set_takeD last_in_set)
  then have "start \<le> fst (last page)" using assms(2) by simp
  then have "filter (\<lambda>e. ?next \<le> fst e) entries = filter (\<lambda>e. ?next \<le> fst e) rest"
    unfolding assms(2) filter_filter by (intro filter_cong) auto
  also have "\<dots> = filter (\<lambda>e. ?next \<le> fst e) page @ filter (\<lambda>e. ?next \<le> fst e) (drop limit rest)"
    by (metis split filter_append)
  also have "filter (\<lambda>e. ?next \<le> fst e) page = []"
    using sorted assms(4) by (cases page rule: rev_cases) (fastforce simp: filter_empty_conv sorted_wrt_append)+
  also have "filter (\<lambda>e. ?next \<le> fst e) (drop limit rest) = drop limit rest"
    using sorted assms(4) by (auto simp: filter_id_conv sorted_wrt_append)
  finally show ?thesis by simp
qed

lemma loki_answer_logs:
  "loki_logs (loki_answer limit entries start) =
     filter (\<lambda>line. line \<noteq> []) (map snd (take limit (filter (\<lambda>e. start \<le> fst e) entries)))"
  by (auto simp: loki_logs_def loki_answer_def Let_def stream_logs_def intro!: arg_cong [where f = "filter _"])

lemma loki_answer_last:
  assumes "page = take limit (filter (\<lambda>e. start \<le> fst e) entries)" "page \<noteq> []" "fst (last page) < 2 ^ 128"
  shows "get_last_stream_unix_time (loki_answer limit entries start) = fst (last page)"
proof -
  have "lr_result (loki_answer limit entries start) = [\<lparr>ls_values = map (\<lambda>(t, line). [nat_to_string t, line]) page\<rparr>]"
    using assms(2) unfolding loki_answer_def assms(1) [symmetric] by simp
  moreover have "last (map (\<lambda>(t, line). [nat_to_string t, line]) page) = [nat_to_string (fst (last page)), snd (last page)]"
    using assms(2) by (simp add: last_map split_beta)
  ultimately show ?thesis
    using assms(2,3) parse_uint_nat_to_string [OF assms(3)] by (simp add: get_last_stream_unix_time_def unwrap_or_def)
qed

lemma does_poll_next:
  assumes serves: "loki_serves api lib p limit entries body" and spaced: "spaced entries"
    and p': "p' = p\<lparr>lp_since := start\<rparr>" and page: "page = take limit (filter (\<lambda>e. start \<le> fst e) entries)"
  shows "does (poll_next api lib p')
     (if page = [] then (None, p') else (Some (filter (\<lambda>line. line \<noteq> []) (map snd page)), p\<lparr>lp_since := fst (last page) + 1000000\<rparr>))
     [DLoki (request_str p') (Inr (True, Inr (body start)))]"
proof -
  have http: "dl_http_request lib (request_str p') = Inr ()"
    and decode: "dl_loki_decode lib (body start) = Inr (loki_answer limit entries start)"
    using serves unfolding loki_serves_def p' by auto
  have answer: "fst (da_loki_call api (request_str p') w) = Inr (True, Inr (body start))" for w
    using serves unfolding loki_serves_def p' by auto
  have "does (poll_next api lib p') (if page = [] then (None, p') else (Some (loki_logs (loki_answer limit entries start)),
      p'\<lparr>lp_since := fst (last page) + 1000000\<rparr>)) ([DLoki (request_str p') (Inr (True, Inr (body start)))] @ [])"
  proof (cases "page = []")
    case True
    then show ?thesis unfolding poll_next_def http map_err_simps
      by (intro does_bind_pure [OF does_liftF] does_bind [OF does_dcall [OF answer]])
        (auto simp: decode loki_answer_def page map_err_def intro!: does_bind_pure [OF does_liftF] does_ret)
  next
    case False
    then have "last page \<in> set entries" unfolding page by (metis filter_is_subset in_set_takeD last_in_set subsetD)
    with spaced have last: "0 < fst (last page)" "fst (last page) + 1000000 < 2 ^ 128" by (auto simp: spaced_def)
    with loki_answer_last [OF page False] have time: "get_last_stream_unix_time (loki_answer limit entries start) = fst (last page)"
      by simp
    have "lr_result (loki_answer limit entries start) \<noteq> []" using False by (simp add: loki_answer_def page Let_def)
    with False last show ?thesis unfolding poll_next_def http map_err_simps
      by (intro does_bind_pure [OF does_liftF] does_bind [OF does_dcall [OF answer]])
        (auto simp: decode time u128_add_def map_err_def Let_def intro!: does_bind_pure [OF does_liftF] does_bind_pure [OF does_or_panic] does_ret)
  qed
  then show ?thesis by (simp add: loki_answer_logs page [symmetric] p' split: if_splits)
qed

lemma does_loki_loop:
  assumes files: "files_ok api" and serves: "loki_serves api lib p limit entries body" and spaced: "spaced entries" and limit: "0 < limit"
    and "rest = filter (\<lambda>e. start \<le> fst e) entries" "length rest < fuel"
  shows "\<exists>d. does (loopP fuel (loki_round api lib path) (p\<lparr>lp_since := start\<rparr>, b)) () d \<and>
     written d = map (\<lambda>line. (path, str_trim_end line @ EOL)) (filter (\<lambda>line. line \<noteq> []) (map snd rest))"
  using assms(5,6)
proof (induction fuel arbitrary: start rest b)
  case 0
  then show ?case by simp
next
  case (Suc fuel)
  let ?p = "p\<lparr>lp_since := start\<rparr>" and ?page = "take limit rest"
  let ?logs = "filter (\<lambda>line. line \<noteq> []) (map snd ?page)"
  let ?q = "DLoki (request_str ?p) (Inr (True, Inr (body start)))"
  note poll = does_poll_next [OF serves spaced refl refl, of start, folded Suc.prems(1)]
  show ?case
  proof (cases "rest = []")
    case True
    with poll have "does (loki_round api lib path (?p, b)) (Inr ()) ([?q] @ [])"
      unfolding loki_round_def prod.case by (intro does_bind [OF does_tryF]) (auto intro: does_ret)
    then have "does (loopP (Suc fuel) (loki_round api lib path) (?p, b)) () ([?q] @ [])" by (rule does_loop_end)
    with True show ?thesis by (intro exI conjI) auto
  next
    case False
    with limit have page: "?page \<noteq> []" by simp
    let ?start = "fst (last ?page) + 1000000"
    have "does (conv LIOError (write_all api path (str_trim_end msg @ EOL))) () [DWrite path (str_trim_end msg @ EOL) (Inr ())]" for msg
      by (intro does_conv does_write_all files)
    from does_for [OF this] have lines: "does (forP ?logs (\<lambda>msg. conv LIOError (write_all api path (str_trim_end msg @ EOL)))) ()
        (map (\<lambda>msg. DWrite path (str_trim_end msg @ EOL) (Inr ())) ?logs)"
      by (simp add: concat_map_singleton)
    have round: "does (loki_round api lib path (?p, b)) (Inl (p\<lparr>lp_since := ?start\<rparr>, True))
        ([?q] @ map (\<lambda>msg. DWrite path (str_trim_end msg @ EOL) (Inr ())) ?logs @ [])"
      unfolding loki_round_def prod.case
      by (rule does_bind [OF does_tryF [OF poll [unfolded if_not_P [OF page]]]], unfold sum.case prod.case option.case,
          rule does_bind [OF lines does_ret])
    have "length (drop limit rest) < fuel" using Suc.prems(2) limit False by (cases rest) auto
    then obtain d where loop: "does (loopP fuel (loki_round api lib path) (p\<lparr>lp_since := ?start\<rparr>, True)) () d"
      and d: "written d = map (\<lambda>line. (path, str_trim_end line @ EOL)) (filter (\<lambda>line. line \<noteq> []) (map snd (drop limit rest)))"
      using Suc.IH [OF remaining_after_page [OF spaced Suc.prems(1) refl page, symmetric], of True]
      by blast
    have "filter (\<lambda>line. line \<noteq> []) (map snd rest) = ?logs @ filter (\<lambda>line. line \<noteq> []) (map snd (drop limit rest))"
      by (metis append_take_drop_id filter_append map_append)
    with does_loop_step [OF round loop] d show ?thesis by (intro exI conjI) auto
  qed
qed

text \<open>
  Property C31.  Against a Loki service with one stream, whose lines are at least one millisecond apart, and
  a file system without failures: the collection of historical logs ends, and the file holds
  each line since the given time that is not empty, once and in order, without the white space at
  its end.
\<close>

theorem loki_logs_complete:
  assumes "files_ok api" "label_filters label_selector = Some filters"
    and "loki_query filters container_name host_name = (file_name, query)"
    and "loki_serves api lib (loki_poller lib client query) (lc_limit client) entries body"
    and "spaced entries" "0 < lc_limit client" "length entries < fuel"
  shows "\<exists>t. loki_fetch_and_dump_logs fuel api lib client label_selector container_name host_name dir s = (Ok (), t) \<and>
     written (rt_trace t) = written (rt_trace s) @
       map (\<lambda>line. (path_join dir file_name, str_trim_end line @ EOL))
         (filter (\<lambda>line. line \<noteq> []) (map snd (filter (\<lambda>e. lc_since client \<le> fst e) entries)))"
proof -
  let ?path = "path_join dir file_name" and ?p = "loki_poller lib client query"
  have p: "?p\<lparr>lp_since := lc_since client\<rparr> = ?p" by (simp add: loki_poller_def)
  have fuel: "length (filter (\<lambda>e. lc_since client \<le> fst e) entries) < fuel"
    using assms(7) length_filter_le le_less_trans by blast
  obtain d where d: "does (loopP fuel (loki_round api lib ?path) (?p, False)) () d"
    "written d = map (\<lambda>line. (?path, str_trim_end line @ EOL))
       (filter (\<lambda>line. line \<noteq> []) (map snd (filter (\<lambda>e. lc_since client \<le> fst e) entries)))"
    using does_loki_loop [OF assms(1,4,5,6) refl fuel] unfolding p by blast
  have "does (loki_fetch_and_dump_logs fuel api lib client label_selector container_name host_name dir) ()
      ([DCreate ?path (Inr ())] @ d)"
    unfolding loki_fetch_and_dump_logs_def assms(2)
    by (rule does_bind_pure [OF does_or_panic], unfold assms(3) Let_def prod.case,
        rule does_bind [OF does_conv [OF does_file_create [OF assms(1)]] d(1)])
  then obtain t where "loki_fetch_and_dump_logs fuel api lib client label_selector container_name host_name dir s = (Ok (), t)"
    "rt_trace t = rt_trace s @ [DCreate ?path (Inr ())] @ d" by (rule doesD)
  with d(2) show ?thesis by simp
qed

end
