(* ===== verification/DumpListing.thy ===== *)
theory DumpListing
  imports DumpK8s DumpResources
begin

text \<open>
  The listings of the support tool and of call-home go through the pages of a service like those of the
  upgrade job: each is an instance of the interface \<open>paged_listing\<close>, and so returns the whole list
  that a service offers.  For the dump of all volumes this gives one topology per volume.
\<close>

section \<open>Listings in pages\<close>

text \<open>
  One page each.  The REST API has an optional token, of which none ends the listing; the listings of
  Kubernetes carry the token in their parameters, and an empty token ends the listing of events.
\<close>

definition dump_volumes_page :: "'w dump_api \<Rightarrow> int option \<Rightarrow> ('w, resource_error, d_volume list \<times> int option option) dump" where
  "dump_volumes_page api tok =
     bindP (dread (da_get_volumes api MAX_RESOURCE_ENTRIES tok) ''get_volumes'' RRestJsonError) (\<lambda>(entries, next).
     retP (entries, map_option Some next))"

definition dump_snapshots_page :: "'w dump_api \<Rightarrow> int option \<Rightarrow> ('w, resource_error, string list \<times> int option option) dump" where
  "dump_snapshots_page api tok =
     bindP (dread (da_get_snapshots api MAX_RESOURCE_ENTRIES tok) ''get_volumes_snapshots'' RRestJsonError) (\<lambda>(entries, next).
     retP (entries, map_option Some next))"

definition dump_pods_page :: "'w dump_api \<Rightarrow> client_set \<Rightarrow> list_params \<Rightarrow> ('w, k8s_resource_error, d_pod list \<times> list_params option) dump" where
  "dump_pods_page api cs params =
     bindP (dread (da_list_pods api (cs_namespace cs) params) ''list_pods'' ClientError) (\<lambda>(items, cont).
     retP (items, map_option (\<lambda>token. params\<lparr>lp_continue := Some token\<rparr>) cont))"

definition dump_events_page :: "'w dump_api \<Rightarrow> client_set \<Rightarrow> list_params \<Rightarrow> ('w, k8s_resource_error, d_event list \<times> list_params option) dump" where
  "dump_events_page api cs params =
     bindP (dread (da_list_events api (cs_namespace cs) params) ''list_events'' ClientError) (\<lambda>(items, cont).
     retP (items, if cont = Some [] then None else map_option (\<lambda>token. params\<lparr>lp_continue := Some token\<rparr>) cont))"

definition page_params :: "string \<Rightarrow> string \<Rightarrow> list_params" where
  "page_params label_selector field_selector =
     list_params_default\<lparr>lp_labels := label_selector, lp_fields := field_selector, lp_limit := Some 100\<rparr>"

lemma loop_collect_pages:
  assumes "\<And>acc tok. body (acc, tok) = bindP (page tok) (\<lambda>(xs, next).
     case next of Some tok' \<Rightarrow> retP (Inl (acc @ xs, tok')) | None \<Rightarrow> retP (Inr (acc @ xs)))"
  shows "loopP fuel body ([], start) = collect_pages fuel page start"
proof -
  have "body = (\<lambda>(acc, tok). bindP (page tok) (\<lambda>(xs, next).
     case next of Some tok' \<Rightarrow> retP (Inl (acc @ xs, tok')) | None \<Rightarrow> retP (Inr (acc @ xs))))"
    by (rule ext) (simp add: assms split: prod.splits)
  then show ?thesis by (simp add: collect_pages_def)
qed

lemma bind_pages:
  assumes "\<And>a. k a = (case f a of (xs, next) \<Rightarrow> case next of Some tok' \<Rightarrow> retP (Inl (acc @ xs, tok')) | None \<Rightarrow> retP (Inr (acc @ xs)))"
  shows "bindP m k = bindP (bindP m (\<lambda>a. retP (f a))) (\<lambda>(xs, next).
     case next of Some tok' \<Rightarrow> retP (Inl (acc @ xs, tok')) | None \<Rightarrow> retP (Inr (acc @ xs)))"
  using assms by (simp add: bindP_assoc) (metis (mono_tags, lifting))

interpretation dump_volumes: paged_listing "\<lambda>fuel. list_volumes fuel api" "dump_volumes_page api" "Some 0"
  for api
  by unfold_locales (auto simp: list_volumes_def dump_volumes_page_def case_prod_unfold
      intro!: loop_collect_pages bind_pages [unfolded case_prod_unfold] split: option.splits)

interpretation dump_snapshots: paged_listing "\<lambda>fuel. list_snapshots fuel api" "dump_snapshots_page api" "Some 0"
  for api
  by unfold_locales (auto simp: list_snapshots_def dump_snapshots_page_def case_prod_unfold
      intro!: loop_collect_pages bind_pages [unfolded case_prod_unfold] split: option.splits)

interpretation dump_pods: paged_listing "\<lambda>fuel. get_pods fuel api cs label_selector field_selector"
  "dump_pods_page api cs" "page_params label_selector field_selector"
  for api cs label_selector field_selector
  by unfold_locales (auto simp: get_pods_def dump_pods_page_def page_params_def case_prod_unfold
      intro!: loop_collect_pages bind_pages [unfolded case_prod_unfold] split: option.splits)

interpretation dump_events: paged_listing "\<lambda>fuel. get_events fuel api cs label_selector field_selector"
  "dump_events_page api cs" "page_params label_selector field_selector"
  for api cs label_selector field_selector
  by unfold_locales (auto simp: get_events_def dump_events_page_def page_params_def case_prod_unfold
      intro!: loop_collect_pages bind_pages [unfolded case_prod_unfold] split: option.splits)


section \<open>One topology per volume\<close>

text \<open>
  A storage REST API that offers a fixed list of volumes, a number of entries at a time, with the
  position of the next entry as its token.
\<close>

definition dump_volumes_served :: "'w dump_api \<Rightarrow> ('w \<Rightarrow> bool) \<Rightarrow> d_volume list \<Rightarrow> bool" where
  "dump_volumes_served api up vs \<longleftrightarrow>
     (\<forall>k w. up w \<longrightarrow> k \<le> length vs \<longrightarrow> (\<exists>w'. up w' \<and> da_get_volumes api MAX_RESOURCE_ENTRIES (Some (int k)) w =
        (Inr (take MAX_RESOURCE_ENTRIES (drop k vs),
           if k + MAX_RESOURCE_ENTRIES < length vs then Some (int (k + MAX_RESOURCE_ENTRIES)) else None), w')))"

definition env_up :: "('w \<Rightarrow> bool) \<Rightarrow> ('w dump_world, dump_trace) rt \<Rightarrow> bool" where
  "env_up up s \<longleftrightarrow> up (dw_env (rt_world s))"

lemma dump_volumes_page_serves:
  assumes "dump_volumes_served api up vs"
  shows "serves (dump_volumes_page api) (env_up up) (\<lambda>tok k. tok = Some (int k)) MAX_RESOURCE_ENTRIES vs"
  unfolding serves_def
proof (intro conjI allI impI)
  fix tok and k and s :: "('a dump_world, dump_trace) rt"
  assume "env_up up s" "tok = Some (int k)" "k \<le> length vs"
  with assms obtain w' where "up w'" "da_get_volumes api MAX_RESOURCE_ENTRIES tok (dw_env (rt_world s)) =
    (Inr (take MAX_RESOURCE_ENTRIES (drop k vs),
      if k + MAX_RESOURCE_ENTRIES < length vs then Some (int (k + MAX_RESOURCE_ENTRIES)) else None), w')"
    unfolding dump_volumes_served_def env_up_def by blast
  then show "\<exists>nxt t. dump_volumes_page api tok s = (Ok (take MAX_RESOURCE_ENTRIES (drop k vs), nxt), t) \<and> env_up up t \<and>
      (case nxt of None \<Rightarrow> length vs \<le> k + MAX_RESOURCE_ENTRIES
       | Some tok' \<Rightarrow> tok' = Some (int (k + MAX_RESOURCE_ENTRIES)) \<and> k + MAX_RESOURCE_ENTRIES < length vs)"
    by (simp add: dump_volumes_page_def dread_def dcall_def logged_def in_env_def env_up_def bindP_def)
qed (simp add: MAX_RESOURCE_ENTRIES_def)

fun topology_volume :: "topologer \<Rightarrow> d_volume option" where
  "topology_volume (VolumeTopologer vt) = Some (vt_volume vt)"
| "topology_volume _ = None"

lemma volume_topology_of_volume:
  "volume_topology_of api lib parse ident v s = (Ok tp, t) \<Longrightarrow> topology_volume tp = Some v"
  unfolding volume_topology_of_def by (auto simp: prog_Ok_iff)

text \<open>
  \<open>settles F m\<close>: from every state \<open>m\<close> returns a value, or an error that satisfies \<open>F\<close>: it
  does not panic, exit or run for ever.
\<close>

definition settles :: "('e \<Rightarrow> bool) \<Rightarrow> ('w, 'e, 'a) dump \<Rightarrow> bool" where
  "settles F m \<longleftrightarrow> (\<forall>s. (\<exists>a t. m s = (Ok a, t)) \<or> (\<exists>e t. m s = (Err (Fault e), t) \<and> F e))"

named_theorems settles_rules "closure of settles under the control structures"

lemma settlesD: "settles F m \<Longrightarrow> (\<exists>a t. m s = (Ok a, t)) \<or> (\<exists>e t. m s = (Err (Fault e), t) \<and> F e)"
  unfolding settles_def by blast

lemma settles_always_ok: "settles (\<lambda>_. False) m \<Longrightarrow> always_ok m"
  unfolding settles_def always_ok_def by simp

lemma settles_ret [settles_rules]: "settles F (retP a)"
  by (simp add: settles_def)

lemma settles_dprint [settles_rules]: "settles F (dprint text)"
  by (simp add: settles_def dprint_def tick_def)

lemma settles_fault_of: "F e \<Longrightarrow> settles F (fault_of e)"
  by (simp add: settles_def fault_of_def)

lemma settles_gets [settles_rules]: "settles F (getsP f)"
  by (simp add: settles_def)

lemma settles_bind [settles_rules]:
  assumes "settles F m" "\<And>a. settles F (k a)"
  shows "settles F (bindP m k)"
  unfolding settles_def
proof
  fix s
  show "(\<exists>b t. bindP m k s = (Ok b, t)) \<or> (\<exists>e t. bindP m k s = (Err (Fault e), t) \<and> F e)"
    using settlesD [OF assms(1), of s]
  proof (elim disjE exE conjE)
    fix a t
    assume "m s = (Ok a, t)"
    then show ?thesis using settlesD [OF assms(2), of a t] by (simp add: bindP_def)
  qed (auto simp: bindP_def)
qed

lemma settles_tryF [settles_rules]:
  assumes "settles (\<lambda>_. True) m"
  shows "settles F (tryF m)"
  unfolding settles_def
proof
  fix s
  show "(\<exists>a t. tryF m s = (Ok a, t)) \<or> (\<exists>e t. tryF m s = (Err (Fault e), t) \<and> F e)"
    using settlesD [OF assms, of s] by (auto simp: tryF_def)
qed

lemma settles_dcall: "(\<And>w e w'. f w = (Inl e, w') \<Longrightarrow> F (ctx e)) \<Longrightarrow> settles F (dcall f ev ctx)"
  unfolding settles_def dcall_def logged_def in_env_def
  by (auto split: prod.splits sum.splits)

lemmas settles_dread = settles_dcall [where ev = "\<lambda>_. DRequest what" for what, folded dread_def]

lemma settles_mapP: "(\<And>x. x \<in> set xs \<Longrightarrow> settles F (f x)) \<Longrightarrow> settles F (mapP f xs)"
  by (induction xs) (auto intro!: settles_rules)

lemma settles_write_to_log_file [settles_rules]: "settles (\<lambda>_. True) (write_to_log_file api text)"
  unfolding write_to_log_file_def tool_log_def write_all_def
  by (rule settles_bind [OF settles_gets]) (auto intro: settles_ret settles_fault_of settles_dcall split: option.splits)

lemma settles_dlog [settles_rules]: "settles F (dlog api text)"
  unfolding dlog_def by (intro settles_rules) (auto intro: settles_rules split: sum.splits)


text \<open>A lookup that is answered, if only by saying that there is no such thing.\<close>

definition found_or_404 :: "('w \<Rightarrow> (rest_error, 'a) res \<times> 'w) \<Rightarrow> bool" where
  "found_or_404 f \<longleftrightarrow> (\<forall>w. case fst (f w) of Inr _ \<Rightarrow> True | Inl (RestStatus code _) \<Rightarrow> code = 404 | Inl (RestOther _) \<Rightarrow> False)"

definition not_found :: "resource_error \<Rightarrow> bool" where
  "not_found e \<longleftrightarrow> (\<exists>text. e = RRestJsonError (RestStatus 404 text))"

lemma settles_lookup: "found_or_404 f \<Longrightarrow> settles not_found (dread f what RRestJsonError)"
proof (rule settles_dread)
  fix w e w'
  assume "found_or_404 f" "f w = (Inl e, w')"
  then have "case e of RestStatus code _ \<Rightarrow> code = 404 | RestOther _ \<Rightarrow> False"
    unfolding found_or_404_def by (metis fst_conv sum.simps(5))
  then show "not_found (RRestJsonError e)" by (cases e) (auto simp: not_found_def)
qed

lemma settles_pool_parts [settles_rules]:
  "settles (\<lambda>_. True) (get_pool_node_info api pool)" "settles (\<lambda>_. True) (get_pool_disks_info api pool)"
  unfolding get_pool_node_info_def get_pool_disks_info_def
  by (auto intro!: settles_rules settles_dread split: option.splits)

lemma settles_pool_topology_of [settles_rules]: "settles F (pool_topology_of api lib whose pool)"
  unfolding pool_topology_of_def by (intro settles_rules) (auto intro!: settles_rules split: sum.splits)

lemma settles_replica_topology:
  assumes "found_or_404 (da_get_replica api i)" "\<And>p. found_or_404 (da_get_pool api p)"
  shows "settles not_found (get_replica_topology api lib i)"
  unfolding get_replica_topology_def get_replica_def pool_get_topologer_def option.case get_pool_def bindP_assoc bindP_retP topologer.case
  by (intro settles_rules settles_lookup assms)

lemma settles_unless_found:
  assumes "settles not_found m"
  shows "settles F (bindP (tryF m) (\<lambda>r. case r of
     Inr t \<Rightarrow> retP [t] | Inl err \<Rightarrow> bindP (liftF (not_found_rest_json_error err)) (\<lambda>_. retP [])))" (is "settles F ?m")
  unfolding settles_def
proof
  fix s
  show "(\<exists>a t. ?m s = (Ok a, t)) \<or> (\<exists>e t. ?m s = (Err (Fault e), t) \<and> F e)"
    using settlesD [OF assms, of s] by (auto simp: bindP_def tryF_def not_found_def liftF_def map_err_def)
qed

lemma settles_replicas:
  assumes "\<And>i. found_or_404 (da_get_replica api i)" "\<And>p. found_or_404 (da_get_pool api p)"
    and "\<And>r. r \<in> set (dv_replicas v) \<Longrightarrow> settles F (parse r)"
  shows "settles F (replicas_topology_of api lib parse v)"
  unfolding replicas_topology_of_def
  by (rule settles_bind [OF settles_mapP settles_ret], rule settles_bind [OF assms(3)], assumption,
      rule settles_unless_found [OF settles_replica_topology [OF assms(1,2)]])

lemma settles_volume_topology:
  assumes "\<And>i. found_or_404 (da_get_replica api i)" "\<And>p. found_or_404 (da_get_pool api p)"
    and "\<And>r. r \<in> set (dv_replicas v) \<Longrightarrow> settles F (parse r)"
  shows "settles F (volume_topology_of api lib parse i v)"
  unfolding volume_topology_of_def
  by (intro settles_bind [OF settles_replicas [OF assms]])
    (auto intro!: settles_rules settles_dread simp: get_rebuild_history_def split: sum.splits)

lemma mapP_always:
  assumes "\<And>x. x \<in> set xs \<Longrightarrow> always_ok (f x)" "\<And>x s y t. f x s = (Ok y, t) \<Longrightarrow> P x y"
  shows "\<exists>ys t. mapP f xs s = (Ok ys, t) \<and> list_all2 P xs ys"
  using assms(1)
proof (induction xs arbitrary: s)
  case (Cons x xs)
  from Cons.prems obtain y t where x: "f x s = (Ok y, t)" unfolding always_ok_def by (meson list.set_intros(1))
  moreover from Cons obtain ys u where "mapP f xs t = (Ok ys, u)" "list_all2 P xs ys" by (meson list.set_intros(2))
  moreover from x have "P x y" by (rule assms(2))
  ultimately show ?case by (simp add: bindP_def)
qed simp

text \<open>
  Property C37.  The dump of all volumes, against a storage API that offers a fixed list of volumes page by
  page, knows or does not know each replica and pool, and whose other lookups (of nodes, of block
  devices and of the history of rebuilds) may fail in any way: it ends with exactly one topology for
  each volume, in order.
\<close>

theorem volumes_dumped_once:
  assumes "dump_volumes_served api up vs" "up (dw_env (rt_world s))" "length vs < fuel"
    and "\<And>i. found_or_404 (da_get_replica api i)" "\<And>p. found_or_404 (da_get_pool api p)"
    and "\<And>v r. v \<in> set vs \<Longrightarrow> r \<in> set (dv_replicas v) \<Longrightarrow> \<exists>u. dl_uuid_parse lib r = Inr u"
  shows "\<exists>ts t. volume_get_topologer fuel api lib None s = (Ok (VecTopologer ts), t) \<and> map topology_volume ts = map Some vs"
proof -
  let ?one = "\<lambda>v. volume_topology_of api lib (\<lambda>x. case dl_uuid_parse lib x of Inr i \<Rightarrow> retP i | Inl _ \<Rightarrow> failP Panic) (dv_uuid v) v"
  obtain t where list: "list_volumes fuel api s = (Ok vs, t)"
    using dump_volumes.lists_everything [OF dump_volumes_page_serves [OF assms(1)], of s fuel] assms(2,3)
    by (auto simp: env_up_def)
  have "always_ok (?one v)" if "v \<in> set vs" for v
    by (rule settles_always_ok, rule settles_volume_topology [OF assms(4,5)])
      (use assms(6) [OF that] in \<open>force simp: settles_ret\<close>)
  then obtain ts u where "mapP ?one vs t = (Ok ts, u)" "list_all2 (\<lambda>v tp. topology_volume tp = Some v) vs ts"
    using mapP_always [of vs ?one "\<lambda>v tp. topology_volume tp = Some v" t] volume_topology_of_volume by blast
  moreover from this(2) have "map topology_volume ts = map Some vs" by (induction rule: list_all2_induct) auto
  ultimately show ?thesis using list by (auto simp: volume_get_topologer_def bindP_def)
qed

end
