(* ===== verification/DumpInstance.thy ===== *)
theory DumpInstance
  imports DumpSafety DumpComplete DumpListing ProxyInstance
begin

text \<open>
  A small concrete world for the support tool: files never fail, etcd holds three keys, Loki holds
  three lines of which it returns two at a time, and the REST API is down.  The properties of
  the dumps are applied to it.
\<close>

definition demo_kvs :: "(string \<times> string) list" where
  "demo_kvs = [(''/a'', ''1''), (''/ab'', ''2''), (''/b'', ''3'')]"

definition demo_lines :: "(nat \<times> string) list" where
  "demo_lines = [(1000000, ''one ''), (2000000, ''two''), (3000000, ''three'')]"

definition demo_dump_api :: "unit dump_api" where
  "demo_dump_api =
     \<lparr>da_local_date = Pair ''now'', da_utc_date = Pair ''now'', da_timestamp_nanos = Pair (Some 2000000),
      da_create_dir_all = (\<lambda>p. Pair (Inr ())), da_metadata_ok = (\<lambda>p. Pair True), da_file_create = (\<lambda>p. Pair (Inr ())),
      da_write_all = (\<lambda>p c. Pair (Inr ())), da_flush = (\<lambda>p. Pair (Inr ())), da_remove_file = (\<lambda>p. Pair (Inr ())),
      da_remove_dir_all = (\<lambda>p. Pair (Inr ())), da_append_dir_all = (\<lambda>t d p. Pair (Inr ())), da_tar_finish = (\<lambda>t. Pair (Inr ())),
      da_proxy = demo_proxy, da_get_nodes = Pair (Inl (RestOther ''down'')), da_get_node = (\<lambda>i. Pair (Inl (RestOther ''down''))),
      da_get_block_devices = (\<lambda>i a. Pair (Inl (RestOther ''down''))), da_get_pools = Pair (Inl (RestOther ''down'')),
      da_get_pool = (\<lambda>i. Pair (Inl (RestOther ''down''))), da_get_volumes = (\<lambda>m n. Pair (Inl (RestOther ''down''))),
      da_get_volume = (\<lambda>i. Pair (Inl (RestOther ''down''))), da_get_replica = (\<lambda>i. Pair (Inl (RestOther ''down''))),
      da_get_rebuild_history = (\<lambda>i. Pair (Inl (RestOther ''down''))), da_get_snapshots = (\<lambda>m n. Pair (Inl (RestOther ''down''))),
      da_get_snapshot = (\<lambda>i. Pair (Inl (RestOther ''down''))), da_read_kubeconfig = (\<lambda>p. Pair (Inr p)),
      da_custom_config = (\<lambda>c. Pair (Inr c)), da_infer_config = Pair (Inr ''in-cluster''), da_kube_client = (\<lambda>c. Pair (Inr ())),
      da_platform_info = (\<lambda>n. Pair (Inr ''platform'')), da_list_pods = (\<lambda>n l. Pair (Inr ([], None))),
      da_list_events = (\<lambda>n l. Pair (Inr ([], None))), da_list_apps = (\<lambda>k n l. Pair (Inr [])), da_discovery = Pair (Inr []),
      da_list_dynamic = (\<lambda>a l. Pair (Inr ([], None))), da_list_nodes = (\<lambda>l. Pair (Inr [])),
      da_get_k8s_node = (\<lambda>n. Pair (Inl (KubeOther ''down''))), da_log_stream = (\<lambda>n p c b. Pair (Inr [])),
      da_loki_call = (\<lambda>r. Pair (Inr (True, Inr r))),
      da_etcd_connect = (\<lambda>e. Pair (Inr ())),
      da_etcd_get_all = (\<lambda>p l. Pair (Inr (filter (\<lambda>kv. starts_with p (fst kv)) demo_kvs)))\<rparr>"

definition demo_client :: loki_client where
  "demo_client = \<lparr>lc_uri = ''http://loki'', lc_logs_endpoint = ENDPOINT, lc_since = 1000000, lc_direction = Forward, lc_limit = 2\<rparr>"

text \<open>The answer of Loki is the request; it is decoded by reading the start time at its end.\<close>

definition demo_decode :: "nat \<Rightarrow> string \<Rightarrow> (string, loki_response) res" where
  "demo_decode n body =
     (case digits_value 0 (drop n body) of Some start \<Rightarrow> Inr (loki_answer 2 demo_lines start) | None \<Rightarrow> Inl ''no start'')"

definition demo_base :: string where
  "demo_base = ''http://loki'' @ ENDPOINT @ (''?query='' @ ''q'' @ ''&limit='' @ nat_to_string 2 @ ''&direction=forward'') @ ''&start=''"

definition demo_dump_lib :: dump_lib where
  "demo_dump_lib =
     \<lparr>dl_json_pretty = (\<lambda>x. case x of PrEtcdValue v \<Rightarrow> Inr v | _ \<Rightarrow> Inr ''json''), dl_yaml = (\<lambda>x. Inr ''yaml''),
      dl_uuid_parse = Inr, dl_loki_decode = demo_decode (length demo_base), dl_urlencode = (\<lambda>q. ''q''),
      dl_http_request = (\<lambda>r. Inr ()), dl_csi_plugin_name = ''csi'', dl_logging_key = ''logging'', dl_key_prefix = (\<lambda>p. ''/a''),
      dl_debug_string = id, dl_debug_opt = (\<lambda>x. ''opt''), dl_debug_resource = (\<lambda>x. ''e''), dl_debug_loki = (\<lambda>x. ''e''),
      dl_debug_logger = (\<lambda>x. ''e''), dl_debug_log = (\<lambda>x. ''e''), dl_debug_dumper = (\<lambda>x. ''e''), dl_debug_etcd = (\<lambda>x. ''e''),
      dl_debug_dump = (\<lambda>x. ''e''), dl_debug_resources = (\<lambda>x. ''set''), dl_iter = (\<lambda>x. []),
      dl_sort_unstable_by_key = map snd\<rparr>"

definition demo_dump_args :: support_args where
  "demo_dump_args =
     \<lparr>sa_timeout = from_secs 10, sa_since = 1000000, sa_loki_endpoint = None, sa_etcd_endpoint = None, sa_output_directory_path = ''out'',
      sa_namespace = ''mayastor'', sa_kube_config_path = None\<rparr>"

definition demo_dump_state :: "(unit dump_world, dump_trace) rt" where
  "demo_dump_state = \<lparr>rt_world = \<lparr>dw_env = (), dw_tool_log = None\<rparr>, rt_trace = []\<rparr>"

lemma demo_files_ok: "files_ok demo_dump_api"
  by (simp add: files_ok_def demo_dump_api_def)

lemma demo_etcd_serves: "etcd_serves demo_dump_api demo_kvs"
  by (simp add: etcd_serves_def demo_dump_api_def demo_kvs_def)

lemma demo_request:
  "request_str (loki_poller demo_dump_lib demo_client query\<lparr>lp_since := start\<rparr>) = demo_base @ nat_to_string start"
  by (simp add: request_str_def loki_poller_def demo_dump_lib_def demo_client_def demo_base_def direction_as_string_def)

lemma demo_loki_serves:
  "loki_serves demo_dump_api demo_dump_lib (loki_poller demo_dump_lib demo_client query) (lc_limit demo_client) demo_lines
     (\<lambda>start. demo_base @ nat_to_string start)"
  unfolding loki_serves_def demo_request
  by (simp add: demo_dump_lib_def demo_dump_api_def demo_decode_def demo_client_def)

lemma demo_spaced: "spaced demo_lines"
  by (simp add: spaced_def demo_lines_def)

theorem etcd_dump_complete_witness:
  "\<exists>t. etcd_dump 2 demo_dump_api demo_dump_lib \<lparr>es_key_prefix = ''/a''\<rparr> ''tmp'' False demo_dump_state = (Ok (), t) \<and>
     written (rt_trace t) = [(''tmp/etcd_dump'', ''/a:'' @ EOL @ ''1'' @ EOL @ EOL), (''tmp/etcd_dump'', ''/ab:'' @ EOL @ ''2'' @ EOL @ EOL)]"
  using etcd_dump_complete [OF demo_files_ok demo_etcd_serves refl refl, where n = 0 and lib = demo_dump_lib
      and store = "\<lparr>es_key_prefix = ''/a''\<rparr>" and dir = "''tmp''" and s = demo_dump_state]
  by (simp add: demo_kvs_def demo_dump_state_def etcd_entry_def demo_dump_lib_def path_join_def numeral_2_eq_2)

theorem loki_logs_complete_witness:
  "\<exists>t. loki_fetch_and_dump_logs 4 demo_dump_api demo_dump_lib demo_client ''app=io-engine'' ''io-engine'' None ''logs'' demo_dump_state = (Ok (), t) \<and>
     written (rt_trace t) = map (\<lambda>line. (''logs/loki-io-engine.log'', line @ EOL)) [''one'', ''two'', ''three'']"
proof -
  have filters: "label_filters ''app=io-engine'' = Some (''app='' @ DQUOTE @ ''io-engine'' @ DQUOTE)"
    by (simp add: label_filters_def label_filter_def DQUOTE_def str_replace_char_def)
  show ?thesis
    using loki_logs_complete [OF demo_files_ok filters, where container_name = "''io-engine''" and host_name = None and client = demo_client
        and lib = demo_dump_lib and entries = demo_lines and fuel = 4 and dir = "''logs''" and s = demo_dump_state,
        OF _ demo_loki_serves  demo_spaced]
    by (simp add: loki_query_def SERVICE_NAME_def demo_client_def demo_lines_def demo_dump_state_def path_join_def str_trim_end_def is_space_def)
qed


text \<open>Evaluation of a run from left to right.\<close>

lemma bindP_weak_cong: "m = m' \<Longrightarrow> s = s' \<Longrightarrow> bindP m k s = bindP m' k s'"
  by simp

lemma tryF_eval:
  "m s = (Ok a, t) \<Longrightarrow> tryF m s = (Ok (Inr a), t)" "m s = (Err (Fault e), t) \<Longrightarrow> tryF m s = (Ok (Inl e), t)"
  by (simp_all add: tryF_def)

lemma demo_calls:
  "dcall f ev ctx s = (case f (dw_env (rt_world s)) of (r, w) \<Rightarrow> (case r of Inl e \<Rightarrow> Err (Fault (ctx e)) | Inr a \<Rightarrow> Ok a,
     s\<lparr>rt_world := (rt_world s)\<lparr>dw_env := w\<rparr>, rt_trace := rt_trace s @ [ev r]\<rparr>))"
  "dpure g ev' s = (case g (dw_env (rt_world s)) of (a, w) \<Rightarrow> (Ok a,
     s\<lparr>rt_world := (rt_world s)\<lparr>dw_env := w\<rparr>, rt_trace := rt_trace s @ [ev' a]\<rparr>))"
  "dprint text s = (Ok (), s\<lparr>rt_trace := rt_trace s @ [DPrint text]\<rparr>)"
  "dproxy m what ctx' s = (case m (dw_env (rt_world s)) of (r, w) \<Rightarrow>
     (case r of Ok a \<Rightarrow> Ok a | Err e \<Rightarrow> Err (case e of Anyhow text \<Rightarrow> Fault (ctx' text) | Unimplemented \<Rightarrow> Panic) | OutOfFuel \<Rightarrow> OutOfFuel,
     s\<lparr>rt_world := (rt_world s)\<lparr>dw_env := w\<rparr>, rt_trace := rt_trace s @ [DRequest what]\<rparr>))"
  by (cases s; auto simp: dcall_def dpure_def dprint_def dproxy_def embedded_def in_envP_def logged_def in_env_def tick_def split: prod.splits sum.splits)+

lemmas demo_eval =
  execute_resource_dump_def run_resource_def dump_config_of_def get_or_panic_resource_dumper_def
  or_exit_def create_and_get_tmp_directory_def create_dir_all_def init_tool_log_file_def file_create_def set_tool_log_def
  tool_log_def archive_new_def logger_of_def new_logger_def client_set_new_def loki_client_new_def get_epoch_unix_time_def
  u128_sub_def or_panic_def ok_or_def k8s_dumper_of_def etcd_dumper_of_def etcd_store_new_def attempt_def noting_def
  dump_etcd_def complaining_def etcd_dump_def etcd_round_def etcd_get_def etcd_write_def write_all_def file_flush_def
  copy_to_archive_def delete_temporary_directory_def remove_dir_all_def conv_def dread_def liftF_def fault_of_def dlog_def
  write_to_log_file_def path_join_def DUMP_TMP_PREFIX_def loopP_numeral etcd_entry_def Let_def
  demo_dump_api_def demo_dump_lib_def demo_dump_args_def demo_dump_state_def demo_calls demo_proxy_builds tryF_eval prog_simps

lemma demo_etcd_run:
  "case execute_resource_dump 3 demo_dump_api demo_dump_lib demo_dump_args (REtcd False) demo_dump_state of
     (r, t) \<Rightarrow> r = Ok () \<and> DRemoveDir ''out/tmp-mayastor-now'' (Inr ()) \<in> set (rt_trace t)"
  by (simp add: demo_eval demo_kvs_def cong: bindP_weak_cong)


section \<open>A dump of all volumes\<close>

text \<open>Two volumes, of which one has a replica that is not known to the API; all other lookups fail.\<close>

definition demo_volumes :: "d_volume list" where
  "demo_volumes = [\<lparr>dv_uuid = ''a'', dv_target = None, dv_replicas = [''r'']\<rparr>, \<lparr>dv_uuid = ''b'', dv_target = None, dv_replicas = []\<rparr>]"

definition demo_listing_api :: "unit dump_api" where
  "demo_listing_api = demo_dump_api
     \<lparr>da_get_volumes := (\<lambda>limit tok w. (Inr (take limit (drop (nat (the tok)) demo_volumes), None), w)),
      da_get_replica := (\<lambda>i w. (Inl (RestStatus 404 ''none''), w)),
      da_get_pool := (\<lambda>i w. (Inl (RestStatus 404 ''none''), w))\<rparr>"

theorem volumes_dumped_once_witness:
  "\<exists>ts t. volume_get_topologer 3 demo_listing_api demo_dump_lib None demo_dump_state = (Ok (VecTopologer ts), t) \<and>
     map topology_volume ts = map Some demo_volumes"
  by (rule volumes_dumped_once [where up = "\<lambda>_. True"])
    (auto simp: dump_volumes_served_def demo_listing_api_def demo_volumes_def MAX_RESOURCE_ENTRIES_def found_or_404_def
      demo_dump_lib_def)

end
