(* ===== verification/MainInstance.thy ===== *)
theory MainInstance
  imports PluginMain PluginInstance DumpInstance
begin

text \<open>
  The plugin in a cluster that holds a finished upgrade job: a deletion of the upgrade that is interrupted,
  and a command that succeeds.
\<close>

definition demo_main_api :: "(unit, unit) main_api" where
  "demo_main_api =
     \<lparr>mn_proxy = demo_proxy, mn_rest_init = (\<lambda>url t. Pair (Inr ())), mn_rest_init_with_config = (\<lambda>c. Pair (Inr ())),
      mn_rest_command = (\<lambda>verb c cli. Pair (Inr ())), mn_plugin = demo_api (Some demo_job), mn_dump = demo_dump_api\<rparr>"

definition demo_main_lib :: "nat main_lib" where
  "demo_main_lib = \<lparr>ml_plugin = demo_lib, ml_consts = demo_consts, ml_dump = demo_dump_lib\<rparr>"

definition demo_cli :: plugin_cli where
  "demo_cli = \<lparr>ca_rest = None, ca_kube_config_path = None, ca_namespace = ''ns'', ca_timeout = 0\<rparr>"

definition demo_main_start :: "(unit, main_trace) rt" where
  "demo_main_start = \<lparr>rt_world = (), rt_trace = []\<rparr>"

lemmas demo_main_defs = demo_main_api_def demo_main_lib_def demo_cli_def demo_main_start_def

lemma demo_connects:
  "init_rest demo_main_api demo_cli demo_main_start = (Ok (), \<lparr>rt_world = (), rt_trace = [MProxy, MRestInit (Inr ())]\<rparr>)"
  by (simp add: init_rest_def demo_main_defs embedded_def logged_def bindP_def demo_proxy_builds)

abbreviation demo_delete :: "(plugin_error, unit) outcome \<times> (unit, plugin_trace) rt" where
  "demo_delete \<equiv>
     execute_operation 1 demo_lib demo_consts (demo_api (Some demo_job)) ''ns'' None 0 (DeleteUpgrade False) demo_start"

lemma demo_interrupted:
  "plugin_process demo_main_lib demo_main_api demo_cli (ODelete False) demo_main_start
     (Inl (Fault (EGeneric (''Interrupted by SIGINT''))))
     ([MProxy, MRestInit (Inr ())] @ map MUpgrade (rt_trace (snd demo_delete)))"
proof -
  let ?t = "\<lparr>rt_world = (), rt_trace = [MProxy, MRestInit (Inr ())]\<rparr>"
  let ?run = "operations_execute 1 demo_main_lib demo_main_api demo_cli (ODelete False) ?t"
  have "rt_trace (snd ?run) = rt_trace ?t @ map MUpgrade (rt_trace (snd demo_delete)) @ []"
    by (simp add: operations_execute_def run_upgrade_operation_def hosted_def demo_main_defs demo_start_def split: prod.splits)
  from plugin_process.interrupted [OF demo_connects prod.collapse [symmetric] this, where sig = "''SIGINT''"]
  show ?thesis by simp
qed

theorem plugin_process_guarded_witness:
  "\<exists>pre ns n answer post.
     map MUpgrade (rt_trace (snd demo_delete)) = pre @ MUpgrade (PgDelete KJob ns n answer) # post \<and>
     main_may_change demo_main_lib demo_cli (ODelete False :: unit operation) ([MProxy, MRestInit (Inr ())] @ pre)"
proof -
  obtain pre ns n answer post where run: "rt_trace (snd demo_delete) = pre @ PgDelete KJob ns n answer # post"
    using demo_delete_run by (metis split_list)
  have "main_may_change demo_main_lib demo_cli (ODelete False :: unit operation) ([MProxy, MRestInit (Inr ())] @ map MUpgrade pre)"
    by (rule plugin_process_guarded [OF demo_interrupted, where e = "PgDelete KJob ns n answer" and post = "map MUpgrade post"])
      (simp_all add: run demo_main_start_def del: execute_operation.simps One_nat_def)
  then show ?thesis unfolding run by (intro exI [of _ "map MUpgrade pre"] exI conjI) simp_all
qed


end
