(* ===== verification/EventStats.thy ===== *)
theory EventStats
  imports Effects
begin

text \<open>
  The event statistics aggregator of call-home (\<open>call-home/src/bin/stats\<close>): the counters
  per resource (\<open>cache/pools.rs\<close>, \<open>cache/volume.rs\<close>, \<open>cache/nexus.rs\<close>), the shared
  cache (\<open>cache/events_cache.rs\<close>), its persistence in a Kubernetes ConfigMap
  (\<open>store/events_store.rs\<close>), the Prometheus collector (\<open>exporter/events_collector.rs\<close>)
  and the start-up sequence of \<open>main.rs\<close>.

  Parameters standing for code outside the repository: the JSON codec of serde
  (\<open>ser\<close>, \<open>de\<close>), the Kubernetes API (record \<open>cm_api\<close> over an arbitrary world),
  the registration of a labelled counter in a Prometheus counter vector (\<open>get_metric\<close>)
  and the Prometheus text encoder.  Counters are 32-bit words; the release profile of the
  workspace has no overflow checks, so \<open>+= 1\<close> wraps.
\<close>

section \<open>Events\<close>

text \<open>
  \<open>EventAction\<close>, \<open>EventCategory\<close> and \<open>EventMessage\<close> come from the \<open>events_api\<close> crate:
  the constructors the sources match on, and one for every other.
\<close>

datatype event_action = ActCreate | ActDelete | ActRebuildBegin | ActRebuildEnd | ActOther string

datatype event_category = CatPool | CatVolume | CatNexus | CatOther string

record event_message =
  category :: event_category
  action :: event_action

section \<open>Counters per resource\<close>

record stats_pool =
  pool_created :: u32
  pool_deleted :: u32

record stats_volume =
  volume_created :: u32
  volume_deleted :: u32

record stats_nexus =
  nexus_created :: u32
  nexus_deleted :: u32
  rebuild_started :: u32
  rebuild_ended :: u32

definition pool_update_counter :: "event_action \<Rightarrow> stats_pool \<Rightarrow> stats_pool" where
  "pool_update_counter act p =
     (case act of
        ActCreate \<Rightarrow> p\<lparr>pool_created := pool_created p + 1\<rparr>
      | ActDelete \<Rightarrow> p\<lparr>pool_deleted := pool_deleted p + 1\<rparr>
      | _ \<Rightarrow> p)"

definition volume_update_counter :: "event_action \<Rightarrow> stats_volume \<Rightarrow> stats_volume" where
  "volume_update_counter act v =
     (case act of
        ActCreate \<Rightarrow> v\<lparr>volume_created := volume_created v + 1\<rparr>
      | ActDelete \<Rightarrow> v\<lparr>volume_deleted := volume_deleted v + 1\<rparr>
      | _ \<Rightarrow> v)"

definition nexus_update_counter :: "event_action \<Rightarrow> stats_nexus \<Rightarrow> stats_nexus" where
  "nexus_update_counter act n =
     (case act of
        ActCreate \<Rightarrow> n\<lparr>nexus_created := nexus_created n + 1\<rparr>
      | ActDelete \<Rightarrow> n\<lparr>nexus_deleted := nexus_deleted n + 1\<rparr>
      | ActRebuildBegin \<Rightarrow> n\<lparr>rebuild_started := rebuild_started n + 1\<rparr>
      | ActRebuildEnd \<Rightarrow> n\<lparr>rebuild_ended := rebuild_ended n + 1\<rparr>
      | _ \<Rightarrow> n)"

section \<open>The event set and the cache\<close>

record event_set =
  pool :: stats_pool
  volume :: stats_volume
  nexus :: stats_nexus

definition event_set_default :: event_set where
  "event_set_default =
     \<lparr>pool = \<lparr>pool_created = 0, pool_deleted = 0\<rparr>,
      volume = \<lparr>volume_created = 0, volume_deleted = 0\<rparr>,
      nexus = \<lparr>nexus_created = 0, nexus_deleted = 0, rebuild_started = 0, rebuild_ended = 0\<rparr>\<rparr>"

definition inc_counter :: "event_category \<Rightarrow> event_action \<Rightarrow> event_set \<Rightarrow> event_set" where
  "inc_counter cat act es =
     (case cat of
        CatPool \<Rightarrow> es\<lparr>pool := pool_update_counter act (pool es)\<rparr>
      | CatVolume \<Rightarrow> es\<lparr>volume := volume_update_counter act (volume es)\<rparr>
      | CatNexus \<Rightarrow> es\<lparr>nexus := nexus_update_counter act (nexus es)\<rparr>
      | CatOther _ \<Rightarrow> es)"

text \<open>
  The errors of \<open>call-home/src/common/errors.rs\<close>, an error of a library as the message it
  prints; \<open>Panicked\<close> is an \<open>unwrap\<close> or \<open>expect\<close> that fails.
\<close>

datatype callhome_error =
    NatsSubscriptionFailure
  | K8sClient string
  | ListDeploymentsWithLabel string string string
  | NoDeploymentPresent
  | UpdatingConfigmap string string string
  | GetEventStoreConfigMap string string
  | ConfigMapNotPresent string
  | SerializeEvent string
  | ReferenceConfigMapNoData
  | ReferencedKeyNotPresent string
  | ReferencedKeyNotPresentInLabel string
  | EventSerdeDeserialization string string
  | ServiceAccountCreate string string
  | CustomMetricsEndodeFailure string
  | SocketBindingFailure string
  | PrometheusOutPutParseFailure string
  | UnknownMetrics
  | UnknownLabel
  | StatsFetchFailure
  | GetRsponseBodyFailure
  | Panicked string

text \<open>The fields of a \<open>k8s_openapi\<close> ConfigMap that the sources read or write.\<close>

record config_map =
  cm_name :: "string option"
  cm_labels :: "(string \<rightharpoonup> string) option"
  cm_data :: "(string \<rightharpoonup> string) option"

definition EVENT_STATS_DATA :: string where "EVENT_STATS_DATA = ''stats''"
definition EVENT_STORE :: string where "EVENT_STORE = ''event-store''"
definition EVENT_STORE_LABLE_KEY :: string where "EVENT_STORE_LABLE_KEY = ''app''"

definition from_event_store ::
  "(string \<Rightarrow> (string, event_set) res) \<Rightarrow> config_map \<Rightarrow> (callhome_error, event_set) res" where
  "from_event_store de init_data =
     res_bind (ok_or ReferenceConfigMapNoData (cm_data init_data)) (\<lambda>data.
     res_bind (ok_or (ReferencedKeyNotPresent EVENT_STATS_DATA) (data EVENT_STATS_DATA)) (\<lambda>v.
     map_err (EventSerdeDeserialization v) (de v)))"

text \<open>
  The \<open>static CACHE: OnceCell<Mutex<Cache>>\<close>: \<open>None\<close> until initialised; \<open>get_or_init\<close> keeps
  the first value.
\<close>

definition cache_initialize :: "event_set \<Rightarrow> event_set option \<Rightarrow> event_set option" where
  "cache_initialize events c = (case c of None \<Rightarrow> Some events | Some old \<Rightarrow> Some old)"

definition cache_init :: "event_set option \<Rightarrow> (callhome_error, event_set) res" where
  "cache_init c = ok_or (Panicked ''Cache is not initialized'') c"

text \<open>\<open>store_events\<close>: one critical section per message of the subscription.\<close>

definition store_event :: "event_message \<Rightarrow> event_set option \<Rightarrow> (callhome_error, event_set option) res" where
  "store_event m c =
     res_bind (cache_init c) (\<lambda>es. Inr (Some (inc_counter (category m) (action m) es)))"

definition store_events ::
  "event_message list \<Rightarrow> event_set option \<Rightarrow> (callhome_error, event_set option) res" where
  "store_events sub c = res_fold store_event sub c"

section \<open>Persistence in a ConfigMap\<close>

text \<open>The Kubernetes API as used by \<open>events_store.rs\<close>: each call answers and changes the world.\<close>

record 'w cm_api =
  try_default :: "'w \<Rightarrow> (string, unit) res \<times> 'w"
  cm_get_opt :: "string \<Rightarrow> string \<Rightarrow> 'w \<Rightarrow> (string, config_map option) res \<times> 'w"
  cm_create :: "string \<Rightarrow> config_map \<Rightarrow> 'w \<Rightarrow> (string, config_map) res \<times> 'w"
  cm_patch :: "string \<Rightarrow> string \<Rightarrow> config_map \<Rightarrow> 'w \<Rightarrow> (string, config_map) res \<times> 'w"
  cm_sleep :: "nat \<Rightarrow> 'w \<Rightarrow> 'w"

type_synonym 'a ser = "'a \<Rightarrow> (string, string) res"
type_synonym 'a de = "string \<Rightarrow> (string, 'a) res"

definition init_config_map_data :: "event_set ser \<Rightarrow> (callhome_error, string \<rightharpoonup> string) res" where
  "init_config_map_data ser =
     res_bind (map_err SerializeEvent (ser event_set_default)) (\<lambda>v.
     Inr [EVENT_STATS_DATA \<mapsto> v])"

definition create_configmap ::
  "event_set ser \<Rightarrow> 'w cm_api \<Rightarrow> string \<Rightarrow> string \<Rightarrow> ('w, callhome_error, config_map) prog" where
  "create_configmap ser api ns config_map_name =
     bindP (liftR (init_config_map_data ser)) (\<lambda>data.
     let cm = \<lparr>cm_name = Some config_map_name,
               cm_labels = Some [EVENT_STORE_LABLE_KEY \<mapsto> EVENT_STORE],
               cm_data = Some data\<rparr>
     in bindP (callP (cm_create api ns cm) (ServiceAccountCreate config_map_name)) (\<lambda>created.
        bindP (modifyP (cm_sleep api 5)) (\<lambda>_. retP created)))"

definition store_name :: "string \<Rightarrow> string" where
  "store_name release_name = release_name @ ''-'' @ EVENT_STORE"

definition initialize_store ::
  "event_set ser \<Rightarrow> 'w cm_api \<Rightarrow> string \<Rightarrow> string \<Rightarrow> ('w, callhome_error, config_map) prog" where
  "initialize_store ser api namespace release_name =
     bindP (callP (try_default api) K8sClient) (\<lambda>_.
     bindP (callP (cm_get_opt api namespace (store_name release_name))
              (GetEventStoreConfigMap (store_name release_name))) (\<lambda>found.
     case found of
       Some cm \<Rightarrow> retP cm
     | None \<Rightarrow> create_configmap ser api namespace (store_name release_name)))"

definition update_config_map ::
  "event_set ser \<Rightarrow> event_set option \<Rightarrow> (callhome_error, string \<rightharpoonup> string) res" where
  "update_config_map ser c =
     res_bind (cache_init c) (\<lambda>cp.
     res_bind (map_err SerializeEvent (ser cp)) (\<lambda>v.
     Inr [EVENT_STATS_DATA \<mapsto> v]))"

text \<open>
  One round of the persisting task: the snapshot taken under the lock, then the
  server-side apply.  The rounds follow each other for ever unless one fails.
\<close>

definition patch_config_map ::
  "'w cm_api \<Rightarrow> string \<Rightarrow> string \<Rightarrow> (string \<rightharpoonup> string) \<Rightarrow> ('w, callhome_error, unit) prog" where
  "patch_config_map api namespace release_name snapshot =
     (let cm = \<lparr>cm_name = Some (store_name release_name), cm_labels = None, cm_data = Some snapshot\<rparr>
      in bindP (callP (cm_patch api namespace (store_name release_name) cm)
                 (UpdatingConfigmap (store_name release_name) namespace)) (\<lambda>_. retP ()))"

definition update_config_map_data ::
  "nat \<Rightarrow> event_set ser \<Rightarrow> 'w cm_api \<Rightarrow> ('w \<Rightarrow> event_set option) \<Rightarrow> string \<Rightarrow> string \<Rightarrow> nat
     \<Rightarrow> ('w, callhome_error, unit) prog" where
  "update_config_map_data fuel ser api cache namespace release_name update_duration =
     bindP (callP (try_default api) K8sClient) (\<lambda>_.
     loopP fuel (\<lambda>_.
       bindP (getsP cache) (\<lambda>c.
       bindP (liftR (update_config_map ser c)) (\<lambda>map.
       bindP (patch_config_map api namespace release_name map) (\<lambda>_.
       bindP (modifyP (cm_sleep api update_duration)) (\<lambda>_. retP (Inl ()))))))
       ())"

section \<open>The collector\<close>

datatype metrics = MPool | MVolume | MNexus | MUnknown

fun metrics_to_string :: "metrics \<Rightarrow> string" where
  "metrics_to_string MPool = ''pool''"
| "metrics_to_string MVolume = ''volume''"
| "metrics_to_string MNexus = ''nexus''"
| "metrics_to_string MUnknown = ''''"

definition CREATED :: string where "CREATED = ''created''"
definition DELETED :: string where "DELETED = ''deleted''"
definition REBUILD_STARTED :: string where "REBUILD_STARTED = ''rebuild_started''"
definition REBUILD_ENDED :: string where "REBUILD_ENDED = ''rebuild_ended''"
definition ACTION :: string where "ACTION = ''action''"

text \<open>
  A counter vector with the one variable label \<open>action\<close>: the value of each label value
  (\<open>u32 as f64\<close> is exact, so the values are naturals), and a metric family as exposed.
\<close>

type_synonym counter_vec = "string \<Rightarrow> nat"

record metric_family =
  fam_name :: string
  fam_action :: string
  fam_value :: nat

record stats_collector =
  volumes :: counter_vec
  pools :: counter_vec
  nexuses :: counter_vec

definition stats_collector_new :: stats_collector where
  "stats_collector_new = \<lparr>volumes = (\<lambda>_. 0), pools = (\<lambda>_. 0), nexuses = (\<lambda>_. 0)\<rparr>"

text \<open>
  The pattern of the three functions: fetch the counter of every label and add the event
  count to it, returning no family at all when a label cannot be registered; then collect
  the counters in order.
\<close>

primrec inc_labels ::
  "(string \<Rightarrow> string \<Rightarrow> bool) \<Rightarrow> string \<Rightarrow> (string \<times> u32) list \<Rightarrow> counter_vec \<Rightarrow> bool \<times> counter_vec" where
  "inc_labels get_metric name [] v = (True, v)"
| "inc_labels get_metric name (lc # lcs) v =
     (if get_metric name (fst lc)
      then inc_labels get_metric name lcs (v(fst lc := v (fst lc) + unat (snd lc)))
      else (False, v))"

definition collect_labels ::
  "(string \<Rightarrow> string \<Rightarrow> bool) \<Rightarrow> string \<Rightarrow> (string \<times> u32) list \<Rightarrow> counter_vec
     \<Rightarrow> metric_family list \<times> counter_vec" where
  "collect_labels get_metric name lcs v =
     (let (ok, v') = inc_labels get_metric name lcs v
      in (if ok then map (\<lambda>lc. \<lparr>fam_name = name, fam_action = fst lc, fam_value = v' (fst lc)\<rparr>) lcs
          else [], v'))"

definition volume_metrics ::
  "(string \<Rightarrow> string \<Rightarrow> bool) \<Rightarrow> event_set \<Rightarrow> stats_collector \<Rightarrow> metric_family list \<times> stats_collector" where
  "volume_metrics get_metric events c =
     (let (fs, v) = collect_labels get_metric (metrics_to_string MVolume)
                      [(CREATED, volume_created (volume events)),
                       (DELETED, volume_deleted (volume events))] (volumes c)
      in (fs, c\<lparr>volumes := v\<rparr>))"

definition pool_metrics ::
  "(string \<Rightarrow> string \<Rightarrow> bool) \<Rightarrow> event_set \<Rightarrow> stats_collector \<Rightarrow> metric_family list \<times> stats_collector" where
  "pool_metrics get_metric events c =
     (let (fs, v) = collect_labels get_metric (metrics_to_string MPool)
                      [(CREATED, pool_created (pool events)),
                       (DELETED, pool_deleted (pool events))] (pools c)
      in (fs, c\<lparr>pools := v\<rparr>))"

definition nexus_metrics ::
  "(string \<Rightarrow> string \<Rightarrow> bool) \<Rightarrow> event_set \<Rightarrow> stats_collector \<Rightarrow> metric_family list \<times> stats_collector" where
  "nexus_metrics get_metric events c =
     (let (fs, v) = collect_labels get_metric (metrics_to_string MNexus)
                      [(CREATED, nexus_created (nexus events)),
                       (DELETED, nexus_deleted (nexus events)),
                       (REBUILD_STARTED, rebuild_started (nexus events)),
                       (REBUILD_ENDED, rebuild_ended (nexus events))] (nexuses c)
      in (fs, c\<lparr>nexuses := v\<rparr>))"

definition collect ::
  "(string \<Rightarrow> string \<Rightarrow> bool) \<Rightarrow> event_set \<Rightarrow> stats_collector \<Rightarrow> metric_family list \<times> stats_collector" where
  "collect get_metric cp c =
     (let (vs, c1) = volume_metrics get_metric cp c;
          (ps, c2) = pool_metrics get_metric cp c1;
          (ns, c3) = nexus_metrics get_metric cp c2
      in (vs @ ps @ ns, c3))"

text \<open>One request on \<open>/stats\<close>: a fresh collector, gathered once and encoded.\<close>

definition metrics_handlers ::
  "(string \<Rightarrow> string \<Rightarrow> bool) \<Rightarrow> (metric_family list \<Rightarrow> string) \<Rightarrow> event_set option
     \<Rightarrow> (callhome_error, string) res" where
  "metrics_handlers get_metric encode c =
     res_bind (cache_init c) (\<lambda>cp. Inr (encode (fst (collect get_metric cp stats_collector_new))))"

section \<open>Start-up\<close>

definition initialize_events_cache ::
  "event_set de \<Rightarrow> config_map \<Rightarrow> event_set option \<Rightarrow> (callhome_error, event_set option) res" where
  "initialize_events_cache de init_data c =
     res_bind (map_err (\<lambda>_. Panicked ''unwrap'') (from_event_store de init_data)) (\<lambda>events.
     Inr (cache_initialize events c))"

definition stats_startup ::
  "event_set ser \<Rightarrow> event_set de \<Rightarrow> 'w cm_api \<Rightarrow> string \<Rightarrow> string
     \<Rightarrow> ('w, callhome_error, event_set option) prog" where
  "stats_startup ser de api namespace release_name =
     bindP (initialize_store ser api namespace release_name) (\<lambda>init_data.
     liftR (initialize_events_cache de init_data None))"

section \<open>The counter contract\<close>

text \<open>The trait \<open>StatsCounter\<close>: an implementation counts each action it tracks by itself.\<close>

locale stats_counter =
  fixes update :: "event_action \<Rightarrow> 'a \<Rightarrow> 'a"
    and counter :: "event_action \<Rightarrow> 'a \<Rightarrow> u32"
    and tracked :: "event_action \<Rightarrow> bool"
  assumes update_self: "tracked a \<Longrightarrow> counter a (update a s) = counter a s + 1"
    and update_other: "tracked b \<Longrightarrow> a \<noteq> b \<Longrightarrow> counter b (update a s) = counter b s"
    and update_untracked: "\<not> tracked a \<Longrightarrow> update a s = s"
begin

lemma counter_fold:
  "tracked b \<Longrightarrow> counter b (fold update as s) = counter b s + of_nat (count_list as b)"
proof (induction as arbitrary: s)
  case (Cons a as)
  then show ?case
    by (cases "a = b") (simp_all add: update_self update_other)
qed simp

lemma counter_fold_unat:
  assumes "tracked b" "unat (counter b s) + count_list as b < 2 ^ 32"
  shows "unat (counter b (fold update as s)) = unat (counter b s) + count_list as b"
  using assms by (simp add: counter_fold unat_plus_of_nat)

end

fun pool_counter :: "event_action \<Rightarrow> stats_pool \<Rightarrow> u32" where
  "pool_counter ActCreate p = pool_created p"
| "pool_counter _ p = pool_deleted p"

fun volume_counter :: "event_action \<Rightarrow> stats_volume \<Rightarrow> u32" where
  "volume_counter ActCreate v = volume_created v"
| "volume_counter _ v = volume_deleted v"

fun nexus_counter :: "event_action \<Rightarrow> stats_nexus \<Rightarrow> u32" where
  "nexus_counter ActCreate n = nexus_created n"
| "nexus_counter ActDelete n = nexus_deleted n"
| "nexus_counter ActRebuildBegin n = rebuild_started n"
| "nexus_counter _ n = rebuild_ended n"

interpretation pool_stats: stats_counter pool_update_counter pool_counter
  "\<lambda>a. a \<in> {ActCreate, ActDelete}"
  by unfold_locales (auto simp: pool_update_counter_def split: event_action.splits)

interpretation volume_stats: stats_counter volume_update_counter volume_counter
  "\<lambda>a. a \<in> {ActCreate, ActDelete}"
  by unfold_locales (auto simp: volume_update_counter_def split: event_action.splits)

interpretation nexus_stats: stats_counter nexus_update_counter nexus_counter
  "\<lambda>a. a \<in> {ActCreate, ActDelete, ActRebuildBegin, ActRebuildEnd}"
  by unfold_locales (auto simp: nexus_update_counter_def split: event_action.splits)

section \<open>The running service\<close>

text \<open>
  The tasks of the service interleave: messages are counted as they arrive, the persisting
  task takes a snapshot under the lock and applies it some time later, and stops at its
  first error.  \<open>handled\<close> is a ghost list of the messages counted since the start.
\<close>

record 'w stats_sys =
  cache :: event_set
  snapshot :: "(string \<rightharpoonup> string) option"
  persisting :: bool
  world :: 'w
  handled :: "event_message list"

definition count_message :: "event_message \<Rightarrow> event_set \<Rightarrow> event_set" where
  "count_message m = inc_counter (category m) (action m)"

inductive stats_step ::
  "event_set ser \<Rightarrow> 'w cm_api \<Rightarrow> string \<Rightarrow> string \<Rightarrow> 'w stats_sys \<Rightarrow> 'w stats_sys \<Rightarrow> bool"
  for ser api namespace release_name where
  receive:
    "store_event m (Some (cache s)) = Inr (Some c) \<Longrightarrow>
     stats_step ser api namespace release_name s (s\<lparr>cache := c, handled := handled s @ [m]\<rparr>)"
| take_snapshot:
    "persisting s \<Longrightarrow> snapshot s = None \<Longrightarrow> update_config_map ser (Some (cache s)) = Inr m \<Longrightarrow>
     stats_step ser api namespace release_name s (s\<lparr>snapshot := Some m\<rparr>)"
| take_snapshot_fails:
    "persisting s \<Longrightarrow> snapshot s = None \<Longrightarrow> update_config_map ser (Some (cache s)) = Inl e \<Longrightarrow>
     stats_step ser api namespace release_name s (s\<lparr>persisting := False\<rparr>)"
| apply_snapshot:
    "snapshot s = Some m \<Longrightarrow> patch_config_map api namespace release_name m (world s) = (r, w) \<Longrightarrow>
     stats_step ser api namespace release_name s
       (s\<lparr>snapshot := None, world := w, persisting := (r = Ok ())\<rparr>)"
| wait:
    "stats_step ser api namespace release_name s (s\<lparr>world := cm_sleep api d (world s)\<rparr>)"

inductive stats_reach ::
  "event_set ser \<Rightarrow> event_set de \<Rightarrow> 'w cm_api \<Rightarrow> string \<Rightarrow> string \<Rightarrow> 'w \<Rightarrow> 'w stats_sys \<Rightarrow> bool"
  for ser de api namespace release_name w0 where
  started:
    "stats_startup ser de api namespace release_name w0 = (Ok (Some es), w) \<Longrightarrow>
     stats_reach ser de api namespace release_name w0
       \<lparr>cache = es, snapshot = None, persisting = True, world = w, handled = []\<rparr>"
| stepped:
    "stats_reach ser de api namespace release_name w0 s \<Longrightarrow>
     stats_step ser api namespace release_name s t \<Longrightarrow>
     stats_reach ser de api namespace release_name w0 t"

text \<open>
  What the service relies on.  \<open>codec_ok\<close>: serde reads back what it wrote.  \<open>cm_laws\<close>: with
  \<open>data_at\<close> the data section stored under a name, a fetch or a creation answers with the
  stored object, a forced server-side apply stores every key it was given or, only when it
  reports an error, may leave the object alone, and waiting or connecting changes nothing
  (the service is the only writer).
\<close>

definition codec_ok :: "'a ser \<Rightarrow> 'a de \<Rightarrow> bool" where
  "codec_ok ser de \<longleftrightarrow> (\<forall>x v. ser x = Inr v \<longrightarrow> de v = Inr x)"

definition cm_laws ::
  "'w cm_api \<Rightarrow> ('w \<Rightarrow> string \<Rightarrow> string \<Rightarrow> (string \<rightharpoonup> string) option) \<Rightarrow> bool" where
  "cm_laws api data_at \<longleftrightarrow>
     (\<forall>w r w'. try_default api w = (r, w') \<longrightarrow> data_at w' = data_at w) \<and>
     (\<forall>d w. data_at (cm_sleep api d w) = data_at w) \<and>
     (\<forall>ns n w r w'. cm_get_opt api ns n w = (Inr r, w') \<longrightarrow>
        data_at w' = data_at w \<and> Option.bind r cm_data = data_at w ns n) \<and>
     (\<forall>ns n cm w r w'. cm_create api ns cm w = (Inr r, w') \<longrightarrow> cm_name cm = Some n \<longrightarrow>
        cm_data r = data_at w' ns n) \<and>
     (\<forall>ns n cm m w r w'. cm_patch api ns n cm w = (r, w') \<longrightarrow> cm_data cm = Some m \<longrightarrow>
        (\<exists>d. data_at w' ns n = Some d \<and> m \<subseteq>\<^sub>m d) \<or>
        (\<exists>e. r = Inl e) \<and> data_at w' ns n = data_at w ns n)"

definition stored_events ::
  "event_set de \<Rightarrow> (string \<rightharpoonup> string) option \<Rightarrow> (callhome_error, event_set) res" where
  "stored_events de d = from_event_store de \<lparr>cm_name = None, cm_labels = None, cm_data = d\<rparr>"

section \<open>Counting\<close>

definition n_messages :: "event_category \<Rightarrow> event_action \<Rightarrow> event_message list \<Rightarrow> nat" where
  "n_messages c a ms = count_list (map action (filter (\<lambda>m. category m = c) ms)) a"

lemma store_events_fold:
  "store_events sub (Some es) = Inr (Some (fold count_message sub es))"
  by (induction sub arbitrary: es)
    (simp_all add: store_events_def store_event_def cache_init_def count_message_def)

lemma fold_count_message_parts:
  "pool (fold count_message ms es) =
     fold pool_update_counter (map action (filter (\<lambda>m. category m = CatPool) ms)) (pool es)"
  "volume (fold count_message ms es) =
     fold volume_update_counter (map action (filter (\<lambda>m. category m = CatVolume) ms)) (volume es)"
  "nexus (fold count_message ms es) =
     fold nexus_update_counter (map action (filter (\<lambda>m. category m = CatNexus) ms)) (nexus es)"
  by (induction ms arbitrary: es)
    (auto simp: count_message_def inc_counter_def split: event_category.splits)

lemmas stats_counter_folds =
  pool_stats.counter_fold [of ActCreate, simplified] pool_stats.counter_fold [of ActDelete, simplified]
  volume_stats.counter_fold [of ActCreate, simplified] volume_stats.counter_fold [of ActDelete, simplified]
  nexus_stats.counter_fold [of ActCreate, simplified] nexus_stats.counter_fold [of ActDelete, simplified]
  nexus_stats.counter_fold [of ActRebuildBegin, simplified]
  nexus_stats.counter_fold [of ActRebuildEnd, simplified]

text \<open>
  Property C40. Counting a run of messages adds to each of the eight counters, as 32-bit
  words, exactly the number of messages of its category and action, and never fails once
  the cache is initialised; messages of other categories or actions change nothing.
\<close>

theorem store_events_counts:
  "\<exists>es'. store_events sub (Some es) = Inr (Some es') \<and>
     pool_created (pool es') = pool_created (pool es) + of_nat (n_messages CatPool ActCreate sub) \<and>
     pool_deleted (pool es') = pool_deleted (pool es) + of_nat (n_messages CatPool ActDelete sub) \<and>
     volume_created (volume es') =
       volume_created (volume es) + of_nat (n_messages CatVolume ActCreate sub) \<and>
     volume_deleted (volume es') =
       volume_deleted (volume es) + of_nat (n_messages CatVolume ActDelete sub) \<and>
     nexus_created (nexus es') =
       nexus_created (nexus es) + of_nat (n_messages CatNexus ActCreate sub) \<and>
     nexus_deleted (nexus es') =
       nexus_deleted (nexus es) + of_nat (n_messages CatNexus ActDelete sub) \<and>
     rebuild_started (nexus es') =
       rebuild_started (nexus es) + of_nat (n_messages CatNexus ActRebuildBegin sub) \<and>
     rebuild_ended (nexus es') =
       rebuild_ended (nexus es) + of_nat (n_messages CatNexus ActRebuildEnd sub)"
  by (rule exI [of _ "fold count_message sub es"])
    (simp add: store_events_fold fold_count_message_parts stats_counter_folds n_messages_def)

section \<open>The exposed families\<close>

lemma inc_labels_ok: "fst (inc_labels gm name lcs v) \<longleftrightarrow> (\<forall>l \<in> fst ` set lcs. gm name l)"
  by (induction lcs arbitrary: v) auto

lemma inc_labels_frame: "l \<notin> fst ` set lcs \<Longrightarrow> snd (inc_labels gm name lcs v) l = v l"
  by (induction lcs arbitrary: v) auto

lemma inc_labels_value:
  "distinct (map fst lcs) \<Longrightarrow> \<forall>l \<in> fst ` set lcs. gm name l \<Longrightarrow> lc \<in> set lcs \<Longrightarrow>
   snd (inc_labels gm name lcs v) (fst lc) = v (fst lc) + unat (snd lc)"
proof (induction lcs arbitrary: v)
  case (Cons x xs)
  show ?case
  proof (cases "lc = x")
    case True
    with Cons.prems show ?thesis by (simp add: inc_labels_frame)
  next
    case False
    with Cons.prems have "lc \<in> set xs" by simp
    moreover from this Cons.prems(1) have "fst lc \<noteq> fst x" by (metis image_eqI distinct.simps(2) list.simps(9) set_map)
    ultimately show ?thesis using Cons by simp
  qed
qed simp

lemma collect_labels_fresh:
  assumes "distinct (map fst lcs)"
  shows "fst (collect_labels gm name lcs (\<lambda>_. 0)) =
     (if \<forall>l \<in> fst ` set lcs. gm name l
      then map (\<lambda>lc. \<lparr>fam_name = name, fam_action = fst lc, fam_value = unat (snd lc)\<rparr>) lcs else [])"
  using assms by (simp add: collect_labels_def case_prod_beta Let_def inc_labels_ok inc_labels_value)

lemmas label_names = CREATED_def DELETED_def REBUILD_STARTED_def REBUILD_ENDED_def

text \<open>
  A request on \<open>/stats\<close> with all labels registered exposes exactly the eight
  counters of the cache, each under the name of its resource and its action label.
\<close>

theorem metrics_handlers_exports_counts:
  "metrics_handlers (\<lambda>_ _. True) encode (Some es) = Inr (encode
     [\<lparr>fam_name = ''volume'', fam_action = ''created'', fam_value = unat (volume_created (volume es))\<rparr>,
      \<lparr>fam_name = ''volume'', fam_action = ''deleted'', fam_value = unat (volume_deleted (volume es))\<rparr>,
      \<lparr>fam_name = ''pool'', fam_action = ''created'', fam_value = unat (pool_created (pool es))\<rparr>,
      \<lparr>fam_name = ''pool'', fam_action = ''deleted'', fam_value = unat (pool_deleted (pool es))\<rparr>,
      \<lparr>fam_name = ''nexus'', fam_action = ''created'', fam_value = unat (nexus_created (nexus es))\<rparr>,
      \<lparr>fam_name = ''nexus'', fam_action = ''deleted'', fam_value = unat (nexus_deleted (nexus es))\<rparr>,
      \<lparr>fam_name = ''nexus'', fam_action = ''rebuild_started'',
       fam_value = unat (rebuild_started (nexus es))\<rparr>,
      \<lparr>fam_name = ''nexus'', fam_action = ''rebuild_ended'',
       fam_value = unat (rebuild_ended (nexus es))\<rparr>])"
  by (simp add: metrics_handlers_def cache_init_def collect_def volume_metrics_def pool_metrics_def
      nexus_metrics_def stats_collector_new_def case_prod_beta collect_labels_fresh label_names)

section \<open>Persistence\<close>

inductive_cases stats_stepE: "stats_step ser api namespace release_name s t"

text \<open>
  The invariant: the cache holds the counts of everything handled, the snapshot and the
  stored object those of a prefix of it.
\<close>

definition counts_prefix :: "event_set \<Rightarrow> event_message list \<Rightarrow> event_set \<Rightarrow> bool" where
  "counts_prefix es0 ms es \<longleftrightarrow> (\<exists>k \<le> length ms. es = fold count_message (take k ms) es0)"

definition sys_inv ::
  "event_set ser \<Rightarrow> event_set de \<Rightarrow> (string \<rightharpoonup> string) option \<Rightarrow> event_set \<Rightarrow> 'w stats_sys \<Rightarrow> bool" where
  "sys_inv ser de stored es0 s \<longleftrightarrow>
     cache s = fold count_message (handled s) es0 \<and>
     (\<forall>m. snapshot s = Some m \<longrightarrow>
        (\<exists>es. counts_prefix es0 (handled s) es \<and> update_config_map ser (Some es) = Inr m)) \<and>
     (\<exists>es. counts_prefix es0 (handled s) es \<and> stored_events de stored = Inr es)"

lemma counts_prefix_all: "counts_prefix es0 ms (fold count_message ms es0)"
  unfolding counts_prefix_def by (rule exI [of _ "length ms"]) simp

lemma counts_prefix_snoc: "counts_prefix es0 ms es \<Longrightarrow> counts_prefix es0 (ms @ [m]) es"
  unfolding counts_prefix_def by (metis butlast_snoc le_Suc_eq length_append_singleton take_butlast le_imp_less_Suc)

lemma stored_events_snapshot:
  assumes "codec_ok ser de" "update_config_map ser (Some es) = Inr m" "m \<subseteq>\<^sub>m d"
  shows "stored_events de (Some d) = Inr es"
proof -
  from assms(2) obtain v where v: "ser es = Inr v" and m: "m = [EVENT_STATS_DATA \<mapsto> v]"
    by (auto simp: update_config_map_def cache_init_def res_bind_eq_Inr map_err_eq_Inr)
  from assms(3) m have "d EVENT_STATS_DATA = Some v" by (simp add: map_le_def)
  with assms(1) v show ?thesis
    by (simp add: stored_events_def from_event_store_def codec_ok_def)
qed

lemma cm_lawsD:
  assumes "cm_laws api data_at"
  shows cm_laws_connect: "try_default api w = (r, w') \<Longrightarrow> data_at w' = data_at w"
    and cm_laws_sleep: "data_at (cm_sleep api d w) = data_at w"
    and cm_laws_get: "cm_get_opt api ns n w = (Inr found, w') \<Longrightarrow>
      data_at w' = data_at w \<and> Option.bind found cm_data = data_at w ns n"
    and cm_laws_create: "cm_create api ns cm w = (Inr cm', w') \<Longrightarrow> cm_name cm = Some n \<Longrightarrow>
      cm_data cm' = data_at w' ns n"
    and cm_laws_patch: "cm_patch api ns n cm w = (rp, w') \<Longrightarrow> cm_data cm = Some m \<Longrightarrow>
      (\<exists>d. data_at w' ns n = Some d \<and> m \<subseteq>\<^sub>m d) \<or> data_at w' ns n = data_at w ns n"
  using assms unfolding cm_laws_def by meson+

lemma initialize_store_cases:
  assumes "cm_laws api data_at" "initialize_store ser api ns rn w0 = (Ok cm, w)"
  shows "(data_at w = data_at w0 \<or> data_at w0 ns (store_name rn) = None) \<and>
         cm_data cm = data_at w ns (store_name rn)"
proof -
  from assms(2) obtain w1 found w2 where
    conn: "try_default api w0 = (Inr (), w1)" and
    get: "cm_get_opt api ns (store_name rn) w1 = (Inr found, w2)" and
    rest: "(case found of Some cm \<Rightarrow> retP cm
            | None \<Rightarrow> create_configmap ser api ns (store_name rn)) w2 = (Ok cm, w)"
    unfolding initialize_store_def by (auto simp: prog_Ok_iff)
  from assms(1) conn get
  have data: "data_at w1 = data_at w0" "data_at w2 = data_at w0"
    and found: "Option.bind found cm_data = data_at w0 ns (store_name rn)"
    using cm_laws_connect [OF assms(1)] cm_laws_get [OF assms(1)] by (metis, metis, metis)
  show ?thesis
  proof (cases found)
    case (Some c)
    with rest found data show ?thesis by simp
  next
    case None
    with rest obtain cm0 w3 where "cm_create api ns cm0 w2 = (Inr cm, w3)"
        "cm_name cm0 = Some (store_name rn)" "w = cm_sleep api 5 w3"
      by (auto simp: create_configmap_def prog_Ok_iff Let_def)
    then have "cm_data cm = data_at w3 ns (store_name rn)" "data_at w = data_at w3"
      using cm_laws_create [OF assms(1)] cm_laws_sleep [OF assms(1)] by blast+
    with found None show ?thesis by simp
  qed
qed

lemma startup_stored:
  assumes "cm_laws api data_at" "stats_startup ser de api ns rn w0 = (Ok (Some es), w)"
  shows "(data_at w = data_at w0 \<or> data_at w0 ns (store_name rn) = None) \<and>
         stored_events de (data_at w ns (store_name rn)) = Inr es"
proof -
  from assms(2) obtain cm where "initialize_store ser api ns rn w0 = (Ok cm, w)"
      and "from_event_store de cm = Inr es"
    by (auto simp: stats_startup_def prog_Ok_iff initialize_events_cache_def cache_initialize_def)
  with initialize_store_cases [OF assms(1)] show ?thesis
    by (simp add: stored_events_def from_event_store_def)
qed

lemma patch_stored:
  assumes "cm_laws api data_at" "patch_config_map api ns rn m w = (r, w')"
  shows "(\<exists>d. data_at w' ns (store_name rn) = Some d \<and> m \<subseteq>\<^sub>m d) \<or>
         data_at w' ns (store_name rn) = data_at w ns (store_name rn)"
proof -
  let ?cm = "\<lparr>cm_name = Some (store_name rn), cm_labels = None, cm_data = Some m\<rparr>"
  from assms(2) obtain r' where "cm_patch api ns (store_name rn) ?cm w = (r', w')"
    by (auto simp: patch_config_map_def bindP_def callP_def Let_def
        split: prod.splits sum.splits outcome.splits)
  then show ?thesis by (rule cm_laws_patch [OF assms(1)]) simp
qed

lemma stats_step_inv:
  assumes laws: "cm_laws api data_at" and codec: "codec_ok ser de"
    and step: "stats_step ser api ns rn s t"
    and inv: "sys_inv ser de (data_at (world s) ns (store_name rn)) es0 s"
  shows "sys_inv ser de (data_at (world t) ns (store_name rn)) es0 t"
  using step
proof cases
  case (receive m c)
  then have "c = count_message m (cache s)"
    by (simp add: store_event_def cache_init_def count_message_def)
  with receive inv show ?thesis
    by (force simp: sys_inv_def intro: counts_prefix_snoc)
next
  case (take_snapshot m)
  with inv show ?thesis
    by (auto simp: sys_inv_def intro: counts_prefix_all)
next
  case (take_snapshot_fails e)
  with inv show ?thesis by (simp add: sys_inv_def)
next
  case (apply_snapshot m r w)
  from inv apply_snapshot obtain es where
    es: "counts_prefix es0 (handled s) es" "update_config_map ser (Some es) = Inr m"
    by (auto simp: sys_inv_def)
  from patch_stored [OF laws apply_snapshot(3)] show ?thesis
  proof
    assume "\<exists>d. data_at w ns (store_name rn) = Some d \<and> m \<subseteq>\<^sub>m d"
    with stored_events_snapshot [OF codec es(2)] es(1) inv apply_snapshot show ?thesis
      by (auto simp: sys_inv_def)
  qed (use inv apply_snapshot in \<open>simp add: sys_inv_def\<close>)
next
  case (wait d)
  with inv show ?thesis by (simp add: sys_inv_def cm_laws_sleep [OF laws])
qed

lemma stats_reach_inv:
  assumes laws: "cm_laws api data_at" and codec: "codec_ok ser de"
  shows "stats_reach ser de api ns rn w0 s \<Longrightarrow>
    \<exists>es0. (\<exists>w. stats_startup ser de api ns rn w0 = (Ok (Some es0), w)) \<and>
      sys_inv ser de (data_at (world s) ns (store_name rn)) es0 s"
proof (induction rule: stats_reach.induct)
  case (started es w)
  with startup_stored [OF laws started] show ?case
    by (auto simp: sys_inv_def counts_prefix_def)
next
  case (stepped s t)
  then show ?case using stats_step_inv [OF laws codec] by blast
qed

text \<open>
  Property C39. Whatever the interleaving of counting and persisting, if the service is
  restarted from any state it can reach, the counters it starts with are those the earlier
  run had after some prefix of the messages it handled: no event is counted twice and
  only the most recent ones can be lost.
\<close>

theorem restart_recovers_prefix:
  assumes "cm_laws api data_at" "codec_ok ser de"
    and "stats_reach ser de api ns rn w0 s"
    and "stats_startup ser de api ns rn (world s) = (Ok (Some es'), w')"
  shows "\<exists>es0 w k. stats_startup ser de api ns rn w0 = (Ok (Some es0), w) \<and>
     k \<le> length (handled s) \<and> store_events (take k (handled s)) (Some es0) = Inr (Some es')"
proof -
  obtain es0 w where start: "stats_startup ser de api ns rn w0 = (Ok (Some es0), w)"
    and inv: "sys_inv ser de (data_at (world s) ns (store_name rn)) es0 s"
    using stats_reach_inv [OF assms(1,2,3)] by blast
  from inv have "data_at (world s) ns (store_name rn) \<noteq> None"
    by (cases "data_at (world s) ns (store_name rn)")
      (auto simp: sys_inv_def stored_events_def from_event_store_def)
  with startup_stored [OF assms(1,4)]
  have "stored_events de (data_at (world s) ns (store_name rn)) = Inr es'" by auto
  with inv obtain k where "k \<le> length (handled s)" "es' = fold count_message (take k (handled s)) es0"
    by (auto simp: sys_inv_def counts_prefix_def)
  with start show ?thesis by (auto simp: store_events_fold)
qed

text \<open>
  An instance: the eight counters printed in decimal, and an API server that keeps its
  objects in a map, a patch overwriting the keys it names.
\<close>

definition dec_fields :: "event_set \<Rightarrow> u32 list" where
  "dec_fields es =
     [pool_created (pool es), pool_deleted (pool es), volume_created (volume es),
      volume_deleted (volume es), nexus_created (nexus es), nexus_deleted (nexus es),
      rebuild_started (nexus es), rebuild_ended (nexus es)]"

definition dec_ser :: "event_set ser" where
  "dec_ser es = Inr (str_join '','' (map (\<lambda>w. nat_to_string (unat w)) (dec_fields es)))"

definition dec_de :: "event_set de" where
  "dec_de v =
     (case map parse_u32 (split_char (CHR '','') v) of
        [Some a, Some b, Some c, Some d, Some e, Some f, Some g, Some h] \<Rightarrow>
          Inr \<lparr>pool = \<lparr>pool_created = a, pool_deleted = b\<rparr>,
               volume = \<lparr>volume_created = c, volume_deleted = d\<rparr>,
               nexus = \<lparr>nexus_created = e, nexus_deleted = f, rebuild_started = g, rebuild_ended = h\<rparr>\<rparr>
      | _ \<Rightarrow> Inl ''format'')"

type_synonym mem_world = "string \<times> string \<Rightarrow> (string \<rightharpoonup> string) option"

definition mem_api :: "mem_world cm_api" where
  "mem_api =
     \<lparr>try_default = (\<lambda>w. (Inr (), w)),
      cm_get_opt = (\<lambda>ns n w. (Inr (map_option
         (\<lambda>d. \<lparr>cm_name = Some n, cm_labels = None, cm_data = Some d\<rparr>) (w (ns, n))), w)),
      cm_create = (\<lambda>ns cm w. case cm_name cm of None \<Rightarrow> (Inl ''name'', w)
         | Some n \<Rightarrow> (Inr cm, w((ns, n) := cm_data cm))),
      cm_patch = (\<lambda>ns n cm w. (Inr cm, w((ns, n) :=
         Some (unwrap_or Map.empty (w (ns, n)) ++ unwrap_or Map.empty (cm_data cm))))),
      cm_sleep = (\<lambda>d w. w)\<rparr>"

lemma dec_codec_ok: "codec_ok dec_ser dec_de"
proof -
  have comma: "CHR '','' \<notin> set (nat_to_string n)" for n
    using nat_to_string_chars [of "CHR '',''" n] by (auto simp: char_digit_def)
  show ?thesis
    unfolding codec_ok_def dec_ser_def dec_de_def
    by (auto simp: split_char_join comma dec_fields_def simp del: str_join.simps)
qed

lemma mem_api_laws: "cm_laws mem_api (\<lambda>w ns n. w (ns, n))"
  unfolding cm_laws_def mem_api_def
  by (auto simp: unwrap_or_def map_le_def map_add_def dom_def bind_eq_Some_conv split: option.splits)
    (case_tac "w (ns, n)"; simp)+

definition mem_after_start :: mem_world where
  "mem_after_start = (\<lambda>_. None)((''ns'', ''r-event-store'') :=
     Some [EVENT_STATS_DATA \<mapsto> projr (dec_ser event_set_default)])"

definition one_created :: event_set where
  "one_created = inc_counter CatVolume ActCreate event_set_default"

lemma mem_startup:
  "stats_startup dec_ser dec_de mem_api ''ns'' ''r'' (\<lambda>_. None) =
     (Ok (Some event_set_default), mem_after_start)"
  "stats_startup dec_ser dec_de mem_api ''ns'' ''r'' mem_after_start =
     (Ok (Some event_set_default), mem_after_start)"
  using dec_codec_ok
  by (simp_all add: stats_startup_def initialize_store_def create_configmap_def mem_api_def
      mem_after_start_def init_config_map_data_def bindP_def callP_def store_name_def EVENT_STORE_def
      initialize_events_cache_def from_event_store_def codec_ok_def cache_initialize_def dec_ser_def)

theorem restart_recovers_prefix_witness:
  "\<exists>es0 w k. stats_startup dec_ser dec_de mem_api ''ns'' ''r'' (\<lambda>_. None) = (Ok (Some es0), w) \<and>
     k \<le> 1 \<and> store_events (take k [\<lparr>category = CatVolume, action = ActCreate\<rparr>]) (Some es0) =
       Inr (Some event_set_default)"
proof -
  let ?s = "\<lparr>cache = one_created, snapshot = None, persisting = True, world = mem_after_start,
    handled = [\<lparr>category = CatVolume, action = ActCreate\<rparr>]\<rparr>"
  have "stats_reach dec_ser dec_de mem_api ''ns'' ''r'' (\<lambda>_. None) ?s"
    using stats_reach.stepped [OF stats_reach.started [OF mem_startup(1)]
        stats_step.receive [of "\<lparr>category = CatVolume, action = ActCreate\<rparr>" _ one_created]]
    by (simp add: store_event_def cache_init_def one_created_def)
  from restart_recovers_prefix [OF mem_api_laws dec_codec_ok this, simplified, OF mem_startup(2)]
  show ?thesis by simp
qed

end
