(* ===== verification/F64.thy ===== *)
theory F64
  imports Prelude Complex_Main "HOL-Library.Log_Nat"
begin

text \<open>
  The \<open>f64\<close> arithmetic the sources use, on rational numbers: every operation computes the
  exact result and rounds it to 53 significant bits, ties to even.  The values that occur come
  from \<open>u64\<close> numbers and percentages, so there is no overflow, no infinity and no subnormal
  number to represent; the exponent range is left open.  The theory holds the conversions from
  and to \<open>u64\<close>, which round and saturate, and what the callers need of the rounding: it is
  monotone and leaves integers up to \<open>2 ^ 53\<close> alone.
\<close>

section \<open>Rounding\<close>

definition log2_rat :: "rat \<Rightarrow> int" where
  "log2_rat x =
     (let p = fst (quotient_of x); q = snd (quotient_of x); k = bitlen p - bitlen q
      in if 2 powi k \<le> x then k else k - 1)"

text \<open>The integer nearest to a rational, ties to even.\<close>

definition round_even :: "rat \<Rightarrow> int" where
  "round_even x =
     (let f = \<lfloor>x\<rfloor>; d = x - of_int f
      in if d < 1 / 2 \<or> d = 1 / 2 \<and> even f then f else f + 1)"

text \<open>The unit in the last place of a positive number.\<close>

definition ulp :: "rat \<Rightarrow> rat" where
  "ulp x = 2 powi (log2_rat x - 52)"

definition fl :: "rat \<Rightarrow> rat" where
  "fl x =
     (if x = 0 then 0
      else if 0 < x then of_int (round_even (x / ulp x)) * ulp x
      else - (of_int (round_even (- x / ulp (- x))) * ulp (- x)))"

definition fadd :: "rat \<Rightarrow> rat \<Rightarrow> rat" where "fadd x y = fl (x + y)"
definition fsub :: "rat \<Rightarrow> rat \<Rightarrow> rat" where "fsub x y = fl (x - y)"
definition fmul :: "rat \<Rightarrow> rat \<Rightarrow> rat" where "fmul x y = fl (x * y)"
definition fdiv :: "rat \<Rightarrow> rat \<Rightarrow> rat" where "fdiv x y = fl (x / y)"

text \<open>\<open>n as f64\<close>, and \<open>x as u64\<close>, which truncates and saturates.\<close>

definition f64_of_nat :: "nat \<Rightarrow> rat" where
  "f64_of_nat n = fl (of_nat n)"

definition u64_of_f64 :: "rat \<Rightarrow> u64" where
  "u64_of_f64 x = word_of_int (max 0 (min (2 ^ 64 - 1) (if 0 \<le> x then \<lfloor>x\<rfloor> else \<lceil>x\<rceil>)))"

text \<open>\<open>f64::round\<close>: ties away from zero.\<close>

definition f64_round :: "rat \<Rightarrow> rat" where
  "f64_round x = (if 0 \<le> x then of_int \<lfloor>x + 1 / 2\<rfloor> else - of_int \<lfloor>- x + 1 / 2\<rfloor>)"

section \<open>Facts on the rounding\<close>

lemma bitlen_bounds_rat:
  assumes "0 < p"
  shows "2 powi (bitlen p - 1) \<le> (of_int p :: rat)" "(of_int p :: rat) < 2 powi bitlen p"
proof -
  have *: "2 ^ nat (bitlen p - 1) \<le> p" "p < 2 ^ nat (bitlen p)"
    using bitlen_bounds [OF assms] by auto
  have nonneg: "0 \<le> bitlen p - 1" using assms bitlen_eq_zero_iff [of p] bitlen_nonneg [of p] by linarith
  have "(of_int (2 ^ nat (bitlen p - 1)) :: rat) \<le> of_int p" "(of_int p :: rat) < of_int (2 ^ nat (bitlen p))"
    using * by (simp_all only: of_int_le_iff of_int_less_iff)
  then show "2 powi (bitlen p - 1) \<le> (of_int p :: rat)" "(of_int p :: rat) < 2 powi bitlen p"
    using nonneg by (simp_all add: power_int_def)
qed

lemma log2_rat_bounds:
  assumes "0 < x"
  shows "2 powi log2_rat x \<le> x" "x < 2 powi (log2_rat x + 1)"
proof -
  obtain p q where pq: "quotient_of x = (p, q)" by fastforce
  have q: "0 < q" using quotient_of_denom_pos [OF pq] .
  have x: "x = of_int p / of_int q" using quotient_of_div [OF pq] .
  have p: "0 < p" using assms q x by (simp add: zero_less_divide_iff)
  note bp = bitlen_bounds_rat [OF p] and bq = bitlen_bounds_rat [OF q]
  define k where "k = bitlen p - bitlen q"
  have q0: "0 < (of_int q :: rat)" using q by simp
  have "(2::rat) powi (k - 1) = 2 powi (bitlen p - 1) / 2 powi bitlen q"
    by (simp add: k_def power_int_diff)
  also have "\<dots> \<le> of_int p / of_int q"
    using bp bq q0 p by (intro frac_le) auto
  finally have low: "2 powi (k - 1) \<le> x" by (simp add: x)
  have "x \<le> of_int p / 2 powi (bitlen q - 1)"
    unfolding x using bq p q0 by (intro divide_left_mono) auto
  also have "\<dots> < 2 powi bitlen p / 2 powi (bitlen q - 1)"
    using bp by (intro divide_strict_right_mono) auto
  also have "\<dots> = 2 powi (k + 1)" by (simp add: k_def power_int_diff power_int_add)
  finally have high: "x < 2 powi (k + 1)" .
  have "log2_rat x = (if 2 powi k \<le> x then k else k - 1)"
    by (simp add: log2_rat_def pq k_def Let_def)
  with low high show "2 powi log2_rat x \<le> x" "x < 2 powi (log2_rat x + 1)" by (auto split: if_splits)
qed

lemma log2_rat_mono:
  assumes "0 < x" "x \<le> y"
  shows "log2_rat x \<le> log2_rat y"
proof -
  have "2 powi log2_rat x < (2 :: rat) powi (log2_rat y + 1)"
    using log2_rat_bounds [of x] log2_rat_bounds [of y] assms by linarith
  then have "\<not> log2_rat y + 1 \<le> log2_rat x"
    using power_int_increasing [of "log2_rat y + 1" "log2_rat x" "2 :: rat"] by auto
  then show ?thesis by simp
qed

lemma round_even_le: "x \<le> of_int n \<Longrightarrow> round_even x \<le> n"
  by (auto simp: round_even_def Let_def floor_le_iff le_floor_iff less_floor_iff)

lemma round_even_ge: "of_int n \<le> x \<Longrightarrow> n \<le> round_even x"
  by (simp add: round_even_def Let_def le_floor_iff) linarith

lemma round_even_int [simp]: "round_even (of_int n) = n"
  by (simp add: round_even_def Let_def)

lemma round_even_mono:
  assumes "x \<le> y"
  shows "round_even x \<le> round_even y"
proof (cases "\<lfloor>x\<rfloor> = \<lfloor>y\<rfloor>")
  case True
  with assms show ?thesis by (auto simp: round_even_def Let_def)
next
  case False
  with assms have "\<lfloor>x\<rfloor> + 1 \<le> \<lfloor>y\<rfloor>" using floor_mono [OF assms] by linarith
  moreover have "round_even x \<le> \<lfloor>x\<rfloor> + 1" "\<lfloor>y\<rfloor> \<le> round_even y"
    by (simp_all add: round_even_def Let_def)
  ultimately show ?thesis by linarith
qed

lemma ulp_pos [simp]: "0 < ulp x" "ulp x \<noteq> 0" "0 \<le> ulp x"
  by (simp_all add: ulp_def)

lemma fl_pos: "0 < x \<Longrightarrow> fl x = of_int (round_even (x / ulp x)) * ulp x"
  by (simp add: fl_def)

lemma fl_zero [simp]: "fl 0 = 0"
  by (simp add: fl_def)

lemma scaled_bounds:
  assumes "0 < x"
  shows "of_int (2 ^ 52) \<le> x / ulp x" "x / ulp x \<le> of_int (2 ^ 53)"
proof -
  have "2 powi log2_rat x = of_int (2 ^ 52) * ulp x"
    and "2 powi (log2_rat x + 1) = of_int (2 ^ 53) * ulp x"
    by (simp_all add: ulp_def power_int_diff power_int_add)
  with log2_rat_bounds [OF assms] show "of_int (2 ^ 52) \<le> x / ulp x" "x / ulp x \<le> of_int (2 ^ 53)"
    by (simp_all add: pos_le_divide_eq pos_divide_le_eq)
qed

lemma fl_bounds:
  assumes "0 < x"
  shows "2 powi log2_rat x \<le> fl x" "fl x \<le> 2 powi (log2_rat x + 1)"
proof -
  have r: "2 ^ 52 \<le> round_even (x / ulp x)" "round_even (x / ulp x) \<le> 2 ^ 53"
    by (rule round_even_ge round_even_le; rule scaled_bounds [OF assms])+
  then have "of_int (2 ^ 52) \<le> (of_int (round_even (x / ulp x)) :: rat)"
    "(of_int (round_even (x / ulp x)) :: rat) \<le> of_int (2 ^ 53)"
    by (simp_all only: of_int_le_iff)
  then have "of_int (2 ^ 52) * ulp x \<le> fl x" "fl x \<le> of_int (2 ^ 53) * ulp x"
    by (simp_all only: fl_pos [OF assms] mult_right_mono ulp_pos)
  then show "2 powi log2_rat x \<le> fl x" "fl x \<le> 2 powi (log2_rat x + 1)"
    by (simp_all add: ulp_def power_int_diff power_int_add)
qed

lemma fl_mono:
  assumes "0 \<le> x" "x \<le> y"
  shows "fl x \<le> fl y"
proof (cases "x = 0")
  case True
  then show ?thesis
  proof (cases "y = 0")
    case False
    with assms have "0 < y" by simp
    from fl_bounds(1) [OF this] have "0 < fl y" by (rule less_le_trans [rotated]) simp
    with True show ?thesis by simp
  qed simp
next
  case False
  with assms have pos: "0 < x" "0 < y" by simp_all
  show ?thesis
  proof (cases "log2_rat x = log2_rat y")
    case True
    then have "ulp x = ulp y" by (simp add: ulp_def)
    moreover have "round_even (x / ulp y) \<le> round_even (y / ulp y)"
      by (intro round_even_mono divide_right_mono assms) simp
    ultimately show ?thesis by (simp add: fl_pos pos mult_right_mono)
  next
    case False
    with log2_rat_mono [OF pos(1) assms(2)] have "log2_rat x + 1 \<le> log2_rat y" by simp
    then have "(2 :: rat) powi (log2_rat x + 1) \<le> 2 powi log2_rat y" by (simp add: power_int_increasing)
    with fl_bounds(2) [OF pos(1)] fl_bounds(1) [OF pos(2)] show ?thesis by linarith
  qed
qed

lemma fl_nonneg [simp]: "0 \<le> x \<Longrightarrow> 0 \<le> fl x"
  using fl_mono [of 0 x] by simp

lemma fl_of_nat: "n \<le> 2 ^ 53 \<Longrightarrow> fl (of_nat n) = of_nat n"
proof (cases "n = 0")
  case False
  assume n: "n \<le> 2 ^ 53"
  define l where "l = log2_rat (of_nat n)"
  have pos: "0 < (of_nat n :: rat)" using False by simp
  have "2 powi l \<le> (2 :: rat) powi 53"
  proof -
    have "(of_nat n :: rat) \<le> of_nat (2 ^ 53)" using n by (simp only: of_nat_le_iff)
    with log2_rat_bounds(1) [OF pos] show ?thesis by (simp add: l_def)
  qed
  then have "l \<le> 53" using power_int_le_imp_le_exp [of "2 :: rat" l 53] by simp
  have "\<exists>m. of_nat n / ulp (of_nat n) = of_int m"
  proof (cases "l = 53")
    case True
    with log2_rat_bounds(1) [OF pos] have "of_nat (2 ^ 53) \<le> (of_nat n :: rat)" by (simp add: l_def)
    then have "2 ^ 53 \<le> n" by (simp only: of_nat_le_iff)
    with n have "n = 2 ^ 53" by simp
    with True show ?thesis by (intro exI [of _ "2 ^ 52"]) (simp add: ulp_def l_def)
  next
    case False
    with \<open>l \<le> 53\<close> have "ulp (of_nat n) = 1 / 2 ^ nat (52 - l)"
      by (simp add: ulp_def l_def power_int_def field_simps)
    then show ?thesis by (intro exI [of _ "int n * 2 ^ nat (52 - l)"]) simp
  qed
  then obtain m where m: "of_nat n / ulp (of_nat n) = of_int m" ..
  then have "of_int m * ulp (of_nat n) = of_nat n" by (simp add: field_simps)
  with m show ?thesis by (simp add: fl_pos [OF pos])
qed simp

lemma f64_of_nat_exact [simp]: "n \<le> 2 ^ 53 \<Longrightarrow> f64_of_nat n = of_nat n"
  by (simp add: f64_of_nat_def fl_of_nat)

text \<open>Rounding stays within bounds that are small integers.\<close>

lemma fl_le_nat: "0 \<le> x \<Longrightarrow> x \<le> of_nat n \<Longrightarrow> n \<le> 2 ^ 53 \<Longrightarrow> fl x \<le> of_nat n"
  using fl_mono [of x "of_nat n"] by (simp add: fl_of_nat)

lemma fl_ge_nat: "of_nat n \<le> x \<Longrightarrow> n \<le> 2 ^ 53 \<Longrightarrow> of_nat n \<le> fl x"
  using fl_mono [of "of_nat n" x] by (simp add: fl_of_nat)

lemma mono_nat: "mono nat"
  by (simp add: mono_def nat_mono)

lemma unat_round_u64:
  assumes "0 \<le> x"
  shows "unat (u64_of_f64 (f64_round x)) = min (2 ^ 64 - 1) (nat \<lfloor>x + 1 / 2\<rfloor>)"
proof -
  have "0 \<le> \<lfloor>x + 1 / 2\<rfloor>" using assms by simp
  then have eq: "u64_of_f64 (f64_round x) = word_of_int (min (2 ^ 64 - 1) \<lfloor>x + 1 / 2\<rfloor>)" (is "_ = word_of_int ?m")
    using assms by (simp add: u64_of_f64_def f64_round_def max_def)
  have "0 \<le> ?m" "?m < 2 ^ 64" using \<open>0 \<le> \<lfloor>x + 1 / 2\<rfloor>\<close> by auto
  then have "uint (u64_of_f64 (f64_round x)) = ?m" by (simp add: eq uint_word_of_int)
  then have "unat (u64_of_f64 (f64_round x)) = nat ?m" by (simp add: unat_eq_nat_uint)
  also have "\<dots> = min (nat (2 ^ 64 - 1)) (nat \<lfloor>x + 1 / 2\<rfloor>)" by (metis mono_nat min_of_mono)
  finally show ?thesis by (simp add: nat_diff_distrib)
qed

lemma round_u64_mono:
  assumes "0 \<le> x" "x \<le> y"
  shows "u64_of_f64 (f64_round x) \<le> u64_of_f64 (f64_round y)"
proof -
  have "nat \<lfloor>x + 1 / 2\<rfloor> \<le> nat \<lfloor>y + 1 / 2\<rfloor>" using assms by (intro nat_mono floor_mono) simp
  with assms show ?thesis by (simp add: word_le_nat_alt unat_round_u64)
qed

lemma round_u64_of_nat:
  assumes "n < 2 ^ 64"
  shows "u64_of_f64 (f64_round (of_nat n)) = of_nat n"
proof (rule word_unat_eq_iff [THEN iffD2])
  have "\<lfloor>of_nat n + 1 / 2 :: rat\<rfloor> = int n" by (rule floor_unique) simp_all
  then have "nat \<lfloor>of_nat n + 1 / 2 :: rat\<rfloor> = n" by simp
  moreover have "unat (of_nat n :: u64) = n" using assms by (simp add: unsigned_of_nat take_bit_nat_eq_self)
  ultimately show "unat (u64_of_f64 (f64_round (of_nat n))) = unat (of_nat n :: u64)"
    using assms by (simp add: unat_round_u64)
qed

section \<open>Evaluation\<close>

lemma round_even_eqI:
  assumes "\<bar>x - of_int m\<bar> \<le> 1 / 2" "\<bar>x - of_int m\<bar> = 1 / 2 \<Longrightarrow> even m"
  shows "round_even x = m"
proof (cases "of_int m \<le> x")
  case True
  with assms(1) have "\<lfloor>x\<rfloor> = m" by (intro floor_unique) linarith+
  with True assms show ?thesis by (auto simp: round_even_def Let_def)
next
  case False
  with assms(1) have "\<lfloor>x\<rfloor> = m - 1" by (intro floor_unique) auto
  with False assms show ?thesis by (auto simp: round_even_def Let_def)
qed

text \<open>The mantissa and the exponent given, rounding is a matter of comparing rationals.\<close>

lemma fl_eqI:
  assumes "2 powi k \<le> x" "x < 2 powi (k + 1)"
    and "\<bar>x / 2 powi (k - 52) - of_int m\<bar> \<le> 1 / 2" "\<bar>x / 2 powi (k - 52) - of_int m\<bar> = 1 / 2 \<Longrightarrow> even m"
  shows "fl x = of_int m * 2 powi (k - 52)"
proof -
  have pos: "0 < x" using assms(1) by (rule less_le_trans [rotated]) simp
  have "log2_rat x = k"
  proof (rule antisym)
    show "log2_rat x \<le> k"
      using log2_rat_bounds(1) [OF pos] assms(2) power_int_increasing [of "k + 1" "log2_rat x" "2 :: rat"] by fastforce
    show "k \<le> log2_rat x"
      using log2_rat_bounds(2) [OF pos] assms(1) power_int_increasing [of "log2_rat x + 1" k "2 :: rat"] by fastforce
  qed
  with assms(3,4) show ?thesis by (simp add: fl_pos [OF pos] ulp_def round_even_eqI)
qed

end
