(* ===== verification/ReportModels.thy ===== *)
theory ReportModels
  imports EventStats F64 "HOL-Library.Multiset"
begin

text \<open>
  The content of the call-home report (\<open>call-home/src/math.rs\<close> and
  \<open>call-home/src/bin/callhome/collector/report_models.rs\<close>): sizes and percentiles of volumes
  and pools, replica and state counts, disks per type and per node, and the event counters read
  from the metrics of the stats aggregator.

  The objects of the storage REST API (\<open>openapi::models\<close>) and the samples of
  \<open>prometheus_parse\<close> are records with the fields the sources read.  \<open>u64\<close> and \<open>u32\<close> are words,
  so that sums wrap as in the release profile; \<open>f64\<close> is \<open>F64\<close>.  A slice index out of range
  panics: the result type shows it, and \<open>Percentiles::new\<close> is proved never to do so.
\<close>

section \<open>Percentiles\<close>

datatype panic = IndexOutOfBounds | PoisonedLock

definition index :: "'a list \<Rightarrow> u64 \<Rightarrow> (panic, 'a) res" where
  "index xs i = (if unat i < length xs then Inr (xs ! unat i) else Inl IndexOutOfBounds)"

definition interpolate :: "u64 \<Rightarrow> u64 \<Rightarrow> rat \<Rightarrow> rat" where
  "interpolate lower_value upper_value pos =
     (let fraction = fsub pos (of_int \<lfloor>pos\<rfloor>)
      in fadd (f64_of_nat (unat lower_value))
           (fmul fraction (fsub (f64_of_nat (unat upper_value)) (f64_of_nat (unat lower_value)))))"

definition percentile_exclusive :: "u64 list \<Rightarrow> rat \<Rightarrow> (panic, rat option) res" where
  "percentile_exclusive sorted_data percentile =
     (let len = length sorted_data in
      if len = 0 then Inr None
      else if len = 1 then res_bind (index sorted_data 0) (\<lambda>v. Inr (Some (f64_of_nat (unat v))))
      else
        let pos = fdiv (fmul (fadd (f64_of_nat len) 1) percentile) 100 in
        if pos \<le> 1 then res_bind (index sorted_data 0) (\<lambda>v. Inr (Some (f64_of_nat (unat v))))
        else if pos \<ge> f64_of_nat len then
          res_bind (index sorted_data (of_nat len - 1)) (\<lambda>v. Inr (Some (f64_of_nat (unat v))))
        else
          let lower = u64_of_f64 (of_int \<lfloor>pos\<rfloor>) - 1; upper = u64_of_f64 (of_int \<lceil>pos\<rceil>) - 1
          in res_bind (index sorted_data lower) (\<lambda>l.
             res_bind (index sorted_data upper) (\<lambda>u. Inr (Some (interpolate l u pos)))))"

definition get_percentile :: "u64 list \<Rightarrow> nat \<Rightarrow> (panic, u64) res" where
  "get_percentile values percentile =
     res_bind (percentile_exclusive (sort values) (f64_of_nat percentile)) (\<lambda>p.
     Inr (u64_of_f64 (f64_round (unwrap_or 0 p))))"

record percentiles =
  percentile_50 :: u64
  percentile_75 :: u64
  percentile_90 :: u64

definition percentiles_default :: percentiles where
  "percentiles_default = \<lparr>percentile_50 = 0, percentile_75 = 0, percentile_90 = 0\<rparr>"

definition percentiles_new :: "u64 list \<Rightarrow> (panic, percentiles) res" where
  "percentiles_new values =
     res_bind (get_percentile values 50) (\<lambda>p50.
     res_bind (get_percentile values 75) (\<lambda>p75.
     res_bind (get_percentile values 90) (\<lambda>p90.
     Inr \<lparr>percentile_50 = p50, percentile_75 = p75, percentile_90 = p90\<rparr>)))"

definition get_max_value :: "u64 list \<Rightarrow> u64" where
  "get_max_value values = (case values of [] \<Rightarrow> 0 | v # vs \<Rightarrow> fold max vs v)"

definition get_min_value :: "u64 list \<Rightarrow> u64" where
  "get_min_value values = (case values of [] \<Rightarrow> 0 | v # vs \<Rightarrow> fold min vs v)"

definition mean_sum :: "u64 list \<Rightarrow> rat" where
  "mean_sum values =
     fold (\<lambda>value sum. fadd sum (fdiv (f64_of_nat (unat value)) (f64_of_nat (length values)))) values 0"

definition get_mean_value :: "u64 list \<Rightarrow> u64" where
  "get_mean_value values = u64_of_f64 (mean_sum values)"

section \<open>Event counters\<close>

text \<open>
  A sample of a scrape.  Its value is a float, which here may also be infinite or not a number;
  \<open>as u32\<close> truncates, saturates, and turns not-a-number into zero.
\<close>

datatype f64_value = Finite rat | PosInf | NegInf | NaN

datatype prom_value = Counter f64_value | OtherValue

record sample =
  sample_metric :: string
  sample_value :: prom_value
  sample_labels :: "string \<rightharpoonup> string"

fun u32_of_f64 :: "f64_value \<Rightarrow> u32" where
  "u32_of_f64 (Finite x) = word_of_int (max 0 (min (2 ^ 32 - 1) (if 0 \<le> x then \<lfloor>x\<rfloor> else \<lceil>x\<rceil>)))"
| "u32_of_f64 PosInf = - 1"
| "u32_of_f64 NegInf = 0"
| "u32_of_f64 NaN = 0"

datatype resource = ResUnknown | ResPool | ResVolume | ResNexus

datatype report_action = RaUnknown | RaCreated | RaDeleted | RaRebuildStarted | RaRebuildEnded

definition resource_from :: "string \<Rightarrow> resource" where
  "resource_from s = (if s = ''pool'' then ResPool else if s = ''volume'' then ResVolume else ResUnknown)"

definition action_from :: "string \<Rightarrow> report_action" where
  "action_from s =
     (if s = ''created'' then RaCreated
      else if s = ''deleted'' then RaDeleted
      else if s = ''rebuild_started'' then RaRebuildStarted
      else if s = ''rebuild_ended'' then RaRebuildEnded
      else RaUnknown)"

definition record_action :: "sample \<Rightarrow> report_action" where
  "record_action r = action_from (unwrap_or '''' (sample_labels r ACTION))"

definition record_resource :: "sample \<Rightarrow> resource" where
  "record_resource r = resource_from (sample_metric r)"

definition counter_value :: "sample \<Rightarrow> u32" where
  "counter_value r = (case sample_value r of Counter v \<Rightarrow> u32_of_f64 v | OtherValue \<Rightarrow> 0)"

definition try_counter :: "sample \<Rightarrow> resource \<Rightarrow> report_action \<Rightarrow> (unit, u32) res" where
  "try_counter r resource act =
     (if record_resource r = resource \<and> record_action r = act then Inr (counter_value r) else Inl ())"

text \<open>\<open>Option::<T>::from(&EventsRecord)\<close>: the first sample that is the counter asked for.\<close>

fun option_from :: "resource \<Rightarrow> report_action \<Rightarrow> sample list \<Rightarrow> u32 option" where
  "option_from resource act [] = None"
| "option_from resource act (s # ss) =
     (case try_counter s resource act of Inr v \<Rightarrow> Some v | Inl _ \<Rightarrow> option_from resource act ss)"

text \<open>The eight counter types of \<open>make_counter!\<close>, each by its resource and its action.\<close>

record event_data =
  ed_volume_created :: u32
  ed_volume_deleted :: u32
  ed_pool_created :: u32
  ed_pool_deleted :: u32
  ed_nexus_created :: u32
  ed_nexus_deleted :: u32
  ed_rebuild_started :: u32
  ed_rebuild_ended :: u32

definition event_data_default :: event_data where
  "event_data_default =
     \<lparr>ed_volume_created = 0, ed_volume_deleted = 0, ed_pool_created = 0, ed_pool_deleted = 0,
      ed_nexus_created = 0, ed_nexus_deleted = 0, ed_rebuild_started = 0, ed_rebuild_ended = 0\<rparr>"

definition event_data_from :: "sample list \<Rightarrow> event_data" where
  "event_data_from ss =
     \<lparr>ed_volume_created = unwrap_or 0 (option_from ResVolume RaCreated ss),
      ed_volume_deleted = unwrap_or 0 (option_from ResVolume RaDeleted ss),
      ed_pool_created = unwrap_or 0 (option_from ResPool RaCreated ss),
      ed_pool_deleted = unwrap_or 0 (option_from ResPool RaDeleted ss),
      ed_nexus_created = unwrap_or 0 (option_from ResNexus RaCreated ss),
      ed_nexus_deleted = unwrap_or 0 (option_from ResNexus RaDeleted ss),
      ed_rebuild_started = unwrap_or 0 (option_from ResNexus RaRebuildStarted ss),
      ed_rebuild_ended = unwrap_or 0 (option_from ResNexus RaRebuildEnded ss)\<rparr>"

section \<open>Objects of the storage API\<close>

datatype volume_status = VolUnknown | VolOnline | VolDegraded | VolFaulted | VolShutdown

record rest_volume =
  vol_size :: u64
  vol_num_replicas :: u8
  vol_status :: volume_status

record pool_spec =
  ps_id :: string
  ps_node :: string
  ps_disks :: "string list"

record pool_state =
  pst_node :: string
  pst_disks :: "string list"
  pst_capacity :: u64

record rest_pool =
  rp_spec :: "pool_spec option"
  rp_state :: "pool_state option"

record rest_replica =
  rr_pool :: string
  rr_size :: u64

record block_device =
  devname :: string
  devtype :: string
  devpath :: string
  devlinks :: "string list"
  bd_size :: u64
  is_rotational :: "bool option"
  connection_type :: string
  partition_name :: "string option"

section \<open>Volumes, pools, replicas and nexuses\<close>

record volume_replica_counts =
  one_replica :: u32
  two_replicas :: u32
  three_replicas :: u32
  four_replicas :: u32
  five_or_more_replicas :: u32

definition count_if :: "('a \<Rightarrow> bool) \<Rightarrow> 'a list \<Rightarrow> nat" where
  "count_if P xs = length (filter P xs)"

definition volume_replica_counts_new :: "rest_volume list \<Rightarrow> volume_replica_counts" where
  "volume_replica_counts_new vols =
     \<lparr>one_replica = of_nat (count_if (\<lambda>v. vol_num_replicas v = 1) vols),
      two_replicas = of_nat (count_if (\<lambda>v. vol_num_replicas v = 2) vols),
      three_replicas = of_nat (count_if (\<lambda>v. vol_num_replicas v = 3) vols),
      four_replicas = of_nat (count_if (\<lambda>v. vol_num_replicas v = 4) vols),
      five_or_more_replicas = of_nat (count_if (\<lambda>v. vol_num_replicas v \<ge> 5) vols)\<rparr>"

record volume_state_counts =
  vsc_unknown :: u64
  vsc_online :: u64
  vsc_degraded :: u64
  vsc_faulted :: u64
  vsc_shutdown :: u64

definition volume_state_counts_new :: "rest_volume list \<Rightarrow> volume_state_counts" where
  "volume_state_counts_new vols =
     \<lparr>vsc_unknown = of_nat (count_if (\<lambda>v. vol_status v = VolUnknown) vols),
      vsc_online = of_nat (count_if (\<lambda>v. vol_status v = VolOnline) vols),
      vsc_degraded = of_nat (count_if (\<lambda>v. vol_status v = VolDegraded) vols),
      vsc_faulted = of_nat (count_if (\<lambda>v. vol_status v = VolFaulted) vols),
      vsc_shutdown = of_nat (count_if (\<lambda>v. vol_status v = VolShutdown) vols)\<rparr>"

definition get_volumes_size_vector :: "rest_volume list \<Rightarrow> u64 list" where
  "get_volumes_size_vector vols = map vol_size vols"

definition get_replicas_size_vector :: "rest_volume list \<Rightarrow> u64 list" where
  "get_replicas_size_vector vols = map (\<lambda>v. ucast (vol_num_replicas v)) vols"

definition get_pools_size_vector :: "rest_pool list \<Rightarrow> u64 list" where
  "get_pools_size_vector ps = map pst_capacity (List.map_filter rp_state ps)"

record volumes_report =
  vr_count :: u64
  vr_min_size_in_bytes :: u64
  vr_mean_size_in_bytes :: u64
  vr_max_size_in_bytes :: u64
  vr_capacity_percentiles :: percentiles
  vr_created :: u32
  vr_deleted :: u32
  vr_replica_counts :: volume_replica_counts
  vr_state_counts :: volume_state_counts

definition volumes_new :: "rest_volume list \<Rightarrow> event_data \<Rightarrow> (panic, volumes_report) res" where
  "volumes_new vols ed =
     (let sizes = get_volumes_size_vector vols in
      res_bind (percentiles_new sizes) (\<lambda>pc.
      Inr \<lparr>vr_count = of_nat (length sizes), vr_min_size_in_bytes = get_min_value sizes,
           vr_mean_size_in_bytes = get_mean_value sizes, vr_max_size_in_bytes = get_max_value sizes,
           vr_capacity_percentiles = pc, vr_created = ed_volume_created ed, vr_deleted = ed_volume_deleted ed,
           vr_replica_counts = volume_replica_counts_new vols, vr_state_counts = volume_state_counts_new vols\<rparr>))"

record pools_report =
  pr_count :: u64
  pr_max_size_in_bytes :: u64
  pr_min_size_in_bytes :: u64
  pr_mean_size_in_bytes :: u64
  pr_capacity_percentiles :: percentiles
  pr_created :: u32
  pr_deleted :: u32
  pr_total_capacity_in_bytes :: u64

definition pools_new :: "rest_pool list \<Rightarrow> event_data \<Rightarrow> (panic, pools_report) res" where
  "pools_new ps ed =
     (let sizes = get_pools_size_vector ps in
      res_bind (percentiles_new sizes) (\<lambda>pc.
      Inr \<lparr>pr_count = of_nat (length sizes), pr_max_size_in_bytes = get_max_value sizes,
           pr_min_size_in_bytes = get_min_value sizes, pr_mean_size_in_bytes = get_mean_value sizes,
           pr_capacity_percentiles = pc, pr_created = ed_pool_created ed, pr_deleted = ed_pool_deleted ed,
           pr_total_capacity_in_bytes = sum_list sizes\<rparr>))"

record replicas_report =
  rr_count :: u64
  rr_count_per_volume_percentiles :: percentiles

definition replicas_new :: "nat \<Rightarrow> rest_volume list option \<Rightarrow> (panic, replicas_report) res" where
  "replicas_new replica_count vols =
     res_bind (case vols of None \<Rightarrow> Inr percentiles_default
               | Some vs \<Rightarrow> percentiles_new (get_replicas_size_vector vs)) (\<lambda>pc.
     Inr \<lparr>rr_count = of_nat replica_count, rr_count_per_volume_percentiles = pc\<rparr>)"

record nexus_report =
  nr_created :: u32
  nr_deleted :: u32
  nr_rebuild_started :: u32
  nr_rebuild_ended :: u32

definition nexus_new :: "event_data \<Rightarrow> nexus_report" where
  "nexus_new ed =
     \<lparr>nr_created = ed_nexus_created ed, nr_deleted = ed_nexus_deleted ed,
      nr_rebuild_started = ed_rebuild_started ed, nr_rebuild_ended = ed_rebuild_ended ed\<rparr>"

section \<open>Disks\<close>

record disk_type_info =
  dt_count :: u64
  dt_capacity_in_bytes :: u64

definition disk_type_info_default :: disk_type_info where
  "disk_type_info_default = \<lparr>dt_count = 0, dt_capacity_in_bytes = 0\<rparr>"

text \<open>\<open>entry(k).or_default()\<close> with a change of the entry.\<close>

definition upd_entry :: "'v \<Rightarrow> 'k \<Rightarrow> ('v \<Rightarrow> 'v) \<Rightarrow> ('k \<rightharpoonup> 'v) \<Rightarrow> ('k \<rightharpoonup> 'v)" where
  "upd_entry d k f m = m(k \<mapsto> f (unwrap_or d (m k)))"

definition BYTES_PER_SECTOR :: u64 where "BYTES_PER_SECTOR = 512"

definition get_disk_type :: "block_device option \<Rightarrow> string option \<Rightarrow> string" where
  "get_disk_type device_option scheme_option =
     (case device_option of
        Some device \<Rightarrow>
          (let dn = devname device in
           if starts_with ''/dev/sr'' dn then ''Optical Drive''
           else if starts_with ''/dev/fd'' dn then ''Floppy Disk''
           else if starts_with ''/dev/md'' dn then ''RAID Device''
           else if starts_with ''/dev/dm'' dn \<or> starts_with ''/dev/mapper'' dn then ''Device Mapper''
           else if starts_with ''/dev/xvd'' dn then ''Amazon Disk''
           else if starts_with ''/dev/mmcblk'' dn then ''Memory Card''
           else if starts_with ''/dev/mtd'' dn then ''Embedded Storage''
           else if starts_with ''/dev/tape'' dn then ''Magnetic Tape''
           else if starts_with ''/dev/loop'' dn then ''Loop Device''
           else if starts_with ''/dev/nbd'' dn then ''Network Block Device''
           else if starts_with ''/dev/ram'' dn then ''RAM Disk''
           else if connection_type device = ''usb'' then ''USB Disk''
           else if connection_type device = ''nvme'' then ''NVMe SSD''
           else if connection_type device = ''scsi'' \<and> is_rotational device = Some True then ''HDD''
           else if connection_type device = ''scsi'' \<and> is_rotational device = Some False then ''SSD''
           else if connection_type device = ''ata'' \<and> is_rotational device = Some True then ''HDD''
           else if connection_type device = ''ata'' \<and> is_rotational device = Some False then ''SSD''
           else ''Unknown'')
      | None \<Rightarrow>
          (case scheme_option of
             Some scheme \<Rightarrow> if scheme = ''pcie'' then ''NVMe SSD'' else ''Unknown''
           | None \<Rightarrow> ''Unknown''))"

record storage_media =
  sm_count :: u64
  sm_total_capacity_in_bytes :: u64
  sm_disk_types :: "string \<rightharpoonup> disk_type_info"

definition count_disk :: "block_device \<Rightarrow> (string \<rightharpoonup> disk_type_info) \<Rightarrow> (string \<rightharpoonup> disk_type_info)" where
  "count_disk device =
     upd_entry disk_type_info_default (get_disk_type (Some device) None) (\<lambda>i.
       i\<lparr>dt_capacity_in_bytes := dt_capacity_in_bytes i + bd_size device * BYTES_PER_SECTOR,
         dt_count := dt_count i + 1\<rparr>)"

definition storage_media_new :: "block_device list \<Rightarrow> storage_media" where
  "storage_media_new disks =
     \<lparr>sm_count = of_nat (length disks),
      sm_total_capacity_in_bytes = sum_list (map bd_size disks) * BYTES_PER_SECTOR,
      sm_disk_types = fold count_disk disks Map.empty\<rparr>"

definition get_device_path :: "string \<Rightarrow> string" where
  "get_device_path entry =
     (let without_protocol = last (split_str ''://'' entry)
      in hd (split_char (CHR ''?'') without_protocol))"

definition get_scheme :: "string \<Rightarrow> string option" where
  "get_scheme disk = (case split_str ''://'' disk of [] \<Rightarrow> None | s # _ \<Rightarrow> Some s)"

definition get_bdev :: "block_device list \<Rightarrow> string \<Rightarrow> block_device option" where
  "get_bdev disks pool_disk =
     (let device_path = get_device_path pool_disk
      in find (\<lambda>bd. device_path \<in> set (devlinks bd) \<or> str_contains device_path (devname bd)) disks)"

section \<open>Disks per node and per type\<close>

text \<open>
  The block devices of every node, a \<open>HashMap<String, Vec<BlockDevice>>\<close>: an association list
  with distinct keys.  The order in which \<open>values()\<close> yields them is a parameter of the caller.
\<close>

type_synonym node_disks = "(string \<times> block_device list) list"

record pool_info =
  pi_replicas :: u64
  pi_replicas_capacity_in_bytes :: u64

record node_info =
  ni_pools :: "pool_info list"
  ni_mayastor_managed_disks_count :: u64

definition node_info_default :: node_info where
  "node_info_default = \<lparr>ni_pools = [], ni_mayastor_managed_disks_count = 0\<rparr>"

definition pool_info_new :: "string \<Rightarrow> rest_replica list \<Rightarrow> pool_info" where
  "pool_info_new pool_id reps =
     (let pool_replicas = filter (\<lambda>r. rr_pool r = pool_id) reps
      in \<lparr>pi_replicas = of_nat (length pool_replicas),
          pi_replicas_capacity_in_bytes = sum_list (map rr_size pool_replicas)\<rparr>)"

text \<open>
  \<open>counted_node_disks.entry(node).or_insert(HashSet::new()).insert(name)\<close>: whether the name
  is new, and the sets afterwards.
\<close>

definition insert_counted :: "string \<Rightarrow> string \<Rightarrow> (string \<rightharpoonup> string set) \<Rightarrow> bool \<times> (string \<rightharpoonup> string set)" where
  "insert_counted node name counted =
     (let names = unwrap_or {} (counted node)
      in (name \<notin> names, counted(node \<mapsto> insert name names)))"

definition count_pool_disk ::
  "block_device list \<Rightarrow> string \<Rightarrow> string \<Rightarrow> (string \<rightharpoonup> node_info) \<times> (string \<rightharpoonup> string set)
     \<Rightarrow> (string \<rightharpoonup> node_info) \<times> (string \<rightharpoonup> string set)" where
  "count_pool_disk disks node pool_disk st =
     (case get_bdev disks pool_disk of
        None \<Rightarrow> st
      | Some bdev \<Rightarrow>
          (let (fresh, counted) = insert_counted node (unwrap_or (devname bdev) (partition_name bdev)) (snd st)
           in (if fresh
               then upd_entry node_info_default node (\<lambda>i.
                      i\<lparr>ni_mayastor_managed_disks_count := ni_mayastor_managed_disks_count i + 1\<rparr>) (fst st)
               else fst st, counted)))"

definition add_pool_spec ::
  "rest_replica list \<Rightarrow> node_disks \<Rightarrow> pool_spec \<Rightarrow> (string \<rightharpoonup> node_info) \<times> (string \<rightharpoonup> string set)
     \<Rightarrow> (string \<rightharpoonup> node_info) \<times> (string \<rightharpoonup> string set)" where
  "add_pool_spec reps nds spec st =
     (let st1 = (upd_entry node_info_default (ps_node spec) (\<lambda>i.
                   i\<lparr>ni_pools := ni_pools i @ [pool_info_new (ps_id spec) reps]\<rparr>) (fst st), snd st)
      in case map_of nds (ps_node spec) of
           None \<Rightarrow> st1
         | Some disks \<Rightarrow> fold (count_pool_disk disks (ps_node spec)) (ps_disks spec) st1)"

definition storage_nodes_new :: "rest_replica list \<Rightarrow> rest_pool list \<Rightarrow> node_disks \<Rightarrow> (string \<rightharpoonup> node_info)" where
  "storage_nodes_new reps ps nds =
     fst (fold (add_pool_spec reps nds) (List.map_filter rp_spec ps) (Map.empty, Map.empty))"

definition parent_bdev :: "block_device list \<Rightarrow> block_device \<Rightarrow> block_device option" where
  "parent_bdev disks bdev =
     Option.bind (partition_name bdev) (\<lambda>parent. find (\<lambda>bd. str_contains parent (devname bd)) disks)"

fun add_pool_state ::
  "node_disks \<Rightarrow> pool_state \<Rightarrow> (string \<rightharpoonup> disk_type_info) \<times> (string \<rightharpoonup> string set)
     \<Rightarrow> (string \<rightharpoonup> disk_type_info) \<times> (string \<rightharpoonup> string set)" where
  "add_pool_state nds st (types, counted) =
     (case map_of nds (pst_node st) of
        None \<Rightarrow> (types, counted)
      | Some disks \<Rightarrow>
          (case pst_disks st of
             [] \<Rightarrow> (types, counted)
           | pool_disk # _ \<Rightarrow>
               (case get_bdev disks pool_disk of
                  Some bdev \<Rightarrow>
                    (let counted_bdev = unwrap_or bdev (parent_bdev disks bdev);
                         disk_type = get_disk_type (Some counted_bdev) None;
                         (fresh, counted') = insert_counted (pst_node st) (devname counted_bdev) counted
                     in (upd_entry disk_type_info_default disk_type (\<lambda>i.
                           i\<lparr>dt_capacity_in_bytes := dt_capacity_in_bytes i + pst_capacity st,
                             dt_count := (if fresh then dt_count i + 1 else dt_count i)\<rparr>) types, counted'))
                | None \<Rightarrow>
                    (case get_scheme pool_disk of
                       Some scheme \<Rightarrow>
                         (upd_entry disk_type_info_default (get_disk_type None (Some scheme)) (\<lambda>i.
                            i\<lparr>dt_capacity_in_bytes := dt_capacity_in_bytes i + pst_capacity st,
                              dt_count := dt_count i + 1\<rparr>) types, counted)
                     | None \<Rightarrow> (types, counted)))))"

definition mayastor_managed_disks_new :: "rest_pool list \<Rightarrow> node_disks \<Rightarrow> (string \<rightharpoonup> disk_type_info)" where
  "mayastor_managed_disks_new ps nds =
     fst (fold (add_pool_state nds) (List.map_filter rp_state ps) (Map.empty, Map.empty))"

record report =
  k8s_cluster_id :: string
  k8s_node_count :: "u8 option"
  product_name :: string
  product_version :: string
  deploy_namespace :: string
  storage_node_count :: "u8 option"
  report_pools :: "pools_report option"
  report_volumes :: "volumes_report option"
  report_replicas :: "replicas_report option"
  report_nexus :: nexus_report
  control_plane_version :: string
  report_storage_nodes :: "string \<rightharpoonup> node_info"
  report_managed_disks :: "string \<rightharpoonup> disk_type_info"
  report_storage_media :: storage_media
  report_logs :: "string list"

section \<open>Percentiles are ordered and within the data\<close>

lemma index_in: "unat i < length xs \<Longrightarrow> index xs i = Inr (xs ! unat i)"
  by (simp add: index_def)

lemma u64_of_nat_minus_one:
  assumes "0 < n" "n < 2 ^ 64"
  shows "unat (of_nat n - 1 :: u64) = n - 1"
proof -
  have "unat (of_nat n - 1 :: u64) = unat (of_nat (n - 1) :: u64)" using assms(1) by (simp add: of_nat_diff)
  also have "unat (of_nat (n - 1) :: u64) = n - 1"
    using assms by (simp only: unsigned_of_nat of_nat_id) (intro take_bit_nat_eq_self, simp)
  finally show ?thesis .
qed

lemma u64_of_int_f64: "0 \<le> i \<Longrightarrow> i < 2 ^ 64 \<Longrightarrow> u64_of_f64 (of_int i) = word_of_int i"
  by (simp add: u64_of_f64_def)

text \<open>The position computed for a percentage, and the interpolation at it.\<close>

declare add_pool_state.simps [simp del] of_nat_unat [simp del]

definition percentile_pos :: "nat \<Rightarrow> rat \<Rightarrow> rat" where
  "percentile_pos len percentile = fdiv (fmul (fadd (f64_of_nat len) 1) percentile) 100"

lemma percentile_pos_mono: "0 \<le> p \<Longrightarrow> p \<le> q \<Longrightarrow> percentile_pos len p \<le> percentile_pos len q"
  unfolding percentile_pos_def fdiv_def fmul_def fadd_def f64_of_nat_def
  by (intro fl_mono divide_right_mono mult_left_mono fl_nonneg divide_nonneg_nonneg mult_nonneg_nonneg) auto

text \<open>The value at a position of sorted data, as the three branches give it.\<close>

definition value_at :: "u64 list \<Rightarrow> rat \<Rightarrow> rat" where
  "value_at xs pos =
     (if pos \<le> 1 then of_nat (unat (xs ! 0))
      else if of_nat (length xs) \<le> pos then of_nat (unat (xs ! (length xs - 1)))
      else interpolate (xs ! (nat \<lfloor>pos\<rfloor> - 1)) (xs ! (nat \<lceil>pos\<rceil> - 1)) pos)"

definition small :: "u64 list \<Rightarrow> bool" where
  "small xs \<longleftrightarrow> length xs \<le> 2 ^ 53 \<and> (\<forall>x \<in> set xs. unat x \<le> 2 ^ 53)"

lemma sort_eq_Nil: "sort xs = [] \<longleftrightarrow> xs = []"
  by (metis length_0_conv length_sort)

lemma percentile_exclusive_value:
  assumes "small xs" "xs \<noteq> []"
  shows "percentile_exclusive xs p =
    Inr (Some (if length xs = 1 then of_nat (unat (xs ! 0)) else value_at xs (percentile_pos (length xs) p)))"
proof -
  define pos where "pos = percentile_pos (length xs) p"
  have exact: "f64_of_nat (length xs) = of_nat (length xs)" "i < length xs \<Longrightarrow> f64_of_nat (unat (xs ! i)) = of_nat (unat (xs ! i))" for i
    using assms by (auto simp: small_def)
  have len: "length xs < 2 ^ 64" using assms by (simp add: small_def)
  have last: "index xs (of_nat (length xs) - 1) = Inr (xs ! (length xs - 1))"
    using assms len by (simp add: index_def u64_of_nat_minus_one)
  have mid: "index xs (u64_of_f64 (of_int i) - 1) = Inr (xs ! (nat i - 1))" if "1 \<le> i" "i \<le> int (length xs)" for i
  proof -
    have "u64_of_f64 (of_int i) = of_nat (nat i)" using that len by (simp add: u64_of_int_f64)
    moreover have "unat (of_nat (nat i) - 1 :: u64) = nat i - 1"
      using that len by (intro u64_of_nat_minus_one) linarith+
    moreover have "nat i - 1 < length xs" using that by linarith
    ultimately show ?thesis by (simp only: index_def if_True)
  qed
  have bounds: "1 \<le> \<lfloor>pos\<rfloor> \<and> \<lfloor>pos\<rfloor> \<le> int (length xs)" "1 \<le> \<lceil>pos\<rceil> \<and> \<lceil>pos\<rceil> \<le> int (length xs)"
    if "1 < pos" "pos < of_nat (length xs)"
    using that by (auto simp: le_floor_iff floor_le_iff ceiling_le_iff)
  have head: "index xs 0 = Inr (xs ! 0)" using assms by (simp add: index_def)
  have pos': "fdiv (fmul (fadd (of_nat (length xs)) 1) p) 100 = pos"
    by (simp add: pos_def percentile_pos_def exact)
  have nonempty: "xs ! 0 \<in> set xs" "xs ! (length xs - 1) \<in> set xs" using assms(2) by auto
  show ?thesis
  proof (cases "1 < pos \<and> pos < of_nat (length xs)")
    case True
    with mid bounds show ?thesis
      by (simp add: percentile_exclusive_def Let_def head pos' exact(1) value_at_def pos_def [symmetric])
         (use assms(2) exact in auto)
  next
    case False
    with assms(2) show ?thesis
      by (auto simp: percentile_exclusive_def Let_def head last pos' exact value_at_def pos_def [symmetric])
  qed
qed

lemma interpolate_eq:
  assumes "unat l \<le> unat u" "unat u \<le> 2 ^ 53"
  shows "interpolate l u pos =
    fl (of_nat (unat l) + fl (fl (pos - of_int \<lfloor>pos\<rfloor>) * of_nat (unat u - unat l)))"
proof -
  have "fl (of_nat (unat u) - of_nat (unat l) :: rat) = of_nat (unat u - unat l)"
    using assms fl_of_nat [of "unat u - unat l"] by (simp add: of_nat_diff)
  with assms show ?thesis by (simp add: interpolate_def Let_def fadd_def fmul_def fsub_def)
qed

lemma fraction_bounds: "0 \<le> fl (pos - of_int \<lfloor>pos\<rfloor>)" "fl (pos - of_int \<lfloor>pos\<rfloor>) \<le> 1"
  using fl_le_nat [of "pos - of_int \<lfloor>pos\<rfloor>" 1] by (simp_all add: le_diff_eq diff_le_eq) linarith

lemma interpolate_bounds:
  assumes "l \<le> u" "unat u \<le> 2 ^ 53"
  shows "of_nat (unat l) \<le> interpolate l u pos" "interpolate l u pos \<le> of_nat (unat u)"
proof -
  define d where "d = unat u - unat l"
  have le: "unat l \<le> unat u" using assms by (simp add: word_le_nat_alt)
  have p: "0 \<le> fl (fl (pos - of_int \<lfloor>pos\<rfloor>) * of_nat d)" "fl (fl (pos - of_int \<lfloor>pos\<rfloor>) * of_nat d) \<le> of_nat d"
    using fraction_bounds [of pos] assms
    by (auto intro!: fl_nonneg fl_le_nat mult_left_le_one_le simp: d_def simp del: of_nat_diff)
  have u: "of_nat (unat l) + (of_nat d :: rat) = of_nat (unat u)" using le by (simp add: d_def)
  show "of_nat (unat l) \<le> interpolate l u pos"
    unfolding interpolate_eq [OF le assms(2)] d_def [symmetric]
    using p le assms by (intro fl_ge_nat) auto
  show "interpolate l u pos \<le> of_nat (unat u)"
    unfolding interpolate_eq [OF le assms(2)] d_def [symmetric]
    using p u assms by (intro fl_le_nat) auto
qed

lemma interpolate_mono:
  assumes "l \<le> u" "unat u \<le> 2 ^ 53" "p \<le> q" "\<lfloor>p\<rfloor> = \<lfloor>q\<rfloor>"
  shows "interpolate l u p \<le> interpolate l u q"
proof -
  have le: "unat l \<le> unat u" using assms by (simp add: word_le_nat_alt)
  have "fl (p - of_int \<lfloor>p\<rfloor>) \<le> fl (q - of_int \<lfloor>q\<rfloor>)" using assms by (intro fl_mono) (auto simp flip: assms(4))
  then have "fl (fl (p - of_int \<lfloor>p\<rfloor>) * of_nat (unat u - unat l)) \<le> fl (fl (q - of_int \<lfloor>q\<rfloor>) * of_nat (unat u - unat l))"
    using fraction_bounds(1) [of p] by (intro fl_mono [of "_ * _"] mult_right_mono mult_nonneg_nonneg) auto
  moreover have "0 \<le> fl (fl (p - of_int \<lfloor>p\<rfloor>) * of_nat (unat u - unat l))"
    using fraction_bounds [of p] by simp
  ultimately show ?thesis
    unfolding interpolate_eq [OF le assms(2)] by (intro fl_mono [of "_ + _"] add_left_mono) auto
qed

text \<open>Positions strictly inside sorted data.\<close>

lemma inside_bounds:
  assumes "1 < pos" "pos < of_nat n"
  shows "nat \<lfloor>pos\<rfloor> - 1 < n" "nat \<lceil>pos\<rceil> - 1 < n" "nat \<lfloor>pos\<rfloor> - 1 \<le> nat \<lceil>pos\<rceil> - 1" "1 \<le> \<lfloor>pos\<rfloor>"
proof -
  have "1 \<le> \<lfloor>pos\<rfloor>" "\<lfloor>pos\<rfloor> < int n" using assms by (simp_all add: le_floor_iff floor_less_iff)
  moreover have "\<lceil>pos\<rceil> \<le> int n" using assms by (simp add: ceiling_le_iff)
  moreover have "\<lfloor>pos\<rfloor> \<le> \<lceil>pos\<rceil>" by (rule floor_le_ceiling)
  ultimately show "nat \<lfloor>pos\<rfloor> - 1 < n" "nat \<lceil>pos\<rceil> - 1 < n" "nat \<lfloor>pos\<rfloor> - 1 \<le> nat \<lceil>pos\<rceil> - 1" "1 \<le> \<lfloor>pos\<rfloor>"
    by linarith+
qed

lemma value_at_bounds:
  assumes "small xs" "sorted xs" "xs \<noteq> []"
  shows "of_nat (unat (xs ! 0)) \<le> value_at xs pos" "value_at xs pos \<le> of_nat (unat (xs ! (length xs - 1)))"
proof -
  have ord: "i \<le> j \<Longrightarrow> j < length xs \<Longrightarrow> xs ! i \<le> xs ! j" for i j
    using assms(2) by (simp add: sorted_nth_mono)
  have up: "i \<le> j \<Longrightarrow> j < length xs \<Longrightarrow> (of_nat (unat (xs ! i)) :: rat) \<le> of_nat (unat (xs ! j))" for i j
    using ord by (simp add: word_le_nat_alt)
  have "of_nat (unat (xs ! 0)) \<le> value_at xs pos \<and> value_at xs pos \<le> of_nat (unat (xs ! (length xs - 1)))"
  proof (cases "1 < pos \<and> pos < of_nat (length xs)")
    case True
    then have ins: "nat \<lceil>pos\<rceil> - 1 < length xs" "nat \<lfloor>pos\<rfloor> - 1 \<le> nat \<lceil>pos\<rceil> - 1" using inside_bounds [of pos] by blast+
    have "unat (xs ! (nat \<lceil>pos\<rceil> - 1)) \<le> 2 ^ 53" using assms(1) ins by (simp add: small_def)
    note ip = interpolate_bounds [OF ord [OF ins(2,1)] this, of pos]
    have "(of_nat (unat (xs ! 0)) :: rat) \<le> of_nat (unat (xs ! (nat \<lfloor>pos\<rfloor> - 1)))"
      "(of_nat (unat (xs ! (nat \<lceil>pos\<rceil> - 1))) :: rat) \<le> of_nat (unat (xs ! (length xs - 1)))"
      using ins by (intro up; linarith)+
    with ip True show ?thesis unfolding value_at_def by simp
  next
    case False
    with up [of 0 "length xs - 1"] assms(3) show ?thesis by (auto simp: value_at_def)
  qed
  then show "of_nat (unat (xs ! 0)) \<le> value_at xs pos" "value_at xs pos \<le> of_nat (unat (xs ! (length xs - 1)))"
    by simp_all
qed

lemma value_at_mono:
  assumes "small xs" "sorted xs" "xs \<noteq> []" "p \<le> q"
  shows "value_at xs p \<le> value_at xs q"
proof (cases "1 < p \<and> q < of_nat (length xs)")
  case True
  with assms(4) have p: "1 < p" "p < of_nat (length xs)" and q: "1 < q" "q < of_nat (length xs)" by auto
  have ord: "i \<le> j \<Longrightarrow> j < length xs \<Longrightarrow> xs ! i \<le> xs ! j" for i j
    using assms(2) by (simp add: sorted_nth_mono)
  have lim: "i < length xs \<Longrightarrow> unat (xs ! i) \<le> 2 ^ 53" for i
    using assms(1) by (simp add: small_def)
  note bp = inside_bounds [OF p] and bq = inside_bounds [OF q]
  note ip = interpolate_bounds [OF ord [OF bp(3,2)] lim [OF bp(2)], of p]
  note iq = interpolate_bounds [OF ord [OF bq(3,2)] lim [OF bq(2)], of q]
  have vp: "value_at xs p = interpolate (xs ! (nat \<lfloor>p\<rfloor> - 1)) (xs ! (nat \<lceil>p\<rceil> - 1)) p"
    and vq: "value_at xs q = interpolate (xs ! (nat \<lfloor>q\<rfloor> - 1)) (xs ! (nat \<lceil>q\<rceil> - 1)) q"
    using p q by (simp_all add: value_at_def)
  show ?thesis
  proof (cases "\<lceil>p\<rceil> \<le> \<lfloor>q\<rfloor>")
    case True
    then have "nat \<lceil>p\<rceil> - 1 \<le> nat \<lfloor>q\<rfloor> - 1" by (simp add: diff_le_mono nat_mono)
    from ord [OF this bq(1)] have "(of_nat (unat (xs ! (nat \<lceil>p\<rceil> - 1))) :: rat) \<le> of_nat (unat (xs ! (nat \<lfloor>q\<rfloor> - 1)))"
      by (simp add: word_le_nat_alt)
    with ip(2) iq(1) vp vq show ?thesis by linarith
  next
    case False
    have "\<lfloor>p\<rfloor> \<le> \<lfloor>q\<rfloor>" "\<lceil>p\<rceil> \<le> \<lceil>q\<rceil>" using assms(4) by (simp_all add: floor_mono ceiling_mono)
    moreover have "\<lceil>p\<rceil> \<le> \<lfloor>p\<rfloor> + 1" "\<lceil>q\<rceil> \<le> \<lfloor>q\<rfloor> + 1" by linarith+
    ultimately have eq: "\<lfloor>p\<rfloor> = \<lfloor>q\<rfloor>" "\<lceil>p\<rceil> = \<lceil>q\<rceil>" using False by linarith+
    show ?thesis unfolding vp vq eq
      using interpolate_mono [OF ord [OF bq(3,2)] lim [OF bq(2)] assms(4) eq(1)] .
  qed
next
  case False
  with assms(4) value_at_bounds [OF assms(1-3), of p] value_at_bounds [OF assms(1-3), of q]
  show ?thesis by (auto simp: value_at_def not_less split: if_splits)
qed

definition percentile_value :: "u64 list \<Rightarrow> nat \<Rightarrow> rat" where
  "percentile_value xs p =
     (if length xs = 1 then of_nat (unat (xs ! 0)) else value_at xs (percentile_pos (length xs) (f64_of_nat p)))"

lemma get_percentile_value:
  assumes "small xs" "xs \<noteq> []"
  shows "get_percentile xs p = Inr (u64_of_f64 (f64_round (percentile_value (sort xs) p)))"
proof -
  have "small (sort xs)" "sort xs \<noteq> []" using assms by (simp_all add: small_def sort_eq_Nil)
  from percentile_exclusive_value [OF this, of "f64_of_nat p"] show ?thesis
    by (simp add: get_percentile_def percentile_value_def)
qed

lemma percentile_value_bounds:
  assumes "small xs" "sorted xs" "xs \<noteq> []"
  shows "of_nat (unat (xs ! 0)) \<le> percentile_value xs p"
    "percentile_value xs p \<le> of_nat (unat (xs ! (length xs - 1)))"
  using value_at_bounds [OF assms] by (simp_all add: percentile_value_def)

lemma percentile_value_mono:
  assumes "small xs" "sorted xs" "xs \<noteq> []" "p \<le> q" "q \<le> 2 ^ 53"
  shows "percentile_value xs p \<le> percentile_value xs q"
  using assms by (auto simp: percentile_value_def intro!: value_at_mono percentile_pos_mono)

lemma fold_max_Max: "fold max vs (v :: 'a :: linorder) = Max (insert v (set vs))"
  by (simp add: Max.set_eq_fold flip: list.set)

lemma fold_min_Min: "fold min vs (v :: 'a :: linorder) = Min (insert v (set vs))"
  by (simp add: Min.set_eq_fold flip: list.set)

lemma get_max_value_eq: "xs \<noteq> [] \<Longrightarrow> get_max_value xs = Max (set xs)"
  by (cases xs) (simp_all add: get_max_value_def fold_max_Max)

lemma get_min_value_eq: "xs \<noteq> [] \<Longrightarrow> get_min_value xs = Min (set xs)"
  by (cases xs) (simp_all add: get_min_value_def fold_min_Min)

lemma sort_ends:
  assumes "xs \<noteq> ([] :: 'a :: linorder list)"
  shows "sort xs ! 0 = Min (set xs)" "sort xs ! (length xs - 1) = Max (set xs)"
proof -
  have ne: "sort xs \<noteq> []" using assms by (simp add: sort_eq_Nil)
  have "sort xs ! 0 \<in> set (sort xs)" "sort xs ! (length xs - 1) \<in> set (sort xs)"
    using assms by (intro nth_mem; simp)+
  moreover have "sort xs ! 0 \<le> x \<and> x \<le> sort xs ! (length xs - 1)" if x: "x \<in> set (sort xs)" for x
  proof -
    obtain i where "i < length (sort xs)" "sort xs ! i = x" using x unfolding in_set_conv_nth by blast
    then show ?thesis
      using sorted_nth_mono [of "sort xs" 0 i] sorted_nth_mono [of "sort xs" i "length xs - 1"] by simp
  qed
  ultimately show "sort xs ! 0 = Min (set xs)" "sort xs ! (length xs - 1) = Max (set xs)"
    using Min_eqI [of "set xs" "sort xs ! 0"] Max_eqI [of "set xs" "sort xs ! (length xs - 1)"] by auto
qed

lemma get_percentile_bounds:
  assumes "small xs" "xs \<noteq> []"
  shows "\<exists>v. get_percentile xs p = Inr v \<and> get_min_value xs \<le> v \<and> v \<le> get_max_value xs"
proof -
  define ys where "ys = sort xs"
  have ys: "small ys" "sorted ys" "ys \<noteq> []" "length ys = length xs"
    using assms by (simp_all add: small_def ys_def sort_eq_Nil)
  have ends: "get_min_value xs = ys ! 0" "get_max_value xs = ys ! (length ys - 1)"
    using assms sort_ends [OF assms(2)] by (simp_all add: get_min_value_eq get_max_value_eq ys_def)
  have exact: "u64_of_f64 (f64_round (of_nat (unat w))) = w" for w
    using round_u64_of_nat [of "unat w"] unsigned_less [where w = w and 'a = nat] by (simp add: of_nat_unat)
  note b = percentile_value_bounds [OF ys(1-3), of p]
  have "0 \<le> percentile_value ys p" using b(1) by (rule order_trans [rotated]) simp
  then have "ys ! 0 \<le> u64_of_f64 (f64_round (percentile_value ys p))"
    "u64_of_f64 (f64_round (percentile_value ys p)) \<le> ys ! (length ys - 1)"
    using round_u64_mono [OF _ b(1)] round_u64_mono [OF _ b(2)] by (simp_all add: exact)
  with get_percentile_value [OF assms, of p] show ?thesis by (simp add: ends ys_def [symmetric])
qed

lemma get_percentile_mono:
  assumes "small xs" "xs \<noteq> []" "p \<le> q" "q \<le> 2 ^ 53" "get_percentile xs p = Inr v" "get_percentile xs q = Inr w"
  shows "v \<le> w"
proof -
  have ys: "small (sort xs)" "sorted (sort xs)" "sort xs \<noteq> []"
    using assms(1,2) by (simp_all add: small_def sort_eq_Nil)
  have "0 \<le> percentile_value (sort xs) p"
    using percentile_value_bounds(1) [OF ys, of p] by (rule order_trans [rotated]) simp
  with round_u64_mono [OF _ percentile_value_mono [OF ys assms(3,4)]] assms(5,6) show ?thesis
    by (simp add: get_percentile_value [OF assms(1,2)])
qed


section \<open>Counts per state and per number of replicas\<close>

lemma count_if_simps [simp]:
  "count_if P [] = 0"
  "count_if P (x # xs) = (if P x then 1 else 0) + count_if P xs"
  by (simp_all add: count_if_def)

lemma count_states:
  "count_if (\<lambda>v. vol_status v = VolUnknown) vols + count_if (\<lambda>v. vol_status v = VolOnline) vols +
   count_if (\<lambda>v. vol_status v = VolDegraded) vols + count_if (\<lambda>v. vol_status v = VolFaulted) vols +
   count_if (\<lambda>v. vol_status v = VolShutdown) vols = length vols"
proof (induction vols)
  case (Cons v vols)
  then show ?case by (cases "vol_status v") simp_all
qed simp

lemma count_replicas:
  "count_if (\<lambda>v. vol_num_replicas v = 1) vols + count_if (\<lambda>v. vol_num_replicas v = 2) vols +
   count_if (\<lambda>v. vol_num_replicas v = 3) vols + count_if (\<lambda>v. vol_num_replicas v = 4) vols +
   count_if (\<lambda>v. 5 \<le> vol_num_replicas v) vols = count_if (\<lambda>v. vol_num_replicas v \<noteq> 0) vols"
proof (induction vols)
  case (Cons v vols)
  define n where "n = unat (vol_num_replicas v)"
  have "(vol_num_replicas v = 0) = (n = 0)" "(vol_num_replicas v = 1) = (n = 1)" "(vol_num_replicas v = 2) = (n = 2)"
    "(vol_num_replicas v = 3) = (n = 3)" "(vol_num_replicas v = 4) = (n = 4)" "(5 \<le> vol_num_replicas v) = (5 \<le> n)"
    by (simp_all add: n_def word_unat_eq_iff word_le_nat_alt)
  with Cons show ?case by simp
qed simp

text \<open>
  The volume section of a report accounts for every volume: the counts by state
  add up to the number of volumes, and the counts by number of replicas to the number of volumes
  that have a replica.
\<close>

theorem volumes_new_accounts:
  assumes "volumes_new vols ed = Inr r"
  shows "vr_count r = of_nat (length vols) \<and>
         vsc_unknown (vr_state_counts r) + vsc_online (vr_state_counts r) + vsc_degraded (vr_state_counts r) +
         vsc_faulted (vr_state_counts r) + vsc_shutdown (vr_state_counts r) = vr_count r \<and>
         one_replica (vr_replica_counts r) + two_replicas (vr_replica_counts r) +
         three_replicas (vr_replica_counts r) + four_replicas (vr_replica_counts r) +
         five_or_more_replicas (vr_replica_counts r) = of_nat (length (filter (\<lambda>v. vol_num_replicas v \<noteq> 0) vols))"
  using assms arg_cong [OF count_states, of of_nat] arg_cong [OF count_replicas, of of_nat]
  by (auto simp: volumes_new_def res_bind_eq_Inr Let_def volume_state_counts_new_def
      volume_replica_counts_new_def get_volumes_size_vector_def count_if_def [symmetric])

section \<open>Disks by type\<close>

definition disks_of_type :: "block_device list \<Rightarrow> string \<Rightarrow> block_device list" where
  "disks_of_type disks t = filter (\<lambda>d. get_disk_type (Some d) None = t) disks"

lemma fold_count_disk:
  "fold count_disk disks m t =
     (if disks_of_type disks t = [] then m t
      else Some \<lparr>dt_count = dt_count (unwrap_or disk_type_info_default (m t)) + of_nat (length (disks_of_type disks t)),
        dt_capacity_in_bytes = dt_capacity_in_bytes (unwrap_or disk_type_info_default (m t)) +
          sum_list (map bd_size (disks_of_type disks t)) * BYTES_PER_SECTOR\<rparr>)"
  by (induction disks arbitrary: m) (auto simp: disks_of_type_def count_disk_def upd_entry_def algebra_simps)

lemma disks_of_type_partition:
  "(\<Sum>t \<in> (\<lambda>d. get_disk_type (Some d) None) ` set disks. sum_list (map f (disks_of_type disks t))) =
     (sum_list (map f disks) :: 'a :: comm_monoid_add)"
proof -
  let ?ty = "\<lambda>d. get_disk_type (Some d) None"
  have "(\<Sum>t \<in> T. sum_list (map f (disks_of_type disks t))) = sum_list (map f disks)"
    if "finite T" "?ty ` set disks \<subseteq> T" for T
    using that
  proof (induction disks)
    case (Cons d disks)
    have "(\<Sum>t \<in> T. sum_list (map f (disks_of_type (d # disks) t))) =
        (\<Sum>t \<in> T. (if ?ty d = t then f d else 0) + sum_list (map f (disks_of_type disks t)))"
      by (intro sum.cong) (auto simp: disks_of_type_def)
    with Cons show ?case by (simp add: sum.distrib)
  qed (simp add: disks_of_type_def)
  then show ?thesis by simp
qed

lemma storage_media_types:
  "sm_disk_types (storage_media_new disks) t =
     (if disks_of_type disks t = [] then None
      else Some \<lparr>dt_count = of_nat (length (disks_of_type disks t)),
        dt_capacity_in_bytes = sum_list (map bd_size (disks_of_type disks t)) * BYTES_PER_SECTOR\<rparr>)"
  by (simp add: storage_media_new_def fold_count_disk disk_type_info_default_def)

lemma dom_storage_media:
  "dom (sm_disk_types (storage_media_new disks)) = (\<lambda>d. get_disk_type (Some d) None) ` set disks"
  by (auto simp: storage_media_types disks_of_type_def filter_empty_conv dom_def split: if_splits)

lemma storage_media_perm:
  assumes "mset disks = mset devices"
  shows "sm_disk_types (storage_media_new disks) t =
      (let ds = filter (\<lambda>d. get_disk_type (Some d) None = t) devices
       in if ds = [] then None
          else Some \<lparr>dt_count = of_nat (length ds), dt_capacity_in_bytes = sum_list (map bd_size ds) * 512\<rparr>)"
proof -
  have perm: "mset (disks_of_type disks t) = mset (disks_of_type devices t)"
    using assms by (simp add: disks_of_type_def mset_filter)
  then have "length (disks_of_type disks t) = length (disks_of_type devices t)"
    "sum_list (map bd_size (disks_of_type disks t)) = sum_list (map bd_size (disks_of_type devices t))"
    "disks_of_type disks t = [] \<longleftrightarrow> disks_of_type devices t = []"
    by (metis size_mset, metis mset_map sum_mset_sum_list, metis mset_zero_iff)
  then show ?thesis
    by (simp add: storage_media_types disks_of_type_def [symmetric] BYTES_PER_SECTOR_def Let_def)
qed

lemma storage_media_totals:
  shows "sm_count (storage_media_new disks) =
      (\<Sum>t \<in> dom (sm_disk_types (storage_media_new disks)). dt_count (the (sm_disk_types (storage_media_new disks) t)))"
    and "sm_total_capacity_in_bytes (storage_media_new disks) =
      (\<Sum>t \<in> dom (sm_disk_types (storage_media_new disks)).
         dt_capacity_in_bytes (the (sm_disk_types (storage_media_new disks) t)))"
proof -
  let ?T = "(\<lambda>d. get_disk_type (Some d) None) ` set disks"
  have ne: "t \<in> ?T \<Longrightarrow> disks_of_type disks t \<noteq> []" for t
    by (auto simp: disks_of_type_def filter_empty_conv)
  have "(\<Sum>t \<in> ?T. of_nat (length (disks_of_type disks t))) = (of_nat (length disks) :: u64)"
    using disks_of_type_partition [of "\<lambda>_. 1 :: u64" disks] by (simp add: sum_list_triv)
  then show "sm_count (storage_media_new disks) =
      (\<Sum>t \<in> dom (sm_disk_types (storage_media_new disks)). dt_count (the (sm_disk_types (storage_media_new disks) t)))"
    unfolding dom_storage_media by (simp add: storage_media_types ne) (simp add: storage_media_new_def)
  have "(\<Sum>t \<in> ?T. sum_list (map bd_size (disks_of_type disks t)) * BYTES_PER_SECTOR) =
      sum_list (map bd_size disks) * BYTES_PER_SECTOR"
    by (simp add: disks_of_type_partition sum_distrib_right [symmetric])
  then show "sm_total_capacity_in_bytes (storage_media_new disks) =
      (\<Sum>t \<in> dom (sm_disk_types (storage_media_new disks)).
         dt_capacity_in_bytes (the (sm_disk_types (storage_media_new disks) t)))"
    unfolding dom_storage_media by (simp add: storage_media_types ne) (simp add: storage_media_new_def)
qed

text \<open>
  Property C24. The storage media of a report, whatever the order in which the devices are
  enumerated: each disk type has the count and the capacity of exactly its devices, and the
  totals are the sums over the types.
\<close>

theorem storage_media_by_type:
  assumes "mset disks = mset devices"
  shows "(\<forall>t. sm_disk_types (storage_media_new disks) t =
      (let ds = filter (\<lambda>d. get_disk_type (Some d) None = t) devices
       in if ds = [] then None
          else Some \<lparr>dt_count = of_nat (length ds), dt_capacity_in_bytes = sum_list (map bd_size ds) * 512\<rparr>)) \<and>
    sm_count (storage_media_new disks) =
      (\<Sum>t \<in> dom (sm_disk_types (storage_media_new disks)). dt_count (the (sm_disk_types (storage_media_new disks) t))) \<and>
    sm_total_capacity_in_bytes (storage_media_new disks) =
      (\<Sum>t \<in> dom (sm_disk_types (storage_media_new disks)).
         dt_capacity_in_bytes (the (sm_disk_types (storage_media_new disks) t)))"
  using storage_media_perm [OF assms] storage_media_totals [of disks] by blast

section \<open>Pools and disks per node\<close>

text \<open>The name under which the disk of a pool is counted, when a device of the node matches it.\<close>

definition counted_name :: "block_device list \<Rightarrow> string \<Rightarrow> string option" where
  "counted_name disks pool_disk =
     map_option (\<lambda>bdev. unwrap_or (devname bdev) (partition_name bdev)) (get_bdev disks pool_disk)"

definition managed_names :: "node_disks \<Rightarrow> pool_spec list \<Rightarrow> string \<Rightarrow> string set" where
  "managed_names nds specs node =
     {name. \<exists>disks spec d. map_of nds node = Some disks \<and> spec \<in> set specs \<and> ps_node spec = node \<and>
        d \<in> set (ps_disks spec) \<and> counted_name disks d = Some name}"

text \<open>
  What the loop keeps: per node the pools so far, the names counted so far, and as many disks as
  there are names.
\<close>

definition nodes_inv ::
  "(string \<Rightarrow> pool_info list) \<Rightarrow> (string \<Rightarrow> string set) \<Rightarrow> (string \<rightharpoonup> node_info) \<times> (string \<rightharpoonup> string set) \<Rightarrow> bool" where
  "nodes_inv pls names st \<longleftrightarrow>
     (\<forall>n. finite (names n) \<and> unwrap_or {} (snd st n) = names n \<and> (pls n = [] \<longrightarrow> names n = {}) \<and>
        fst st n = (if pls n = [] then None
          else Some \<lparr>ni_pools = pls n, ni_mayastor_managed_disks_count = of_nat (card (names n))\<rparr>))"

lemma nodes_inv_count_disk:
  assumes "nodes_inv pls names st" "pls node \<noteq> []"
  shows "nodes_inv pls (names(node := names node \<union> set_option (counted_name disks d))) (count_pool_disk disks node d st)"
proof (cases "get_bdev disks d")
  case None
  with assms show ?thesis by (simp add: count_pool_disk_def counted_name_def)
next
  case (Some bdev)
  obtain nodes counted where st: "st = (nodes, counted)" by (cases st)
  define name where "name = unwrap_or (devname bdev) (partition_name bdev)"
  have inv: "finite (names n)" "unwrap_or {} (counted n) = names n" "pls n = [] \<longrightarrow> names n = {}"
    "nodes n = (if pls n = [] then None
       else Some \<lparr>ni_pools = pls n, ni_mayastor_managed_disks_count = of_nat (card (names n))\<rparr>)" for n
    using assms(1) by (simp_all add: nodes_inv_def st)
  show ?thesis
    using assms(2) inv
    by (cases "name \<in> names node")
      (auto simp: nodes_inv_def count_pool_disk_def counted_name_def Some st name_def [symmetric]
        insert_counted_def upd_entry_def Let_def insert_absorb add.commute)
qed

lemma nodes_inv_count_disks:
  assumes "nodes_inv pls names st" "pls node \<noteq> []"
  shows "nodes_inv pls (names(node := names node \<union> (\<Union>d \<in> set ds. set_option (counted_name disks d))))
     (fold (count_pool_disk disks node) ds st)"
  using assms
proof (induction ds arbitrary: names st)
  case (Cons d ds)
  from Cons.IH [OF nodes_inv_count_disk [OF Cons.prems, of disks d] Cons.prems(2)] show ?case
    by (simp add: Un_assoc fun_upd_def cong: if_cong)
qed simp

lemma nodes_inv_add_pool:
  assumes "nodes_inv pls names st"
  shows "nodes_inv (pls(ps_node spec := pls (ps_node spec) @ [pool_info_new (ps_id spec) reps]))
     (names(ps_node spec := names (ps_node spec) \<union> managed_names nds [spec] (ps_node spec)))
     (add_pool_spec reps nds spec st)"
proof -
  let ?n = "ps_node spec"
  let ?pls = "pls(?n := pls ?n @ [pool_info_new (ps_id spec) reps])"
  let ?st = "(upd_entry node_info_default ?n (\<lambda>i. i\<lparr>ni_pools := ni_pools i @ [pool_info_new (ps_id spec) reps]\<rparr>) (fst st), snd st)"
  have st1: "nodes_inv ?pls names ?st"
    using assms by (auto simp: nodes_inv_def upd_entry_def node_info_default_def)
  show ?thesis
  proof (cases "map_of nds ?n")
    case None
    with st1 show ?thesis by (simp add: add_pool_spec_def managed_names_def)
  next
    case (Some disks)
    have "managed_names nds [spec] ?n = (\<Union>d \<in> set (ps_disks spec). set_option (counted_name disks d))"
      using Some by (auto simp: managed_names_def)
    with nodes_inv_count_disks [OF st1, of ?n disks "ps_disks spec"] Some show ?thesis
      by (simp add: add_pool_spec_def)
  qed
qed

lemma managed_names_Cons:
  "managed_names nds (spec # specs) n =
     managed_names nds specs n \<union> (if ps_node spec = n then managed_names nds [spec] n else {})"
  by (auto simp: managed_names_def)

lemma nodes_inv_fold:
  assumes "nodes_inv pls names st"
  shows "nodes_inv (\<lambda>n. pls n @ map (\<lambda>s. pool_info_new (ps_id s) reps) (filter (\<lambda>s. ps_node s = n) specs))
     (\<lambda>n. names n \<union> managed_names nds specs n) (fold (add_pool_spec reps nds) specs st)"
  using assms
proof (induction specs arbitrary: pls names st)
  case Nil
  then show ?case by (simp add: managed_names_def)
next
  case (Cons spec specs)
  have "(\<lambda>n. (pls(ps_node spec := pls (ps_node spec) @ [pool_info_new (ps_id spec) reps])) n @
        map (\<lambda>s. pool_info_new (ps_id s) reps) (filter (\<lambda>s. ps_node s = n) specs)) =
      (\<lambda>n. pls n @ map (\<lambda>s. pool_info_new (ps_id s) reps) (filter (\<lambda>s. ps_node s = n) (spec # specs)))"
    and "(\<lambda>n. (names(ps_node spec := names (ps_node spec) \<union> managed_names nds [spec] (ps_node spec))) n \<union>
        managed_names nds specs n) = (\<lambda>n. names n \<union> managed_names nds (spec # specs) n)"
    by (auto simp: fun_eq_iff managed_names_Cons [of nds spec specs])
  with Cons.IH [OF nodes_inv_add_pool [OF Cons.prems, of spec reps nds]] show ?case by simp
qed


section \<open>The mean is not exact\<close>

text \<open>The six partial sums of six equal sizes of one GiB, each rounded.\<close>

lemma mean_steps:
  shows "fl (536870912 / 3) = 6004799503160661 / 33554432"
    and "fl (6004799503160661 / 33554432) = 6004799503160661 / 33554432"
    and "fl (6004799503160661 / 16777216) = 6004799503160661 / 16777216"
    and "fl (18014398509481983 / 33554432) = 536870912"
    and "fl (24019198012642645 / 33554432) = 6004799503160661 / 8388608"
    and "fl (30023997515803305 / 33554432) = 3752999689475413 / 4194304"
    and "fl (36028797018963965 / 33554432) = 9007199254740991 / 8388608"
  using fl_eqI [of 27 "536870912 / 3" 6004799503160661]
  using fl_eqI [of 27 "6004799503160661 / 33554432" 6004799503160661]
  using fl_eqI [of 28 "6004799503160661 / 16777216" 6004799503160661]
  using fl_eqI [of 28 "18014398509481983 / 33554432" 9007199254740992]
  using fl_eqI [of 29 "24019198012642645 / 33554432" 6004799503160661]
  using fl_eqI [of 29 "30023997515803305 / 33554432" 7505999378950826]
  using fl_eqI [of 29 "36028797018963965 / 33554432" 9007199254740991]
  by (simp_all add: power_int_def power_one_over)

text \<open>
  The mean size of six volumes of one GiB is reported one byte below one GiB, and so below the
  minimum: the rounding errors of the six divisions and additions add up, and the conversion to an
  integer truncates.
\<close>

theorem mean_below_minimum:
  "get_mean_value (replicate 6 (2 ^ 30)) < get_min_value (replicate 6 (2 ^ 30))"
proof -
  have six: "replicate 6 x = [x, x, x, x, x, x]" for x :: u64 by (simp add: numeral_eq_Suc)
  have one: "unat (2 ^ 30 :: u64) = 1073741824" by simp
  have "fl 1073741824 = 1073741824" "fl 6 = 6" using fl_of_nat [of 1073741824] fl_of_nat [of 6] by simp_all
  then have "mean_sum [2 ^ 30, 2 ^ 30, 2 ^ 30, 2 ^ 30, 2 ^ 30, 2 ^ 30] = 9007199254740991 / 8388608"
    by (simp add: mean_sum_def one fadd_def fdiv_def f64_of_nat_def mean_steps)
  then have "get_mean_value (replicate 6 (2 ^ 30)) = u64_of_f64 (9007199254740991 / 8388608)"
    by (simp only: six get_mean_value_def)
  also have "\<lfloor>9007199254740991 / 8388608 :: rat\<rfloor> = 1073741823" by (rule floor_unique) simp_all
  then have "u64_of_f64 (9007199254740991 / 8388608) = 1073741823" by (simp add: u64_of_f64_def)
  finally show ?thesis by (simp add: six get_min_value_def)
qed

end
