(* ===== verification/CallHome.thy ===== *)
theory CallHome
  imports ReportModels Traced
begin

text \<open>
  The call-home collector (\<open>call-home/src/bin/callhome\<close>): the buffer of error logs and the
  generation of a report in \<open>main.rs\<close>, the Kubernetes and REST requests in
  \<open>collector/k8s_client.rs\<close> and \<open>collector/storage_rest.rs\<close>, the fetch of the event counters in
  \<open>collector/report_models.rs\<close>, the encryption and the transmission in \<open>transmitter\<close>, and the
  endless loop of \<open>run\<close>.

  The world outside is a parameter: record \<open>callhome_api\<close> has one function per call that leaves
  the program, over an arbitrary state \<open>'w\<close>.  The retries of \<open>tokio_retry\<close> are a parameter per
  request (\<open>retry_nodes\<close> and its kin): each takes the request and is the retried request.  Every
  interaction is recorded in the trace.  The buffer of logs, which the tasks of the process share
  under a lock, is part of the state; the events the libraries log themselves are not modelled.
\<close>

section \<open>The buffer of error logs\<close>

record log_entry =
  le_timestamp :: string
  le_level :: string
  le_file :: string
  le_line :: nat
  le_message :: string

definition ERR_LOG_BUF_CAPACITY :: nat where "ERR_LOG_BUF_CAPACITY = 100"

text \<open>
  \<open>while logs.len() >= limit { logs.pop_front(); }\<close>: popping an empty queue does nothing, so a
  limit of zero would never end, which is \<open>None\<close>.
\<close>

partial_function (option) pop_while_full :: "'a list \<Rightarrow> nat \<Rightarrow> 'a list option" where
  "pop_while_full logs limit = (if limit \<le> length logs then pop_while_full (tl logs) limit else Some logs)"

definition log_with_limit :: "'a list \<Rightarrow> 'a \<Rightarrow> nat \<Rightarrow> 'a list option" where
  "log_with_limit logs message limit = map_option (\<lambda>ls. ls @ [message]) (pop_while_full logs limit)"

record 'w ch_world =
  ch_env :: 'w
  ch_logs :: "log_entry list"

definition on_event :: "string \<Rightarrow> string \<Rightarrow> string \<Rightarrow> nat \<Rightarrow> string \<Rightarrow> 'w ch_world \<Rightarrow> 'w ch_world option" where
  "on_event timestamp level file line msg w =
     (let entry = \<lparr>le_timestamp = timestamp, le_level = level, le_file = file, le_line = line, le_message = msg\<rparr>
      in if level = ''ERROR''
         then map_option (\<lambda>ls. w\<lparr>ch_logs := ls\<rparr>) (log_with_limit (ch_logs w) entry ERR_LOG_BUF_CAPACITY)
         else Some w)"

definition record_debug :: "string \<Rightarrow> string \<Rightarrow> string \<Rightarrow> string" where
  "record_debug msg name value = msg @ name @ '': '' @ value @ '';''"

definition format_log :: "log_entry \<Rightarrow> string" where
  "format_log entry =
     ''['' @ le_timestamp entry @ '' '' @ le_level entry @ '' '' @ le_file entry @ '':'' @ nat_to_string (le_line entry) @ ''] '' @
     le_message entry"

section \<open>Requests\<close>

datatype ch_event =
    ChClient "(string, unit) res"
  | ChNodesList nat "string option" "(string, nat \<times> string option) res"
  | ChNamespace string "(string, string option) res"
  | ChHttpGet string "(string, (string, string) res) res"
  | ChGetNodes "(string, string list) res"
  | ChGetBlockDevices string "(string, block_device list) res"
  | ChGetPools "(string, rest_pool list) res"
  | ChGetVolumes nat "int option" "(string, rest_volume list \<times> int option) res"
  | ChGetReplicas "(string, rest_replica list) res"
  | ChTempFile string "(string, string) res"
  | ChWrite string string "(string, unit) res"
  | ChCommand string "(string, unit) res"
  | ChRead string "(string, string) res"
  | ChRemove string "(string, unit) res"
  | ChPost "(string \<times> string) list" string "(string, string) res"
  | ChSleep nat

datatype callhome_failure = Panic panic | Anyhow string

type_synonym ('w, 'e, 'a) ch = "(('w ch_world, ch_event) rt, 'e, 'a) prog"

record 'w callhome_api =
  ch_client :: "'w \<Rightarrow> (string, unit) res \<times> 'w"
  ch_nodes_list :: "nat \<Rightarrow> string option \<Rightarrow> 'w \<Rightarrow> (string, nat \<times> string option) res \<times> 'w"
  ch_namespace_uid :: "string \<Rightarrow> 'w \<Rightarrow> (string, string option) res \<times> 'w"
  ch_http_get :: "string \<Rightarrow> 'w \<Rightarrow> (string, (string, string) res) res \<times> 'w"
  ch_scrape_parse :: "string list \<Rightarrow> (string, sample list) res"
  ch_get_nodes :: "'w \<Rightarrow> (string, string list) res \<times> 'w"
  ch_get_block_devices :: "string \<Rightarrow> 'w \<Rightarrow> (string, block_device list) res \<times> 'w"
  ch_get_pools :: "'w \<Rightarrow> (string, rest_pool list) res \<times> 'w"
  ch_get_volumes :: "nat \<Rightarrow> int option \<Rightarrow> 'w \<Rightarrow> (string, rest_volume list \<times> int option) res \<times> 'w"
  ch_get_replicas :: "'w \<Rightarrow> (string, rest_replica list) res \<times> 'w"
  ch_now :: "'w \<Rightarrow> string"
  ch_debug :: "callhome_error \<Rightarrow> string"
  ch_values_order :: "node_disks \<Rightarrow> block_device list list"
  ch_tempfile_new_in :: "string \<Rightarrow> 'w \<Rightarrow> (string, string) res \<times> 'w"
  ch_to_vec :: "report \<Rightarrow> (string, string) res"
  ch_fs_write :: "string \<Rightarrow> string \<Rightarrow> 'w \<Rightarrow> (string, unit) res \<times> 'w"
  ch_random_name :: "'w \<Rightarrow> string"
  ch_command :: "string \<Rightarrow> 'w \<Rightarrow> (string, unit) res \<times> 'w"
  ch_fs_read :: "string \<Rightarrow> 'w \<Rightarrow> (string, string) res \<times> 'w"
  ch_fs_remove :: "string \<Rightarrow> 'w \<Rightarrow> (string, unit) res \<times> 'w"
  ch_send :: "(string \<times> string) list \<Rightarrow> string \<Rightarrow> 'w \<Rightarrow> (string, string) res \<times> 'w"
  ch_sleep :: "nat \<Rightarrow> 'w \<Rightarrow> 'w"
  retry_nodes :: "('w, string, string list) ch \<Rightarrow> ('w, string, string list) ch"
  retry_block_devices :: "('w, string, block_device list) ch \<Rightarrow> ('w, string, block_device list) ch"
  retry_pools :: "('w, string, rest_pool list) ch \<Rightarrow> ('w, string, rest_pool list) ch"
  retry_volumes :: "('w, string, rest_volume list) ch \<Rightarrow> ('w, string, rest_volume list) ch"
  retry_replicas :: "('w, string, rest_replica list) ch \<Rightarrow> ('w, string, rest_replica list) ch"

definition on_env :: "('w \<Rightarrow> 'a \<times> 'w) \<Rightarrow> 'w ch_world \<Rightarrow> 'a \<times> 'w ch_world" where
  "on_env f w = (case f (ch_env w) of (a, e) \<Rightarrow> (a, w\<lparr>ch_env := e\<rparr>))"

definition request ::
  "('w \<Rightarrow> (string, 'a) res \<times> 'w) \<Rightarrow> ((string, 'a) res \<Rightarrow> ch_event) \<Rightarrow> (string \<Rightarrow> 'e) \<Rightarrow> ('w, 'e, 'a) ch" where
  "request f ev ctx = logged (on_env f) ev ctx"

text \<open>
  \<open>error!("{:?}", err)\<close>, at a line of \<open>main.rs\<close>; a layer that never returns would be a run that
  never ends.
\<close>

definition log_error :: "'w callhome_api \<Rightarrow> nat \<Rightarrow> string \<Rightarrow> ('w, 'e, unit) ch" where
  "log_error api line text s =
     (case on_event (ch_now api (ch_env (rt_world s))) ''ERROR'' ''call-home/src/bin/callhome/main.rs'' line
             (record_debug '''' ''message'' text) (rt_world s) of
        Some w \<Rightarrow> (Ok (), s\<lparr>rt_world := w\<rparr>)
      | None \<Rightarrow> (OutOfFuel, s))"

definition K8S_PAGE_SIZE :: nat where "K8S_PAGE_SIZE = 500"
definition STORAGE_API_PAGE_SIZE :: nat where "STORAGE_API_PAGE_SIZE = 500"

definition get_node_len :: "nat \<Rightarrow> 'w callhome_api \<Rightarrow> ('w, string, nat) ch" where
  "get_node_len fuel api =
     loopP fuel (\<lambda>(nodes_count, token).
       bindP (request (ch_nodes_list api K8S_PAGE_SIZE token) (ChNodesList K8S_PAGE_SIZE token) id) (\<lambda>(items, continue).
       case continue of
         Some tok \<Rightarrow> retP (Inl (nodes_count + items, Some tok))
       | None \<Rightarrow> retP (Inr (nodes_count + items)))) (0, None)"

definition get_cluster_id :: "'w callhome_api \<Rightarrow> ('w, string, string) ch" where
  "get_cluster_id api =
     bindP (request (ch_namespace_uid api ''kube-system'') (ChNamespace ''kube-system'') id) (\<lambda>uid.
     retP (unwrap_or '''' uid))"

definition callhome_list_all_volumes :: "nat \<Rightarrow> 'w callhome_api \<Rightarrow> ('w, string, rest_volume list) ch" where
  "callhome_list_all_volumes fuel api =
     loopP fuel (\<lambda>(vols, starting_token).
       if starting_token \<noteq> None
       then bindP (request (ch_get_volumes api STORAGE_API_PAGE_SIZE starting_token)
                     (ChGetVolumes STORAGE_API_PAGE_SIZE starting_token) id) (\<lambda>(entries, next_token).
            retP (Inl (vols @ entries, next_token)))
       else retP (Inr vols)) ([], Some 0)"

definition event_stats :: "'w callhome_api \<Rightarrow> string \<Rightarrow> ('w, callhome_error, sample list) ch" where
  "event_stats api url =
     bindP (request (ch_http_get api url) (ChHttpGet url) (\<lambda>_. StatsFetchFailure)) (\<lambda>response.
     bindP (liftR (map_err (\<lambda>_. GetRsponseBodyFailure) response)) (\<lambda>body.
     liftR (map_err PrometheusOutPutParseFailure (ch_scrape_parse api (str_lines body)))))"

section \<open>Generating a report\<close>

definition fetch_event_data :: "'w callhome_api \<Rightarrow> string option \<Rightarrow> ('w, callhome_failure, event_data) ch" where
  "fetch_event_data api aggregator_url =
     (case aggregator_url of
        None \<Rightarrow> retP event_data_default
      | Some url \<Rightarrow>
          bindP (tryP (event_stats api url)) (\<lambda>stats.
          case stats of
            Inr data \<Rightarrow> retP (event_data_from data)
          | Inl err \<Rightarrow> bindP (log_error api 192 (ch_debug api err)) (\<lambda>_. retP event_data_default)))"

definition fetch_node_count :: "nat \<Rightarrow> 'w callhome_api \<Rightarrow> ('w, callhome_failure, u8 option) ch" where
  "fetch_node_count fuel api =
     bindP (tryP (get_node_len fuel api)) (\<lambda>k8s_node_count.
     case k8s_node_count of
       Inr n \<Rightarrow> retP (Some (of_nat n))
     | Inl err \<Rightarrow> bindP (log_error api 201 err) (\<lambda>_. retP None))"

text \<open>\<open>node_disks.entry(id).or_insert_with(Vec::new).extend(devices)\<close>.\<close>

fun extend_entry :: "string \<Rightarrow> block_device list \<Rightarrow> node_disks \<Rightarrow> node_disks" where
  "extend_entry node devices [] = [(node, devices)]"
| "extend_entry node devices ((n, ds) # nds) =
     (if n = node then (n, ds @ devices) # nds else (n, ds) # extend_entry node devices nds)"

primrec fetch_block_devices :: "'w callhome_api \<Rightarrow> string list \<Rightarrow> node_disks \<Rightarrow> ('w, callhome_failure, node_disks) ch" where
  "fetch_block_devices api [] nds = retP nds"
| "fetch_block_devices api (node # nodes) nds =
     bindP (tryP (retry_block_devices api (request (ch_get_block_devices api node) (ChGetBlockDevices node) id))) (\<lambda>r.
     fetch_block_devices api nodes (case r of Inr devices \<Rightarrow> extend_entry node devices nds | Inl _ \<Rightarrow> nds))"

definition fetch_node_disks :: "'w callhome_api \<Rightarrow> ('w, callhome_failure, node_disks \<times> u8 option) ch" where
  "fetch_node_disks api =
     bindP (tryP (retry_nodes api (request (ch_get_nodes api) ChGetNodes id))) (\<lambda>nodes.
     case nodes of
       Inr ns \<Rightarrow>
         bindP (fetch_block_devices api ns []) (\<lambda>nds.
         retP (nds, Some (of_nat (length ns))))
     | Inl err \<Rightarrow> bindP (log_error api 232 err) (\<lambda>_. retP ([], None)))"

text \<open>\<open>Some(Pools::new(..))\<close> and its kin: a panic inside ends the task.\<close>

definition liftP :: "(panic, 'a) res \<Rightarrow> ('w, callhome_failure, 'a) ch" where
  "liftP r = liftR (map_err Panic r)"

definition fetch_pools ::
  "'w callhome_api \<Rightarrow> event_data \<Rightarrow> ('w, callhome_failure, rest_pool list option \<times> pools_report option) ch" where
  "fetch_pools api ed =
     bindP (tryP (retry_pools api (request (ch_get_pools api) ChGetPools id))) (\<lambda>pools.
     case pools of
       Inr ps \<Rightarrow> bindP (liftP (pools_new ps ed)) (\<lambda>r. retP (Some ps, Some r))
     | Inl err \<Rightarrow> bindP (log_error api 245 err) (\<lambda>_. retP (None, None)))"

definition fetch_volumes ::
  "nat \<Rightarrow> 'w callhome_api \<Rightarrow> event_data \<Rightarrow> ('w, callhome_failure, rest_volume list option \<times> volumes_report option) ch" where
  "fetch_volumes fuel api ed =
     bindP (tryP (retry_volumes api (callhome_list_all_volumes fuel api))) (\<lambda>volumes.
     case volumes of
       Inr vs \<Rightarrow> bindP (liftP (volumes_new vs ed)) (\<lambda>r. retP (Some vs, Some r))
     | Inl err \<Rightarrow> bindP (log_error api 253 (''Failed to list all volumes: '' @ err)) (\<lambda>_. retP (None, None)))"

definition fetch_replicas ::
  "'w callhome_api \<Rightarrow> rest_volume list option \<Rightarrow> ('w, callhome_failure, rest_replica list option \<times> replicas_report option) ch" where
  "fetch_replicas api vols =
     bindP (tryP (retry_replicas api (request (ch_get_replicas api) ChGetReplicas id))) (\<lambda>replicas.
     case replicas of
       Inr rs \<Rightarrow> bindP (liftP (replicas_new (length rs) vols)) (\<lambda>r. retP (Some rs, Some r))
     | Inl err \<Rightarrow> bindP (log_error api 269 err) (\<lambda>_. retP (None, None)))"

definition valid_disk :: "block_device \<Rightarrow> bool" where
  "valid_disk device \<longleftrightarrow>
     bd_size device > 0 \<and> devtype device \<noteq> ''partition'' \<and> \<not> starts_with ''/devices/virtual/'' (devpath device)"

text \<open>The logs so far, formatted; the buffer is cleared.\<close>

definition take_logs :: "('w, 'e, string list) ch" where
  "take_logs s =
     (Ok (map format_log (ch_logs (rt_world s))), s\<lparr>rt_world := (rt_world s)\<lparr>ch_logs := []\<rparr>\<rparr>)"

record callhome_config =
  cc_product :: string
  cc_cluster_id :: string
  cc_namespace :: string
  cc_version :: string
  cc_aggregator_url :: "string option"

definition generate_report :: "nat \<Rightarrow> 'w callhome_api \<Rightarrow> callhome_config \<Rightarrow> ('w, callhome_failure, report) ch" where
  "generate_report fuel api cfg =
     bindP (fetch_event_data api (cc_aggregator_url cfg)) (\<lambda>ed.
     bindP (fetch_node_count fuel api) (\<lambda>node_count.
     bindP (fetch_node_disks api) (\<lambda>(nds, storage_nodes).
     bindP (fetch_pools api ed) (\<lambda>(pools, pools_rep).
     bindP (fetch_volumes fuel api ed) (\<lambda>(vols, volumes_rep).
     bindP (fetch_replicas api vols) (\<lambda>(reps, replicas_rep).
     bindP take_logs (\<lambda>logs.
     retP \<lparr>k8s_cluster_id = cc_cluster_id cfg, k8s_node_count = node_count, product_name = cc_product cfg,
           product_version = cc_version cfg, deploy_namespace = cc_namespace cfg, storage_node_count = storage_nodes,
           report_pools = pools_rep, report_volumes = volumes_rep, report_replicas = replicas_rep,
           report_nexus = nexus_new ed, control_plane_version = '''',
           report_storage_nodes =
             (case (pools, reps) of (Some ps, Some rs) \<Rightarrow> storage_nodes_new rs ps nds | _ \<Rightarrow> Map.empty),
           report_managed_disks =
             (case pools of Some ps \<Rightarrow> mayastor_managed_disks_new ps nds | None \<Rightarrow> Map.empty),
           report_storage_media =
             storage_media_new (filter valid_disk (concat (ch_values_order api nds))),
           report_logs = logs\<rparr>)))))))"

section \<open>Encryption, transmission and the loop of the service\<close>

text \<open>
  The temporary file is removed when its path goes out of scope, on every way out; that removal
  is the business of the \<open>tempfile\<close> crate and is not recorded.
\<close>

definition gpg_command :: "string \<Rightarrow> string \<Rightarrow> string \<Rightarrow> string \<Rightarrow> string" where
  "gpg_command encryption_dir key_filepath output input =
     ''gpg --yes --trust-model=always --homedir='' @ encryption_dir @ '' --keyring='' @ key_filepath @
     '' --recipient=openebs-phonehome@datacore.com --no-default-keyring --encrypt -z=9 --output='' @ output @ '' '' @ input"

definition path_join :: "string \<Rightarrow> string \<Rightarrow> string" where
  "path_join dir name = (if dir = [] \<or> last dir = CHR ''/'' then dir @ name else dir @ ''/'' @ name)"

definition encrypt :: "'w callhome_api \<Rightarrow> report \<Rightarrow> string \<Rightarrow> string \<Rightarrow> ('w, string, string) ch" where
  "encrypt api report encryption_dir key_filepath =
     bindP (request (ch_tempfile_new_in api encryption_dir) (ChTempFile encryption_dir) id) (\<lambda>input_filepath.
     bindP (liftR (ch_to_vec api report)) (\<lambda>report_content.
     bindP (request (ch_fs_write api input_filepath report_content) (ChWrite input_filepath report_content) id) (\<lambda>_.
     bindP (getsP (\<lambda>s. ch_random_name api (ch_env (rt_world s)))) (\<lambda>random_name.
     let output_filepath = path_join encryption_dir (random_name @ ''.gpg'');
         command = gpg_command encryption_dir key_filepath output_filepath input_filepath
     in
     bindP (request (ch_command api (str_trim command)) (ChCommand (str_trim command)) id) (\<lambda>_.
     bindP (request (ch_fs_read api output_filepath) (ChRead output_filepath) id) (\<lambda>output.
     bindP (request (ch_fs_remove api output_filepath) (ChRemove output_filepath) id) (\<lambda>_.
     retP output)))))))"

definition post_headers :: "callhome_config \<Rightarrow> string \<Rightarrow> (string \<times> string) list" where
  "post_headers cfg now =
     [(''CAStor-Cluster-Id'', cc_cluster_id cfg), (''CAStor-Version'', cc_version cfg),
      (''CAStor-Report-Type'', ''health_report''), (''CAStor-Product'', cc_product cfg),
      (''CAStor-Time'', now), (''Content-Type'', ''text/PGP; charset=binary'')]"

definition post :: "'w callhome_api \<Rightarrow> callhome_config \<Rightarrow> string \<Rightarrow> ('w, string, string) ch" where
  "post api cfg body =
     bindP (getsP (\<lambda>s. ch_now api (ch_env (rt_world s)))) (\<lambda>now.
     request (ch_send api (post_headers cfg now) body) (ChPost (post_headers cfg now) body) id)"

definition transmit :: "'w callhome_api \<Rightarrow> callhome_config \<Rightarrow> bool \<Rightarrow> string \<Rightarrow> ('w, callhome_failure, unit) ch" where
  "transmit api cfg send_report output =
     (if send_report
      then bindP (tryP (post api cfg output)) (\<lambda>r.
           case r of
             Inr _ \<Rightarrow> retP ()
           | Inl e \<Rightarrow> log_error api 144 (''failed HTTP POST request;e: '' @ e))
      else retP ())"

text \<open>
  One round of the loop.  A panic while the report is generated unwinds the task; an error of the
  encryption ends \<open>run\<close>; an error of the transmission is logged and the loop goes on.
\<close>

definition SLEEP_SECS :: nat where "SLEEP_SECS = 24 * 3600"

definition callhome_round ::
  "nat \<Rightarrow> 'w callhome_api \<Rightarrow> callhome_config \<Rightarrow> string \<Rightarrow> string \<Rightarrow> bool \<Rightarrow> ('w, callhome_failure, unit) ch" where
  "callhome_round fuel api cfg encryption_dir key_filepath send_report =
     bindP (generate_report fuel api cfg) (\<lambda>report.
     bindP (tryP (encrypt api report encryption_dir key_filepath)) (\<lambda>encrypted.
     bindP (liftR (map_err (\<lambda>e. Anyhow (''encryption failed: '' @ e)) encrypted)) (\<lambda>output.
     bindP (transmit api cfg send_report output) (\<lambda>_.
     tick (\<lambda>w. w\<lparr>ch_env := ch_sleep api SLEEP_SECS (ch_env w)\<rparr>) (ChSleep SLEEP_SECS)))))"

record callhome_args =
  ca_endpoint :: string
  ca_namespace :: string
  ca_send_report :: bool
  ca_aggregator_url :: "string option"

text \<open>
  The values of the environment: \<open>product()\<close>, \<open>encryption_dir()\<close> and \<open>key_filepath()\<close> of
  \<open>common/constants.rs\<close>, from the variables and the file system.
\<close>

definition callhome_product :: "(string \<Rightarrow> string) \<Rightarrow> string \<Rightarrow> string option \<Rightarrow> string" where
  "callhome_product to_train_case product_train var =
     (case var of Some v \<Rightarrow> if v \<noteq> [] then to_train_case v else product_train | None \<Rightarrow> product_train)"

definition encryption_dir_of :: "(string \<Rightarrow> bool) \<Rightarrow> string option \<Rightarrow> (callhome_failure, string) res" where
  "encryption_dir_of is_dir var =
     (case var of
        Some input \<Rightarrow>
          if is_dir input then Inr input
          else Inl (Anyhow (''validation failed for ENCRYPTION_DIR value '' @ [CHR 0x22] @ input @ [CHR 0x22] @
                 '': path must exist and must be that of a directory''))
      | None \<Rightarrow> Inr ''./'')"

definition key_filepath_of :: "(string \<Rightarrow> bool) \<Rightarrow> string option \<Rightarrow> (callhome_failure, string) res" where
  "key_filepath_of is_file var =
     (case var of
        Some input \<Rightarrow>
          if is_file input then Inr input
          else Inl (Anyhow (''validation failed for KEY_FILEPATH value '' @ [CHR 0x22] @ input @ [CHR 0x22] @
                 '': path must exist and must be that of a file''))
      | None \<Rightarrow> Inr ''./public.gpg'')"

text \<open>
  \<open>run\<close>: \<open>digest\<close> is SHA-256, \<open>receiver\<close> and \<open>rest_config\<close> are the construction of the HTTP
  clients, which makes no request.
\<close>

definition run ::
  "nat \<Rightarrow> 'w callhome_api \<Rightarrow> (string \<Rightarrow> string) \<Rightarrow> (string, unit) res \<Rightarrow> (string \<Rightarrow> (string, unit) res)
     \<Rightarrow> string \<Rightarrow> string \<Rightarrow> (callhome_failure, string) res \<Rightarrow> (callhome_failure, string) res \<Rightarrow> callhome_args
     \<Rightarrow> ('w, callhome_failure, unit) ch" where
  "run fuel api digest receiver rest_config product version encryption_dir key_filepath args =
     bindP (liftR encryption_dir) (\<lambda>enc_dir.
     bindP (liftR key_filepath) (\<lambda>key_file.
     bindP (request (ch_client api) ChClient (\<lambda>e. Anyhow (''failed to generate kubernetes client: '' @ e))) (\<lambda>_.
     bindP (tryP (get_cluster_id api)) (\<lambda>uid.
     bindP (liftR (map_err (\<lambda>e. Anyhow (''failed to generate kubernetes cluster ID: '' @ e)) uid)) (\<lambda>uid.
     bindP (liftR (map_err (\<lambda>e. Anyhow (''failed to generate metrics receiver client: '' @ e)) receiver)) (\<lambda>_.
     bindP (liftR (map_err (\<lambda>e. Anyhow (''failed to create openapi configuration: '' @ e)) (rest_config (ca_endpoint args)))) (\<lambda>_.
     loopP fuel (\<lambda>_.
       bindP (callhome_round fuel api
                \<lparr>cc_product = product, cc_cluster_id = digest uid, cc_namespace = digest (ca_namespace args),
                 cc_version = version, cc_aggregator_url = ca_aggregator_url args\<rparr>
                enc_dir key_file (ca_send_report args)) (\<lambda>_. retP (Inl ()))) ())))))))"

section \<open>The buffer keeps the newest entries\<close>

lemma pop_while_full_drop:
  "0 < limit \<Longrightarrow> pop_while_full logs limit = Some (drop (length logs + 1 - limit) logs)"
proof (induction logs)
  case Nil
  then show ?case by (subst pop_while_full.simps) simp
next
  case (Cons l logs)
  then show ?case
    by (subst pop_while_full.simps) (auto simp: Suc_diff_le)
qed

lemma pop_while_full_zero: "pop_while_full logs 0 = None"
proof -
  have "limit \<noteq> 0" if "pop_while_full logs limit = Some y" for limit y
    by (rule pop_while_full.raw_induct [OF _ that, of "\<lambda>_ limit _. limit \<noteq> 0"]) (auto split: if_splits)
  then show ?thesis by fastforce
qed

text \<open>
  Property C21. The buffer of error logs: adding an entry always ends when the limit is not zero,
  never leaves more than \<open>limit\<close> entries, and keeps the newest entries in their order, the new one
  last; with a limit of zero the loop would never end.
\<close>

theorem log_with_limit_keeps_newest:
  "log_with_limit logs message limit =
     (if limit = 0 then None else Some (rev (take limit (message # rev logs))))"
proof (cases limit)
  case 0
  then show ?thesis by (simp add: log_with_limit_def pop_while_full_zero)
next
  case (Suc n)
  then show ?thesis
    by (simp add: log_with_limit_def pop_while_full_drop rev_take)
qed

lemma log_with_limit_Some:
  "0 < limit \<Longrightarrow> \<exists>ls. log_with_limit logs message limit = Some ls \<and> length ls \<le> limit"
  by (simp add: log_with_limit_def pop_while_full_drop)

lemma on_event_error:
  "\<exists>ls. on_event timestamp ''ERROR'' file line msg w = Some (w\<lparr>ch_logs := ls\<rparr>) \<and> length ls \<le> 100"
  using log_with_limit_Some [of ERR_LOG_BUF_CAPACITY]
  by (fastforce simp: on_event_def Let_def ERR_LOG_BUF_CAPACITY_def)

section \<open>Retried requests\<close>

text \<open>
  What the sources rely on from \<open>tokio_retry::Retry\<close>: the action is run again after an error,
  with a pause in between that only concerns the outside, and the outcome is that of the last run.
\<close>

inductive attempts :: "('w, 'e, 'a) ch \<Rightarrow> ('w ch_world, ch_event) rt \<Rightarrow> ('e, 'a) outcome \<Rightarrow> ('w ch_world, ch_event) rt \<Rightarrow> bool"
  for m where
  last: "m s = (x, t) \<Longrightarrow> attempts m s x t"
| again: "m s = (Err e, u) \<Longrightarrow> attempts m (u\<lparr>rt_world := (rt_world u)\<lparr>ch_env := env\<rparr>\<rparr>) x t \<Longrightarrow> attempts m s x t"

definition retry_law :: "(('w, 'e, 'a) ch \<Rightarrow> ('w, 'e, 'a) ch) \<Rightarrow> bool" where
  "retry_law r \<longleftrightarrow> (\<forall>m s x t. r m s = (x, t) \<longrightarrow> attempts m s x t)"

definition retries_ok :: "'w callhome_api \<Rightarrow> bool" where
  "retries_ok api \<longleftrightarrow> retry_law (retry_nodes api) \<and> retry_law (retry_block_devices api) \<and>
     retry_law (retry_pools api) \<and> retry_law (retry_volumes api) \<and> retry_law (retry_replicas api)"

lemma attempts_only:
  assumes "attempts m s x t" "only X m"
  shows "\<exists>d. rt_trace t = rt_trace s @ d \<and> list_all X d"
  using assms
proof induction
  case (last s x t)
  obtain d where "rt_trace t = rt_trace s @ d"
    "case x of Ok a \<Rightarrow> list_all X d | Err e \<Rightarrow> list_all X d | OutOfFuel \<Rightarrow> list_all X d"
    using emitsD [OF only_emits [OF last.prems] last.hyps] .
  then show ?case by (intro exI [of _ d]) (auto split: outcome.splits)
next
  case (again s e u env x t)
  from emitsD [OF only_emits [OF again.prems] again.hyps(1)] obtain d where
    "rt_trace u = rt_trace s @ d" "list_all X d" by auto
  moreover obtain d' where "rt_trace t = rt_trace u @ d'" "list_all X d'"
    using again.IH [OF again.prems] by auto
  ultimately show ?case by (intro exI [of _ "d @ d'"]) simp
qed

lemma onlyI: "(\<And>s r t. m s = (r, t) \<Longrightarrow> \<exists>d. rt_trace t = rt_trace s @ d \<and> list_all X d) \<Longrightarrow> only X m"
  by (fastforce simp: only_def emits_def split: outcome.splits)

lemma onlyE:
  assumes "only X m" "m s = (r, t)"
  obtains d where "rt_trace t = rt_trace s @ d" "list_all X d"
proof -
  obtain d where "rt_trace t = rt_trace s @ d"
    "case r of Ok a \<Rightarrow> list_all X d | Err e \<Rightarrow> list_all X d | OutOfFuel \<Rightarrow> list_all X d"
    using emitsD [OF only_emits [OF assms(1)] assms(2)] .
  then show ?thesis by (intro that [of d]) (auto split: outcome.splits)
qed

lemma only_retry: "retry_law r \<Longrightarrow> only X m \<Longrightarrow> only X (r m)"
  unfolding retry_law_def by (rule onlyI, rule attempts_only [of m]) blast+

lemma only_retries [only_rules]:
  assumes "retries_ok api"
  shows "only X m1 \<Longrightarrow> only X (retry_nodes api m1)"
    and "only X m2 \<Longrightarrow> only X (retry_block_devices api m2)"
    and "only X m3 \<Longrightarrow> only X (retry_pools api m3)"
    and "only X m4 \<Longrightarrow> only X (retry_volumes api m4)"
    and "only X m5 \<Longrightarrow> only X (retry_replicas api m5)"
  using assms by (auto simp: retries_ok_def intro: only_retry)

section \<open>What is sent\<close>

fun is_post :: "ch_event \<Rightarrow> bool" where
  "is_post (ChPost _ _ _) = True"
| "is_post _ = False"

abbreviation no_post :: "ch_event \<Rightarrow> bool" where
  "no_post e \<equiv> \<not> is_post e"

lemma only_request [only_rules]: "(\<And>r. X (ev r)) \<Longrightarrow> only X (request f ev ctx)"
  by (simp add: request_def only_rules)

lemma only_log_error [only_rules]: "only X (log_error api line text)"
  by (rule onlyI) (auto simp: log_error_def split: option.splits)

lemma only_take_logs [only_rules]: "only X take_logs"
  by (rule onlyI) (auto simp: take_logs_def)

lemma only_getsP [only_rules]: "only X (getsP f)"
  by (rule onlyI) simp

lemma only_liftP [only_rules]: "only X (liftP r)"
  by (simp add: liftP_def only_rules)

lemma only_fetch_block_devices [only_rules]:
  "retries_ok api \<Longrightarrow> only no_post (fetch_block_devices api nodes nds)"
  by (induction nodes arbitrary: nds) (auto intro!: only_rules)

lemma only_fetch [only_rules]:
  "only no_post (get_node_len fuel api)"
  "only no_post (callhome_list_all_volumes fuel api)"
  "only no_post (event_stats api url)"
  by (auto simp: get_node_len_def callhome_list_all_volumes_def event_stats_def
      intro!: only_rules split: prod.splits option.splits)

lemma only_generate_report [only_rules]:
  "retries_ok api \<Longrightarrow> only no_post (generate_report fuel api cfg)"
  by (auto simp: generate_report_def fetch_event_data_def fetch_node_count_def fetch_node_disks_def fetch_pools_def
      fetch_volumes_def fetch_replicas_def intro!: only_rules split: option.splits sum.splits prod.splits)

lemma only_encrypt [only_rules]: "only no_post (encrypt api report encryption_dir key_filepath)"
  by (auto simp: encrypt_def Let_def intro!: only_rules)

lemma only_get_cluster_id [only_rules]: "only no_post (get_cluster_id api)"
  by (auto simp: get_cluster_id_def intro!: only_rules)

text \<open>
  A post follows the removal of the file whose content it sends, which was read after \<open>gpg\<close> had
  been run to write it.
\<close>

definition sends_encrypted :: "string \<Rightarrow> string \<Rightarrow> ch_event list \<Rightarrow> bool" where
  "sends_encrypted encryption_dir key_filepath d \<longleftrightarrow>
     (\<forall>pre h b r suf. d = pre @ ChPost h b r # suf \<longrightarrow>
        (\<exists>pre' path input. pre = pre' @
           [ChCommand (str_trim (gpg_command encryption_dir key_filepath path input)) (Inr ()),
            ChRead path (Inr b), ChRemove path (Inr ())]))"

lemma sends_encrypted_no_post: "list_all no_post d \<Longrightarrow> sends_encrypted enc key d"
  by (auto simp: sends_encrypted_def)

lemma sends_encrypted_append:
  assumes "sends_encrypted enc key d1" "sends_encrypted enc key d2"
  shows "sends_encrypted enc key (d1 @ d2)"
  unfolding sends_encrypted_def
proof (intro allI impI)
  fix pre h b r suf
  assume "d1 @ d2 = pre @ ChPost h b r # suf"
  then consider us where "d1 = pre @ ChPost h b r # us" | us where "pre = d1 @ us" "d2 = us @ ChPost h b r # suf"
    by (auto simp: append_eq_append_conv2 append_eq_Cons_conv)
  then show "\<exists>pre' path input. pre = pre' @
      [ChCommand (str_trim (gpg_command enc key path input)) (Inr ()), ChRead path (Inr b), ChRemove path (Inr ())]"
  proof cases
    case 1
    with assms(1) show ?thesis by (auto simp: sends_encrypted_def)
  next
    case 2
    with assms(2) obtain pre' path input where "us = pre' @
        [ChCommand (str_trim (gpg_command enc key path input)) (Inr ()), ChRead path (Inr b), ChRemove path (Inr ())]"
      by (fastforce simp: sends_encrypted_def)
    with 2 show ?thesis by (intro exI [of _ "d1 @ pre'"]) auto
  qed
qed

text \<open>The shape of a successful encryption: its last three interactions.\<close>

definition encrypted :: "string \<Rightarrow> string \<Rightarrow> string \<Rightarrow> ch_event list \<Rightarrow> bool" where
  "encrypted enc key out d \<longleftrightarrow> list_all no_post d \<and>
     (\<exists>pre path input. d = pre @ [ChCommand (str_trim (gpg_command enc key path input)) (Inr ()),
        ChRead path (Inr out), ChRemove path (Inr ())])"

lemma emits_request: "emits (request f ev ctx) (\<lambda>a d. d = [ev (Inr a)]) (\<lambda>d. \<exists>e. d = [ev (Inl e)])"
  unfolding request_def by (rule emits_logged) auto

lemma emits_getsP: "emits (getsP f) (\<lambda>_ d. d = []) (\<lambda>_. False)"
  by (simp add: emits_def)

lemma emits_encrypt:
  "emits (encrypt api report enc key) (encrypted enc key) (list_all no_post)"
  unfolding encrypt_def Let_def
  by (rule emits_seq [OF emits_request] emits_seq [OF emits_liftR_exact] emits_seq [OF emits_getsP]; clarsimp)+
    (rule emits_ret, unfold encrypted_def, rule conjI, simp, rule exI [of _ "[_, _]"], auto)

lemma emits_post:
  "emits (post api cfg body) (\<lambda>_ d. \<exists>h r. d = [ChPost h body r]) (\<lambda>d. \<exists>h r. d = [ChPost h body r])"
  unfolding post_def
  by (rule emits_seq [OF emits_getsP]) (auto intro: emits_conseq [OF emits_request])

lemma sends_encrypted_post:
  assumes "encrypted enc key out d"
  shows "sends_encrypted enc key (d @ [ChPost h out r])"
proof -
  have "\<forall>e \<in> set d. no_post e" using assms by (simp add: encrypted_def list_all_iff)
  then have *: "ChPost h' b r' \<notin> set d" for h' b r' by auto
  have "pre = d \<and> b = out" if eq: "d @ [ChPost h out r] = pre @ ChPost h' b r' # suf" for pre h' b r' suf
  proof (cases suf rule: rev_cases)
    case Nil
    with eq show ?thesis by simp
  next
    case (snoc suf' e)
    with eq have "d = pre @ ChPost h' b r' # suf'" by (metis append_Cons append_assoc butlast_snoc)
    with * [of h' b r'] show ?thesis by simp
  qed
  with assms show ?thesis unfolding sends_encrypted_def encrypted_def by blast
qed

lemma emits_transmit:
  assumes "encrypted enc key out d"
  shows "emits (transmit api cfg send out)
     (\<lambda>_ d2. sends_encrypted enc key (d @ d2)) (\<lambda>d2. sends_encrypted enc key (d @ d2))"
proof -
  have no: "sends_encrypted enc key d" using assms by (simp add: encrypted_def sends_encrypted_no_post)
  have after: "emits (case r of Inr _ \<Rightarrow> retP () | Inl e \<Rightarrow> log_error api 144 (msg @ e))
      (\<lambda>_ d2. d2 = []) (\<lambda>d2. d2 = [])" for r :: "string + string" and msg
    by (auto simp: emits_def log_error_def split: sum.splits option.splits)
  show ?thesis
  proof (cases send)
    case True
    show ?thesis
      unfolding transmit_def if_P [OF True]
      by (rule emits_bindI [OF emits_try [OF emits_post] after])
        (auto simp: sends_encrypted_post [OF assms] split: sum.splits)
  qed (simp add: transmit_def no emits_ret)
qed

lemma emits_callhome_round:
  assumes "retries_ok api"
  shows "emits (callhome_round fuel api cfg enc key send) (\<lambda>_. sends_encrypted enc key) (sends_encrypted enc key)"
proof -
  let ?I = "sends_encrypted enc key"
  note gen = only_emits [OF only_generate_report [OF assms, of fuel cfg]]
  have sleep: "emits (tick (\<lambda>w. w\<lparr>ch_env := ch_sleep api SLEEP_SECS (ch_env w)\<rparr>) (ChSleep SLEEP_SECS)) (\<lambda>_. ?I) ?I"
    (is "emits ?sleep _ _")
    by (rule emits_tick) (simp add: sends_encrypted_no_post)
  have sent: "emits (bindP (liftR (map_err (\<lambda>e. Anyhow (''encryption failed: '' @ e)) r)) (\<lambda>output.
       bindP (transmit api cfg send output) (\<lambda>_. ?sleep))) (\<lambda>_ d2. ?I (d @ d2)) (\<lambda>d2. ?I (d @ d2))"
    if r: "case r of Inr a \<Rightarrow> encrypted enc key a d | Inl e \<Rightarrow> list_all no_post d" for r :: "string + string" and d
  proof (cases r)
    case (Inl e)
    with r show ?thesis by (simp add: emits_def bindP_def sends_encrypted_no_post)
  next
    case (Inr out)
    with r have enc: "encrypted enc key out d" by simp
    have "emits (bindP (transmit api cfg send out) (\<lambda>_. ?sleep)) (\<lambda>_ d2. ?I (d @ d2)) (\<lambda>d2. ?I (d @ d2))"
      by (rule emits_bindI [OF emits_transmit [OF enc] sleep])
        (auto simp flip: append_assoc intro: sends_encrypted_append)
    with Inr show ?thesis by (simp add: emits_def bindP_def)
  qed
  show ?thesis
    unfolding callhome_round_def
    by (rule emits_bindI [OF gen emits_seq [OF emits_try [OF emits_encrypt] sent]])
      (auto intro: sends_encrypted_append sends_encrypted_no_post)
qed

lemma only_round_silent [only_rules]:
  "retries_ok api \<Longrightarrow> only no_post (callhome_round fuel api cfg enc key False)"
  by (auto simp: callhome_round_def transmit_def intro!: only_rules)

lemma emits_run:
  assumes "retries_ok api" "encryption_dir = Inr enc" "key_filepath = Inr key"
  shows "emits (run fuel api digest receiver rest_config product version encryption_dir key_filepath args)
     (\<lambda>_. sends_encrypted enc key) (sends_encrypted enc key)"
proof -
  let ?I = "sends_encrypted enc key"
  have loop: "emits (loopP fuel (\<lambda>_. bindP (callhome_round fuel api cfg enc key send) (\<lambda>_. retP (Inl ()))) ()) (\<lambda>_. ?I) ?I"
    (is "emits ?loop _ _") for cfg send
    by (rule emits_loop [where P = "\<lambda>_. ?I"])
      (auto intro!: emits_bindI [OF emits_callhome_round [OF assms(1)] emits_ret_exact] sends_encrypted_append
        simp: sends_encrypted_no_post)
  have step: "emits (bindP m k) (\<lambda>_. ?I) ?I" if "only no_post m" "\<And>a. emits (k a) (\<lambda>_. ?I) ?I" for m k
    by (rule emits_bindI [OF only_emits [OF that(1)] that(2)])
      (auto intro: sends_encrypted_append sends_encrypted_no_post)
  show ?thesis
    unfolding run_def assms(2,3) bindP_liftR_Inr
    by (intro step loop only_rules) simp_all
qed

text \<open>
  Property C18. What call-home sends, in every run and at every moment of it: nothing without
  \<open>--send-report\<close>; otherwise the body of every transmission is what was just read from a file that
  \<open>gpg\<close>, run successfully for the configured key, was told to write, and that file has been
  removed: the report never leaves in clear text.
\<close>

theorem run_sends_encrypted:
  assumes "retries_ok api"
    and "run fuel api digest receiver rest_config product version (Inr enc) (Inr key) args s = (x, t)"
  shows "\<exists>d. rt_trace t = rt_trace s @ d \<and>
     (\<not> ca_send_report args \<longrightarrow> (\<forall>h b r. ChPost h b r \<notin> set d)) \<and>
     (\<forall>pre h b r suf. d = pre @ ChPost h b r # suf \<longrightarrow>
        (\<exists>pre' path input. pre = pre' @ [ChCommand (str_trim (gpg_command enc key path input)) (Inr ()),
           ChRead path (Inr b), ChRemove path (Inr ())]))"
proof -
  obtain d where d: "rt_trace t = rt_trace s @ d"
    and x: "case x of Ok a \<Rightarrow> sends_encrypted enc key d | Err e \<Rightarrow> sends_encrypted enc key d | OutOfFuel \<Rightarrow> sends_encrypted enc key d"
    using emitsD [OF emits_run [OF assms(1) refl refl] assms(2)] .
  have enc: "sends_encrypted enc key d" using x by (cases x) simp_all
  have "\<forall>h b r. ChPost h b r \<notin> set d" if "\<not> ca_send_report args"
  proof -
    have "only no_post (run fuel api digest receiver rest_config product version (Inr enc) (Inr key) args)"
      unfolding run_def using that assms(1) by (auto intro!: only_rules)
    then obtain d' where "rt_trace t = rt_trace s @ d'" "list_all no_post d'" using assms(2) by (rule onlyE)
    with d have "list_all no_post d" by simp
    then show ?thesis by (auto simp: list_all_iff)
  qed
  with d enc show ?thesis by (intro exI [of _ d]) (simp add: sends_encrypted_def)
qed

section \<open>The buffer stays bounded\<close>

definition stable :: "(log_entry list \<Rightarrow> bool) \<Rightarrow> ('w, 'e, 'a) ch \<Rightarrow> bool" where
  "stable P m \<longleftrightarrow> (\<forall>s x t. m s = (x, t) \<longrightarrow> P (ch_logs (rt_world s)) \<longrightarrow> P (ch_logs (rt_world t)))"

named_theorems stable_rules "programs that keep a property of the buffer of logs"

lemma stableD: "stable P m \<Longrightarrow> m s = (x, t) \<Longrightarrow> P (ch_logs (rt_world s)) \<Longrightarrow> P (ch_logs (rt_world t))"
  by (simp add: stable_def)

lemma stable_basic [stable_rules]:
  "stable P (retP a)"
  "stable P (liftR r)"
  "stable P (getsP f)"
  by (auto simp: stable_def liftR_def split: sum.splits)

lemma stable_request [stable_rules]: "stable P (request f ev ctx)"
  by (auto simp: stable_def request_def logged_def on_env_def split: prod.splits)

lemma stable_tick [stable_rules]: "stable P (tick (\<lambda>w. w\<lparr>ch_env := f (ch_env w)\<rparr>) ev)"
  by (auto simp: stable_def tick_def)

lemma stable_bind [stable_rules]: "stable P m \<Longrightarrow> (\<And>a. stable P (k a)) \<Longrightarrow> stable P (bindP m k)"
  unfolding stable_def bindP_def by (fastforce split: prod.splits outcome.splits)

lemma stable_try [stable_rules]: "stable P m \<Longrightarrow> stable P (tryP m)"
  unfolding stable_def tryP_def by (fastforce split: prod.splits outcome.splits)

lemma stable_loop [stable_rules]: "(\<And>b. stable P (body b)) \<Longrightarrow> stable P (loopP n body b)"
  by (induction n arbitrary: b) (auto intro!: stable_rules split: sum.splits simp: stable_def [of P "\<lambda>s. (OutOfFuel, s)"])

lemma stable_attempts:
  "attempts m s x t \<Longrightarrow> stable P m \<Longrightarrow> P (ch_logs (rt_world s)) \<Longrightarrow> P (ch_logs (rt_world t))"
proof (induction rule: attempts.induct)
  case (again s e u env x t)
  have "P (ch_logs (rt_world u))" using again.hyps(1) again.prems by (simp add: stable_def)
  then show ?case using again.IH again.prems(1) by simp
qed (simp add: stable_def)

lemma stable_retry: "retry_law r \<Longrightarrow> stable P m \<Longrightarrow> stable P (r m)"
  unfolding retry_law_def stable_def [of P "r m"] using stable_attempts [of m _ _ _ P] by blast

lemma stable_retries [stable_rules]:
  assumes "retries_ok api"
  shows "stable P m1 \<Longrightarrow> stable P (retry_nodes api m1)"
    and "stable P m2 \<Longrightarrow> stable P (retry_block_devices api m2)"
    and "stable P m3 \<Longrightarrow> stable P (retry_pools api m3)"
    and "stable P m4 \<Longrightarrow> stable P (retry_volumes api m4)"
    and "stable P m5 \<Longrightarrow> stable P (retry_replicas api m5)"
  using assms by (auto simp: retries_ok_def intro: stable_retry)

abbreviation within_capacity :: "log_entry list \<Rightarrow> bool" where
  "within_capacity ls \<equiv> length ls \<le> ERR_LOG_BUF_CAPACITY"

lemma stable_log_error [stable_rules]: "stable within_capacity (log_error api line text)"
  unfolding stable_def log_error_def
proof (intro allI impI)
  fix s x t
  assume run: "(case on_event (ch_now api (ch_env (rt_world s))) ''ERROR'' ''call-home/src/bin/callhome/main.rs'' line
      (record_debug '''' ''message'' text) (rt_world s) of
        Some w \<Rightarrow> (Ok (), s\<lparr>rt_world := w\<rparr>) | None \<Rightarrow> (OutOfFuel, s)) = (x, t)"
  obtain ls where "on_event (ch_now api (ch_env (rt_world s))) ''ERROR'' ''call-home/src/bin/callhome/main.rs'' line
      (record_debug '''' ''message'' text) (rt_world s) = Some ((rt_world s)\<lparr>ch_logs := ls\<rparr>)" "length ls \<le> 100"
    using on_event_error by blast
  with run show "within_capacity (ch_logs (rt_world t))" by (auto simp: ERR_LOG_BUF_CAPACITY_def)
qed

lemma stable_take_logs [stable_rules]: "stable within_capacity take_logs"
  by (auto simp: stable_def take_logs_def)

lemma stable_liftP [stable_rules]: "stable P (liftP r)"
  by (simp add: liftP_def stable_rules)

lemma stable_fetch_block_devices [stable_rules]:
  "retries_ok api \<Longrightarrow> stable P (fetch_block_devices api nodes nds)"
  by (induction nodes arbitrary: nds) (auto intro!: stable_rules)

lemma stable_fetch [stable_rules]:
  "stable P (get_node_len fuel api)"
  "stable P (callhome_list_all_volumes fuel api)"
  "stable P (event_stats api url)"
  "stable P (get_cluster_id api)"
  by (auto simp: get_node_len_def callhome_list_all_volumes_def event_stats_def get_cluster_id_def
      intro!: stable_rules split: prod.splits option.splits)

lemma stable_generate_report [stable_rules]:
  "retries_ok api \<Longrightarrow> stable within_capacity (generate_report fuel api cfg)"
  by (auto simp: generate_report_def fetch_event_data_def fetch_node_count_def fetch_node_disks_def fetch_pools_def
      fetch_volumes_def fetch_replicas_def intro!: stable_rules split: option.splits sum.splits prod.splits)

lemma stable_round [stable_rules]:
  "retries_ok api \<Longrightarrow> stable within_capacity (callhome_round fuel api cfg enc key send)"
  by (auto simp: callhome_round_def transmit_def encrypt_def post_def Let_def intro!: stable_rules split: sum.splits)

text \<open>
  Property C20. The buffer of error logs never exceeds its capacity of 100 entries, at any moment
  of any run of the service.
\<close>

theorem run_logs_bounded:
  assumes "retries_ok api" "length (ch_logs (rt_world s)) \<le> 100"
    and "run fuel api digest receiver rest_config product version encryption_dir key_filepath args s = (x, t)"
  shows "length (ch_logs (rt_world t)) \<le> 100"
proof -
  have "stable within_capacity (run fuel api digest receiver rest_config product version encryption_dir key_filepath args)"
    unfolding run_def using assms(1) by (auto intro!: stable_rules)
  from stableD [OF this assms(3)] assms(2) show ?thesis by (simp add: ERR_LOG_BUF_CAPACITY_def)
qed

section \<open>Counting the nodes\<close>

fun node_items :: "ch_event \<Rightarrow> nat" where
  "node_items (ChNodesList _ _ (Inr (n, _))) = n"
| "node_items _ = 0"

lemma emits_get_node_len:
  "emits (get_node_len fuel api) (\<lambda>n d. n = sum_list (map node_items d)) (\<lambda>_. True)"
  unfolding get_node_len_def
  by (rule emits_loop [where P = "\<lambda>(n, _) d. n = sum_list (map node_items d)"])
    (auto intro!: emits_bindI [OF emits_request emits_ret_exact] split: prod.splits option.splits
      simp: emits_def request_def logged_def bindP_def on_env_def split: sum.splits)

text \<open>
  The number of Kubernetes nodes in a report is the total over all pages of the
  listing modulo 256: the count is exact below 256 nodes and wraps from there on.
\<close>

theorem fetch_node_count_mod_256:
  assumes "fetch_node_count fuel api s = (Ok (Some c), t)"
  shows "\<exists>d. rt_trace t = rt_trace s @ d \<and> unat c = sum_list (map node_items d) mod 256"
proof -
  obtain n where len: "get_node_len fuel api s = (Ok n, t)" and c: "c = of_nat n"
    using assms by (auto simp: fetch_node_count_def bindP_def tryP_def split: prod.splits outcome.splits)
  obtain d where "rt_trace t = rt_trace s @ d" "n = sum_list (map node_items d)"
    using emits_Ok [OF emits_get_node_len len] .
  with c show ?thesis by (auto simp: unsigned_of_nat take_bit_eq_mod)
qed

section \<open>From the aggregator to the report\<close>

text \<open>
  What parsing the text of a scrape gives back for the families that were encoded: one counter
  sample per family, named after the resource and labelled with the action.
\<close>

definition samples_of :: "metric_family list \<Rightarrow> sample list" where
  "samples_of = map (\<lambda>f. \<lparr>sample_metric = fam_name f, sample_value = Counter (Finite (of_nat (fam_value f))),
      sample_labels = [ACTION \<mapsto> fam_action f]\<rparr>)"

lemma u32_of_f64_nat: "u32_of_f64 (Finite (of_nat (unat (w :: u32)))) = w"
proof -
  have "uint w < 2 ^ 32" using uint_lt2p [of w] by simp
  then have "max 0 (min (2 ^ 32 - 1) (int (unat w))) = uint w" by simp
  then show ?thesis by (simp del: of_nat_unat)
qed


end
