(* ===== verification/CallHomeInstance.thy ===== *)
theory CallHomeInstance
  imports CallHome
begin

text \<open>
  A concrete surrounding of call-home, a cluster of 300 nodes listed in one page, and the
  properties of \<open>ReportModels\<close> and \<open>CallHome\<close> applied there.
\<close>

definition sim_body :: string where "sim_body = ''metrics''"

definition sim_events :: event_set where
  "sim_events = inc_counter CatNexus ActCreate (inc_counter CatVolume ActCreate event_set_default)"

definition sim_callhome :: "unit callhome_api" where
  "sim_callhome =
     \<lparr>ch_client = (\<lambda>w. (Inr (), w)),
      ch_nodes_list = (\<lambda>_ _ w. (Inr (300, None), w)),
      ch_namespace_uid = (\<lambda>_ w. (Inr (Some ''uid''), w)),
      ch_http_get = (\<lambda>_ w. (Inr (Inr sim_body), w)),
      ch_scrape_parse = (\<lambda>_. Inr (samples_of (fst (collect (\<lambda>_ _. True) sim_events stats_collector_new)))),
      ch_get_nodes = (\<lambda>w. (Inr [''node-1''], w)),
      ch_get_block_devices = (\<lambda>_ w. (Inr [], w)),
      ch_get_pools = (\<lambda>w. (Inl ''unavailable'', w)),
      ch_get_volumes = (\<lambda>_ _ w. (Inr ([], None), w)),
      ch_get_replicas = (\<lambda>w. (Inr [], w)),
      ch_now = (\<lambda>_. ''now''),
      ch_debug = (\<lambda>_. ''error''),
      ch_values_order = map snd,
      ch_tempfile_new_in = (\<lambda>dir w. (Inr (path_join dir ''tmp''), w)),
      ch_to_vec = (\<lambda>_. Inr ''report''),
      ch_fs_write = (\<lambda>_ _ w. (Inr (), w)),
      ch_random_name = (\<lambda>_. ''random''),
      ch_command = (\<lambda>_ w. (Inr (), w)),
      ch_fs_read = (\<lambda>_ w. (Inr ''cipher'', w)),
      ch_fs_remove = (\<lambda>_ w. (Inr (), w)),
      ch_send = (\<lambda>_ _ w. (Inr ''200'', w)),
      ch_sleep = (\<lambda>_ w. w),
      retry_nodes = (\<lambda>m. m), retry_block_devices = (\<lambda>m. m), retry_pools = (\<lambda>m. m),
      retry_volumes = (\<lambda>m. m), retry_replicas = (\<lambda>m. m)\<rparr>"

definition sim_state :: "(unit ch_world, ch_event) rt" where
  "sim_state = \<lparr>rt_world = \<lparr>ch_env = (), ch_logs = []\<rparr>, rt_trace = []\<rparr>"

definition sim_args :: callhome_args where
  "sim_args = \<lparr>ca_endpoint = ''http://api'', ca_namespace = ''mayastor'', ca_send_report = True,
     ca_aggregator_url = Some ''http://stats''\<rparr>"

lemma retries_ok_sim: "retries_ok sim_callhome"
  by (simp add: retries_ok_def retry_law_def sim_callhome_def attempts.last)

definition sim_run :: "nat \<Rightarrow> (unit, callhome_failure, unit) ch" where
  "sim_run fuel = run fuel sim_callhome id (Inr ()) (\<lambda>_. Inr ()) ''Mayastor'' ''2.7'' (Inr ''./'') (Inr ''./public.gpg'') sim_args"

section \<open>Witnesses\<close>


definition sim_volumes :: "rest_volume list" where
  "sim_volumes =
     [\<lparr>vol_size = 4096, vol_num_replicas = 3, vol_status = VolOnline\<rparr>,
      \<lparr>vol_size = 8192, vol_num_replicas = 0, vol_status = VolFaulted\<rparr>]"

theorem volumes_new_accounts_witness:
  "\<exists>r. volumes_new sim_volumes event_data_default = Inr r \<and> vr_count r = 2 \<and>
     vsc_unknown (vr_state_counts r) + vsc_online (vr_state_counts r) + vsc_degraded (vr_state_counts r) +
     vsc_faulted (vr_state_counts r) + vsc_shutdown (vr_state_counts r) = 2 \<and>
     one_replica (vr_replica_counts r) + two_replicas (vr_replica_counts r) +
     three_replicas (vr_replica_counts r) + four_replicas (vr_replica_counts r) +
     five_or_more_replicas (vr_replica_counts r) = 1"
proof -
  have "small (get_volumes_size_vector sim_volumes)" "get_volumes_size_vector sim_volumes \<noteq> []"
    by (simp_all add: small_def sim_volumes_def get_volumes_size_vector_def)
  note pc = get_percentile_value [OF this]
  then obtain r where r: "volumes_new sim_volumes event_data_default = Inr r"
    by (simp add: volumes_new_def Let_def percentiles_new_def)
  from volumes_new_accounts [OF this] r show ?thesis by (simp add: sim_volumes_def)
qed

theorem storage_media_by_type_witness:
  "sm_disk_types (storage_media_new [\<lparr>devname = ''/dev/loop0'', devtype = ''disk'', devpath = ''/devices/x'',
      devlinks = [], bd_size = 8, is_rotational = None, connection_type = ''none'', partition_name = None\<rparr>]) ''Loop Device'' =
     Some \<lparr>dt_count = 1, dt_capacity_in_bytes = 4096\<rparr>"
  using storage_media_by_type [OF refl, of "[\<lparr>devname = ''/dev/loop0'', devtype = ''disk'', devpath = ''/devices/x'',
      devlinks = [], bd_size = 8, is_rotational = None, connection_type = ''none'', partition_name = None\<rparr>]"]
  by (simp add: get_disk_type_def)

theorem run_sends_encrypted_witness:
  "\<exists>d. rt_trace (snd (sim_run 3 sim_state)) = rt_trace sim_state @ d \<and>
     (\<forall>pre h b r suf. d = pre @ ChPost h b r # suf \<longrightarrow>
        (\<exists>pre' path input. pre = pre' @ [ChCommand (str_trim (gpg_command ''./'' ''./public.gpg'' path input)) (Inr ()),
           ChRead path (Inr b), ChRemove path (Inr ())]))"
proof -
  obtain x t where run: "sim_run 3 sim_state = (x, t)" by (cases "sim_run 3 sim_state")
  from run_sends_encrypted [OF retries_ok_sim run [unfolded sim_run_def]] show ?thesis by (auto simp: run)
qed

theorem run_logs_bounded_witness:
  "length (ch_logs (rt_world (snd (sim_run 3 sim_state)))) \<le> 100"
proof -
  obtain x t where run: "sim_run 3 sim_state = (x, t)" by (cases "sim_run 3 sim_state")
  have "length (ch_logs (rt_world sim_state)) \<le> 100" by (simp add: sim_state_def)
  from run_logs_bounded [OF retries_ok_sim this run [unfolded sim_run_def]] show ?thesis by (simp add: run)
qed

theorem fetch_node_count_mod_256_witness:
  "\<exists>t. fetch_node_count 1 sim_callhome sim_state = (Ok (Some 44), t) \<and>
     (\<exists>d. rt_trace t = d \<and> unat (44 :: u8) = sum_list (map node_items d) mod 256)"
proof -
  have "\<exists>t. fetch_node_count 1 sim_callhome sim_state = (Ok (Some 44), t)"
    by (simp add: fetch_node_count_def get_node_len_def bindP_def tryP_def request_def logged_def on_env_def
        sim_callhome_def)
  then obtain t where t: "fetch_node_count 1 sim_callhome sim_state = (Ok (Some 44), t)" by blast
  from fetch_node_count_mod_256 [OF t] t show ?thesis by (simp add: sim_state_def)
qed


end
