(* ===== verification/Exporter.thy ===== *)
theory Exporter
  imports Effects F64
begin

text \<open>
  The metrics exporter of the io-engine (\<open>metrics-exporter/src/bin/io_engine\<close>): the gRPC client
  and what it makes of the answers (\<open>client\<close>), the cache that they are put into (\<open>cache\<close>), the
  collectors that turn the cache into gauges (\<open>collector\<close>), and the handler of a scrape
  (\<open>serve/handler.rs\<close>).  The io-engine and the Prometheus library are parameters.  Messages
  that only go to the log are left out.
\<close>

section \<open>The io-engine and the library\<close>

datatype exporter_error =
    GrpcResponseError string
  | GetNodeError string
  | InvalidURI string
  | PodIPError string
  | GrpcClientError string
  | HttpServerError string
  | HttpBindError string

text \<open>A panic of the handler, or an error of the program.\<close>

datatype exporter_stop = XError exporter_error | XPanic

record rpc_pool =
  rp_name :: string
  rp_used :: u64
  rp_capacity :: u64
  rp_state :: u32
  rp_committed :: u64

record rpc_io_stats =
  is_name :: string
  is_bytes_read :: u64
  is_num_read_ops :: u64
  is_bytes_written :: u64
  is_num_write_ops :: u64
  is_read_latency_ticks :: u64
  is_write_latency_ticks :: u64
  is_tick_rate :: u64

record rpc_replica_io_stats =
  ris_entity_id :: "string option"
  ris_stats :: "rpc_io_stats option"

record 'w engine =
  en_connect :: "string \<Rightarrow> 'w \<Rightarrow> bool \<times> 'w"
  en_sleep :: "nat \<Rightarrow> 'w \<Rightarrow> 'w"
  en_list_pools :: "'w \<Rightarrow> (string, rpc_pool list) res \<times> 'w"
  en_pool_stats :: "'w \<Rightarrow> (string, rpc_io_stats list) res \<times> 'w"
  en_nexus_stats :: "'w \<Rightarrow> (string, rpc_io_stats list) res \<times> 'w"
  en_replica_stats :: "'w \<Rightarrow> (string, rpc_replica_io_stats list) res \<times> 'w"

text \<open>A vector of gauges by its name, description and labels, and a family with one gauge of it.\<close>

record gauge_vec =
  gv_subsystem :: string
  gv_name :: string
  gv_help :: string
  gv_labels :: "string list"

record gauge =
  ga_vec :: gauge_vec
  ga_labels :: "string list"
  ga_value :: rat

text \<open>
  The Prometheus library: whether a vector can be made, whether it has a gauge for label values,
  whether a collector can be registered beside others, and the text of the gathered families;
  and the URI builder and the parser of addresses.
\<close>

record prometheus =
  pr_gauge_ok :: "gauge_vec \<Rightarrow> bool"
  pr_labels_ok :: "gauge_vec \<Rightarrow> string list \<Rightarrow> bool"
  pr_register :: "gauge_vec list list \<Rightarrow> gauge_vec list \<Rightarrow> bool"
  pr_encode :: "gauge list list \<Rightarrow> string"
  pr_parse_ip :: "string \<Rightarrow> string option"
  pr_socket_addr :: "string \<Rightarrow> nat \<Rightarrow> string"
  pr_uri :: "string \<Rightarrow> string \<Rightarrow> (string, string) res"

record exporter_env =
  ee_pod_ip :: "string option"
  ee_node_name :: "string option"

section \<open>Resources (client)\<close>

text \<open>\<open>ticks_to_time\<close>: the product is computed with 128 bits; a rate of zero is a panic.\<close>

definition ticks_to_time :: "u64 \<Rightarrow> u64 \<Rightarrow> u64 option" where
  "ticks_to_time tick tick_rate =
     (if tick_rate = 0 then None else Some (word_of_nat (unat tick * 1000000 div unat tick_rate)))"

record x_pool_info =
  xpi_name :: string
  xpi_used :: u64
  xpi_capacity :: u64
  xpi_state :: u64
  xpi_committed :: u64

record pool_io_stat =
  ios_name :: string
  ios_bytes_read :: u64
  ios_num_read_ops :: u64
  ios_bytes_written :: u64
  ios_num_write_ops :: u64
  ios_read_latency_us :: u64
  ios_write_latency_us :: u64

text \<open>The statistics of a nexus have the same fields.\<close>

type_synonym nexus_io_stat = pool_io_stat

record replica_io_stat = pool_io_stat +
  ios_entity_id :: string

definition pool_info_from :: "rpc_pool \<Rightarrow> x_pool_info" where
  "pool_info_from v =
     \<lparr>xpi_name = rp_name v, xpi_used = rp_used v, xpi_capacity = rp_capacity v, xpi_state = scast (rp_state v),
      xpi_committed = rp_committed v\<rparr>"

definition pool_io_stat_from :: "rpc_io_stats \<Rightarrow> pool_io_stat option" where
  "pool_io_stat_from v =
     Option.bind (ticks_to_time (is_read_latency_ticks v) (is_tick_rate v)) (\<lambda>read_us.
     Option.bind (ticks_to_time (is_write_latency_ticks v) (is_tick_rate v)) (\<lambda>write_us.
     Some \<lparr>ios_name = is_name v, ios_bytes_read = is_bytes_read v, ios_num_read_ops = is_num_read_ops v,
       ios_bytes_written = is_bytes_written v, ios_num_write_ops = is_num_write_ops v,
       ios_read_latency_us = read_us, ios_write_latency_us = write_us\<rparr>))"

definition nexus_io_stat_from :: "rpc_io_stats \<Rightarrow> nexus_io_stat option" where
  "nexus_io_stat_from v =
     Option.bind (ticks_to_time (is_read_latency_ticks v) (is_tick_rate v)) (\<lambda>read_us.
     Option.bind (ticks_to_time (is_write_latency_ticks v) (is_tick_rate v)) (\<lambda>write_us.
     Some \<lparr>ios_name = is_name v, ios_bytes_read = is_bytes_read v, ios_num_read_ops = is_num_read_ops v,
       ios_bytes_written = is_bytes_written v, ios_num_write_ops = is_num_write_ops v,
       ios_read_latency_us = read_us, ios_write_latency_us = write_us\<rparr>))"

definition replica_io_stat_try_from :: "rpc_replica_io_stats \<Rightarrow> (exporter_error, replica_io_stat) res option" where
  "replica_io_stat_try_from v =
     (case ris_stats v of
        None \<Rightarrow> Some (Inl (GrpcResponseError ''Stats is None for replica stats''))
      | Some stats \<Rightarrow>
          (case ris_entity_id v of
             None \<Rightarrow> Some (Inl (GrpcResponseError ''entity_id is not set for replica stat''))
           | Some ident \<Rightarrow>
               Option.bind (ticks_to_time (is_read_latency_ticks stats) (is_tick_rate stats)) (\<lambda>read_us.
               Option.bind (ticks_to_time (is_write_latency_ticks stats) (is_tick_rate stats)) (\<lambda>write_us.
               Some (Inr \<lparr>ios_name = is_name stats, ios_bytes_read = is_bytes_read stats, ios_num_read_ops = is_num_read_ops stats,
                 ios_bytes_written = is_bytes_written stats, ios_num_write_ops = is_num_write_ops stats,
                 ios_read_latency_us = read_us, ios_write_latency_us = write_us, ios_entity_id = ident\<rparr>)))))"

section \<open>The state (cache/mod.rs, main.rs)\<close>

record cache_data =
  cd_pools :: "x_pool_info list"
  cd_pool_stats :: "pool_io_stat list"
  cd_nexus_stats :: "nexus_io_stat list"
  cd_replica_stats :: "replica_io_stat list"

definition data_new :: cache_data where
  "data_new = \<lparr>cd_pools = [], cd_pool_stats = [], cd_nexus_stats = [], cd_replica_stats = []\<rparr>"

text \<open>The cache behind its mutex, which may be poisoned.\<close>

record cache_cell =
  cc_data :: cache_data
  cc_poisoned :: bool

record 'w exporter =
  ex_world :: 'w
  ex_cache :: "cache_cell option"
  ex_client :: "bool option"

type_synonym ('w, 'a) exp = "('w exporter, exporter_stop, 'a) prog"

definition initialize_cache :: "('w, unit) exp" where
  "initialize_cache =
     modifyP (\<lambda>s. case ex_cache s of None \<Rightarrow> s\<lparr>ex_cache := Some \<lparr>cc_data = data_new, cc_poisoned = False\<rparr>\<rparr> | Some _ \<Rightarrow> s)"

definition get_cache :: "('w, cache_cell) exp" where
  "get_cache = bindP (getsP ex_cache) (\<lambda>c. liftR (ok_or XPanic c))"

definition put_data :: "(cache_data \<Rightarrow> cache_data) \<Rightarrow> ('w, unit) exp" where
  "put_data f = modifyP (\<lambda>s. s\<lparr>ex_cache := map_option (\<lambda>c. c\<lparr>cc_data := f (cc_data c)\<rparr>) (ex_cache s)\<rparr>)"

definition get_pod_ip :: "prometheus \<Rightarrow> exporter_env \<Rightarrow> (exporter_error, string) res" where
  "get_pod_ip lib env =
     res_bind (ok_or (PodIPError ''Unable to get pod ip'') (ee_pod_ip env)) (\<lambda>ip.
     ok_or (PodIPError ''Invalid pod ip'') (pr_parse_ip lib ip))"

definition get_node_name :: "exporter_env \<Rightarrow> (exporter_error, string) res" where
  "get_node_name env = ok_or (GetNodeError ''Unable to get node name'') (ee_node_name env)"

section \<open>The gRPC client (client/grpc_client.rs)\<close>

definition engine_call :: "('w \<Rightarrow> 'r \<times> 'w) \<Rightarrow> ('w, 'r) exp" where
  "engine_call f s = (case f (ex_world s) of (r, w) \<Rightarrow> (Ok r, s\<lparr>ex_world := w\<rparr>))"

text \<open>Connect until it works; the client is then always there.\<close>

definition grpc_client_new :: "nat \<Rightarrow> 'w engine \<Rightarrow> string \<Rightarrow> ('w, bool) exp" where
  "grpc_client_new fuel en endpoint =
     loopP fuel (\<lambda>num_retries.
       bindP (engine_call (en_connect en endpoint)) (\<lambda>connected.
       if connected then retP (Inr True)
       else bindP (modifyP (\<lambda>s. s\<lparr>ex_world := en_sleep en 10 (ex_world s)\<rparr>)) (\<lambda>_. retP (Inl (num_retries + 1)))))
     (0 :: nat)"

definition init_client :: "nat \<Rightarrow> prometheus \<Rightarrow> exporter_env \<Rightarrow> 'w engine \<Rightarrow> ('w, bool) exp" where
  "init_client fuel lib env en =
     bindP (liftR (map_err XError (get_pod_ip lib env))) (\<lambda>pod_ip.
     bindP (liftR (map_err XError (get_node_name env))) (\<lambda>_.
     bindP (liftR (map_err (\<lambda>e. XError (InvalidURI e)) (pr_uri lib ''https'' (pr_socket_addr lib pod_ip 10124)))) (\<lambda>endpoint.
     grpc_client_new fuel en endpoint)))"

definition client_v1 :: "bool \<Rightarrow> (exporter_error, unit) res" where
  "client_v1 client = ensure client (GrpcClientError ''Could not get v1 client'')"

text \<open>A request: the error of the client or of the answer, or the converted answer; a conversion may panic.\<close>

definition grpc_request ::
  "bool \<Rightarrow> ('w \<Rightarrow> (string, 'r) res \<times> 'w) \<Rightarrow> ('r \<Rightarrow> 'a option) \<Rightarrow> ('w, (exporter_error, 'a) res) exp" where
  "grpc_request client call conv =
     (case client_v1 client of
        Inl e \<Rightarrow> retP (Inl e)
      | Inr _ \<Rightarrow>
          bindP (engine_call call) (\<lambda>r. case r of
            Inl e \<Rightarrow> retP (Inl (GrpcResponseError e))
          | Inr response \<Rightarrow> bindP (liftR (ok_or XPanic (conv response))) (\<lambda>a. retP (Inr a))))"

definition x_list_pools :: "'w engine \<Rightarrow> bool \<Rightarrow> ('w, (exporter_error, x_pool_info list) res) exp" where
  "x_list_pools en client = grpc_request client (en_list_pools en) (\<lambda>pools. Some (map pool_info_from pools))"

definition get_pool_iostat :: "'w engine \<Rightarrow> bool \<Rightarrow> ('w, (exporter_error, pool_io_stat list) res) exp" where
  "get_pool_iostat en client = grpc_request client (en_pool_stats en) (\<lambda>stats. those (map pool_io_stat_from stats))"

definition get_nexus_iostat :: "'w engine \<Rightarrow> bool \<Rightarrow> ('w, (exporter_error, nexus_io_stat list) res) exp" where
  "get_nexus_iostat en client = grpc_request client (en_nexus_stats en) (\<lambda>stats. those (map nexus_io_stat_from stats))"

text \<open>Replicas without statistics or without an entity are left out.\<close>

definition oks :: "('e, 'a) res list \<Rightarrow> 'a list" where
  "oks rs = concat (map (\<lambda>r. case r of Inr a \<Rightarrow> [a] | Inl _ \<Rightarrow> []) rs)"

definition get_replica_iostat :: "'w engine \<Rightarrow> bool \<Rightarrow> ('w, (exporter_error, replica_io_stat list) res) exp" where
  "get_replica_iostat en client =
     grpc_request client (en_replica_stats en) (\<lambda>stats. map_option oks (those (map replica_io_stat_try_from stats)))"

section \<open>Filling the cache (cache)\<close>

text \<open>
  The four \<open>store_*_data\<close>: fetch, lock the cache, and set the part of it, or make it empty
  after an error.  The result is \<open>false\<close> for an error.
\<close>

text \<open>The parts of the cache (\<open>impl ResourceOps\<close>): setting one, and making it empty.\<close>

definition pools_set :: "x_pool_info list \<Rightarrow> cache_data \<Rightarrow> cache_data" where
  "pools_set val d = d\<lparr>cd_pools := val\<rparr>"

definition pools_invalidate :: "cache_data \<Rightarrow> cache_data" where
  "pools_invalidate d = d\<lparr>cd_pools := []\<rparr>"

definition pool_stats_set :: "pool_io_stat list \<Rightarrow> cache_data \<Rightarrow> cache_data" where
  "pool_stats_set val d = d\<lparr>cd_pool_stats := val\<rparr>"

definition pool_stats_invalidate :: "cache_data \<Rightarrow> cache_data" where
  "pool_stats_invalidate d = d\<lparr>cd_pool_stats := []\<rparr>"

definition nexus_stats_set :: "nexus_io_stat list \<Rightarrow> cache_data \<Rightarrow> cache_data" where
  "nexus_stats_set val d = d\<lparr>cd_nexus_stats := val\<rparr>"

definition nexus_stats_invalidate :: "cache_data \<Rightarrow> cache_data" where
  "nexus_stats_invalidate d = d\<lparr>cd_nexus_stats := []\<rparr>"

definition replica_stats_set :: "replica_io_stat list \<Rightarrow> cache_data \<Rightarrow> cache_data" where
  "replica_stats_set val d = d\<lparr>cd_replica_stats := val\<rparr>"

definition replica_stats_invalidate :: "cache_data \<Rightarrow> cache_data" where
  "replica_stats_invalidate d = d\<lparr>cd_replica_stats := []\<rparr>"

definition store_data ::
  "('w, (exporter_error, 'a list) res) exp \<Rightarrow> ('a list \<Rightarrow> cache_data \<Rightarrow> cache_data) \<Rightarrow> (cache_data \<Rightarrow> cache_data) \<Rightarrow> ('w, bool) exp" where
  "store_data fetch set_part invalidate =
     bindP fetch (\<lambda>r.
     bindP get_cache (\<lambda>cell.
     if cc_poisoned cell then retP False
     else (case r of
         Inr val \<Rightarrow> bindP (put_data (set_part val)) (\<lambda>_. retP True)
       | Inl _ \<Rightarrow> bindP (put_data invalidate) (\<lambda>_. retP False))))"

definition store_pool_info_data :: "'w engine \<Rightarrow> bool \<Rightarrow> ('w, bool) exp" where
  "store_pool_info_data en client = store_data (x_list_pools en client) pools_set pools_invalidate"

definition store_pool_stats_data :: "'w engine \<Rightarrow> bool \<Rightarrow> ('w, bool) exp" where
  "store_pool_stats_data en client = store_data (get_pool_iostat en client) pool_stats_set pool_stats_invalidate"

definition store_nexus_stats_data :: "'w engine \<Rightarrow> bool \<Rightarrow> ('w, bool) exp" where
  "store_nexus_stats_data en client = store_data (get_nexus_iostat en client) nexus_stats_set nexus_stats_invalidate"

definition store_replica_stats_data :: "'w engine \<Rightarrow> bool \<Rightarrow> ('w, bool) exp" where
  "store_replica_stats_data en client = store_data (get_replica_iostat en client) replica_stats_set replica_stats_invalidate"

definition store_resource_data :: "'w engine \<Rightarrow> bool \<Rightarrow> ('w, unit) exp" where
  "store_resource_data en client =
     bindP (store_pool_info_data en client) (\<lambda>_.
     bindP (store_pool_stats_data en client) (\<lambda>_.
     bindP (store_nexus_stats_data en client) (\<lambda>_.
     bindP (store_replica_stats_data en client) (\<lambda>_. retP ()))))"

section \<open>Collectors (collector)\<close>

text \<open>A vector that cannot be made is a panic.\<close>

definition gauge_vec_new :: "prometheus \<Rightarrow> gauge_vec \<Rightarrow> ('w, gauge_vec) exp" where
  "gauge_vec_new lib g = (if pr_gauge_ok lib g then retP g else failP XPanic)"

definition diskpool_gauge :: "string \<Rightarrow> string \<Rightarrow> gauge_vec" where
  "diskpool_gauge name desc =
     \<lparr>gv_subsystem = ''diskpool'', gv_name = name, gv_help = desc, gv_labels = [''node'', ''name'']\<rparr>"

definition volume_gauge :: "string \<Rightarrow> string \<Rightarrow> gauge_vec" where
  "volume_gauge name desc =
     \<lparr>gv_subsystem = ''volume'', gv_name = name, gv_help = desc, gv_labels = [''node'', ''pv_name'']\<rparr>"

definition replica_gauge :: "string \<Rightarrow> string \<Rightarrow> gauge_vec" where
  "replica_gauge name desc =
     \<lparr>gv_subsystem = ''replica'', gv_name = name, gv_help = desc, gv_labels = [''node'', ''name'', ''pv_name'']\<rparr>"

definition init_diskpool_gauge_vec :: "prometheus \<Rightarrow> string \<Rightarrow> string \<Rightarrow> ('w, gauge_vec) exp" where
  "init_diskpool_gauge_vec lib name desc = gauge_vec_new lib (diskpool_gauge name desc)"

definition init_volume_gauge_vec :: "prometheus \<Rightarrow> string \<Rightarrow> string \<Rightarrow> ('w, gauge_vec) exp" where
  "init_volume_gauge_vec lib name desc = gauge_vec_new lib (volume_gauge name desc)"

definition init_replica_gauge_vec :: "prometheus \<Rightarrow> string \<Rightarrow> string \<Rightarrow> ('w, gauge_vec) exp" where
  "init_replica_gauge_vec lib name desc = gauge_vec_new lib (replica_gauge name desc)"

text \<open>
  The gauges of one resource, one after the other; the first vector that has no gauge for the
  labels ends the collection, with what was collected so far.
\<close>

fun push_gauges :: "prometheus \<Rightarrow> string list \<Rightarrow> (gauge_vec \<times> u64) list \<Rightarrow> gauge list \<Rightarrow> bool \<times> gauge list" where
  "push_gauges lib labels [] family = (True, family)"
| "push_gauges lib labels ((g, v) # gvs) family =
     (if pr_labels_ok lib g labels
      then push_gauges lib labels gvs (family @ [\<lparr>ga_vec = g, ga_labels = labels, ga_value = f64_of_nat (unat v)\<rparr>])
      else (False, family))"

fun push_resources ::
  "prometheus \<Rightarrow> ('a \<Rightarrow> string list) \<Rightarrow> ('a \<Rightarrow> (gauge_vec \<times> u64) list) \<Rightarrow> 'a list \<Rightarrow> gauge list \<Rightarrow> gauge list" where
  "push_resources lib labels gauges [] family = family"
| "push_resources lib labels gauges (x # xs) family =
     (case push_gauges lib (labels x) (gauges x) family of
        (True, family') \<Rightarrow> push_resources lib labels gauges xs family'
      | (False, family') \<Rightarrow> family')"

definition collect_resources ::
  "prometheus \<Rightarrow> exporter_env \<Rightarrow> (cache_data \<Rightarrow> 'a list) \<Rightarrow> (string \<Rightarrow> 'a \<Rightarrow> string list) \<Rightarrow> ('a \<Rightarrow> (gauge_vec \<times> u64) list) \<Rightarrow> ('w, gauge list) exp" where
  "collect_resources lib env items labels gauges =
     bindP get_cache (\<lambda>cell.
     if cc_poisoned cell then retP []
     else (case get_node_name env of
         Inl _ \<Rightarrow> retP []
       | Inr node_name \<Rightarrow> retP (push_resources lib (labels node_name) gauges (items (cc_data cell)) [])))"

record pool_capacity_collector =
  pcc_total_size :: gauge_vec
  pcc_used_size :: gauge_vec
  pcc_committed_size :: gauge_vec

definition pool_capacity_collector_new :: "prometheus \<Rightarrow> ('w, pool_capacity_collector) exp" where
  "pool_capacity_collector_new lib =
     bindP (init_diskpool_gauge_vec lib ''total_size_bytes'' ''Total size of the pool in bytes'') (\<lambda>total.
     bindP (init_diskpool_gauge_vec lib ''used_size_bytes'' ''Used size of the pool in bytes'') (\<lambda>used.
     bindP (init_diskpool_gauge_vec lib ''committed_size_bytes'' ''Committed size of the pool in bytes'') (\<lambda>committed.
     retP \<lparr>pcc_total_size = total, pcc_used_size = used, pcc_committed_size = committed\<rparr>)))"

definition pool_capacity_gauges :: "pool_capacity_collector \<Rightarrow> x_pool_info \<Rightarrow> (gauge_vec \<times> u64) list" where
  "pool_capacity_gauges c pool =
     [(pcc_total_size c, xpi_capacity pool), (pcc_used_size c, xpi_used pool), (pcc_committed_size c, xpi_committed pool)]"

definition pool_capacity_collect :: "prometheus \<Rightarrow> exporter_env \<Rightarrow> pool_capacity_collector \<Rightarrow> ('w, gauge list) exp" where
  "pool_capacity_collect lib env c =
     collect_resources lib env cd_pools (\<lambda>node pool. [node, xpi_name pool]) (pool_capacity_gauges c)"

definition pool_status_collector_new :: "prometheus \<Rightarrow> ('w, gauge_vec) exp" where
  "pool_status_collector_new lib = init_diskpool_gauge_vec lib ''status'' ''Status of the pool''"

definition pool_status_gauges :: "gauge_vec \<Rightarrow> x_pool_info \<Rightarrow> (gauge_vec \<times> u64) list" where
  "pool_status_gauges g pool = [(g, xpi_state pool)]"

definition pool_status_collect :: "prometheus \<Rightarrow> exporter_env \<Rightarrow> gauge_vec \<Rightarrow> ('w, gauge list) exp" where
  "pool_status_collect lib env g =
     collect_resources lib env cd_pools (\<lambda>node pool. [node, xpi_name pool]) (pool_status_gauges g)"

text \<open>The collectors of the statistics of pools, volume targets and replicas have the same six vectors.\<close>

record io_stats_collector =
  ioc_bytes_read :: gauge_vec
  ioc_num_read_ops :: gauge_vec
  ioc_bytes_written :: gauge_vec
  ioc_num_write_ops :: gauge_vec
  ioc_read_latency_us :: gauge_vec
  ioc_write_latency_us :: gauge_vec

definition io_stats_collector_new ::
  "(string \<Rightarrow> string \<Rightarrow> ('w, gauge_vec) exp) \<Rightarrow> string \<Rightarrow> string \<Rightarrow> ('w, io_stats_collector) exp" where
  "io_stats_collector_new init from_what on_what =
     bindP (init ''bytes_read'' (''Total bytes read '' @ from_what)) (\<lambda>bytes_read.
     bindP (init ''num_read_ops'' (''Number of read operations '' @ on_what)) (\<lambda>num_read_ops.
     bindP (init ''bytes_written'' (''Total bytes written '' @ on_what)) (\<lambda>bytes_written.
     bindP (init ''num_write_ops'' (''Number of write operations '' @ on_what)) (\<lambda>num_write_ops.
     bindP (init ''read_latency_us'' (''Total read latency '' @ on_what @ '' in usec'')) (\<lambda>read_latency_us.
     bindP (init ''write_latency_us'' (''Total write latency '' @ on_what @ '' in usec'')) (\<lambda>write_latency_us.
     retP \<lparr>ioc_bytes_read = bytes_read, ioc_num_read_ops = num_read_ops, ioc_bytes_written = bytes_written,
       ioc_num_write_ops = num_write_ops, ioc_read_latency_us = read_latency_us, ioc_write_latency_us = write_latency_us\<rparr>))))))"

definition pool_io_stats_collector_new :: "prometheus \<Rightarrow> ('w, io_stats_collector) exp" where
  "pool_io_stats_collector_new lib = io_stats_collector_new (init_diskpool_gauge_vec lib) ''on the pool'' ''on the pool''"

definition nexus_io_stats_collector_new :: "prometheus \<Rightarrow> ('w, io_stats_collector) exp" where
  "nexus_io_stats_collector_new lib = io_stats_collector_new (init_volume_gauge_vec lib) ''from the volume'' ''on the volume''"

definition replica_io_stats_collector_new :: "prometheus \<Rightarrow> ('w, io_stats_collector) exp" where
  "replica_io_stats_collector_new lib = io_stats_collector_new (init_replica_gauge_vec lib) ''on the replica'' ''on the replica''"

definition io_stats_gauges :: "io_stats_collector \<Rightarrow> 'z pool_io_stat_scheme \<Rightarrow> (gauge_vec \<times> u64) list" where
  "io_stats_gauges c stat =
     [(ioc_bytes_read c, ios_bytes_read stat), (ioc_num_read_ops c, ios_num_read_ops stat),
      (ioc_bytes_written c, ios_bytes_written stat), (ioc_num_write_ops c, ios_num_write_ops stat),
      (ioc_read_latency_us c, ios_read_latency_us stat), (ioc_write_latency_us c, ios_write_latency_us stat)]"

definition pool_io_stats_collect :: "prometheus \<Rightarrow> exporter_env \<Rightarrow> io_stats_collector \<Rightarrow> ('w, gauge list) exp" where
  "pool_io_stats_collect lib env c =
     collect_resources lib env cd_pool_stats (\<lambda>node stat. [node, ios_name stat]) (io_stats_gauges c)"

definition nexus_io_stats_collect :: "prometheus \<Rightarrow> exporter_env \<Rightarrow> io_stats_collector \<Rightarrow> ('w, gauge list) exp" where
  "nexus_io_stats_collect lib env c =
     collect_resources lib env cd_nexus_stats (\<lambda>node stat. [node, ''pvc-'' @ ios_name stat]) (io_stats_gauges c)"

definition replica_io_stats_collect :: "prometheus \<Rightarrow> exporter_env \<Rightarrow> io_stats_collector \<Rightarrow> ('w, gauge list) exp" where
  "replica_io_stats_collect lib env c =
     collect_resources lib env cd_replica_stats (\<lambda>node stat. [node, ios_name stat, ''pvc-'' @ ios_entity_id stat]) (io_stats_gauges c)"

definition io_stats_descs :: "io_stats_collector \<Rightarrow> gauge_vec list" where
  "io_stats_descs c =
     [ioc_bytes_read c, ioc_num_read_ops c, ioc_bytes_written c, ioc_num_write_ops c, ioc_read_latency_us c, ioc_write_latency_us c]"

section \<open>A scrape (serve/handler.rs)\<close>

text \<open>A collector with its descriptions; registering one that the registry refuses only gives a warning.\<close>

definition register ::
  "prometheus \<Rightarrow> gauge_vec list \<times> ('w, gauge list) exp \<Rightarrow> (gauge_vec list \<times> ('w, gauge list) exp) list \<Rightarrow> (gauge_vec list \<times> ('w, gauge list) exp) list" where
  "register lib c registry = (if pr_register lib (map fst registry) (fst c) then registry @ [c] else registry)"

primrec gather :: "(gauge_vec list \<times> ('w, gauge list) exp) list \<Rightarrow> ('w, gauge list list) exp" where
  "gather [] = retP []"
| "gather (c # cs) = bindP (snd c) (\<lambda>family. bindP (gather cs) (\<lambda>families. retP (family # families)))"

definition grpc_client :: "('w, bool) exp" where
  "grpc_client = bindP (getsP ex_client) (\<lambda>c. liftR (ok_or XPanic c))"

definition metrics_handler :: "prometheus \<Rightarrow> exporter_env \<Rightarrow> 'w engine \<Rightarrow> ('w, string) exp" where
  "metrics_handler lib env en =
     bindP grpc_client (\<lambda>client.
     bindP (store_resource_data en client) (\<lambda>_.
     bindP (pool_capacity_collector_new lib) (\<lambda>pools.
     bindP (pool_status_collector_new lib) (\<lambda>pool_status.
     bindP (pool_io_stats_collector_new lib) (\<lambda>pool_iostat.
     bindP (nexus_io_stats_collector_new lib) (\<lambda>nexus_iostat.
     bindP (replica_io_stats_collector_new lib) (\<lambda>replica_iostat.
     let registry = register lib ([pcc_total_size pools, pcc_used_size pools, pcc_committed_size pools], pool_capacity_collect lib env pools) [];
         registry = register lib ([pool_status], pool_status_collect lib env pool_status) registry;
         registry = register lib (io_stats_descs pool_iostat, pool_io_stats_collect lib env pool_iostat) registry;
         registry = register lib (io_stats_descs nexus_iostat, nexus_io_stats_collect lib env nexus_iostat) registry;
         registry = register lib (io_stats_descs replica_iostat, replica_io_stats_collect lib env replica_iostat) registry in
     bindP (gather registry) (\<lambda>families.
     retP (case from_utf8 (pr_encode lib families) of Inr v \<Rightarrow> v | Inl _ \<Rightarrow> '''')))))))))"

text \<open>The start of the program, up to the server that calls the handler.\<close>

definition exporter_startup :: "nat \<Rightarrow> prometheus \<Rightarrow> exporter_env \<Rightarrow> 'w engine \<Rightarrow> ('w, unit) exp" where
  "exporter_startup fuel lib env en =
     bindP initialize_cache (\<lambda>_.
     bindP (init_client fuel lib env en) (\<lambda>client.
     bindP (getsP ex_client) (\<lambda>c. case c of
       Some _ \<Rightarrow> failP XPanic
     | None \<Rightarrow> modifyP (\<lambda>s. s\<lparr>ex_client := Some client\<rparr>))))"

section \<open>What a scrape exposes\<close>

text \<open>What the cache holds after answers of the io-engine: nothing where the answer was an error.\<close>

definition answered :: "('e, 'a list) res \<Rightarrow> 'a list" where
  "answered r = (case r of Inr xs \<Rightarrow> xs | Inl _ \<Rightarrow> [])"

definition families :: "('a \<Rightarrow> string list) \<Rightarrow> ('a \<Rightarrow> (gauge_vec \<times> u64) list) \<Rightarrow> 'a list \<Rightarrow> gauge list" where
  "families labels gauges xs =
     concat (map (\<lambda>x. map (\<lambda>(g, v). \<lparr>ga_vec = g, ga_labels = labels x, ga_value = f64_of_nat (unat v)\<rparr>) (gauges x)) xs)"

definition io_gauges :: "(string \<Rightarrow> string \<Rightarrow> gauge_vec) \<Rightarrow> string \<Rightarrow> string \<Rightarrow> io_stats_collector" where
  "io_gauges gauge from_what on_what =
     \<lparr>ioc_bytes_read = gauge ''bytes_read'' (''Total bytes read '' @ from_what),
      ioc_num_read_ops = gauge ''num_read_ops'' (''Number of read operations '' @ on_what),
      ioc_bytes_written = gauge ''bytes_written'' (''Total bytes written '' @ on_what),
      ioc_num_write_ops = gauge ''num_write_ops'' (''Number of write operations '' @ on_what),
      ioc_read_latency_us = gauge ''read_latency_us'' (''Total read latency '' @ on_what @ '' in usec''),
      ioc_write_latency_us = gauge ''write_latency_us'' (''Total write latency '' @ on_what @ '' in usec'')\<rparr>"

definition capacity_gauges :: pool_capacity_collector where
  "capacity_gauges =
     \<lparr>pcc_total_size = diskpool_gauge ''total_size_bytes'' ''Total size of the pool in bytes'',
      pcc_used_size = diskpool_gauge ''used_size_bytes'' ''Used size of the pool in bytes'',
      pcc_committed_size = diskpool_gauge ''committed_size_bytes'' ''Committed size of the pool in bytes''\<rparr>"

definition exposed :: "string \<Rightarrow> cache_data \<Rightarrow> gauge list list" where
  "exposed node d =
     [families (\<lambda>p. [node, xpi_name p]) (pool_capacity_gauges capacity_gauges) (cd_pools d),
      families (\<lambda>p. [node, xpi_name p]) (pool_status_gauges (diskpool_gauge ''status'' ''Status of the pool'')) (cd_pools d),
      families (\<lambda>p. [node, ios_name p]) (io_stats_gauges (io_gauges diskpool_gauge ''on the pool'' ''on the pool'')) (cd_pool_stats d),
      families (\<lambda>p. [node, ''pvc-'' @ ios_name p]) (io_stats_gauges (io_gauges volume_gauge ''from the volume'' ''on the volume'')) (cd_nexus_stats d),
      families (\<lambda>p. [node, ios_name p, ''pvc-'' @ ios_entity_id p]) (io_stats_gauges (io_gauges replica_gauge ''on the replica'' ''on the replica''))
        (cd_replica_stats d)]"

text \<open>The library accepts the vectors of the exporter, as many label values as there are labels, and its collectors.\<close>

definition prometheus_ok :: "prometheus \<Rightarrow> bool" where
  "prometheus_ok lib \<longleftrightarrow>
     (\<forall>g. pr_gauge_ok lib g) \<and> (\<forall>g labels. length labels = length (gv_labels g) \<longrightarrow> pr_labels_ok lib g labels) \<and>
     (\<forall>cs c. pr_register lib cs c)"

lemma push_gauges_all:
  "\<forall>(g, v) \<in> set gvs. pr_labels_ok lib g labels \<Longrightarrow> push_gauges lib labels gvs family =
     (True, family @ map (\<lambda>(g, v). \<lparr>ga_vec = g, ga_labels = labels, ga_value = f64_of_nat (unat v)\<rparr>) gvs)"
  by (induction lib labels gvs family rule: push_gauges.induct) auto

lemma push_resources_all:
  assumes "\<And>x g v. (g, v) \<in> set (gauges x) \<Longrightarrow> pr_labels_ok lib g (labels x)"
  shows "push_resources lib labels gauges xs family = family @ families labels gauges xs"
proof (induction xs arbitrary: family)
  case Nil
  show ?case by (simp add: families_def)
next
  case (Cons x xs)
  have "push_gauges lib (labels x) (gauges x) family =
      (True, family @ map (\<lambda>(g, v). \<lparr>ga_vec = g, ga_labels = labels x, ga_value = f64_of_nat (unat v)\<rparr>) (gauges x))"
    by (rule push_gauges_all) (use assms in auto)
  with Cons.IH show ?case by (simp add: families_def)
qed

lemma collect_resources_all:
  assumes "ex_cache s = Some \<lparr>cc_data = d, cc_poisoned = False\<rparr>" "ee_node_name env = Some node"
    and "\<And>x g v. (g, v) \<in> set (gauges x) \<Longrightarrow> pr_labels_ok lib g (labels node x)"
  shows "collect_resources lib env items labels gauges s = (Ok (families (labels node) gauges (items d)), s)"
  using assms push_resources_all [of gauges lib "labels node" "items d" "[]"]
  by (simp add: collect_resources_def get_cache_def bindP_def get_node_name_def)

lemma grpc_request_run:
  assumes "call (ex_world s) = (r, w)" "\<And>a. r = Inr a \<Longrightarrow> conv a = Some (f a)"
  shows "\<exists>r'. grpc_request True call conv s = (Ok r', s\<lparr>ex_world := w\<rparr>) \<and> answered r' = (case r of Inr a \<Rightarrow> f a | Inl _ \<Rightarrow> [])"
  using assms by (cases r) (auto simp: grpc_request_def client_v1_def ensure_def engine_call_def bindP_def answered_def)

definition converted :: "('r \<Rightarrow> 'a list option) \<Rightarrow> (string, 'r) res \<Rightarrow> 'a list option" where
  "converted conv r = (case r of Inr a \<Rightarrow> conv a | Inl _ \<Rightarrow> Some [])"

text \<open>
  The interface of a part of the cache (the trait \<open>ResourceOps\<close>): a part that was set can be read back,
  and to invalidate it is to set it to nothing.  Whatever a part held, after a request it holds what was answered.
\<close>

locale resource_ops =
  fixes part :: "cache_data \<Rightarrow> 'a list"
    and set_part :: "'a list \<Rightarrow> cache_data \<Rightarrow> cache_data"
    and invalidate :: "cache_data \<Rightarrow> cache_data"
  assumes part_set: "part (set_part val d) = val"
    and invalidate_set: "invalidate d = set_part [] d"
begin

lemma part_invalidate: "part (invalidate d) = []"
  by (simp add: invalidate_set part_set)

lemma stored:
  assumes "fetch s = (Ok r, t)" "ex_cache t = Some \<lparr>cc_data = d, cc_poisoned = False\<rparr>"
  shows "\<exists>b. store_data fetch set_part invalidate s =
     (Ok b, t\<lparr>ex_cache := Some \<lparr>cc_data = set_part (answered r) d, cc_poisoned = False\<rparr>\<rparr>)"
  using assms
  by (auto simp: store_data_def get_cache_def put_data_def bindP_def answered_def invalidate_set split: sum.splits)

lemma request_stored:
  assumes "call (ex_world s) = (r, w)" "converted conv r = Some xs" "ex_cache s = Some \<lparr>cc_data = d, cc_poisoned = False\<rparr>"
  shows "\<exists>b. store_data (grpc_request True call conv) set_part invalidate s =
     (Ok b, s\<lparr>ex_world := w, ex_cache := Some \<lparr>cc_data = set_part xs d, cc_poisoned = False\<rparr>\<rparr>)"
proof -
  have "\<exists>r'. grpc_request True call conv s = (Ok r', s\<lparr>ex_world := w\<rparr>) \<and> answered r' = xs"
    using assms(1,2) grpc_request_run [of call s r w conv "\<lambda>a. the (conv a)"] by (cases r) (auto simp: converted_def)
  then obtain r' where r': "grpc_request True call conv s = (Ok r', s\<lparr>ex_world := w\<rparr>)" "answered r' = xs" by blast
  show ?thesis using stored [where fetch = "grpc_request True call conv" and s = s and d = d, OF r'(1)] assms(3) r'(2) by auto
qed

end

interpretation pools_part: resource_ops cd_pools pools_set pools_invalidate
  by unfold_locales (simp_all add: pools_set_def pools_invalidate_def)

interpretation pool_stats_part: resource_ops cd_pool_stats pool_stats_set pool_stats_invalidate
  by unfold_locales (simp_all add: pool_stats_set_def pool_stats_invalidate_def)

interpretation nexus_stats_part: resource_ops cd_nexus_stats nexus_stats_set nexus_stats_invalidate
  by unfold_locales (simp_all add: nexus_stats_set_def nexus_stats_invalidate_def)

interpretation replica_stats_part: resource_ops cd_replica_stats replica_stats_set replica_stats_invalidate
  by unfold_locales (simp_all add: replica_stats_set_def replica_stats_invalidate_def)

lemmas set_part_defs = pools_set_def pool_stats_set_def nexus_stats_set_def replica_stats_set_def

lemma gauge_vec_new_ok: "prometheus_ok lib \<Longrightarrow> gauge_vec_new lib g = retP g"
  by (simp add: gauge_vec_new_def prometheus_ok_def)

lemma io_stats_collector_new_ok:
  assumes "\<And>name desc. init name desc = retP (gauge name desc)"
  shows "io_stats_collector_new init from_what on_what = retP (io_gauges gauge from_what on_what)"
  by (simp add: io_stats_collector_new_def assms io_gauges_def del: retP_apply)

lemma collectors_new_ok:
  assumes "prometheus_ok lib"
  shows "pool_capacity_collector_new lib = retP capacity_gauges"
    and "pool_status_collector_new lib = retP (diskpool_gauge ''status'' ''Status of the pool'')"
    and "pool_io_stats_collector_new lib = retP (io_gauges diskpool_gauge ''on the pool'' ''on the pool'')"
    and "nexus_io_stats_collector_new lib = retP (io_gauges volume_gauge ''from the volume'' ''on the volume'')"
    and "replica_io_stats_collector_new lib = retP (io_gauges replica_gauge ''on the replica'' ''on the replica'')"
  unfolding pool_capacity_collector_new_def pool_status_collector_new_def pool_io_stats_collector_new_def
    nexus_io_stats_collector_new_def replica_io_stats_collector_new_def init_diskpool_gauge_vec_def init_volume_gauge_vec_def
    init_replica_gauge_vec_def gauge_vec_new_ok [OF assms] capacity_gauges_def
  by (simp_all add: io_stats_collector_new_ok del: retP_apply)

lemma io_stats_labels_ok:
  assumes "prometheus_ok lib" "\<And>name desc. length (gv_labels (gauge name desc)) = length labels" "(g, v) \<in> set (io_stats_gauges (io_gauges gauge a b) stat)"
  shows "pr_labels_ok lib g labels"
  using assms by (auto simp: io_stats_gauges_def io_gauges_def prometheus_ok_def)

lemma gather_exposed:
  assumes lib: "prometheus_ok lib" and env: "ee_node_name env = Some node"
    and s: "ex_cache s = Some \<lparr>cc_data = d, cc_poisoned = False\<rparr>"
  shows "gather [(c1, pool_capacity_collect lib env capacity_gauges),
      (c2, pool_status_collect lib env (diskpool_gauge ''status'' ''Status of the pool'')),
      (c3, pool_io_stats_collect lib env (io_gauges diskpool_gauge ''on the pool'' ''on the pool'')),
      (c4, nexus_io_stats_collect lib env (io_gauges volume_gauge ''from the volume'' ''on the volume'')),
      (c5, replica_io_stats_collect lib env (io_gauges replica_gauge ''on the replica'' ''on the replica''))] s =
    (Ok (exposed node d), s)"
proof -
  note run = collect_resources_all [OF s env]
  have "pool_capacity_collect lib env capacity_gauges s = (Ok (families (\<lambda>p. [node, xpi_name p]) (pool_capacity_gauges capacity_gauges) (cd_pools d)), s)"
    unfolding pool_capacity_collect_def
    by (rule run) (use lib in \<open>auto simp: pool_capacity_gauges_def capacity_gauges_def diskpool_gauge_def prometheus_ok_def\<close>)
  moreover have "pool_status_collect lib env (diskpool_gauge ''status'' ''Status of the pool'') s =
      (Ok (families (\<lambda>p. [node, xpi_name p]) (pool_status_gauges (diskpool_gauge ''status'' ''Status of the pool'')) (cd_pools d)), s)"
    unfolding pool_status_collect_def
    by (rule run) (use lib in \<open>auto simp: pool_status_gauges_def diskpool_gauge_def prometheus_ok_def\<close>)
  moreover have "pool_io_stats_collect lib env (io_gauges diskpool_gauge ''on the pool'' ''on the pool'') s = (Ok (exposed node d ! 2), s)"
    unfolding pool_io_stats_collect_def exposed_def nth_Cons_numeral
    by (simp, rule run, rule io_stats_labels_ok [OF lib]) (auto simp: diskpool_gauge_def)
  moreover have "nexus_io_stats_collect lib env (io_gauges volume_gauge ''from the volume'' ''on the volume'') s = (Ok (exposed node d ! 3), s)"
    unfolding nexus_io_stats_collect_def exposed_def nth_Cons_numeral
    by (simp, rule run [where labels = "\<lambda>node stat. [node, ''pvc-'' @ ios_name stat]", simplified], rule io_stats_labels_ok [OF lib])
      (auto simp: volume_gauge_def)
  moreover have "replica_io_stats_collect lib env (io_gauges replica_gauge ''on the replica'' ''on the replica'') s = (Ok (exposed node d ! 4), s)"
    unfolding replica_io_stats_collect_def exposed_def nth_Cons_numeral
    by (simp, rule run [where labels = "\<lambda>node stat. [node, ios_name stat, ''pvc-'' @ ios_entity_id stat]", simplified], rule io_stats_labels_ok [OF lib])
      (auto simp: replica_gauge_def)
  ultimately show ?thesis by (simp add: bindP_def exposed_def)
qed


text \<open>Latencies are exact as long as they fit into 64 bits of microseconds.\<close>

lemma ticks_to_time_exact:
  assumes "rate \<noteq> 0" "unat tick * 1000000 div unat rate < 2 ^ 64"
  shows "\<exists>us. ticks_to_time tick rate = Some us \<and> unat us = unat tick * 1000000 div unat rate"
  using assms by (simp add: ticks_to_time_def unsigned_of_nat take_bit_nat_eq_self)

end
