(* ===== verification/ExporterInstance.thy ===== *)
theory ExporterInstance
  imports Exporter
begin

text \<open>
  A scrape of a concrete io-engine with one pool, whose statistics of volume targets cannot be
  fetched and one of whose replicas has no entity, after a cache that held an older pool.
\<close>

definition demo_stats :: rpc_io_stats where
  "demo_stats =
     \<lparr>is_name = ''p1'', is_bytes_read = 4096, is_num_read_ops = 8, is_bytes_written = 0, is_num_write_ops = 0,
      is_read_latency_ticks = 5000, is_write_latency_ticks = 0, is_tick_rate = 1000\<rparr>"

definition demo_engine :: "unit engine" where
  "demo_engine =
     \<lparr>en_connect = (\<lambda>_. Pair True), en_sleep = (\<lambda>_. id),
      en_list_pools = Pair (Inr [\<lparr>rp_name = ''p1'', rp_used = 1, rp_capacity = 10, rp_state = 1, rp_committed = 5\<rparr>]),
      en_pool_stats = Pair (Inr [demo_stats]), en_nexus_stats = Pair (Inl ''unavailable''),
      en_replica_stats = Pair (Inr [\<lparr>ris_entity_id = None, ris_stats = Some demo_stats\<rparr>])\<rparr>"

definition demo_prometheus :: prometheus where
  "demo_prometheus =
     \<lparr>pr_gauge_ok = (\<lambda>_. True), pr_labels_ok = (\<lambda>g labels. length labels = length (gv_labels g)), pr_register = (\<lambda>_ _. True),
      pr_encode = (\<lambda>fs. map (\<lambda>f. if f = [] then CHR ''-'' else CHR ''x'') fs), pr_parse_ip = Some, pr_socket_addr = (\<lambda>ip port. ip),
      pr_uri = (\<lambda>scheme authority. Inr authority)\<rparr>"

definition demo_old :: cache_data where
  "demo_old = data_new\<lparr>cd_pools := [\<lparr>xpi_name = ''gone'', xpi_used = 0, xpi_capacity = 0, xpi_state = 0, xpi_committed = 0\<rparr>]\<rparr>"

definition demo_exporter :: "unit exporter" where
  "demo_exporter = \<lparr>ex_world = (), ex_cache = Some \<lparr>cc_data = demo_old, cc_poisoned = False\<rparr>, ex_client = Some True\<rparr>"


end
