(* ===== verification/Spec2Isabelle.thy ===== *)
theory Spec2Isabelle
  imports MainInstance CallHomeInstance ExporterInstance
begin

text \<open>
  A verification of \<open>mayastor-extensions\<close>: the programs that upgrade, observe and diagnose a Mayastor
  storage cluster on Kubernetes.

  \<^bold>\<open>The programs and how they meet.\<close>
  The \<^emph>\<open>kubectl plugin\<close> (\<open>k8s/plugin\<close>) runs in the shell of a user.  It reaches services in the cluster
  through the \<^emph>\<open>proxy library\<close> (\<open>k8s/proxy\<close>), starts and deletes upgrades (\<open>k8s/upgrade/src/plugin\<close>) and
  collects diagnostics with the \<^emph>\<open>support tool\<close> (\<open>k8s/supportability\<close>).  To upgrade, it checks the
  cluster and creates five Kubernetes objects, among them a job that runs the \<^emph>\<open>upgrade job\<close>
  (\<open>k8s/upgrade/src/bin/upgrade-job\<close>): this one upgrades the helm release and then restarts the io-engine
  pods node by node, sending events that the plugin reads back.  The \<^emph>\<open>stats aggregator\<close> and the
  \<^emph>\<open>call-home collector\<close> (\<open>call-home/src/bin\<close>) count events and send an encrypted report; the
  \<^emph>\<open>metrics exporter\<close> (\<open>metrics-exporter\<close>) answers scrapes with statistics of the io-engine.

  \<^bold>\<open>How code is written down.\<close>
  A Rust struct is a record, an enum a datatype, \<open>Result\<close> a sum with the error on the left, \<open>u32\<close> and \<open>u64\<close>
  are words.  An asynchronous or fallible function is a program of \<open>Effects\<close>: it maps a state to an outcome
  (a value, an error, or out of fuel) and a state.  In \<open>Traced\<close> the state is a world of an arbitrary type
  together with the list of all interactions so far, each with its arguments and its answer.  Code that is
  not in the repository (Kubernetes, the REST API, helm, yq, gpg, Loki, etcd, JSON, YAML, regular
  expressions, versions, the forwarding library, the file system) is a record of functions on that world,
  an argument of every definition that calls it; a property that needs a law of such code has it as a
  hypothesis, and a theory of instances shows with concrete functions that it can hold.

  \<^bold>\<open>Fuel.\<close>
  A loop without a bound in the code (\<open>loopP\<close>, and the polling loops built on it) takes a number of rounds and ends
  in \<open>OutOfFuel\<close> with the state it has reached, so that a safety property of all outcomes also holds of a
  run that is cut off anywhere, including one that never ends.  Statements that a loop returns give the
  rounds that are enough: the number of pages of a listing, of answers until a drain is finished, of
  entries of etcd or lines of Loki; one search for rebuilds is shown to have inputs for which none is enough.

  \<^bold>\<open>Foundations.\<close>
  \<^item> \<open>Prelude\<close>: words, results, the string operations of the sources, counting and sorting lemmas.
  \<^item> \<open>Effects\<close>: programs, loops and their Hoare rules (\<open>hoare\<close>).
  \<^item> \<open>Traced\<close>: interactions (\<open>emits\<close>, \<open>only\<close>) and listings by pages, with the interface \<open>paged_listing\<close>, whose
    lemmas say that a listing returns all pages in order; the listings of the upgrade job and of the support tool are instances.
  \<^item> \<open>F64\<close>: the floating-point arithmetic of the report, rounding to nearest even on rationals.

  \<^bold>\<open>Upgrade job\<close> (\<open>k8s/upgrade/src/bin/upgrade-job\<close>).
  \<^item> \<open>UpgradeError\<close>, \<open>ErrorText\<close>: \<open>common/error.rs\<close>, the errors and all their texts.
  \<^item> \<open>KubeRest\<close>: \<open>common/kube_client.rs\<close>, \<open>common/rest_client.rs\<close>, the listings.
  \<^item> \<open>UpgradeUtils\<close>, \<open>DataPlane\<close>: \<open>upgrade/utils.rs\<close>, \<open>upgrade/data_plane.rs\<close>.  Pods are restarted one after
    the other under their guards; draining and the search for rebuilds return, or provably do not.
  \<^item> \<open>Chart\<close>, \<open>Yq\<close>, \<open>HelmValues\<close>: \<open>helm/chart.rs\<close>, \<open>helm/yaml/yq.rs\<close>, \<open>common/file.rs\<close>, \<open>common/regex.rs\<close>,
    \<open>helm/values.rs\<close>.  The commands that make the values file refine a script that is a function of
    versions and values; from it follow which keys are edited.
  \<^item> \<open>HelmUpgrade\<close>: \<open>helm/client.rs\<close>, \<open>helm/upgrade.rs\<close>, \<open>upgrade/path.rs\<close>.
  \<^item> \<open>EventRecorder\<close>: \<open>events/event_recorder.rs\<close>; the worker task is a step relation with an invariant.
  \<^item> \<open>UpgradeJob\<close>, \<open>Validators\<close>: \<open>upgrade.rs\<close>, \<open>opts.rs\<close>, \<open>opts/validators.rs\<close>, \<open>main.rs\<close>: the order of
    everything a job does, and its events, for every outcome.

  \<^bold>\<open>Kubectl plugin.\<close>
  \<^item> \<open>Proxy\<close>: \<open>k8s/proxy/src\<close>.
  \<^item> \<open>PluginObjects\<close>, \<open>PluginUpgrade\<close>: \<open>objects.rs\<close>, \<open>constants.rs\<close>, \<open>user_prompt.rs\<close>, \<open>error.rs\<close>,
    \<open>upgrade.rs\<close>, \<open>preflight_validations.rs\<close> of \<open>k8s/upgrade/src/plugin\<close>.
  \<^item> \<open>PluginSafety\<close>, \<open>PluginStore\<close>, \<open>PluginRbac\<close>: what the commands guarantee; an object store that creation
    and deletion refine; the role the plugin writes against the requests of the job.
  \<^item> \<open>PluginMain\<close>: \<open>k8s/plugin/src\<close>, the whole process with its interruption by a signal, as an inductive
    relation, and its exit status.

  \<^bold>\<open>Support tool\<close> (\<open>k8s/supportability/src\<close>).
  \<^item> \<open>DumpApi\<close>, \<open>DumpTool\<close>: its surroundings, errors, log file, directories and archive.
  \<^item> \<open>DumpResources\<close>, \<open>DumpK8s\<close>, \<open>DumpLogs\<close>, \<open>DumpSystem\<close>: \<open>collect/resources\<close>, \<open>collect/k8s_resources\<close>,
    \<open>collect/logs\<close>, and the dumps of etcd, of single resources and of the system with the command itself.
  \<^item> \<open>DumpQuiet\<close>, \<open>DumpSafety\<close>: nothing is removed before it was archived; which errors are reported.
  \<^item> \<open>DumpComplete\<close>, \<open>DumpListing\<close>: etcd, Loki and the pages of volumes are dumped completely and once.

  \<^bold>\<open>Observation.\<close>
  \<^item> \<open>EventStats\<close>: \<open>call-home/src/bin/stats\<close>, counters behind the interface \<open>stats_counter\<close> and the
    interleaving of its tasks as a step relation with restarts.
  \<^item> \<open>ReportModels\<close>, \<open>CallHome\<close>: \<open>call-home/src/math.rs\<close>, \<open>call-home/src/bin/callhome\<close>.
  \<^item> \<open>Exporter\<close>: \<open>metrics-exporter/src/bin/io_engine\<close>; the four parts of its cache are instances of the
    interface \<open>resource_ops\<close>.

  \<^bold>\<open>Instances.\<close>
  \<open>ClusterInstance\<close>, \<open>HelmInstance\<close>, \<open>JobInstance\<close>, \<open>ProxyInstance\<close>, \<open>PluginInstance\<close>, \<open>DumpInstance\<close>,
  \<open>MainInstance\<close>, \<open>CallHomeInstance\<close> and \<open>ExporterInstance\<close> hold concrete surroundings and apply the properties
  there.  This theory joins the job and the plugin: the status shown is the last event sent.

  \<^bold>\<open>Not modelled.\<close>
  The parsing of command lines (clap), the set-up of logging and tracing, HTTP servers and the transport
  of requests (including timeouts and retries inside the clients), gRPC and the Prometheus text format: they are
  libraries that the sources only configure.  The storage commands of the plugin are code of another
  repository.  The colours of \<open>console-logger\<close> come from a terminal library; its two calls are
  interactions of the plugin.  The charts, build files, scripts and tests are not code of these programs,
  except for the list of unsupported versions, which is compiled in.  The support tool is the build
  with debug assertions where the code differs, and the release build where a property says so.
\<close>

section \<open>From the upgrade job to the status that the plugin shows\<close>

text \<open>
  The upgrade job sends events, its worker publishes them to Kubernetes, and the plugin lists them
  to show how far the upgrade is.  What Kubernetes keeps of a published event: its reason, action and
  note, with the time of the publication.
\<close>

definition recorded :: "kube_event \<Rightarrow> plugin_event \<Rightarrow> bool" where
  "recorded k e \<longleftrightarrow> pe_reason e = Some (ev_reason k) \<and> pe_action e = Some (ev_action k) \<and> pe_message e = ev_note k \<and>
     pe_event_time e \<noteq> None"

definition later :: "plugin_event \<Rightarrow> plugin_event \<Rightarrow> bool" where
  "later e e' \<longleftrightarrow> the (pe_event_time e) < the (pe_event_time e')"

text \<open>Job and plugin are built for one product, and the plugin reads the notes that the job writes.\<close>

definition same_product :: "'v libs \<Rightarrow> product \<Rightarrow> plugin_consts \<Rightarrow> bool" where
  "same_product lib p c \<longleftrightarrow> pc_product_name c = PRODUCT_NAME p \<and> pc_to_train_case c = to_train_case lib"

definition note_codec :: "'v libs \<Rightarrow> 'u plugin_lib \<Rightarrow> bool" where
  "note_codec lib plib \<longleftrightarrow> (\<forall>from_v to_v msg text. json_of_note lib from_v to_v msg = Inr text \<longrightarrow>
     pb_upgrade_event_from_str plib text = Inr \<lparr>ue_from_version = from_v, ue_to_version = to_v, ue_message = msg\<rparr>)"

lemma repeats_last:
  assumes "repeats (xs @ [x]) ys"
  obtains zs where "ys = zs @ [x]"
proof -
  from assms obtain ns where "length ns = length (xs @ [x])" "\<forall>n \<in> set ns. 0 < n" and ys: "ys = concat (map2 replicate ns (xs @ [x]))"
    by (auto simp: repeats_def)
  then obtain ms m where ns: "ns = ms @ [m]" "length ms = length xs" "0 < m" by (cases ns rule: rev_cases) auto
  then obtain n where "m = Suc n" by (cases m) auto
  with ns ys have "ys = (concat (map2 replicate ms xs) @ replicate n x) @ [x]" by (simp add: replicate_append_same)
  then show ?thesis by (rule that)
qed

lemma newest_is_chosen:
  assumes "mset (filter (\<lambda>x. pe_reason x = Some (plugin_event_reason c)) listing) = mset (older @ [e])" "pe_event_time e = Some t"
    and old: "\<And>x. x \<in> set older \<Longrightarrow> pe_event_time x \<noteq> None \<and> later x e"
  shows "latest_upgrade_event c listing = Inr e"
proof -
  let ?up = "\<lambda>x. pe_reason x = Some (plugin_event_reason c)"
  from assms(1) have "e \<in> set (filter ?up listing)" by (metis in_set_conv_decomp set_mset_mset)
  then obtain us vs where split: "listing = us @ e # vs" "?up e" by (auto dest: split_list)
  with assms(1) have "mset (filter ?up (us @ vs)) = mset older" by simp
  then have older: "set (filter ?up (us @ vs)) = set older" by (metis set_mset_mset)
  have "event_time_key e < event_time_key x \<and> (\<forall>t'. pe_event_time x = Some t' \<longrightarrow> t' \<le> t)" if "x \<in> set older" for x
    using assms(2) old [OF that] by (auto simp: event_time_key_def later_def less_prod_def)
  with older split assms(2) show ?thesis
    by (intro iffD2 [OF conjunct1 [OF latest_upgrade_event_newest]] exI [of _ us] exI [of _ vs]) (auto simp: list_all_iff)
qed

lemma sent_event:
  assumes "publish_typed ty lib p h er msg cause s = (Ok (), t)" "rt_trace t = rt_trace s @ [EvSend k (Inr ())]"
  obtains body where "json_of_note lib (er_source_version er) (er_target_version er) msg = Inr body"
    "ev_note k = Some body" "ev_reason k = upgrade_event_reason lib p"
proof -
  from assms obtain body where enc: "json_of_note lib (er_source_version er) (er_target_version er) msg = Inr body"
    and run: "publish h er \<lparr>ev_type = ty, ev_reason = upgrade_event_reason lib p, ev_note = Some body,
      ev_action = event_action_to_string cause\<rparr> s = (Ok (), t)"
    unfolding publish_typed_def by (auto simp: prog_Ok_iff)
  with assms(2) have "k = \<lparr>ev_type = ty, ev_reason = upgrade_event_reason lib p, ev_note = Some body,
      ev_action = event_action_to_string cause\<rparr>"
    unfolding publish_def by (auto simp: logged_def split: if_splits prod.splits sum.splits)
  with enc show ?thesis by (intro that) simp_all
qed

lemma same_reason: "same_product lib p c \<Longrightarrow> upgrade_event_reason lib p = plugin_event_reason c"
  by (simp add: same_product_def upgrade_event_reason_def plugin_event_reason_def product_train_def)

lemma status_printed:
  assumes "pl_events_list api ns (upgrade_event_selector c release UPGRADE_JOB_NAME_SUFFIX) (rt_world z) = (Inr listing, world')"
    and "latest_upgrade_event c listing = Inr e" "pe_message e = Some body" "pb_upgrade_event_from_str plib body = Inr u"
  shows "bindP (get_latest_upgrade_event c api ns release) (log_upgrade_result plib) z =
    (Ok (), \<lparr>rt_world = world', rt_trace = rt_trace z @
       [PgEvents ns (upgrade_event_selector c release UPGRADE_JOB_NAME_SUFFIX) (Inr listing),
        PgPrint (''Upgrade From: '' @ ue_from_version u), PgPrint (''Upgrade To: '' @ ue_to_version u),
        PgPrint (''Upgrade Status: '' @ ue_message u)]\<rparr>)"
  using assms
  by (simp add: get_latest_upgrade_event_def log_upgrade_result_def logged_def bindP_def pl_print_def tick_def map_err_def Let_def)


section \<open>A status shown\<close>

text \<open>A codec that writes both versions before the message, and refuses versions that contain its separator.\<close>

definition bars_of_note :: "string \<Rightarrow> string \<Rightarrow> string \<Rightarrow> (string, string) res" where
  "bars_of_note from_v to_v msg =
     (if CHR ''|'' \<in> set from_v \<or> CHR ''|'' \<in> set to_v then Inl ''separator'' else Inr (from_v @ CHR ''|'' # to_v @ CHR ''|'' # msg))"

definition note_of_bars :: "string \<Rightarrow> (string, upgrade_event) res" where
  "note_of_bars body =
     (let rest = tl (dropWhile (\<lambda>ch. ch \<noteq> CHR ''|'') body) in
      Inr \<lparr>ue_from_version = takeWhile (\<lambda>ch. ch \<noteq> CHR ''|'') body, ue_to_version = takeWhile (\<lambda>ch. ch \<noteq> CHR ''|'') rest,
           ue_message = tl (dropWhile (\<lambda>ch. ch \<noteq> CHR ''|'') rest)\<rparr>)"

lemma takes_bar: "CHR ''|'' \<notin> set l \<Longrightarrow> takeWhile (\<lambda>ch. ch \<noteq> CHR ''|'') (l @ CHR ''|'' # r) = l"
  by (induction l) auto

lemma drops_bar: "CHR ''|'' \<notin> set l \<Longrightarrow> dropWhile (\<lambda>ch. ch \<noteq> CHR ''|'') (l @ CHR ''|'' # r) = CHR ''|'' # r"
  by (induction l) auto

definition shown_libs :: "nat libs" where
  "shown_libs = sim_libs\<lparr>json_of_note := bars_of_note\<rparr>"

definition shown_lib :: "nat plugin_lib" where
  "shown_lib = demo_lib\<lparr>pb_upgrade_event_from_str := note_of_bars\<rparr>"

lemma shown_codec: "note_codec shown_libs shown_lib"
  by (simp add: note_codec_def shown_libs_def shown_lib_def bars_of_note_def note_of_bars_def takes_bar drops_bar)

definition shown_sent :: kube_event where
  "shown_sent = \<lparr>ev_type = Normal, ev_reason = ''pUpgrade'', ev_note = Some ''1|2|go'', ev_action = ''Successful''\<rparr>"

definition shown_event :: "string \<Rightarrow> int \<Rightarrow> plugin_event" where
  "shown_event reason time = \<lparr>pe_reason = Some reason, pe_event_time = Some time, pe_action = Some (ev_action shown_sent), pe_message = ev_note shown_sent\<rparr>"

definition shown_listing :: "plugin_event list" where
  "shown_listing = [shown_event ''pUpgrade'' 5, shown_event ''other'' 9, shown_event ''pUpgrade'' 3]"

definition shown_api :: "unit plugin_api" where
  "shown_api = (demo_api None)\<lparr>pl_events_list := (\<lambda>ns sel w. (Inr shown_listing, w))\<rparr>"


end
